(* ===== verification/PeerStateMachine.thy ===== *)
theory PeerStateMachine
  imports FoxPrelude
begin

text \<open>
  The peer state machine: \<open>PeerState\<close> of \<open>backend/foxguard/nftables/model.py\<close> and the
  two transition tables of \<open>backend/foxguard/services/peer_state.py\<close>. Who asks decides
  which table applies: an administrator (\<open>assert_admin_transition\<close>) or the peer itself by
  authenticating (\<open>assert_self_service_transition\<close>).
\<close>

datatype peer_state = STAGING | QUARANTINED | ACTIVE | DISABLED | REVOKED

fun is_confined :: "peer_state \<Rightarrow> bool" where
  "is_confined s = (s \<in> {STAGING, QUARANTINED})"

fun is_active :: "peer_state \<Rightarrow> bool" where
  "is_active s = (s = ACTIVE)"

datatype illegal_transition = IllegalTransition peer_state peer_state string

fun ADMIN_TRANSITIONS :: "peer_state \<Rightarrow> peer_state set" where
  "ADMIN_TRANSITIONS STAGING = {ACTIVE, QUARANTINED, DISABLED, REVOKED}"
| "ADMIN_TRANSITIONS QUARANTINED = {ACTIVE, STAGING, DISABLED, REVOKED}"
| "ADMIN_TRANSITIONS ACTIVE = {QUARANTINED, STAGING, DISABLED, REVOKED}"
| "ADMIN_TRANSITIONS DISABLED = {STAGING, QUARANTINED, ACTIVE, REVOKED}"
| "ADMIN_TRANSITIONS REVOKED = {}"

fun SELF_SERVICE_TRANSITIONS :: "peer_state \<Rightarrow> peer_state set" where
  "SELF_SERVICE_TRANSITIONS STAGING = {ACTIVE}"
| "SELF_SERVICE_TRANSITIONS QUARANTINED = {ACTIVE}"
| "SELF_SERVICE_TRANSITIONS ACTIVE = {ACTIVE}"
| "SELF_SERVICE_TRANSITIONS DISABLED = {}"
| "SELF_SERVICE_TRANSITIONS REVOKED = {}"

definition assert_transition ::
  "(peer_state \<Rightarrow> peer_state set) \<Rightarrow> peer_state \<Rightarrow> peer_state \<Rightarrow> string
     \<Rightarrow> (illegal_transition, unit) result" where
  "assert_transition table current target reason =
     (if current = target then Inr ()
      else if target \<notin> table current then Inl (IllegalTransition current target reason)
      else Inr ())"

definition assert_admin_transition ::
  "peer_state \<Rightarrow> peer_state \<Rightarrow> (illegal_transition, unit) result" where
  "assert_admin_transition current target =
     assert_transition ADMIN_TRANSITIONS current target
       (if current = REVOKED
        then ''revoked is terminal; delete the peer and register it again''
        else ''not an allowed transition'')"

definition assert_self_service_transition ::
  "peer_state \<Rightarrow> peer_state \<Rightarrow> (illegal_transition, unit) result" where
  "assert_self_service_transition current target =
     assert_transition SELF_SERVICE_TRANSITIONS current target
       ''this peer is not eligible to activate itself''"

section \<open>What the tables allow\<close>

lemma assert_transition_ok:
  "assert_transition table s t r = Inr () \<longleftrightarrow> s = t \<or> t \<in> table s"
  by (simp add: assert_transition_def)

lemma admin_transition_iff:
  "assert_admin_transition s t = Inr () \<longleftrightarrow> s = t \<or> s \<noteq> REVOKED"
  by (cases s; cases t) (simp_all add: assert_admin_transition_def assert_transition_ok)

lemma self_service_transition_iff:
  "assert_self_service_transition s t = Inr () \<longleftrightarrow>
     s = t \<or> (t = ACTIVE \<and> is_confined s)"
  by (cases s; cases t) (simp_all add: assert_self_service_transition_def assert_transition_ok)

text \<open>
  The life of a peer's state: any number of guarded moves, each by an administrator or by
  the peer itself.
\<close>

inductive guarded_step :: "peer_state \<Rightarrow> peer_state \<Rightarrow> bool" where
  by_admin: "assert_admin_transition s t = Inr () \<Longrightarrow> guarded_step s t"
| by_self: "assert_self_service_transition s t = Inr () \<Longrightarrow> guarded_step s t"

inductive_cases guarded_stepE: "guarded_step s t"

inductive self_step :: "peer_state \<Rightarrow> peer_state \<Rightarrow> bool" where
  self: "assert_self_service_transition s t = Inr () \<Longrightarrow> self_step s t"

inductive_cases self_stepE: "self_step s t"

lemma guarded_step_revoked: "guarded_step REVOKED t \<Longrightarrow> t = REVOKED"
  by (auto elim!: guarded_stepE simp: admin_transition_iff self_service_transition_iff)

lemma guarded_steps_from_revoked:
  "guarded_step\<^sup>*\<^sup>* s t \<Longrightarrow> s = REVOKED \<Longrightarrow> t = REVOKED"
  by (induction rule: rtranclp_induct) (auto dest: guarded_step_revoked)

lemma self_steps_stopped:
  "self_step\<^sup>*\<^sup>* s t \<Longrightarrow> s \<in> {DISABLED, REVOKED} \<Longrightarrow> t = s"
  by (induction rule: rtranclp_induct)
    (auto elim!: self_stepE simp: self_service_transition_iff)

text \<open>
  C24: revocation is terminal and an administrative stop survives any credential. No sequence
  of guarded moves, by administrators and by the peer itself in any order, leaves \<open>REVOKED\<close>;
  no sequence of the peer's own authentications leaves \<open>DISABLED\<close> or \<open>REVOKED\<close>.
\<close>

theorem stops_are_final:
  assumes "guarded_step\<^sup>*\<^sup>* REVOKED t" and "s \<in> {DISABLED, REVOKED}" and "self_step\<^sup>*\<^sup>* s u"
  shows "t = REVOKED \<and> u = s"
  using assms guarded_steps_from_revoked self_steps_stopped by blast

theorem stops_are_final_witness:
  "guarded_step\<^sup>*\<^sup>* REVOKED REVOKED \<and> self_step\<^sup>*\<^sup>* DISABLED DISABLED \<and> DISABLED \<noteq> ACTIVE"
  using stops_are_final [of REVOKED DISABLED DISABLED] by simp

end
