(* ===== verification/NftModel.thy ===== *)
theory NftModel
  imports PeerStateMachine PyIpaddress
begin

text \<open>
  \<open>backend/foxguard/nftables/model.py\<close>: the frozen description of what the ruleset must
  enforce. The dataclasses are records with the fields in the source's order, the string
  enums are datatypes, tuples are lists. An \<open>Endpoint\<close> keeps its optional fields, so the
  malformed endpoints that validation refuses can be written down.
\<close>

section \<open>Enumerations\<close>

datatype family = V4 | V6

fun addr_kw :: "family \<Rightarrow> string" where
  "addr_kw V4 = ''ip''"
| "addr_kw V6 = ''ip6''"

fun suffix_kw :: "family \<Rightarrow> string" where
  "suffix_kw V4 = ''v4''"
| "suffix_kw V6 = ''v6''"

fun nfproto :: "family \<Rightarrow> string" where
  "nfproto V4 = ''ipv4''"
| "nfproto V6 = ''ipv6''"

fun set_type :: "family \<Rightarrow> string" where
  "set_type V4 = ''ipv4_addr''"
| "set_type V6 = ''ipv6_addr''"

fun family_version :: "family \<Rightarrow> nat" where
  "family_version V4 = 4"
| "family_version V6 = 6"

text \<open>\<open>Family.value\<close>, which the generated comments show.\<close>

abbreviation family_value :: "family \<Rightarrow> string" where "family_value \<equiv> nfproto"

definition FAMILIES :: "family list" where
  "FAMILIES = [V4, V6]"

datatype peer_type = SERVER | USER

fun peer_type_value :: "peer_type \<Rightarrow> string" where
  "peer_type_value SERVER = ''server''"
| "peer_type_value USER = ''user''"

datatype action = ACCEPT | DROP | REJECT

fun action_value :: "action \<Rightarrow> string" where
  "action_value ACCEPT = ''accept''"
| "action_value DROP = ''drop''"
| "action_value REJECT = ''reject''"

datatype protocol = PANY | TCP | UDP | ICMP

fun protocol_value :: "protocol \<Rightarrow> string" where
  "protocol_value PANY = ''any''"
| "protocol_value TCP = ''tcp''"
| "protocol_value UDP = ''udp''"
| "protocol_value ICMP = ''icmp''"

fun supports_ports :: "protocol \<Rightarrow> bool" where
  "supports_ports p = (p \<in> {TCP, UDP})"

datatype endpoint_kind = KANY | KGROUP | KCIDR | KZONE

datatype gateway_input_policy = OPEN | RESTRICTED

text \<open>Quantifiers over \<open>family\<close> compute.\<close>

instantiation family :: enum
begin

definition enum_family :: "family list" where
  "enum_family = [V4, V6]"

definition enum_all_family :: "(family \<Rightarrow> bool) \<Rightarrow> bool" where
  "enum_all_family P \<longleftrightarrow> P V4 \<and> P V6"

definition enum_ex_family :: "(family \<Rightarrow> bool) \<Rightarrow> bool" where
  "enum_ex_family P \<longleftrightarrow> P V4 \<or> P V6"

instance
proof
  have univ: "x = V4 \<or> x = V6" for x by (cases x) simp_all
  then show "(UNIV :: family set) = set enum_class.enum" by (auto simp: enum_family_def)
  show "distinct (enum_class.enum :: family list)" by (simp add: enum_family_def)
  show "enum_class.enum_all P \<longleftrightarrow> Ball UNIV P" for P :: "family \<Rightarrow> bool"
    using univ by (auto simp: enum_all_family_def) metis
  show "enum_class.enum_ex P \<longleftrightarrow> Bex UNIV P" for P :: "family \<Rightarrow> bool"
    using univ by (auto simp: enum_ex_family_def) metis
qed

end

section \<open>Specs\<close>

record endpoint =
  ep_kind :: endpoint_kind
  ep_group_slug :: "string option"
  ep_cidr :: "string option"
  ep_zone_slug :: "string option"

definition endpoint_any :: endpoint where
  "endpoint_any = \<lparr>ep_kind = KANY, ep_group_slug = None, ep_cidr = None, ep_zone_slug = None\<rparr>"

definition endpoint_group :: "string \<Rightarrow> endpoint" where
  "endpoint_group slug =
     \<lparr>ep_kind = KGROUP, ep_group_slug = Some slug, ep_cidr = None, ep_zone_slug = None\<rparr>"

definition endpoint_zone :: "string \<Rightarrow> endpoint" where
  "endpoint_zone slug =
     \<lparr>ep_kind = KZONE, ep_group_slug = None, ep_cidr = None, ep_zone_slug = Some slug\<rparr>"

definition endpoint_network :: "string \<Rightarrow> endpoint" where
  "endpoint_network cidr =
     \<lparr>ep_kind = KCIDR, ep_group_slug = None, ep_cidr = Some cidr, ep_zone_slug = None\<rparr>"

record group_spec =
  gs_slug :: string
  gs_internet_exit :: bool

record route_spec =
  rt_cidr :: string
  rt_via_peer_id :: "string option"
  rt_comment :: "string option"

record zone_spec =
  zs_slug :: string
  zs_intra_zone :: bool
  zs_internet_exit :: bool
  zs_routes :: "route_spec list"

text \<open>\<open>None\<close> where a route's text is not a network: \<open>ip_network\<close> raises.\<close>

definition route_cidrs :: "zone_spec \<Rightarrow> family \<Rightarrow> string list option" where
  "route_cidrs z f =
     (if \<forall>r\<in>set (zs_routes z). ip_network (rt_cidr r) \<noteq> None
      then Some (filter (\<lambda>c. map_option net_version (ip_network c) = Some (family_version f))
                   (map rt_cidr (zs_routes z)))
      else None)"

record peer_spec =
  ps_id :: string
  ps_name :: string
  ps_state :: peer_state
  ps_peer_type :: peer_type
  ps_tunnel_ip :: "string option"
  ps_tunnel_ip6 :: "string option"
  ps_group_slugs :: "string list"
  ps_zone_slug :: "string option"

definition addresses :: "peer_spec \<Rightarrow> family \<Rightarrow> string list" where
  "addresses p f =
     (let value = (if f = V4 then ps_tunnel_ip p else ps_tunnel_ip6 p)
      in if truthy value then [the value] else [])"

record rule_spec =
  rs_id :: string
  rs_priority :: int
  rs_action :: action
  rs_src :: endpoint
  rs_dst :: endpoint
  rs_protocol :: protocol
  rs_dst_port_start :: "int option"
  rs_dst_port_end :: "int option"
  rs_comment :: "string option"

definition sort_key_rule :: "rule_spec \<Rightarrow> int \<times> string" where
  "sort_key_rule r = (rs_priority r, rs_id r)"

record gateway_spec =
  gw_wg_interface :: string
  gw_wan_interface :: "string option"
  gw_table_name :: string
  gw_portal_port :: int
  gw_internal_cidrs :: "string list"
  gw_allow_dns_in_quarantine :: bool
  gw_allow_icmp_to_gateway :: bool
  gw_gateway_input_policy :: gateway_input_policy
  gw_log_dropped :: bool
  gw_proxy_ports :: "int list"
  gw_portal_addresses :: "string list"

text \<open>The defaults of \<open>GatewaySpec()\<close>.\<close>

definition default_gateway :: gateway_spec where
  "default_gateway = \<lparr>gw_wg_interface = ''wg0'', gw_wan_interface = None,
     gw_table_name = ''foxguard'', gw_portal_port = 8080, gw_internal_cidrs = [],
     gw_allow_dns_in_quarantine = True, gw_allow_icmp_to_gateway = True,
     gw_gateway_input_policy = OPEN, gw_log_dropped = True, gw_proxy_ports = [],
     gw_portal_addresses = []\<rparr>"

record ruleset_spec =
  sp_gateway :: gateway_spec
  sp_groups :: "group_spec list"
  sp_zones :: "zone_spec list"
  sp_peers :: "peer_spec list"
  sp_rules :: "rule_spec list"

definition spec_group_slugs :: "ruleset_spec \<Rightarrow> string set" where
  "spec_group_slugs s = set (map gs_slug (sp_groups s))"

definition spec_zone_slugs :: "ruleset_spec \<Rightarrow> string set" where
  "spec_zone_slugs s = set (map zs_slug (sp_zones s))"

section \<open>Lemmas\<close>

lemma set_FAMILIES [simp]: "set FAMILIES = UNIV"
proof -
  have "f \<in> set FAMILIES" for f by (cases f) (simp_all add: FAMILIES_def)
  then show ?thesis by blast
qed

lemma in_addresses:
  "a \<in> set (addresses p f) \<longleftrightarrow>
     (if f = V4 then ps_tunnel_ip p else ps_tunnel_ip6 p) = Some a \<and> a \<noteq> []"
  by (auto simp: addresses_def Let_def truthy_iff)

lemma route_cidrs_Some:
  "(\<And>r. r \<in> set (zs_routes z) \<Longrightarrow> ip_network (rt_cidr r) \<noteq> None) \<Longrightarrow>
     route_cidrs z f = Some (filter
       (\<lambda>c. map_option net_version (ip_network c) = Some (family_version f))
       (map rt_cidr (zs_routes z)))"
  by (auto simp: route_cidrs_def)

end
