(* ===== verification/NftValidate.thy ===== *)
theory NftValidate
  imports NftModel "HOL-Library.AList"
begin

text \<open>
  The validation half of \<open>backend/foxguard/nftables/generator.py\<close>: \<open>validate_spec\<close> and its
  helpers. The Python collects messages in one list and raises them together at the end;
  here each loop returns its messages as values of \<open>ruleset_error\<close>, in the order the code
  appends them. A message keeps what it names and drops the wording.
\<close>

datatype side = Src | Dst

datatype where_label =
    InInternalCidrs
  | InRoute string string
  | InRule string "side option"
  | InPeer string
  | Unlabelled

datatype ruleset_error =
    BadTableName string
  | BadWgInterface string
  | BadWanInterface string
  | PortalPortRange int
  | BadPortalAddress string
  | DuplicatePortalFamily nat
  | InvalidCidr where_label string
  | BadGroupSlug string
  | DuplicateGroupSlug string
  | GroupSetClash string string
  | GroupExitWithoutWan string
  | BadZoneSlug string
  | DuplicateZoneSlug string
  | ZoneSetClash string string
  | ZoneExitWithoutWan string
  | DefaultRoute where_label
  | DuplicateRoute where_label
  | TwoCarriers string string string
  | SharedSlug string
  | DuplicatePeerId string
  | UnknownPeerGroup string string
  | UnknownPeerZone string string
  | BadTunnelAddress string string
  | WrongFamilyAddress string string
  | AddressInUse string string string
  | ActiveWithoutAddress string
  | UnknownCarrier string string
  | BadRuleId string
  | DuplicateRuleId string
  | GroupEndpointWithoutSlug where_label
  | UnknownGroup where_label string
  | ZoneEndpointWithoutSlug where_label
  | UnknownZone where_label string
  | CidrEndpointWithoutValue where_label
  | PortsWithoutProtocol where_label
  | PortEndWithoutStart where_label
  | PortOutOfRange where_label int
  | PortRangeInverted where_label

section \<open>Identifiers\<close>

definition slug_tail :: "char \<Rightarrow> bool" where
  "slug_tail c \<longleftrightarrow> is_lower c \<or> is_digit c \<or> c = CHR ''_'' \<or> c = CHR ''-''"

definition SLUG_RE :: "string \<Rightarrow> bool" where
  "SLUG_RE = re_dollar (re_head_tail (\<lambda>c. is_lower c \<or> is_digit c) slug_tail 23)"

definition TABLE_RE :: "string \<Rightarrow> bool" where
  "TABLE_RE = re_dollar
     (re_head_tail is_lower (\<lambda>c. is_lower c \<or> is_digit c \<or> c = CHR ''_'') 23)"

definition iface_char :: "char \<Rightarrow> bool" where
  "iface_char c \<longleftrightarrow> is_upper c \<or> is_lower c \<or> is_digit c \<or>
     c \<in> {CHR ''_'', CHR ''.'', CHR ''@'', CHR ''-''}"

definition IFACE_RE :: "string \<Rightarrow> bool" where
  "IFACE_RE = re_dollar (re_class iface_char 1 15)"

definition rule_id_char :: "char \<Rightarrow> bool" where
  "rule_id_char c \<longleftrightarrow> is_upper c \<or> is_lower c \<or> is_digit c \<or>
     c \<in> {CHR ''_'', CHR ''.'', CHR '':'', CHR ''-''}"

definition RULE_ID_RE :: "string \<Rightarrow> bool" where
  "RULE_ID_RE = re_dollar (re_class rule_id_char 1 64)"

definition group_set_name :: "string \<Rightarrow> family \<Rightarrow> string" where
  "group_set_name slug f =
     ''g_'' @ replace_char (CHR ''-'') (CHR ''_'') slug @ ''_'' @ suffix_kw f"

definition zone_set_name :: "string \<Rightarrow> family \<Rightarrow> string" where
  "zone_set_name slug f =
     ''z_'' @ replace_char (CHR ''-'') (CHR ''_'') slug @ ''_'' @ suffix_kw f"

definition quarantine_set_name :: "family \<Rightarrow> string" where
  "quarantine_set_name f = ''fg_quarantine_'' @ suffix_kw f"

definition internal_set_name :: "family \<Rightarrow> string" where
  "internal_set_name f = ''fg_internal_'' @ suffix_kw f"

section \<open>Checks\<close>

definition check_cidr :: "string \<Rightarrow> where_label \<Rightarrow> ruleset_error list" where
  "check_cidr value label = (if ip_network value = None then [InvalidCidr label value] else [])"

definition validate_endpoint ::
  "endpoint \<Rightarrow> where_label \<Rightarrow> string set \<Rightarrow> string set \<Rightarrow> ruleset_error list" where
  "validate_endpoint ep label known_groups known_zones =
     (case ep_kind ep of
        KGROUP \<Rightarrow>
          (if \<not> truthy (ep_group_slug ep) then [GroupEndpointWithoutSlug label]
           else if the (ep_group_slug ep) \<notin> known_groups
             then [UnknownGroup label (the (ep_group_slug ep))] else [])
      | KZONE \<Rightarrow>
          (if \<not> truthy (ep_zone_slug ep) then [ZoneEndpointWithoutSlug label]
           else if the (ep_zone_slug ep) \<notin> known_zones
             then [UnknownZone label (the (ep_zone_slug ep))] else [])
      | KCIDR \<Rightarrow>
          (if \<not> truthy (ep_cidr ep) then [CidrEndpointWithoutValue label]
           else check_cidr (the (ep_cidr ep)) label)
      | KANY \<Rightarrow> [])"

definition port_in_range :: "int \<Rightarrow> bool" where
  "port_in_range p \<longleftrightarrow> 1 \<le> p \<and> p \<le> 65535"

definition validate_ports :: "rule_spec \<Rightarrow> where_label \<Rightarrow> ruleset_error list" where
  "validate_ports rule label =
     (case (rs_dst_port_start rule, rs_dst_port_end rule) of
        (None, None) \<Rightarrow> []
      | (start, end_) \<Rightarrow>
        if \<not> supports_ports (rs_protocol rule) then [PortsWithoutProtocol label]
        else (case start of
            None \<Rightarrow> [PortEndWithoutStart label]
          | Some s \<Rightarrow>
              (if \<not> port_in_range s then [PortOutOfRange label s] else []) @
              (case end_ of None \<Rightarrow> []
               | Some e \<Rightarrow> (if \<not> port_in_range e then [PortOutOfRange label e] else []) @
                    (if s > e then [PortRangeInverted label] else []))))"

text \<open>The loop over \<open>portal_addresses\<close>, with \<open>seen_families\<close>.\<close>

fun check_portal_addresses :: "nat set \<Rightarrow> string list \<Rightarrow> ruleset_error list" where
  "check_portal_addresses seen [] = []"
| "check_portal_addresses seen (a # as) =
     (case ip_address a of
        None \<Rightarrow> BadPortalAddress a # check_portal_addresses seen as
      | Some p \<Rightarrow>
          (if ip_version p \<in> seen then [DuplicatePortalFamily (ip_version p)] else [])
          @ check_portal_addresses (insert (ip_version p) seen) as)"

definition validate_gateway :: "gateway_spec \<Rightarrow> ruleset_error list" where
  "validate_gateway gw =
     (if \<not> TABLE_RE (gw_table_name gw) then [BadTableName (gw_table_name gw)] else []) @
     (if \<not> IFACE_RE (gw_wg_interface gw) then [BadWgInterface (gw_wg_interface gw)] else []) @
     (case gw_wan_interface gw of None \<Rightarrow> []
      | Some w \<Rightarrow> if \<not> IFACE_RE w then [BadWanInterface w] else []) @
     (if \<not> port_in_range (gw_portal_port gw) then [PortalPortRange (gw_portal_port gw)] else []) @
     check_portal_addresses {} (gw_portal_addresses gw) @
     concat (map (\<lambda>c. check_cidr c InInternalCidrs) (gw_internal_cidrs gw))"

text \<open>The loop over groups, with \<open>seen_slugs\<close> and \<open>set_names\<close>.\<close>

fun validate_groups ::
  "bool \<Rightarrow> string set \<Rightarrow> (string \<rightharpoonup> string) \<Rightarrow> group_spec list \<Rightarrow> ruleset_error list" where
  "validate_groups wan seen names [] = []"
| "validate_groups wan seen names (g # gs) =
     (let slug = gs_slug g; normalised = group_set_name slug V4 in
      (if \<not> SLUG_RE slug then [BadGroupSlug slug] else []) @
      (if slug \<in> seen then [DuplicateGroupSlug slug] else []) @
      (case names normalised of None \<Rightarrow> []
       | Some clash \<Rightarrow> if clash \<noteq> slug then [GroupSetClash slug clash] else []) @
      (if gs_internet_exit g \<and> \<not> wan then [GroupExitWithoutWan slug] else []) @
      validate_groups wan (insert slug seen) (names(normalised \<mapsto> slug)) gs)"

text \<open>The loop over one zone's routes, with \<open>seen_cidrs\<close>.\<close>

fun validate_routes :: "string \<Rightarrow> string set \<Rightarrow> route_spec list \<Rightarrow> ruleset_error list" where
  "validate_routes zone seen [] = []"
| "validate_routes zone seen (r # rs) =
     (let label = InRoute zone (rt_cidr r) in
      case ip_network (rt_cidr r) of
        None \<Rightarrow> InvalidCidr label (rt_cidr r) # validate_routes zone seen rs
      | Some n \<Rightarrow>
          (if prefixlen n = 0 then [DefaultRoute label] else []) @
          (if show_net n \<in> seen then [DuplicateRoute label] else []) @
          validate_routes zone (insert (show_net n) seen) rs)"

fun validate_zones ::
  "bool \<Rightarrow> string set \<Rightarrow> (string \<rightharpoonup> string) \<Rightarrow> zone_spec list \<Rightarrow> ruleset_error list" where
  "validate_zones wan seen names [] = []"
| "validate_zones wan seen names (z # zs) =
     (let slug = zs_slug z; normalised = zone_set_name slug V4 in
      (if \<not> SLUG_RE slug then [BadZoneSlug slug] else []) @
      (if slug \<in> seen then [DuplicateZoneSlug slug] else []) @
      (case names normalised of None \<Rightarrow> []
       | Some clash \<Rightarrow> if clash \<noteq> slug then [ZoneSetClash slug clash] else []) @
      (if zs_internet_exit z \<and> \<not> wan then [ZoneExitWithoutWan slug] else []) @
      validate_routes slug {} (zs_routes z) @
      validate_zones wan (insert slug seen) (names(normalised \<mapsto> slug)) zs)"

text \<open>
  The carriers of every routed network, across zones: \<open>carriers\<close> is the dictionary the
  loop builds, an association list because its keys are later listed.
\<close>

definition all_routes :: "zone_spec list \<Rightarrow> route_spec list" where
  "all_routes zs = concat (map zs_routes zs)"

fun validate_carriers ::
  "(string \<times> string) list \<Rightarrow> route_spec list \<Rightarrow> ruleset_error list \<times> (string \<times> string) list" where
  "validate_carriers carriers [] = ([], carriers)"
| "validate_carriers carriers (r # rs) =
     (case rt_via_peer_id r of None \<Rightarrow> validate_carriers carriers rs
      | Some peer \<Rightarrow> (case ip_network (rt_cidr r) of None \<Rightarrow> validate_carriers carriers rs
         | Some n \<Rightarrow>
            (let cidr = show_net n;
                 errs = (case map_of carriers cidr of None \<Rightarrow> []
                    | Some previous \<Rightarrow>
                        if previous \<noteq> peer then [TwoCarriers cidr previous peer] else []);
                 rest = validate_carriers (AList.update cidr peer carriers) rs
             in (errs @ fst rest, snd rest))))"

text \<open>One peer's addresses, with \<open>seen_addresses\<close>.\<close>

fun validate_addresses ::
  "string \<Rightarrow> (string \<rightharpoonup> string) \<Rightarrow> (family \<times> string) list
     \<Rightarrow> ruleset_error list \<times> (string \<rightharpoonup> string)" where
  "validate_addresses pid seen [] = ([], seen)"
| "validate_addresses pid seen ((f, a) # rest) =
     (case ip_address a of
        None \<Rightarrow> (let r = validate_addresses pid seen rest
                 in (BadTunnelAddress pid a # fst r, snd r))
      | Some p \<Rightarrow>
          if ip_version p \<noteq> family_version f
          then (let r = validate_addresses pid seen rest
                in (WrongFamilyAddress pid a # fst r, snd r))
          else (let errs = (case seen a of None \<Rightarrow> []
                  | Some owner \<Rightarrow> if owner \<noteq> pid then [AddressInUse pid a owner] else []);
                    r = validate_addresses pid (seen(a \<mapsto> pid)) rest
                in (errs @ fst r, snd r)))"

definition family_addresses :: "peer_spec \<Rightarrow> (family \<times> string) list" where
  "family_addresses p = concat (map (\<lambda>f. map (Pair f) (addresses p f)) FAMILIES)"

fun validate_peers ::
  "string set \<Rightarrow> string set \<Rightarrow> string set \<Rightarrow> (string \<rightharpoonup> string) \<Rightarrow> peer_spec list
     \<Rightarrow> ruleset_error list" where
  "validate_peers known_groups known_zones seen_ids seen [] = []"
| "validate_peers known_groups known_zones seen_ids seen (p # ps) =
     (let pid = ps_id p; va = validate_addresses pid seen (family_addresses p) in
      (if pid \<in> seen_ids then [DuplicatePeerId pid] else []) @
      concat (map (\<lambda>s. if s \<notin> known_groups then [UnknownPeerGroup pid s] else [])
        (ps_group_slugs p)) @
      (case ps_zone_slug p of None \<Rightarrow> []
       | Some z \<Rightarrow> if z \<notin> known_zones then [UnknownPeerZone pid z] else []) @
      fst va @
      (if is_active (ps_state p) \<and> \<not> (truthy (ps_tunnel_ip p) \<or> truthy (ps_tunnel_ip6 p))
       then [ActiveWithoutAddress pid] else []) @
      validate_peers known_groups known_zones (insert pid seen_ids) (snd va) ps)"

definition validate_rule ::
  "string set \<Rightarrow> string set \<Rightarrow> string set \<Rightarrow> rule_spec \<Rightarrow> ruleset_error list" where
  "validate_rule known_groups known_zones seen_ids r =
     (if \<not> RULE_ID_RE (rs_id r) then [BadRuleId (rs_id r)] else []) @
     (if rs_id r \<in> seen_ids then [DuplicateRuleId (rs_id r)] else []) @
     validate_endpoint (rs_src r) (InRule (rs_id r) (Some Src)) known_groups known_zones @
     validate_endpoint (rs_dst r) (InRule (rs_id r) (Some Dst)) known_groups known_zones @
     validate_ports r (InRule (rs_id r) None)"

fun validate_rules ::
  "string set \<Rightarrow> string set \<Rightarrow> string set \<Rightarrow> rule_spec list \<Rightarrow> ruleset_error list" where
  "validate_rules known_groups known_zones seen_ids [] = []"
| "validate_rules known_groups known_zones seen_ids (r # rs) =
     validate_rule known_groups known_zones seen_ids r @
     validate_rules known_groups known_zones (insert (rs_id r) seen_ids) rs"

text \<open>The messages \<open>validate_spec\<close> raises with; none when it returns.\<close>

definition validate_spec :: "ruleset_spec \<Rightarrow> ruleset_error list" where
  "validate_spec spec =
     (let gw = sp_gateway spec;
          wan = truthy (gw_wan_interface gw);
          known_groups = set (map gs_slug (sp_groups spec));
          known_zones = set (map zs_slug (sp_zones spec));
          vc = validate_carriers [] (all_routes (sp_zones spec));
          peer_ids = set (map ps_id (sp_peers spec))
      in validate_gateway gw @
         validate_groups wan {} Map.empty (sp_groups spec) @
         validate_zones wan {} Map.empty (sp_zones spec) @
         fst vc @
         map SharedSlug (filter (\<lambda>s. s \<in> known_zones)
           (sort (remdups (map gs_slug (sp_groups spec))))) @
         validate_peers known_groups known_zones {} Map.empty (sp_peers spec) @
         concat (map (\<lambda>(cidr, carrier).
             if carrier \<notin> peer_ids then [UnknownCarrier cidr carrier] else []) (sort (snd vc))) @
         validate_rules known_groups known_zones {} (sp_rules spec))"

end
