(* ===== verification/NftGenerator.thy ===== *)
theory NftGenerator
  imports NftValidate
begin

text \<open>
  The rendering half of \<open>backend/foxguard/nftables/generator.py\<close>. A generator function of
  the source, which yields lines, is a function to a list of lines; what it may raise is an
  \<open>Inl\<close>. The text is the source's, character by character.
\<close>

datatype gen_exn = RulesetValidationError "ruleset_error list" | ValueError | TypeError

abbreviation INDENT :: string where "INDENT \<equiv> ''    ''"
abbreviation INDENT2 :: string where "INDENT2 \<equiv> ''        ''"

section \<open>Rendering helpers\<close>

definition comment_char :: "char \<Rightarrow> bool" where
  "comment_char c \<longleftrightarrow> is_upper c \<or> is_lower c \<or> is_digit c \<or>
     c \<in> {CHR '' '', CHR '':'', CHR ''.'', CHR ''_'', CHR ''/'', CHR ''@'', CHR ''='',
           CHR ''+'', CHR ''-''}"

text \<open>\<open>re.sub(r"\s+", " ", s)\<close>.\<close>

fun collapse_spaces :: "string \<Rightarrow> string" where
  "collapse_spaces [] = []"
| "collapse_spaces [c] = (if is_space c then '' '' else [c])"
| "collapse_spaces (c # d # cs) =
     (if is_space c then (if is_space d then collapse_spaces (d # cs)
                          else CHR '' '' # collapse_spaces (d # cs))
      else c # collapse_spaces (d # cs))"

definition sanitize_comment :: "string option \<Rightarrow> string" where
  "sanitize_comment value =
     (if \<not> truthy value then []
      else take 96 (collapse_spaces (py_strip
        (map (\<lambda>c. if comment_char c then c else CHR '' '') (the value)))))"

definition comment :: "string option \<Rightarrow> string" where
  "comment value =
     (let cleaned = sanitize_comment value
      in if cleaned = [] then [] else '' comment '' @ [dq] @ cleaned @ [dq])"

definition sorted_addresses :: "string list \<Rightarrow> (gen_exn, string list) result" where
  "sorted_addresses values =
     (case those (map ip_address values) of
        None \<Rightarrow> Inl ValueError
      | Some as \<Rightarrow>
          if \<exists>a\<in>set as. \<exists>b\<in>set as. ip_version a \<noteq> ip_version b then Inl TypeError
          else Inr (map show_ip (sort_key ip_int (remdups as))))"

definition sorted_networks :: "string list \<Rightarrow> (gen_exn, string list) result" where
  "sorted_networks values =
     (case those (map ip_network values) of
        None \<Rightarrow> Inl ValueError
      | Some ns \<Rightarrow> Inr (map show_net (sort_key net_key (remdups ns))))"

definition render_set ::
  "string \<Rightarrow> family \<Rightarrow> string list \<Rightarrow> bool \<Rightarrow> string \<Rightarrow> string list" where
  "render_set name f elements interval description =
     [INDENT @ ''# '' @ description,
      INDENT @ ''set '' @ name @ '' {'',
      INDENT2 @ ''type '' @ set_type f] @
     (if interval then [INDENT2 @ ''flags interval''] else []) @
     (if elements \<noteq> [] then [INDENT2 @ ''elements = { '' @ join '', '' elements @ '' }''] else []) @
     [INDENT @ ''}'']"

definition endpoint_match ::
  "endpoint \<Rightarrow> string \<Rightarrow> family \<Rightarrow> (gen_exn, string list option) result" where
  "endpoint_match ep direction f =
     (case ep_kind ep of
        KANY \<Rightarrow> Inr (Some [])
      | KGROUP \<Rightarrow>
          (case ep_group_slug ep of
             None \<Rightarrow> Inl (RulesetValidationError [GroupEndpointWithoutSlug Unlabelled])
           | Some slug \<Rightarrow>
               Inr (Some [addr_kw f @ '' '' @ direction @ ''addr @'' @ group_set_name slug f]))
      | KZONE \<Rightarrow>
          (case ep_zone_slug ep of
             None \<Rightarrow> Inl (RulesetValidationError [ZoneEndpointWithoutSlug Unlabelled])
           | Some slug \<Rightarrow>
               Inr (Some [addr_kw f @ '' '' @ direction @ ''addr @'' @ zone_set_name slug f]))
      | KCIDR \<Rightarrow>
          (case ep_cidr ep of
             None \<Rightarrow> Inl (RulesetValidationError [CidrEndpointWithoutValue Unlabelled])
           | Some cidr \<Rightarrow>
               (case ip_network cidr of
                  None \<Rightarrow> Inl ValueError
                | Some n \<Rightarrow>
                    if net_version n \<noteq> family_version f then Inr None
                    else Inr (Some [addr_kw f @ '' '' @ direction @ ''addr '' @ show_net n]))))"

definition protocol_match :: "rule_spec \<Rightarrow> family \<Rightarrow> string list option" where
  "protocol_match rule f =
     (case rs_protocol rule of
        PANY \<Rightarrow> Some []
      | ICMP \<Rightarrow> Some [if f = V4 then ''meta l4proto icmp'' else ''meta l4proto ipv6-icmp'']
      | p \<Rightarrow>
          (case rs_dst_port_start rule of
             None \<Rightarrow> Some [''meta l4proto '' @ protocol_value p]
           | Some s \<Rightarrow>
               (case rs_dst_port_end rule of
                  None \<Rightarrow> Some [protocol_value p @ '' dport '' @ show_int s]
                | Some e \<Rightarrow>
                    if e = s then Some [protocol_value p @ '' dport '' @ show_int s]
                    else Some [protocol_value p @ '' dport '' @ show_int s @ ''-'' @ show_int e])))"

text \<open>\<open>_sanitize_comment(rule.comment) or f"rule {rule.id}"\<close>, and the comment text.\<close>

definition acl_label :: "rule_spec \<Rightarrow> string" where
  "acl_label rule = (let l = sanitize_comment (rs_comment rule)
     in if l = [] then ''rule '' @ rs_id rule else l)"

definition acl_comment :: "rule_spec \<Rightarrow> string" where
  "acl_comment rule = ''fg:'' @ rs_id rule @ '':'' @ acl_label rule"

definition render_acl_rule :: "rule_spec \<Rightarrow> family \<Rightarrow> (gen_exn, string option) result" where
  "render_acl_rule rule f =
     bindR (endpoint_match (rs_src rule) ''s'' f) (\<lambda>src. case src of None \<Rightarrow> Inr None | Some s \<Rightarrow>
     bindR (endpoint_match (rs_dst rule) ''d'' f) (\<lambda>dst. case dst of None \<Rightarrow> Inr None | Some d \<Rightarrow>
     (case protocol_match rule f of None \<Rightarrow> Inr None | Some p \<Rightarrow>
       (let tokens = s @ d @ p;
            tokens' = (if tokens = [] then [''meta nfproto '' @ nfproto f] else tokens)
        in Inr (Some (INDENT2 @
             join '' '' (tokens' @ [''counter'', action_value (rs_action rule)]) @
             comment (Some (acl_comment rule))))))))"

section \<open>Sets\<close>

definition group_members ::
  "ruleset_spec \<Rightarrow> string \<Rightarrow> family \<Rightarrow> (gen_exn, string list) result" where
  "group_members spec slug f =
     sorted_addresses (concat (map (\<lambda>p.
       if \<not> is_active (ps_state p) \<or> slug \<notin> set (ps_group_slugs p) then [] else addresses p f)
       (sp_peers spec)))"

definition zone_members ::
  "ruleset_spec \<Rightarrow> zone_spec \<Rightarrow> family \<Rightarrow> (gen_exn, string list) result" where
  "zone_members spec zone f =
     bindR (sorted_addresses (concat (map (\<lambda>p.
       if is_active (ps_state p) \<and> ps_zone_slug p = Some (zs_slug zone)
       then addresses p f else []) (sp_peers spec)))) (\<lambda>as.
     (case those (map ip_network as) of None \<Rightarrow> Inl ValueError | Some ns \<Rightarrow>
     (case route_cidrs zone f of None \<Rightarrow> Inl ValueError | Some cidrs \<Rightarrow>
       bindR (sorted_networks cidrs) (\<lambda>nets. Inr (map show_net ns @ nets)))))"

definition confined_members ::
  "ruleset_spec \<Rightarrow> family \<Rightarrow> (gen_exn, string list) result" where
  "confined_members spec f =
     sorted_addresses (concat (map (\<lambda>p.
       if is_confined (ps_state p) then addresses p f else []) (sp_peers spec)))"

definition internal_networks ::
  "ruleset_spec \<Rightarrow> family \<Rightarrow> (gen_exn, string list) result" where
  "internal_networks spec f =
     (let cidrs = gw_internal_cidrs (sp_gateway spec) in
      if \<exists>c\<in>set cidrs. ip_network c = None then Inl ValueError
      else sorted_networks (filter
        (\<lambda>c. map_option net_version (ip_network c) = Some (family_version f)) cidrs))"

definition render_sets :: "ruleset_spec \<Rightarrow> (gen_exn, string list) result" where
  "render_sets spec =
     bindR (concatR (\<lambda>f. bindR (internal_networks spec f) (\<lambda>els.
         Inr (render_set (internal_set_name f) f els True
           (''networks Foxguard considers internal ('' @ family_value f @ '')'') @ [[]]))) FAMILIES)
       (\<lambda>internal.
     bindR (concatR (\<lambda>f. bindR (confined_members spec f) (\<lambda>els.
         Inr (render_set (quarantine_set_name f) f els False
           (''peers in staging/quarantine: portal access only ('' @ family_value f @ '')'')
           @ [[]]))) FAMILIES) (\<lambda>confined.
     bindR (concatR (\<lambda>g. concatR (\<lambda>f. bindR (group_members spec (gs_slug g) f) (\<lambda>els.
         Inr (render_set (group_set_name (gs_slug g) f) f els False
           (''members of group '' @ gs_slug g @ '' ('' @ family_value f @ '')'') @ [[]])))
         FAMILIES) (sort_key gs_slug (sp_groups spec))) (\<lambda>groups.
     bindR (concatR (\<lambda>z. concatR (\<lambda>f. bindR (zone_members spec z f) (\<lambda>els.
         Inr (render_set (zone_set_name (zs_slug z) f) f els True
           (''zone '' @ zs_slug z @ '': member peers and routed networks ('' @ family_value f @ '')'')
           @ [[]]))) FAMILIES) (sort_key zs_slug (sp_zones spec))) (\<lambda>zones.
     Inr (internal @ confined @ groups @ zones)))))"

end
