(* ===== verification/NftChains.thy ===== *)
theory NftChains
  imports NftGenerator
begin

text \<open>
  The chains and the entry points of \<open>backend/foxguard/nftables/generator.py\<close>:
  \<open>_render_input_chain\<close>, \<open>_render_forward_chain\<close>, \<open>_render_nat_chain\<close>,
  \<open>_portal_destination\<close>, \<open>_render_body\<close> and \<open>generate_ruleset\<close>, line by line.
\<close>

definition ICMP_ERRORS_V4 :: string where
  "ICMP_ERRORS_V4 = ''{ destination-unreachable, time-exceeded, parameter-problem }''"

definition ICMP_ERRORS_V6 :: string where
  "ICMP_ERRORS_V6 =
     ''{ destination-unreachable, packet-too-big, time-exceeded, parameter-problem }''"

text \<open>A quoted comment at the end of a line, \<open>comment "..."\<close>.\<close>

definition quoted :: "string \<Rightarrow> string" where
  "quoted s = [dq] @ s @ [dq]"

text \<open>\<open>None\<close>: no portal in this family. \<open>Some []\<close>: match on the port alone.\<close>

definition portal_destination :: "gateway_spec \<Rightarrow> family \<Rightarrow> string option" where
  "portal_destination gw f =
     (if gw_portal_addresses gw = [] then Some []
      else (case find (\<lambda>a. map_option ip_version (ip_address a) = Some (family_version f))
              (gw_portal_addresses gw) of
          None \<Rightarrow> None
        | Some a \<Rightarrow> Some (addr_kw f @ '' daddr '' @ a @ '' '')))"

definition input_quarantine_lines :: "gateway_spec \<Rightarrow> string list" where
  "input_quarantine_lines gw =
     map (\<lambda>f. case portal_destination gw f of
         None \<Rightarrow> INDENT2 @ ''# no '' @ addr_kw f @ '' portal address: a quarantined ''
             @ addr_kw f @ '' peer has nowhere to authenticate''
       | Some d \<Rightarrow> INDENT2 @ addr_kw f @ '' saddr @'' @ quarantine_set_name f @ '' '' @ d
             @ ''tcp dport '' @ show_int (gw_portal_port gw)
             @ '' counter accept comment '' @ quoted ''fg:quarantine-portal'') FAMILIES @
     (if gw_allow_dns_in_quarantine gw then concat (map (\<lambda>f.
         [INDENT2 @ addr_kw f @ '' saddr @'' @ quarantine_set_name f
            @ '' udp dport 53 counter accept comment '' @ quoted ''fg:quarantine-dns'',
          INDENT2 @ addr_kw f @ '' saddr @'' @ quarantine_set_name f
            @ '' tcp dport 53 counter accept comment '' @ quoted ''fg:quarantine-dns'']) FAMILIES)
      else []) @
     (if gw_allow_icmp_to_gateway gw then
        [INDENT2 @ ''ip saddr @'' @ quarantine_set_name V4
           @ '' icmp type echo-request counter accept comment '' @ quoted ''fg:quarantine-ping'',
         INDENT2 @ ''ip6 saddr @'' @ quarantine_set_name V6
           @ '' icmpv6 type echo-request counter accept comment '' @ quoted ''fg:quarantine-ping'']
      else []) @
     map (\<lambda>f. INDENT2 @ addr_kw f @ '' saddr @'' @ quarantine_set_name f
         @ '' counter drop comment '' @ quoted ''fg:quarantine-deny'') FAMILIES"

definition input_restricted_lines :: "gateway_spec \<Rightarrow> string list" where
  "input_restricted_lines gw =
     [INDENT2 @ ''# --- active peers: gateway services are restricted ---''] @
     (if gw_portal_addresses gw \<noteq> [] then concat (map (\<lambda>f. case portal_destination gw f of
         None \<Rightarrow> []
       | Some d \<Rightarrow> [INDENT2 @ d @ ''tcp dport '' @ show_int (gw_portal_port gw)
             @ '' counter accept comment '' @ quoted ''fg:portal'']) FAMILIES)
      else [INDENT2 @ ''tcp dport '' @ show_int (gw_portal_port gw)
             @ '' counter accept comment '' @ quoted ''fg:portal'']) @
     (if gw_allow_dns_in_quarantine gw then
        [INDENT2 @ ''udp dport 53 counter accept comment '' @ quoted ''fg:dns'',
         INDENT2 @ ''tcp dport 53 counter accept comment '' @ quoted ''fg:dns''] else []) @
     (if gw_allow_icmp_to_gateway gw then
        [INDENT2 @ ''icmp type echo-request counter accept comment '' @ quoted ''fg:ping'',
         INDENT2 @ ''icmpv6 type echo-request counter accept comment '' @ quoted ''fg:ping'']
      else []) @
     map (\<lambda>p. INDENT2 @ ''tcp dport '' @ show_int p @ '' counter accept comment ''
         @ quoted ''fg:proxy'') (gw_proxy_ports gw) @
     [INDENT2 @ ''counter drop comment '' @ quoted ''fg:gateway-input-deny'']"

definition render_input_chain :: "ruleset_spec \<Rightarrow> string list" where
  "render_input_chain spec =
     (let gw = sp_gateway spec; wg = gw_wg_interface gw in
     [INDENT @ ''chain input {'',
      INDENT2 @ ''type filter hook input priority filter; policy accept;'',
      [],
      INDENT2 @ ''# Foxguard only governs traffic arriving from the tunnel.'',
      INDENT2 @ ''# Accepting here means 'no opinion': other tables still filter.'',
      INDENT2 @ ''iifname != '' @ quoted wg @ '' accept'',
      INDENT2 @ ''ct state invalid counter drop'',
      [],
      INDENT2 @ ''# --- staging / quarantined peers: captive portal only ---'',
      INDENT2 @ ''# Deliberately evaluated BEFORE the established/related accept:'',
      INDENT2 @ ''# moving a peer to quarantine (session expiry, kill switch) must'',
      INDENT2 @ ''# cut its open flows immediately, not only its new ones.''] @
     input_quarantine_lines gw @
     [[],
      INDENT2 @ ''# --- below this point, only non-confined peers are left ---'',
      INDENT2 @ ''ct state established,related counter accept'',
      INDENT2 @ ''# ICMP errors must pass or PMTU discovery black-holes.'',
      INDENT2 @ ''icmp type '' @ ICMP_ERRORS_V4 @ '' counter accept'',
      INDENT2 @ ''icmpv6 type '' @ ICMP_ERRORS_V6 @ '' counter accept'',
      []] @
     (if gw_gateway_input_policy gw = RESTRICTED then input_restricted_lines gw
      else [INDENT2 @
              ''# --- active peers: gateway-local services left to the host firewall ---'',
            INDENT2 @ ''accept comment '' @ quoted ''fg:gateway-input-open'']) @
     [INDENT @ ''}''])"

section \<open>The forward chain\<close>

text \<open>What \<open>exit_sources\<close> lists: the slug and the function that names its set.\<close>

definition exit_sources :: "ruleset_spec \<Rightarrow> (string \<times> (string \<Rightarrow> family \<Rightarrow> string)) list" where
  "exit_sources spec =
     map (\<lambda>g. (gs_slug g, group_set_name))
       (filter gs_internet_exit (sort_key gs_slug (sp_groups spec))) @
     map (\<lambda>z. (zs_slug z, zone_set_name))
       (filter zs_internet_exit (sort_key zs_slug (sp_zones spec)))"

text \<open>An optional string inside an f-string.\<close>

definition show_opt :: "string option \<Rightarrow> string" where
  "show_opt v = (case v of None \<Rightarrow> ''None'' | Some s \<Rightarrow> s)"

definition render_acl_lines :: "ruleset_spec \<Rightarrow> (gen_exn, string list) result" where
  "render_acl_lines spec =
     concatR (\<lambda>r. concatR (\<lambda>f. bindR (render_acl_rule r f)
       (\<lambda>line. Inr (case line of None \<Rightarrow> [] | Some l \<Rightarrow> [l]))) FAMILIES)
       (sort_key sort_key_rule (sp_rules spec))"

definition intra_zone_lines :: "ruleset_spec \<Rightarrow> string list" where
  "intra_zone_lines spec =
     (let zones = filter zs_intra_zone (sort_key zs_slug (sp_zones spec)) in
      if zones = [] then []
      else [INDENT2 @ ''# --- intra-zone traffic (opt-in, per zone) ---'',
            INDENT2 @ ''# After the ACL rules on purpose: an explicit drop above still'',
            INDENT2 @ ''# carves a subset out of a zone that talks to itself.''] @
        concat (map (\<lambda>z. map (\<lambda>f. let name = zone_set_name (zs_slug z) f in
            INDENT2 @ addr_kw f @ '' saddr @'' @ name @ '' '' @ addr_kw f @ '' daddr @'' @ name
            @ '' counter accept comment '' @ quoted (''fg:intra-zone:'' @ zs_slug z)) FAMILIES) zones) @
        [[]])"

definition exit_lines :: "ruleset_spec \<Rightarrow> string list" where
  "exit_lines spec =
     (let gw = sp_gateway spec in
      if exit_sources spec = [] then []
      else [INDENT2 @ ''# --- internet exit (never a shortcut into internal networks) ---''] @
        concat (map (\<lambda>(slug, naming). map (\<lambda>f.
            INDENT2 @ addr_kw f @ '' saddr @'' @ naming slug f @ '' '' @ addr_kw f
            @ '' daddr != @'' @ internal_set_name f @ '' oifname ''
            @ quoted (show_opt (gw_wan_interface gw)) @ '' counter accept comment ''
            @ quoted (''fg:internet-exit:'' @ slug)) FAMILIES) (exit_sources spec)) @
        [[]])"

definition render_forward_chain :: "ruleset_spec \<Rightarrow> (gen_exn, string list) result" where
  "render_forward_chain spec =
     (let gw = sp_gateway spec; wg = gw_wg_interface gw in
     bindR (render_acl_lines spec) (\<lambda>acl. Inr (
     [INDENT @ ''chain forward {'',
      INDENT2 @ ''type filter hook forward priority filter; policy accept;'',
      [],
      INDENT2 @ ''# Traffic that neither enters nor leaves the tunnel is none of'',
      INDENT2 @ ''# our business -- never break unrelated routing on this box.'',
      INDENT2 @ ''iifname != '' @ quoted wg @ '' oifname != '' @ quoted wg
        @ '' accept comment '' @ quoted ''fg:foreign-traffic'',
      INDENT2 @ ''ct state invalid counter drop'',
      [],
      INDENT2 @ ''# --- staging / quarantined peers never transit the gateway ---'',
      INDENT2 @ ''# Before the established/related accept on purpose: quarantining'',
      INDENT2 @ ''# a peer must tear its open flows down, not just block new ones.''] @
     concat (map (\<lambda>f.
       [INDENT2 @ addr_kw f @ '' saddr @'' @ quarantine_set_name f @ '' counter drop comment ''
          @ quoted ''fg:quarantine-no-forward'',
        INDENT2 @ addr_kw f @ '' daddr @'' @ quarantine_set_name f @ '' counter drop comment ''
          @ quoted ''fg:quarantine-unreachable'']) FAMILIES) @
     [[],
      INDENT2 @ ''# --- below this point, only non-confined peers are left ---'',
      INDENT2 @ ''ct state established,related counter accept comment ''
        @ quoted ''fg:no-reset-on-reload'',
      INDENT2 @ ''icmp type '' @ ICMP_ERRORS_V4 @ '' counter accept'',
      INDENT2 @ ''icmpv6 type '' @ ICMP_ERRORS_V6 @ '' counter accept'',
      [],
      INDENT2 @ ''# --- ACL policy rules (priority asc, then rule id) ---''] @
     (if acl = [] then [INDENT2 @ ''# (no ACL rules defined)''] else acl) @
     [[]] @
     intra_zone_lines spec @
     exit_lines spec @
     (if gw_log_dropped gw then
        [INDENT2 @ ''limit rate 5/minute burst 10 packets log prefix '' @ quoted ''fg-drop ''
          @ '' level info''] else []) @
     [INDENT2 @ ''counter drop comment '' @ quoted ''fg:default-deny'',
      INDENT @ ''}''])))"

definition render_nat_chain :: "ruleset_spec \<Rightarrow> string list" where
  "render_nat_chain spec =
     (let gw = sp_gateway spec in
      if exit_sources spec = [] \<or> \<not> truthy (gw_wan_interface gw) then []
      else
       [INDENT @ ''chain postrouting {'',
        INDENT2 @ ''type nat hook postrouting priority srcnat; policy accept;''] @
       concat (map (\<lambda>(slug, naming). map (\<lambda>f.
         INDENT2 @ addr_kw f @ '' saddr @'' @ naming slug f @ '' oifname ''
         @ quoted (show_opt (gw_wan_interface gw)) @ '' counter masquerade comment ''
         @ quoted (''fg:nat:'' @ slug)) FAMILIES) (exit_sources spec)) @
       [INDENT @ ''}''])"

section \<open>Entry points\<close>

definition BANNER :: string where
  "BANNER = concat (map (\<lambda>l. l @ [nl])
     [''#!/usr/sbin/nft -f'',
      ''#'',
      ''# Foxguard generated ruleset -- DO NOT EDIT BY HAND.'',
      ''# Regenerate with: foxguard-cli ruleset render   (source of truth is the database)'',
      ''#'',
      ''# This file is byte-stable: identical database state produces identical bytes.'',
      ''#''])"

definition render_body :: "ruleset_spec \<Rightarrow> (gen_exn, string list) result" where
  "render_body spec =
     (let table = ''table inet '' @ gw_table_name (sp_gateway spec) in
     bindR (render_sets spec) (\<lambda>sets.
     bindR (render_forward_chain spec) (\<lambda>forward. Inr (
       [''# Create-then-delete makes the script idempotent: the first line is a'',
        ''# no-op if the table exists, and guarantees the delete never fails.'',
        table,
        ''delete '' @ table,
        [],
        table @ '' {''] @
       sets @
       render_input_chain spec @
       [[]] @
       forward @
       (let nat = render_nat_chain spec in if nat = [] then [] else [] # nat) @
       [''}'']))))"

definition generate_ruleset :: "ruleset_spec \<Rightarrow> (gen_exn, string) result" where
  "generate_ruleset spec =
     (if validate_spec spec \<noteq> [] then Inl (RulesetValidationError (validate_spec spec))
      else bindR (render_body spec) (\<lambda>lines.
        Inr (BANNER @ rstrip_by (\<lambda>c. c = nl) (join [nl] lines) @ [nl])))"

end
