(* ===== verification/NftSemantics.thy ===== *)
theory NftSemantics
  imports NftChains
begin

text \<open>
  What the generated text means. A chain is a list of rules, a rule a list of match
  expressions and a verdict; \<open>print_rule\<close> is the concrete syntax. The kernel's
  part is the locale \<open>first_match\<close>: a packet is a valuation that says which match
  expressions hold of it, the first rule all of whose expressions hold and whose verdict is
  terminal decides, and a chain that decides nothing accepts (\<open>policy accept\<close>).
  \<open>input_items\<close>, \<open>forward_items\<close> and \<open>nat_items\<close> are the rules of the three chains; the
  refinement lemmas prove that the generator prints exactly those.
\<close>

section \<open>Rules and their text\<close>

datatype nft_match =
    IifNeq string
  | OifNeq string
  | OifEq string
  | CtInvalid
  | CtEstablished
  | SaddrIn family string
  | DaddrIn family string
  | DaddrNotIn family string
  | SaddrNet family string
  | DaddrNet family string
  | DaddrIs family string
  | L4Proto string
  | Dport protocol int "int option"
  | IcmpError family
  | IcmpEcho family
  | NfProto family
  | RateLimit

fun show_match :: "nft_match \<Rightarrow> string" where
  "show_match (IifNeq i) = ''iifname != '' @ quoted i"
| "show_match (OifNeq i) = ''oifname != '' @ quoted i"
| "show_match (OifEq i) = ''oifname '' @ quoted i"
| "show_match CtInvalid = ''ct state invalid''"
| "show_match CtEstablished = ''ct state established,related''"
| "show_match (SaddrIn f s) = addr_kw f @ '' saddr @'' @ s"
| "show_match (DaddrIn f s) = addr_kw f @ '' daddr @'' @ s"
| "show_match (DaddrNotIn f s) = addr_kw f @ '' daddr != @'' @ s"
| "show_match (SaddrNet f n) = addr_kw f @ '' saddr '' @ n"
| "show_match (DaddrNet f n) = addr_kw f @ '' daddr '' @ n"
| "show_match (DaddrIs f a) = addr_kw f @ '' daddr '' @ a"
| "show_match (L4Proto p) = ''meta l4proto '' @ p"
| "show_match (Dport p lo hi) = protocol_value p @ '' dport '' @ show_int lo @
     (case hi of None \<Rightarrow> [] | Some h \<Rightarrow> ''-'' @ show_int h)"
| "show_match (IcmpError f) =
     (if f = V4 then ''icmp type '' @ ICMP_ERRORS_V4 else ''icmpv6 type '' @ ICMP_ERRORS_V6)"
| "show_match (IcmpEcho f) =
     (if f = V4 then ''icmp type echo-request'' else ''icmpv6 type echo-request'')"
| "show_match (NfProto f) = ''meta nfproto '' @ nfproto f"
| "show_match RateLimit = ''limit rate 5/minute burst 10 packets''"

datatype verdict = VAccept | VDrop | VReject | VMasquerade | VLog

fun show_verdict :: "verdict \<Rightarrow> string" where
  "show_verdict VAccept = ''accept''"
| "show_verdict VDrop = ''drop''"
| "show_verdict VReject = ''reject''"
| "show_verdict VMasquerade = ''masquerade''"
| "show_verdict VLog = ''log prefix '' @ quoted ''fg-drop '' @ '' level info''"

fun terminal :: "verdict \<Rightarrow> bool" where
  "terminal v = (v \<noteq> VLog)"

fun verdict_of :: "action \<Rightarrow> verdict" where
  "verdict_of ACCEPT = VAccept"
| "verdict_of DROP = VDrop"
| "verdict_of REJECT = VReject"

record nft_rule =
  nr_matches :: "nft_match list"
  nr_counter :: bool
  nr_verdict :: verdict
  nr_comment :: "string option"

datatype item = Note string | Blank | Rule nft_rule

definition print_rule :: "nft_rule \<Rightarrow> string" where
  "print_rule r = INDENT2 @
     join '' '' (map show_match (nr_matches r) @
       (if nr_counter r then [''counter''] else []) @ [show_verdict (nr_verdict r)]) @
     (case nr_comment r of None \<Rightarrow> [] | Some c \<Rightarrow> '' comment '' @ quoted c)"

fun print_item :: "item \<Rightarrow> string" where
  "print_item (Note t) = INDENT2 @ ''# '' @ t"
| "print_item Blank = []"
| "print_item (Rule r) = print_rule r"

fun item_rules :: "item list \<Rightarrow> nft_rule list" where
  "item_rules [] = []"
| "item_rules (Rule r # is) = r # item_rules is"
| "item_rules (_ # is) = item_rules is"

text \<open>A chain's text: its opening line, its hook line, its items, its closing brace.\<close>

definition print_chain :: "string \<Rightarrow> string \<Rightarrow> item list \<Rightarrow> string list" where
  "print_chain name hook is =
     [INDENT @ ''chain '' @ name @ '' {'', INDENT2 @ hook] @ map print_item is @ [INDENT @ ''}'']"

text \<open>Rules with a counter and a comment, with a counter only, and bare.\<close>

definition counted :: "nft_match list \<Rightarrow> verdict \<Rightarrow> string \<Rightarrow> item" where
  "counted ms v c =
     Rule \<lparr>nr_matches = ms, nr_counter = True, nr_verdict = v, nr_comment = Some c\<rparr>"

definition plain_counted :: "nft_match list \<Rightarrow> verdict \<Rightarrow> item" where
  "plain_counted ms v =
     Rule \<lparr>nr_matches = ms, nr_counter = True, nr_verdict = v, nr_comment = None\<rparr>"

definition uncounted :: "nft_match list \<Rightarrow> verdict \<Rightarrow> string option \<Rightarrow> item" where
  "uncounted ms v c =
     Rule \<lparr>nr_matches = ms, nr_counter = False, nr_verdict = v, nr_comment = c\<rparr>"

lemmas item_defs = counted_def plain_counted_def uncounted_def

lemma item_rules_append [simp]: "item_rules (xs @ ys) = item_rules xs @ item_rules ys"
  by (induction xs rule: item_rules.induct) auto

lemma item_rules_concat: "item_rules (concat xss) = concat (map item_rules xss)"
  by (induction xss) auto

section \<open>First match\<close>

type_synonym packet = "nft_match \<Rightarrow> bool"

definition rule_hits :: "packet \<Rightarrow> nft_rule \<Rightarrow> bool" where
  "rule_hits m r \<longleftrightarrow> list_all m (nr_matches r) \<and> terminal (nr_verdict r)"

text \<open>The contract of the kernel's chain evaluation.\<close>

locale first_match =
  fixes eval :: "packet \<Rightarrow> nft_rule list \<Rightarrow> verdict"
  assumes eval_policy: "eval m [] = VAccept"
    and eval_hit: "rule_hits m r \<Longrightarrow> eval m (r # rs) = nr_verdict r"
    and eval_skip: "\<not> rule_hits m r \<Longrightarrow> eval m (r # rs) = eval m rs"
begin

lemma eval_append:
  "eval m (rs @ ss) =
     (case find (rule_hits m) rs of None \<Rightarrow> eval m ss | Some r \<Rightarrow> nr_verdict r)"
proof (induction rs)
  case (Cons r rs)
  then show ?case by (cases "rule_hits m r") (simp_all add: eval_hit eval_skip)
qed simp

lemma eval_find:
  "eval m rs = (case find (rule_hits m) rs of None \<Rightarrow> VAccept | Some r \<Rightarrow> nr_verdict r)"
  by (metis append_Nil2 eval_append eval_policy)

lemma eval_none: "\<forall>r\<in>set rs. \<not> rule_hits m r \<Longrightarrow> eval m (rs @ ss) = eval m ss"
  by (induction rs) (simp_all add: eval_skip)

lemma eval_uniform:
  assumes "\<forall>r\<in>set rs. rule_hits m r \<longrightarrow> nr_verdict r = v"
  shows "eval m (rs @ ss) = (if \<exists>r\<in>set rs. rule_hits m r then v else eval m ss)"
  using assms
proof (induction rs)
  case (Cons r rs)
  then show ?case by (cases "rule_hits m r") (simp_all add: eval_hit eval_skip)
qed simp

lemma eval_cons:
  "eval m (r # rs) = (if rule_hits m r then nr_verdict r else eval m rs)"
  by (simp add: eval_hit eval_skip)

end

fun chain_verdict :: "packet \<Rightarrow> nft_rule list \<Rightarrow> verdict" where
  "chain_verdict m [] = VAccept"
| "chain_verdict m (r # rs) = (if rule_hits m r then nr_verdict r else chain_verdict m rs)"

interpretation fm: first_match chain_verdict
  by unfold_locales auto

section \<open>The rules of the input chain\<close>

definition portal_match :: "gateway_spec \<Rightarrow> family \<Rightarrow> nft_match list option" where
  "portal_match gw f =
     (if gw_portal_addresses gw = [] then Some []
      else map_option (\<lambda>a. [DaddrIs f a])
        (find (\<lambda>a. map_option ip_version (ip_address a) = Some (family_version f))
          (gw_portal_addresses gw)))"

definition quarantine_accepts :: "gateway_spec \<Rightarrow> item list" where
  "quarantine_accepts gw =
     map (\<lambda>f. case portal_match gw f of
         None \<Rightarrow> Note (''no '' @ addr_kw f @ '' portal address: a quarantined '' @ addr_kw f
             @ '' peer has nowhere to authenticate'')
       | Some ms \<Rightarrow> counted ([SaddrIn f (quarantine_set_name f)] @ ms @
             [Dport TCP (gw_portal_port gw) None]) VAccept ''fg:quarantine-portal'') FAMILIES @
     (if gw_allow_dns_in_quarantine gw then concat (map (\<lambda>f.
         [counted [SaddrIn f (quarantine_set_name f), Dport UDP 53 None] VAccept
            ''fg:quarantine-dns'',
          counted [SaddrIn f (quarantine_set_name f), Dport TCP 53 None] VAccept
            ''fg:quarantine-dns'']) FAMILIES) else []) @
     (if gw_allow_icmp_to_gateway gw then
        map (\<lambda>f. counted [SaddrIn f (quarantine_set_name f), IcmpEcho f] VAccept
          ''fg:quarantine-ping'') FAMILIES else [])"

definition quarantine_drops :: "item list" where
  "quarantine_drops =
     map (\<lambda>f. counted [SaddrIn f (quarantine_set_name f)] VDrop ''fg:quarantine-deny'') FAMILIES"

definition quarantine_items :: "gateway_spec \<Rightarrow> item list" where
  "quarantine_items gw = quarantine_accepts gw @ quarantine_drops"

definition restricted_accepts :: "gateway_spec \<Rightarrow> item list" where
  "restricted_accepts gw =
     [Note ''--- active peers: gateway services are restricted ---''] @
     (if gw_portal_addresses gw \<noteq> [] then concat (map (\<lambda>f. case portal_match gw f of
         None \<Rightarrow> []
       | Some ms \<Rightarrow> [counted (ms @ [Dport TCP (gw_portal_port gw) None]) VAccept ''fg:portal''])
         FAMILIES)
      else [counted [Dport TCP (gw_portal_port gw) None] VAccept ''fg:portal'']) @
     (if gw_allow_dns_in_quarantine gw then
        [counted [Dport UDP 53 None] VAccept ''fg:dns'',
         counted [Dport TCP 53 None] VAccept ''fg:dns''] else []) @
     (if gw_allow_icmp_to_gateway gw then
        map (\<lambda>f. counted [IcmpEcho f] VAccept ''fg:ping'') FAMILIES else []) @
     map (\<lambda>p. counted [Dport TCP p None] VAccept ''fg:proxy'') (gw_proxy_ports gw)"

definition restricted_items :: "gateway_spec \<Rightarrow> item list" where
  "restricted_items gw = restricted_accepts gw @ [counted [] VDrop ''fg:gateway-input-deny'']"

definition input_items :: "ruleset_spec \<Rightarrow> item list" where
  "input_items spec =
     (let gw = sp_gateway spec in
     [Blank,
      Note ''Foxguard only governs traffic arriving from the tunnel.'',
      Note ''Accepting here means 'no opinion': other tables still filter.'',
      uncounted [IifNeq (gw_wg_interface gw)] VAccept None,
      plain_counted [CtInvalid] VDrop,
      Blank,
      Note ''--- staging / quarantined peers: captive portal only ---'',
      Note ''Deliberately evaluated BEFORE the established/related accept:'',
      Note ''moving a peer to quarantine (session expiry, kill switch) must'',
      Note ''cut its open flows immediately, not only its new ones.''] @
     quarantine_items gw @
     [Blank,
      Note ''--- below this point, only non-confined peers are left ---'',
      plain_counted [CtEstablished] VAccept,
      Note ''ICMP errors must pass or PMTU discovery black-holes.'',
      plain_counted [IcmpError V4] VAccept,
      plain_counted [IcmpError V6] VAccept,
      Blank] @
     (if gw_gateway_input_policy gw = RESTRICTED then restricted_items gw
      else [Note ''--- active peers: gateway-local services left to the host firewall ---'',
            uncounted [] VAccept (Some ''fg:gateway-input-open'')]))"

section \<open>The rules of the forward and postrouting chains\<close>

text \<open>The match expressions of an endpoint; \<open>None\<close> where it excludes the family.\<close>

definition endpoint_items :: "endpoint \<Rightarrow> side \<Rightarrow> family \<Rightarrow> nft_match list option" where
  "endpoint_items ep sd f =
     (case ep_kind ep of
        KANY \<Rightarrow> Some []
      | KGROUP \<Rightarrow> (let n = group_set_name (the (ep_group_slug ep)) f
                   in Some [if sd = Src then SaddrIn f n else DaddrIn f n])
      | KZONE \<Rightarrow> (let n = zone_set_name (the (ep_zone_slug ep)) f
                   in Some [if sd = Src then SaddrIn f n else DaddrIn f n])
      | KCIDR \<Rightarrow>
          (let n = the (ip_network (the (ep_cidr ep))) in
           if net_version n \<noteq> family_version f then None
           else Some [if sd = Src then SaddrNet f (show_net n) else DaddrNet f (show_net n)]))"

definition protocol_items :: "rule_spec \<Rightarrow> family \<Rightarrow> nft_match list" where
  "protocol_items r f =
     (case rs_protocol r of
        PANY \<Rightarrow> []
      | ICMP \<Rightarrow> [L4Proto (if f = V4 then ''icmp'' else ''ipv6-icmp'')]
      | p \<Rightarrow> (case rs_dst_port_start r of
           None \<Rightarrow> [L4Proto (protocol_value p)]
         | Some s \<Rightarrow> [Dport p s (if rs_dst_port_end r = Some s then None else rs_dst_port_end r)]))"

definition acl_matches :: "rule_spec \<Rightarrow> family \<Rightarrow> nft_match list option" where
  "acl_matches r f =
     (case endpoint_items (rs_src r) Src f of None \<Rightarrow> None | Some s \<Rightarrow>
     (case endpoint_items (rs_dst r) Dst f of None \<Rightarrow> None | Some d \<Rightarrow>
       (let ms = s @ d @ protocol_items r f in Some (if ms = [] then [NfProto f] else ms))))"

definition acl_rule :: "rule_spec \<Rightarrow> nft_match list \<Rightarrow> nft_rule" where
  "acl_rule r ms = \<lparr>nr_matches = ms, nr_counter = True, nr_verdict = verdict_of (rs_action r),
     nr_comment = Some (sanitize_comment (Some (acl_comment r)))\<rparr>"

definition acl_items :: "ruleset_spec \<Rightarrow> item list" where
  "acl_items spec =
     concat (map (\<lambda>r. concat (map (\<lambda>f. case acl_matches r f of None \<Rightarrow> []
        | Some ms \<Rightarrow> [Rule (acl_rule r ms)]) FAMILIES))
       (sort_key sort_key_rule (sp_rules spec)))"

definition intra_zone_items :: "ruleset_spec \<Rightarrow> item list" where
  "intra_zone_items spec =
     (let zones = filter zs_intra_zone (sort_key zs_slug (sp_zones spec)) in
      if zones = [] then []
      else [Note ''--- intra-zone traffic (opt-in, per zone) ---'',
            Note ''After the ACL rules on purpose: an explicit drop above still'',
            Note ''carves a subset out of a zone that talks to itself.''] @
        concat (map (\<lambda>z. map (\<lambda>f. let name = zone_set_name (zs_slug z) f in
            counted [SaddrIn f name, DaddrIn f name] VAccept (''fg:intra-zone:'' @ zs_slug z))
          FAMILIES) zones) @ [Blank])"

definition exit_items :: "ruleset_spec \<Rightarrow> item list" where
  "exit_items spec =
     (if exit_sources spec = [] then []
      else [Note ''--- internet exit (never a shortcut into internal networks) ---''] @
        concat (map (\<lambda>(slug, naming). map (\<lambda>f.
            counted [SaddrIn f (naming slug f), DaddrNotIn f (internal_set_name f),
              OifEq (show_opt (gw_wan_interface (sp_gateway spec)))] VAccept
              (''fg:internet-exit:'' @ slug)) FAMILIES) (exit_sources spec)) @ [Blank])"

definition forward_items :: "ruleset_spec \<Rightarrow> item list" where
  "forward_items spec =
     (let gw = sp_gateway spec; wg = gw_wg_interface gw in
     [Blank,
      Note ''Traffic that neither enters nor leaves the tunnel is none of'',
      Note ''our business -- never break unrelated routing on this box.'',
      uncounted [IifNeq wg, OifNeq wg] VAccept (Some ''fg:foreign-traffic''),
      plain_counted [CtInvalid] VDrop,
      Blank,
      Note ''--- staging / quarantined peers never transit the gateway ---'',
      Note ''Before the established/related accept on purpose: quarantining'',
      Note ''a peer must tear its open flows down, not just block new ones.''] @
     concat (map (\<lambda>f.
       [counted [SaddrIn f (quarantine_set_name f)] VDrop ''fg:quarantine-no-forward'',
        counted [DaddrIn f (quarantine_set_name f)] VDrop ''fg:quarantine-unreachable'']) FAMILIES) @
     [Blank,
      Note ''--- below this point, only non-confined peers are left ---'',
      counted [CtEstablished] VAccept ''fg:no-reset-on-reload'',
      plain_counted [IcmpError V4] VAccept,
      plain_counted [IcmpError V6] VAccept,
      Blank,
      Note ''--- ACL policy rules (priority asc, then rule id) ---''] @
     (if acl_items spec = [] then [Note ''(no ACL rules defined)''] else acl_items spec) @
     [Blank] @
     intra_zone_items spec @
     exit_items spec @
     (if gw_log_dropped gw then [uncounted [RateLimit] VLog None] else []) @
     [counted [] VDrop ''fg:default-deny''])"

definition nat_items :: "ruleset_spec \<Rightarrow> item list" where
  "nat_items spec =
     concat (map (\<lambda>(slug, naming). map (\<lambda>f.
       counted [SaddrIn f (naming slug f),
         OifEq (show_opt (gw_wan_interface (sp_gateway spec)))] VMasquerade (''fg:nat:'' @ slug))
       FAMILIES) (exit_sources spec))"

end
