(* ===== verification/NftValid.thy ===== *)
theory NftValid
  imports NftValidate
begin

text \<open>
  What \<open>validate_spec\<close> establishes. \<open>spec_ok\<close> is the declarative reading of the checks,
  with no loop, no accumulator and no dictionary; the lemmas take the loops one by one and
  the theorem says that the code raises nothing exactly on the specs that satisfy it.
\<close>

section \<open>The declarative reading\<close>

definition gateway_ok :: "gateway_spec \<Rightarrow> bool" where
  "gateway_ok gw \<longleftrightarrow>
     TABLE_RE (gw_table_name gw) \<and> IFACE_RE (gw_wg_interface gw) \<and>
     (\<forall>w. gw_wan_interface gw = Some w \<longrightarrow> IFACE_RE w) \<and>
     port_in_range (gw_portal_port gw) \<and>
     (\<forall>a\<in>set (gw_portal_addresses gw). ip_address a \<noteq> None) \<and>
     distinct (map (\<lambda>a. ip_version (the (ip_address a))) (gw_portal_addresses gw)) \<and>
     (\<forall>c\<in>set (gw_internal_cidrs gw). ip_network c \<noteq> None)"

text \<open>Slugs of one namespace: well formed, distinct, and distinct once hyphens are folded.\<close>

definition slugs_ok :: "(string \<Rightarrow> family \<Rightarrow> string) \<Rightarrow> string list \<Rightarrow> bool" where
  "slugs_ok naming slugs \<longleftrightarrow>
     (\<forall>s\<in>set slugs. SLUG_RE s) \<and> distinct slugs \<and> inj_on (\<lambda>s. naming s V4) (set slugs)"

definition routes_ok :: "route_spec list \<Rightarrow> bool" where
  "routes_ok rs \<longleftrightarrow>
     (\<forall>r\<in>set rs. \<exists>n. ip_network (rt_cidr r) = Some n \<and> prefixlen n \<noteq> 0) \<and>
     distinct (map (\<lambda>r. show_net (the (ip_network (rt_cidr r)))) rs)"

text \<open>The routed networks with their carriers, over every zone.\<close>

definition carried :: "route_spec list \<Rightarrow> (string \<times> string) list" where
  "carried rs = concat (map (\<lambda>r. case (rt_via_peer_id r, ip_network (rt_cidr r)) of
     (Some p, Some n) \<Rightarrow> [(show_net n, p)] | _ \<Rightarrow> []) rs)"

definition endpoint_ok :: "endpoint \<Rightarrow> string set \<Rightarrow> string set \<Rightarrow> bool" where
  "endpoint_ok ep known_groups known_zones \<longleftrightarrow>
     (ep_kind ep = KGROUP \<longrightarrow> (\<exists>s\<in>known_groups. ep_group_slug ep = Some s \<and> s \<noteq> [])) \<and>
     (ep_kind ep = KZONE \<longrightarrow> (\<exists>s\<in>known_zones. ep_zone_slug ep = Some s \<and> s \<noteq> [])) \<and>
     (ep_kind ep = KCIDR \<longrightarrow> (\<exists>c. ep_cidr ep = Some c \<and> c \<noteq> [] \<and> ip_network c \<noteq> None))"

definition ports_ok :: "rule_spec \<Rightarrow> bool" where
  "ports_ok r \<longleftrightarrow>
     (rs_dst_port_start r = None \<and> rs_dst_port_end r = None) \<or>
     (supports_ports (rs_protocol r) \<and> (\<exists>s. rs_dst_port_start r = Some s \<and> port_in_range s \<and>
        (\<forall>e. rs_dst_port_end r = Some e \<longrightarrow> port_in_range e \<and> s \<le> e)))"

definition rules_ok :: "string set \<Rightarrow> string set \<Rightarrow> rule_spec list \<Rightarrow> bool" where
  "rules_ok known_groups known_zones rs \<longleftrightarrow>
     (\<forall>r\<in>set rs. RULE_ID_RE (rs_id r) \<and> endpoint_ok (rs_src r) known_groups known_zones \<and>
        endpoint_ok (rs_dst r) known_groups known_zones \<and> ports_ok r) \<and>
     distinct (map rs_id rs)"

definition peer_ok :: "string set \<Rightarrow> string set \<Rightarrow> peer_spec \<Rightarrow> bool" where
  "peer_ok known_groups known_zones p \<longleftrightarrow>
     set (ps_group_slugs p) \<subseteq> known_groups \<and>
     (\<forall>z. ps_zone_slug p = Some z \<longrightarrow> z \<in> known_zones) \<and>
     (\<forall>f. \<forall>a\<in>set (addresses p f). \<exists>x. ip_address a = Some x \<and> ip_version x = family_version f) \<and>
     (is_active (ps_state p) \<longrightarrow> truthy (ps_tunnel_ip p) \<or> truthy (ps_tunnel_ip6 p))"

definition peers_ok :: "string set \<Rightarrow> string set \<Rightarrow> peer_spec list \<Rightarrow> bool" where
  "peers_ok known_groups known_zones ps \<longleftrightarrow>
     (\<forall>p\<in>set ps. peer_ok known_groups known_zones p) \<and>
     distinct (map ps_id ps) \<and>
     (\<forall>p\<in>set ps. \<forall>q\<in>set ps. \<forall>f g a. a \<in> set (addresses p f) \<and> a \<in> set (addresses q g)
        \<longrightarrow> ps_id p = ps_id q)"

definition spec_ok :: "ruleset_spec \<Rightarrow> bool" where
  "spec_ok spec \<longleftrightarrow>
     (let gw = sp_gateway spec; groups = sp_groups spec; zones = sp_zones spec;
          wan = truthy (gw_wan_interface gw);
          kg = spec_group_slugs spec; kz = spec_zone_slugs spec;
          cs = carried (all_routes zones)
      in gateway_ok gw \<and>
         slugs_ok group_set_name (map gs_slug groups) \<and>
         (\<forall>g\<in>set groups. gs_internet_exit g \<longrightarrow> wan) \<and>
         slugs_ok zone_set_name (map zs_slug zones) \<and>
         (\<forall>z\<in>set zones. (zs_internet_exit z \<longrightarrow> wan) \<and> routes_ok (zs_routes z)) \<and>
         (\<forall>c p q. (c, p) \<in> set cs \<and> (c, q) \<in> set cs \<longrightarrow> p = q) \<and>
         kg \<inter> kz = {} \<and>
         peers_ok kg kz (sp_peers spec) \<and>
         (\<forall>(c, p)\<in>set cs. p \<in> set (map ps_id (sp_peers spec))) \<and>
         rules_ok kg kz (sp_rules spec))"

section \<open>Dictionaries that record who took a name\<close>

text \<open>\<open>names\<close> maps exactly the names \<open>N s\<close> of the \<open>s\<close> seen so far to their \<open>s\<close>.\<close>

definition tracks :: "('s \<Rightarrow> 'n) \<Rightarrow> 's set \<Rightarrow> ('n \<rightharpoonup> 's) \<Rightarrow> bool" where
  "tracks N seen names \<longleftrightarrow>
     (\<forall>s\<in>seen. names (N s) = Some s) \<and> (\<forall>n s. names n = Some s \<longrightarrow> s \<in> seen \<and> N s = n)"

lemma tracks_empty [simp]: "tracks N {} Map.empty"
  by (simp add: tracks_def)

lemma tracks_None: "tracks N seen names \<Longrightarrow> names n = None \<Longrightarrow> t \<in> seen \<Longrightarrow> N t \<noteq> n"
  unfolding tracks_def by force

lemma tracks_Some:
  "tracks N seen names \<Longrightarrow> names n = Some c \<Longrightarrow> t \<in> seen \<Longrightarrow> N t = n \<longleftrightarrow> t = c"
  unfolding tracks_def by force

lemma tracks_SomeD: "tracks N seen names \<Longrightarrow> names n = Some c \<Longrightarrow> c \<in> seen \<and> N c = n"
  unfolding tracks_def by force

lemma tracks_clash:
  assumes "tracks N seen names"
  shows "(case names (N s) of None \<Rightarrow> [] | Some c \<Rightarrow> if c \<noteq> s then [e c] else []) = [] \<longleftrightarrow>
     (\<forall>t\<in>seen. N t = N s \<longrightarrow> t = s)"
proof (cases "names (N s)")
  case None
  then show ?thesis using tracks_None [OF assms] by simp
next
  case (Some c)
  then show ?thesis using tracks_Some [OF assms Some] tracks_SomeD [OF assms Some] by auto
qed

lemma tracks_insert:
  "tracks N seen names \<Longrightarrow> \<forall>t\<in>seen. N t = N s \<longrightarrow> t = s \<Longrightarrow>
     tracks N (insert s seen) (names(N s \<mapsto> s))"
  by (auto simp: tracks_def)

lemma tracks_inj:
  assumes "tracks N seen names" shows "inj_on N seen"
proof (rule inj_onI)
  fix s t assume st: "s \<in> seen" "t \<in> seen" "N s = N t"
  have "names (N s) = Some s" using st(1) assms by (simp add: tracks_def)
  moreover have "names (N t) = Some t" using st(2) assms by (simp add: tracks_def)
  ultimately show "s = t" using st(3) by (metis option.inject)
qed

section \<open>The loops\<close>

lemma check_portal_addresses_iff:
  "check_portal_addresses seen as = [] \<longleftrightarrow>
     (\<forall>a\<in>set as. ip_address a \<noteq> None) \<and>
     distinct (map (\<lambda>a. ip_version (the (ip_address a))) as) \<and>
     (\<lambda>a. ip_version (the (ip_address a))) ` set as \<inter> seen = {}"
  by (induction as arbitrary: seen) (auto split: option.splits)

lemma check_cidrs_iff:
  "concat (map (\<lambda>c. check_cidr c l) cs) = [] \<longleftrightarrow> (\<forall>c\<in>set cs. ip_network c \<noteq> None)"
  by (induction cs) (auto simp: check_cidr_def)

lemma validate_wan_iff:
  "(case w of None \<Rightarrow> [] | Some x \<Rightarrow> if \<not> IFACE_RE x then [BadWanInterface x] else []) = [] \<longleftrightarrow>
     (\<forall>x. w = Some x \<longrightarrow> IFACE_RE x)"
  by (cases w) auto

lemma if_Nil_iff: "(if b then [x] else []) = [] \<longleftrightarrow> \<not> b"
  by simp

lemma validate_gateway_iff: "validate_gateway gw = [] \<longleftrightarrow> gateway_ok gw"
  unfolding validate_gateway_def gateway_ok_def append_is_Nil_conv check_cidrs_iff
    check_portal_addresses_iff validate_wan_iff if_Nil_iff
  by simp

text \<open>The step both naming loops take: a fresh slug whose name no other slug has.\<close>

lemma fresh_name_step:
  assumes "inj_on N seen"
  shows "s \<notin> seen \<and> (\<forall>t\<in>seen. N t = N s \<longrightarrow> t = s) \<and> distinct ss \<and>
      set ss \<inter> insert s seen = {} \<and> inj_on N (insert s seen \<union> set ss) \<longleftrightarrow>
    distinct (s # ss) \<and> set (s # ss) \<inter> seen = {} \<and> inj_on N (seen \<union> set (s # ss))"
proof -
  have "inj_on N (seen \<union> insert s (set ss)) \<Longrightarrow> \<forall>t\<in>seen. N t = N s \<longrightarrow> t = s"
    by (auto simp: inj_on_def)
  then show ?thesis by auto
qed

lemma validate_groups_iff:
  assumes "tracks (\<lambda>s. group_set_name s V4) seen names"
  shows "validate_groups wan seen names gs = [] \<longleftrightarrow>
     (\<forall>g\<in>set gs. SLUG_RE (gs_slug g) \<and> (gs_internet_exit g \<longrightarrow> wan)) \<and>
     distinct (map gs_slug gs) \<and> set (map gs_slug gs) \<inter> seen = {} \<and>
     inj_on (\<lambda>s. group_set_name s V4) (seen \<union> set (map gs_slug gs))"
  using assms
proof (induction gs arbitrary: seen names)
  case Nil
  then show ?case by (simp add: tracks_inj)
next
  case (Cons g gs)
  let ?N = "\<lambda>s. group_set_name s V4" and ?s = "gs_slug g" and ?ss = "map gs_slug gs"
  let ?fresh = "?s \<notin> seen \<and> (\<forall>t\<in>seen. ?N t = ?N ?s \<longrightarrow> t = ?s)"
  have step: "validate_groups wan seen names (g # gs) = [] \<longleftrightarrow>
      SLUG_RE ?s \<and> (gs_internet_exit g \<longrightarrow> wan) \<and> ?fresh \<and>
      validate_groups wan (insert ?s seen) (names(?N ?s \<mapsto> ?s)) gs = []"
    unfolding validate_groups.simps Let_def append_is_Nil_conv if_Nil_iff
      tracks_clash [OF Cons.prems]  by blast
  have "validate_groups wan (insert ?s seen) (names(?N ?s \<mapsto> ?s)) gs = [] \<longleftrightarrow>
     (\<forall>g\<in>set gs. SLUG_RE (gs_slug g) \<and> (gs_internet_exit g \<longrightarrow> wan)) \<and>
     distinct ?ss \<and> set ?ss \<inter> insert ?s seen = {} \<and> inj_on ?N (insert ?s seen \<union> set ?ss)" if ?fresh
    using Cons.IH [OF tracks_insert [OF Cons.prems]] that by blast
  then have "validate_groups wan seen names (g # gs) = [] \<longleftrightarrow>
     (\<forall>x\<in>set (g # gs). SLUG_RE (gs_slug x) \<and> (gs_internet_exit x \<longrightarrow> wan)) \<and>
     (?fresh \<and> distinct ?ss \<and> set ?ss \<inter> insert ?s seen = {} \<and> inj_on ?N (insert ?s seen \<union> set ?ss))"
    unfolding step by auto
  also have "\<dots> \<longleftrightarrow> (\<forall>x\<in>set (g # gs). SLUG_RE (gs_slug x) \<and> (gs_internet_exit x \<longrightarrow> wan)) \<and>
     (distinct (?s # ?ss) \<and> set (?s # ?ss) \<inter> seen = {} \<and> inj_on ?N (seen \<union> set (?s # ?ss)))"
    using fresh_name_step [OF tracks_inj [OF Cons.prems], of ?s ?ss] by (simp only: conj_assoc)
  finally show ?case by simp
qed

lemma validate_routes_iff:
  "validate_routes z seen rs = [] \<longleftrightarrow>
     (\<forall>r\<in>set rs. \<exists>n. ip_network (rt_cidr r) = Some n \<and> prefixlen n \<noteq> 0) \<and>
     distinct (map (\<lambda>r. show_net (the (ip_network (rt_cidr r)))) rs) \<and>
     (\<lambda>r. show_net (the (ip_network (rt_cidr r)))) ` set rs \<inter> seen = {}"
  by (induction rs arbitrary: seen) (auto simp: Let_def split: option.splits)

lemma validate_routes_ok: "validate_routes z {} rs = [] \<longleftrightarrow> routes_ok rs"
  by (simp add: validate_routes_iff routes_ok_def)

lemma validate_zones_iff:
  assumes "tracks (\<lambda>s. zone_set_name s V4) seen names"
  shows "validate_zones wan seen names zs = [] \<longleftrightarrow>
     (\<forall>z\<in>set zs. SLUG_RE (zs_slug z) \<and> (zs_internet_exit z \<longrightarrow> wan) \<and> routes_ok (zs_routes z)) \<and>
     distinct (map zs_slug zs) \<and> set (map zs_slug zs) \<inter> seen = {} \<and>
     inj_on (\<lambda>s. zone_set_name s V4) (seen \<union> set (map zs_slug zs))"
  using assms
proof (induction zs arbitrary: seen names)
  case Nil
  then show ?case by (simp add: tracks_inj)
next
  case (Cons z zs)
  let ?N = "\<lambda>s. zone_set_name s V4" and ?s = "zs_slug z" and ?ss = "map zs_slug zs"
  let ?fresh = "?s \<notin> seen \<and> (\<forall>t\<in>seen. ?N t = ?N ?s \<longrightarrow> t = ?s)"
  have step: "validate_zones wan seen names (z # zs) = [] \<longleftrightarrow>
      SLUG_RE ?s \<and> (zs_internet_exit z \<longrightarrow> wan) \<and> routes_ok (zs_routes z) \<and> ?fresh \<and>
      validate_zones wan (insert ?s seen) (names(?N ?s \<mapsto> ?s)) zs = []"
    unfolding validate_zones.simps Let_def append_is_Nil_conv if_Nil_iff
      tracks_clash [OF Cons.prems] validate_routes_ok by blast
  have "validate_zones wan (insert ?s seen) (names(?N ?s \<mapsto> ?s)) zs = [] \<longleftrightarrow>
     (\<forall>z\<in>set zs. SLUG_RE (zs_slug z) \<and> (zs_internet_exit z \<longrightarrow> wan) \<and> routes_ok (zs_routes z)) \<and>
     distinct ?ss \<and> set ?ss \<inter> insert ?s seen = {} \<and> inj_on ?N (insert ?s seen \<union> set ?ss)" if ?fresh
    using Cons.IH [OF tracks_insert [OF Cons.prems]] that by blast
  then have "validate_zones wan seen names (z # zs) = [] \<longleftrightarrow>
     (\<forall>x\<in>set (z # zs). SLUG_RE (zs_slug x) \<and> (zs_internet_exit x \<longrightarrow> wan) \<and> routes_ok (zs_routes x)) \<and>
     (?fresh \<and> distinct ?ss \<and> set ?ss \<inter> insert ?s seen = {} \<and> inj_on ?N (insert ?s seen \<union> set ?ss))"
    unfolding step by auto
  also have "\<dots> \<longleftrightarrow> (\<forall>x\<in>set (z # zs). SLUG_RE (zs_slug x) \<and> (zs_internet_exit x \<longrightarrow> wan) \<and> routes_ok (zs_routes x)) \<and>
     (distinct (?s # ?ss) \<and> set (?s # ?ss) \<inter> seen = {} \<and> inj_on ?N (seen \<union> set (?s # ?ss)))"
    using fresh_name_step [OF tracks_inj [OF Cons.prems], of ?s ?ss] by (simp only: conj_assoc)
  finally show ?case by simp
qed

section \<open>Carriers, addresses, peers, rules\<close>

lemma carried_Cons:
  "carried (r # rs) = (case (rt_via_peer_id r, ip_network (rt_cidr r)) of
     (Some p, Some n) \<Rightarrow> [(show_net n, p)] | _ \<Rightarrow> []) @ carried rs"
  by (simp add: carried_def)

text \<open>The loop only looks at the pairs that \<open>carried\<close> lists.\<close>

fun carrier_loop ::
  "(string \<times> string) list \<Rightarrow> (string \<times> string) list \<Rightarrow> ruleset_error list \<times> (string \<times> string) list" where
  "carrier_loop cs [] = ([], cs)"
| "carrier_loop cs ((c, p) # ps) =
     (let errs = (case map_of cs c of None \<Rightarrow> []
        | Some q \<Rightarrow> if q \<noteq> p then [TwoCarriers c q p] else []);
          rest = carrier_loop (AList.update c p cs) ps
      in (errs @ fst rest, snd rest))"

lemma validate_carriers_loop: "validate_carriers cs rs = carrier_loop cs (carried rs)"
proof (induction rs arbitrary: cs)
  case (Cons r rs)
  then show ?case
    by (cases "rt_via_peer_id r"; cases "ip_network (rt_cidr r)")
      (simp_all add: carried_Cons Let_def del: AList.update.simps)
qed (simp add: carried_def)

lemma carrier_loop_iff:
  "fst (carrier_loop cs ps) = [] \<longleftrightarrow>
     (\<forall>c p q. (c, p) \<in> set ps \<and> ((c, q) \<in> set ps \<or> map_of cs c = Some q) \<longrightarrow> p = q)"
proof (induction ps arbitrary: cs)
  case (Cons x ps)
  obtain c p where x: "x = (c, p)" by (cases x)
  have upd: "map_of (AList.update c p cs) d = Some q \<longleftrightarrow>
      (if d = c then p = q else map_of cs d = Some q)" for d q
    by (simp add: update_conv')
  have "fst (carrier_loop cs (x # ps)) = [] \<longleftrightarrow>
      (\<forall>q. map_of cs c = Some q \<longrightarrow> q = p) \<and> fst (carrier_loop (AList.update c p cs) ps) = []"
    by (cases "map_of cs c") (simp_all add: x Let_def)
  also have "\<dots> \<longleftrightarrow> (\<forall>q. map_of cs c = Some q \<longrightarrow> q = p) \<and>
      (\<forall>d r q. (d, r) \<in> set ps \<and> ((d, q) \<in> set ps \<or> (if d = c then p = q else map_of cs d = Some q))
        \<longrightarrow> r = q)"
    unfolding Cons.IH upd by (rule refl)
  also have "\<dots> \<longleftrightarrow> (\<forall>d r q. (d, r) \<in> set (x # ps) \<and>
      ((d, q) \<in> set (x # ps) \<or> map_of cs d = Some q) \<longrightarrow> r = q)"
    unfolding x list.set insert_iff prod.inject
  proof (rule iffI, goal_cases)
    case 1
    then have "\<forall>q. map_of cs c = Some q \<longrightarrow> q = p" by (rule conjunct1)
    moreover have "r = p" if "(c, r) \<in> set ps" for r
      using conjunct2 [OF 1, THEN spec, of c, THEN spec, of r, THEN spec, of p] that by simp
    ultimately have p: "r = p" if "(c, r) \<in> set ps \<or> map_of cs c = Some r" for r using that by blast
    show ?case
    proof (intro allI impI)
      fix d r q
      assume a: "((d = c \<and> r = p) \<or> (d, r) \<in> set ps) \<and>
        (((d = c \<and> q = p) \<or> (d, q) \<in> set ps) \<or> map_of cs d = Some q)"
      show "r = q"
      proof (cases "d = c")
        case True
        with a p show ?thesis by metis
      next
        case False
        then show ?thesis
          using conjunct2 [OF 1, THEN spec, of d, THEN spec, of r, THEN spec, of q] a by simp
      qed
    qed
  next
    case 2
    show ?case
    proof (intro conjI allI impI)
      fix q assume "map_of cs c = Some q"
      with 2 [THEN spec, of c, THEN spec, of p, THEN spec, of q] show "q = p" by simp
    next
      fix d r q
      assume "(d, r) \<in> set ps \<and>
        ((d, q) \<in> set ps \<or> (if d = c then p = q else map_of cs d = Some q))"
      with 2 [THEN spec, of d, THEN spec, of r, THEN spec, of q] show "r = q"
        by (cases "d = c") auto
    qed
  qed
  finally show ?case .
qed simp

lemma carrier_loop_keys:
  "fst ` set (snd (carrier_loop cs ps)) = fst ` set cs \<union> fst ` set ps"
  by (induction cs ps rule: carrier_loop.induct) (auto simp: Let_def dom_update)

lemma carrier_loop_distinct:
  "distinct (map fst cs) \<Longrightarrow> distinct (map fst (snd (carrier_loop cs ps)))"
  by (induction cs ps rule: carrier_loop.induct) (auto simp: Let_def distinct_update)

lemma carrier_loop_subset:
  "set (snd (carrier_loop cs ps)) \<subseteq> set cs \<union> set ps"
proof (induction cs ps rule: carrier_loop.induct)
  case (2 cs c p ps)
  have "set (AList.update c p cs) \<subseteq> insert (c, p) (set cs)"
    by (induction cs) auto
  with 2 show ?case by (auto simp: Let_def)
qed simp

text \<open>With no two carriers for one network, the dictionary is the list itself, as a set.\<close>

lemma carrier_loop_set:
  assumes "fst (carrier_loop [] ps) = []"
  shows "set (snd (carrier_loop [] ps)) = set ps"
proof
  show "set (snd (carrier_loop [] ps)) \<subseteq> set ps" using carrier_loop_subset [of "[]" ps] by simp
  show "set ps \<subseteq> set (snd (carrier_loop [] ps))"
  proof
    fix x assume x: "x \<in> set ps"
    then have "fst x \<in> fst ` set (snd (carrier_loop [] ps))" by (auto simp: carrier_loop_keys)
    then obtain q where q: "(fst x, q) \<in> set (snd (carrier_loop [] ps))" by auto
    then have "(fst x, q) \<in> set ps" using carrier_loop_subset [of "[]" ps] by auto
    with x assms have "q = snd x" unfolding carrier_loop_iff by (metis prod.collapse)
    with q show "x \<in> set (snd (carrier_loop [] ps))" by simp
  qed
qed

lemma validate_endpoint_iff:
  "validate_endpoint ep l kg kz = [] \<longleftrightarrow> endpoint_ok ep kg kz"
  by (cases "ep_kind ep")
    (auto simp: validate_endpoint_def endpoint_ok_def check_cidr_def truthy_iff)

lemma validate_ports_iff: "validate_ports r l = [] \<longleftrightarrow> ports_ok r"
  by (cases "rs_dst_port_start r"; cases "rs_dst_port_end r")
    (auto simp: validate_ports_def ports_ok_def)

lemma validate_rules_iff:
  "validate_rules kg kz seen rs = [] \<longleftrightarrow>
     rules_ok kg kz rs \<and> set (map rs_id rs) \<inter> seen = {}"
  by (induction rs arbitrary: seen)
    (auto simp: validate_rule_def rules_ok_def validate_endpoint_iff validate_ports_iff)

section \<open>Peers\<close>

definition addr_ok :: "family \<Rightarrow> string \<Rightarrow> bool" where
  "addr_ok f a \<longleftrightarrow> (\<exists>x. ip_address a = Some x \<and> ip_version x = family_version f)"

abbreviation peer_addrs :: "peer_spec \<Rightarrow> string set" where
  "peer_addrs p \<equiv> snd ` set (family_addresses p)"

lemma in_family_addresses: "(f, a) \<in> set (family_addresses p) \<longleftrightarrow> a \<in> set (addresses p f)"
  by (auto simp: family_addresses_def)

lemma in_peer_addrs: "a \<in> peer_addrs p \<longleftrightarrow> (\<exists>f. a \<in> set (addresses p f))"
  using in_family_addresses by force

lemma validate_addresses_step:
  "fst (validate_addresses pid seen ((f, a) # rest)) = [] \<longleftrightarrow>
     addr_ok f a \<and> (\<forall>q. seen a = Some q \<longrightarrow> q = pid) \<and>
     fst (validate_addresses pid (seen(a \<mapsto> pid)) rest) = []"
  by (cases "ip_address a"; cases "seen a") (simp_all add: Let_def addr_ok_def)

lemma validate_addresses_iff:
  "fst (validate_addresses pid seen fas) = [] \<longleftrightarrow>
     (\<forall>(f, a)\<in>set fas. addr_ok f a \<and> (\<forall>q. seen a = Some q \<longrightarrow> q = pid))"
proof (induction fas arbitrary: seen)
  case (Cons fa fas)
  obtain f a where fa: "fa = (f, a)" by (cases fa)
  show ?case unfolding fa validate_addresses_step Cons.IH by auto
qed simp

lemma validate_addresses_seen:
  "fst (validate_addresses pid seen fas) = [] \<Longrightarrow>
     snd (validate_addresses pid seen fas) = (\<lambda>a. if a \<in> snd ` set fas then Some pid else seen a)"
proof (induction fas arbitrary: seen)
  case (Cons fa fas)
  obtain f a where fa: "fa = (f, a)" by (cases fa)
  from Cons.prems have ok: "addr_ok f a" "fst (validate_addresses pid (seen(a \<mapsto> pid)) fas) = []"
    unfolding fa validate_addresses_step by simp_all
  then have eq: "snd (validate_addresses pid seen (fa # fas)) =
      snd (validate_addresses pid (seen(a \<mapsto> pid)) fas)"
    by (auto simp: fa addr_ok_def Let_def)
  show ?case unfolding eq Cons.IH [OF ok(2)] by (auto simp: fa fun_eq_iff)
qed simp

lemma concat_map_if_Nil: "concat (map (\<lambda>s. if P s then [g s] else []) xs) = [] \<longleftrightarrow> (\<forall>s\<in>set xs. \<not> P s)"
  by (induction xs) auto

lemma zone_check_Nil:
  "(case zs of None \<Rightarrow> [] | Some z \<Rightarrow> if P z then [g z] else []) = [] \<longleftrightarrow> (\<forall>z. zs = Some z \<longrightarrow> \<not> P z)"
  by (cases zs) auto

text \<open>What the addresses of later peers must respect: the owners recorded so far.\<close>

definition owners_respected :: "(string \<rightharpoonup> string) \<Rightarrow> peer_spec list \<Rightarrow> bool" where
  "owners_respected seen ps \<longleftrightarrow>
     (\<forall>p\<in>set ps. \<forall>a\<in>peer_addrs p. \<forall>q. seen a = Some q \<longrightarrow> q = ps_id p) \<and>
     (\<forall>p\<in>set ps. \<forall>q\<in>set ps. peer_addrs p \<inter> peer_addrs q \<noteq> {} \<longrightarrow> ps_id p = ps_id q)"

lemma owners_respected_Cons:
  "owners_respected seen (p # ps) \<longleftrightarrow>
     (\<forall>a\<in>peer_addrs p. \<forall>q. seen a = Some q \<longrightarrow> q = ps_id p) \<and>
     owners_respected (\<lambda>a. if a \<in> peer_addrs p then Some (ps_id p) else seen a) ps"
  (is "?lhs \<longleftrightarrow> ?own \<and> ?rest")
proof
  assume l: ?lhs
  then have o: ?own by (simp add: owners_respected_def)
  moreover have ?rest
    unfolding owners_respected_def
  proof (intro conjI ballI allI impI)
    fix x a q assume x: "x \<in> set ps" "a \<in> peer_addrs x"
      "(if a \<in> peer_addrs p then Some (ps_id p) else seen a) = Some q"
    show "q = ps_id x"
    proof (cases "a \<in> peer_addrs p")
      case True
      with x have "peer_addrs p \<inter> peer_addrs x \<noteq> {}" "q = ps_id p" by auto
      moreover have "p \<in> set (p # ps)" "x \<in> set (p # ps)" using x by simp_all
      ultimately show ?thesis using l unfolding owners_respected_def by metis
    next
      case False
      with x have "seen a = Some q" "x \<in> set (p # ps)" by simp_all
      with x(2) l show ?thesis unfolding owners_respected_def by metis
    qed
  next
    fix x y assume "x \<in> set ps" "y \<in> set ps" "peer_addrs x \<inter> peer_addrs y \<noteq> {}"
    with l show "ps_id x = ps_id y" unfolding owners_respected_def by simp
  qed
  ultimately show "?own \<and> ?rest" ..
next
  assume r: "?own \<and> ?rest"
  have respect: "q = ps_id x" if "x \<in> set ps" "a \<in> peer_addrs x"
      "(if a \<in> peer_addrs p then Some (ps_id p) else seen a) = Some q" for x a q
    using r that unfolding owners_respected_def by blast
  have shared: "ps_id p = ps_id x" if "x \<in> set ps" "peer_addrs p \<inter> peer_addrs x \<noteq> {}" for x
  proof -
    from that(2) obtain a where "a \<in> peer_addrs x" "a \<in> peer_addrs p" by blast
    with respect [OF that(1), of a "ps_id p"] show ?thesis by simp
  qed
  have own: "q = ps_id x" if "x \<in> set ps" "a \<in> peer_addrs x" "seen a = Some q" for x a q
  proof (cases "a \<in> peer_addrs p")
    case True
    then have "q = ps_id p" using r that(3) by blast
    moreover have "ps_id p = ps_id x" using shared that True by blast
    ultimately show ?thesis by simp
  next
    case False
    with respect [OF that(1,2)] that(3) show ?thesis by simp
  qed
  have pairs: "ps_id x = ps_id y"
    if "x \<in> set ps" "y \<in> set ps" "peer_addrs x \<inter> peer_addrs y \<noteq> {}" for x y
    using r that unfolding owners_respected_def by blast
  show ?lhs
    unfolding owners_respected_def
  proof (intro conjI ballI allI impI)
    fix x a q assume "x \<in> set (p # ps)" "a \<in> peer_addrs x" "seen a = Some q"
    then show "q = ps_id x" using r own by (cases "x = p") (blast, simp)
  next
    fix x y assume xy: "x \<in> set (p # ps)" "y \<in> set (p # ps)" "peer_addrs x \<inter> peer_addrs y \<noteq> {}"
    show "ps_id x = ps_id y"
    proof (cases "x = p"; cases "y = p")
      assume "x = p" "y \<noteq> p"
      with xy shared show ?thesis by simp
    next
      assume "x \<noteq> p" "y = p"
      with xy shared [of x] show ?thesis by (simp add: Int_commute)
    next
      assume "x \<noteq> p" "y \<noteq> p"
      with xy pairs show ?thesis by simp
    qed simp
  qed
qed

lemma validate_peers_iff:
  "validate_peers kg kz ids seen ps = [] \<longleftrightarrow>
     (\<forall>p\<in>set ps. peer_ok kg kz p) \<and> distinct (map ps_id ps) \<and>
     set (map ps_id ps) \<inter> ids = {} \<and> owners_respected seen ps"
proof (induction ps arbitrary: ids seen)
  case Nil
  then show ?case by (simp add: owners_respected_def)
next
  case (Cons p ps)
  let ?va = "validate_addresses (ps_id p) seen (family_addresses p)"
  let ?own = "\<forall>a\<in>peer_addrs p. \<forall>q. seen a = Some q \<longrightarrow> q = ps_id p"
  let ?addrs = "\<forall>f. \<forall>a\<in>set (addresses p f). addr_ok f a"
  have va: "fst ?va = [] \<longleftrightarrow> ?addrs \<and> ?own"
    unfolding validate_addresses_iff by (auto simp: in_family_addresses in_peer_addrs)
  have step: "validate_peers kg kz ids seen (p # ps) = [] \<longleftrightarrow>
      ps_id p \<notin> ids \<and> peer_ok kg kz p \<and> fst ?va = [] \<and>
      validate_peers kg kz (insert (ps_id p) ids) (snd ?va) ps = []"
    unfolding validate_peers.simps Let_def append_is_Nil_conv if_Nil_iff concat_map_if_Nil
      zone_check_Nil peer_ok_def va addr_ok_def by blast
  have rest: "fst ?va = [] \<Longrightarrow> validate_peers kg kz (insert (ps_id p) ids) (snd ?va) ps = [] \<longleftrightarrow>
      (\<forall>p\<in>set ps. peer_ok kg kz p) \<and> distinct (map ps_id ps) \<and>
      set (map ps_id ps) \<inter> insert (ps_id p) ids = {} \<and>
      owners_respected (\<lambda>a. if a \<in> peer_addrs p then Some (ps_id p) else seen a) ps"
    unfolding Cons.IH validate_addresses_seen ..
  have addrs: "peer_ok kg kz p \<Longrightarrow> ?addrs" by (simp add: peer_ok_def addr_ok_def)
  define R where
    "R = owners_respected (\<lambda>a. if a \<in> peer_addrs p then Some (ps_id p) else seen a) ps"
  have "validate_peers kg kz ids seen (p # ps) = [] \<longleftrightarrow>
      ps_id p \<notin> ids \<and> peer_ok kg kz p \<and> ?own \<and> (\<forall>p\<in>set ps. peer_ok kg kz p) \<and>
      distinct (map ps_id ps) \<and> set (map ps_id ps) \<inter> insert (ps_id p) ids = {} \<and> R"
    using step rest va addrs unfolding R_def by blast
  then show ?case unfolding owners_respected_Cons R_def [symmetric] by (auto simp del: image_iff)
qed

section \<open>The whole specification\<close>

lemma owners_respected_peers_ok:
  "(\<forall>p\<in>set ps. peer_ok kg kz p) \<and> distinct (map ps_id ps) \<and> owners_respected Map.empty ps \<longleftrightarrow>
     peers_ok kg kz ps"
proof -
  have "(\<forall>p\<in>set ps. \<forall>q\<in>set ps. peer_addrs p \<inter> peer_addrs q \<noteq> {} \<longrightarrow> ps_id p = ps_id q) \<longleftrightarrow>
      (\<forall>p\<in>set ps. \<forall>q\<in>set ps. \<forall>f g a. a \<in> set (addresses p f) \<and> a \<in> set (addresses q g)
        \<longrightarrow> ps_id p = ps_id q)"
    unfolding disjoint_iff in_peer_addrs by blast
  then show ?thesis unfolding peers_ok_def owners_respected_def by simp
qed

lemma shared_slugs_Nil:
  "map SharedSlug (filter (\<lambda>s. s \<in> B) (sort (remdups xs))) = [] \<longleftrightarrow> set xs \<inter> B = {}"
  by (auto simp: filter_empty_conv)

lemma unknown_carriers_Nil:
  "concat (map (\<lambda>(c, p). if p \<notin> ids then [UnknownCarrier c p] else []) (sort cs)) = [] \<longleftrightarrow>
     (\<forall>(c, p)\<in>set cs. p \<in> ids)"
  by (auto split: prod.splits if_splits)

lemma slugs_ok_iff:
  "slugs_ok N ss \<longleftrightarrow> (\<forall>s\<in>set ss. SLUG_RE s) \<and> distinct ss \<and> inj_on (\<lambda>s. N s V4) (set ss)"
  by (simp add: slugs_ok_def)

lemma validate_spec_iff: "validate_spec spec = [] \<longleftrightarrow> spec_ok spec"
proof -
  let ?cs = "carried (all_routes (sp_zones spec))"
  have cs: "fst (carrier_loop [] ?cs) = [] \<longleftrightarrow> (\<forall>c p q. (c, p) \<in> set ?cs \<and> (c, q) \<in> set ?cs \<longrightarrow> p = q)"
    unfolding carrier_loop_iff by simp
  have ids: "fst (carrier_loop [] ?cs) = [] \<Longrightarrow>
      (\<forall>(c, p)\<in>set (snd (carrier_loop [] ?cs)). p \<in> I) \<longleftrightarrow> (\<forall>(c, p)\<in>set ?cs. p \<in> I)" for I
    by (simp add: carrier_loop_set)
  have eqs: "validate_spec spec = [] \<longleftrightarrow>
      gateway_ok (sp_gateway spec) \<and>
      slugs_ok group_set_name (map gs_slug (sp_groups spec)) \<and>
      (\<forall>g\<in>set (sp_groups spec). gs_internet_exit g \<longrightarrow> truthy (gw_wan_interface (sp_gateway spec))) \<and>
      slugs_ok zone_set_name (map zs_slug (sp_zones spec)) \<and>
      (\<forall>z\<in>set (sp_zones spec). (zs_internet_exit z \<longrightarrow>
        truthy (gw_wan_interface (sp_gateway spec))) \<and> routes_ok (zs_routes z)) \<and>
      fst (carrier_loop [] ?cs) = [] \<and>
      spec_group_slugs spec \<inter> spec_zone_slugs spec = {} \<and>
      peers_ok (spec_group_slugs spec) (spec_zone_slugs spec) (sp_peers spec) \<and>
      (\<forall>(c, p)\<in>set (snd (carrier_loop [] ?cs)). p \<in> set (map ps_id (sp_peers spec))) \<and>
      rules_ok (spec_group_slugs spec) (spec_zone_slugs spec) (sp_rules spec)"
    unfolding validate_spec_def Let_def append_is_Nil_conv validate_gateway_iff
      validate_groups_iff [OF tracks_empty] validate_zones_iff [OF tracks_empty]
      validate_carriers_loop shared_slugs_Nil validate_peers_iff unknown_carriers_Nil
      validate_rules_iff slugs_ok_iff spec_group_slugs_def spec_zone_slugs_def
      owners_respected_peers_ok [symmetric] Let_def
    by auto
  show ?thesis
    unfolding eqs spec_ok_def Let_def cs [symmetric] using ids by blast
qed

end
