(* ===== verification/NftRefine.thy ===== *)
theory NftRefine
  imports NftSemantics NftValid
begin

text \<open>
  The generator prints the rules of \<open>NftSemantics\<close>: each chain's lines are the text of its
  items. The forward chain needs a valid spec, because rendering an ACL rule parses its CIDRs.
\<close>

section \<open>Input chain\<close>

lemma show_int_53 [simp]: "show_int 53 = ''53''"
  by (simp add: show_int_def show_nat_def show_base.simps digit_char_def)

lemmas print_simps = print_chain_def print_rule_def item_defs quoted_def FAMILIES_def

lemma portal_destination_match:
  "portal_destination gw f =
     map_option (\<lambda>ms. concat (map (\<lambda>m. show_match m @ '' '') ms)) (portal_match gw f)"
  by (auto simp: portal_destination_def portal_match_def split: option.splits)

lemma portal_match_cases:
  "portal_match gw f = None \<or> portal_match gw f = Some [] \<or> (\<exists>a. portal_match gw f = Some [DaddrIs f a])"
  by (auto simp: portal_match_def)

lemma input_quarantine_refines: "input_quarantine_lines gw = map print_item (quarantine_items gw)"
  using portal_match_cases [of gw V4] portal_match_cases [of gw V6]
  by (auto simp: input_quarantine_lines_def quarantine_items_def
      quarantine_accepts_def quarantine_drops_def portal_destination_match print_simps)

lemma input_restricted_refines: "input_restricted_lines gw = map print_item (restricted_items gw)"
  using portal_match_cases [of gw V4] portal_match_cases [of gw V6]
  by (auto simp: input_restricted_lines_def restricted_items_def
      restricted_accepts_def portal_destination_match print_simps)

lemma input_refines:
  "render_input_chain spec =
     print_chain ''input'' ''type filter hook input priority filter; policy accept;'' (input_items spec)"
  by (simp add: render_input_chain_def input_items_def input_quarantine_refines
      input_restricted_refines print_simps ICMP_ERRORS_V4_def ICMP_ERRORS_V6_def Let_def)

section \<open>ACL rules\<close>

lemma collapse_spaces_Nil [simp]: "collapse_spaces s = [] \<longleftrightarrow> s = []"
  by (induction s rule: collapse_spaces.induct) auto

lemma strip_nonempty: "\<not> p c \<Longrightarrow> strip_by p (c # s) \<noteq> []"
  by (auto simp: strip_by_def rstrip_by_def lstrip_by_def)

lemma sanitize_nonempty:
  assumes "comment_char c" and "\<not> is_space c"
  shows "sanitize_comment (Some (c # s)) \<noteq> []"
  using assms strip_nonempty [of is_space c "map (\<lambda>c. if comment_char c then c else CHR '' '') s"]
  by (simp add: sanitize_comment_def py_strip_def)

lemma comment_acl:
  "comment (Some (acl_comment r)) =
     '' comment '' @ quoted (sanitize_comment (Some (acl_comment r)))"
proof -
  have "sanitize_comment (Some (acl_comment r)) \<noteq> []"
    unfolding acl_comment_def append_Cons
    by (rule sanitize_nonempty) (simp_all add: comment_char_def is_lower_def less_eq_char_def is_space_def)
  then show ?thesis by (simp add: comment_def quoted_def Let_def)
qed

lemma endpoint_refines:
  "endpoint_ok ep kg kz \<Longrightarrow>
     endpoint_match ep (if sd = Src then ''s'' else ''d'') f =
       Inr (map_option (map show_match) (endpoint_items ep sd f))"
  by (cases "ep_kind ep"; cases sd; cases f)
    (auto simp: endpoint_ok_def endpoint_match_def endpoint_items_def)

lemma protocol_refines: "protocol_match r f = Some (map show_match (protocol_items r f))"
  by (cases "rs_protocol r"; cases "rs_dst_port_start r"; cases "rs_dst_port_end r")
    (auto simp: protocol_match_def protocol_items_def)

lemma show_verdict_of [simp]: "show_verdict (verdict_of a) = action_value a"
  by (cases a) simp_all

lemma acl_rule_refines:
  assumes "endpoint_ok (rs_src r) kg kz" and "endpoint_ok (rs_dst r) kg kz"
  shows "render_acl_rule r f = Inr (map_option (\<lambda>ms. print_rule (acl_rule r ms)) (acl_matches r f))"
proof -
  have s: "endpoint_match (rs_src r) ''s'' f =
      Inr (map_option (map show_match) (endpoint_items (rs_src r) Src f))"
    using endpoint_refines [OF assms(1), of Src] by simp
  have d: "endpoint_match (rs_dst r) ''d'' f =
      Inr (map_option (map show_match) (endpoint_items (rs_dst r) Dst f))"
    using endpoint_refines [OF assms(2), of Dst] by simp
  show ?thesis
    unfolding render_acl_rule_def s d protocol_refines acl_matches_def comment_acl
    by (auto simp: acl_rule_def print_rule_def Let_def split: option.splits)
qed

lemma acl_lines_refine:
  assumes "rules_ok kg kz (sp_rules spec)"
  shows "render_acl_lines spec = Inr (map print_item (acl_items spec))"
proof -
  let ?line = "\<lambda>r f. case acl_matches r f of None \<Rightarrow> [] | Some ms \<Rightarrow> [print_rule (acl_rule r ms)]"
  have rule: "bindR (render_acl_rule r f) (\<lambda>l. Inr (case l of None \<Rightarrow> [] | Some x \<Rightarrow> [x])) = Inr (?line r f)"
    if "r \<in> set (sp_rules spec)" for r f
  proof -
    have ok: "endpoint_ok (rs_src r) kg kz" "endpoint_ok (rs_dst r) kg kz"
      using assms that by (simp_all add: rules_ok_def)
    show ?thesis unfolding acl_rule_refines [OF ok] by (simp split: option.split)
  qed
  have "render_acl_lines spec =
      Inr (concat (map (\<lambda>r. concat (map (?line r) FAMILIES)) (sort_key sort_key_rule (sp_rules spec))))"
    unfolding render_acl_lines_def by (intro concatR_Inr) (simp add: rule concatR_Inr)
  also have "\<dots> = Inr (map print_item (acl_items spec))"
    by (auto simp: acl_items_def map_concat o_def intro!: arg_cong [where f = concat] map_cong
        split: option.splits)
  finally show ?thesis .
qed

section \<open>Forward and postrouting chains\<close>

lemma intra_zone_refines: "intra_zone_lines spec = map print_item (intra_zone_items spec)"
  by (simp add: intra_zone_lines_def intra_zone_items_def map_concat o_def print_simps Let_def)

lemma exit_refines: "exit_lines spec = map print_item (exit_items spec)"
  by (auto simp: exit_lines_def exit_items_def map_concat o_def print_simps Let_def
      intro!: arg_cong [where f = concat] map_cong split: prod.splits)

lemma forward_refines:
  assumes "rules_ok kg kz (sp_rules spec)"
  shows "render_forward_chain spec = Inr (print_chain ''forward''
     ''type filter hook forward priority filter; policy accept;'' (forward_items spec))"
  unfolding render_forward_chain_def forward_items_def acl_lines_refine [OF assms]
    intra_zone_refines exit_refines
  by (simp add: print_simps ICMP_ERRORS_V4_def ICMP_ERRORS_V6_def Let_def)

lemma nat_refines:
  "render_nat_chain spec = (if exit_sources spec = [] \<or> \<not> truthy (gw_wan_interface (sp_gateway spec))
     then [] else print_chain ''postrouting''
       ''type nat hook postrouting priority srcnat; policy accept;'' (nat_items spec))"
  by (auto simp: render_nat_chain_def nat_items_def map_concat o_def print_simps Let_def
      intro!: arg_cong [where f = concat] map_cong split: prod.splits)

end
