(* ===== verification/NftDecide.thy ===== *)
theory NftDecide
  imports NftRefine
begin

text \<open>
  What the chains decide. \<open>input_decision\<close> and \<open>forward_decision\<close> are the policy the
  project documents, as one conditional each; the lemmas prove that first match over the
  generated rules computes exactly those, for every packet.
\<close>

section \<open>The policy\<close>

definition in_quarantine :: "packet \<Rightarrow> bool" where
  "in_quarantine m \<longleftrightarrow> (\<exists>f. m (SaddrIn f (quarantine_set_name f)))"

definition to_quarantine :: "packet \<Rightarrow> bool" where
  "to_quarantine m \<longleftrightarrow> (\<exists>f. m (DaddrIn f (quarantine_set_name f)))"

definition icmp_error :: "packet \<Rightarrow> bool" where
  "icmp_error m \<longleftrightarrow> m (IcmpError V4) \<or> m (IcmpError V6)"

definition portal_door :: "gateway_spec \<Rightarrow> packet \<Rightarrow> family \<Rightarrow> bool" where
  "portal_door gw m f \<longleftrightarrow> (case portal_match gw f of None \<Rightarrow> False
     | Some ms \<Rightarrow> list_all m ms \<and> m (Dport TCP (gw_portal_port gw) None))"

definition dns_door :: "gateway_spec \<Rightarrow> packet \<Rightarrow> bool" where
  "dns_door gw m \<longleftrightarrow>
     gw_allow_dns_in_quarantine gw \<and> (m (Dport UDP 53 None) \<or> m (Dport TCP 53 None))"

definition ping_door :: "gateway_spec \<Rightarrow> packet \<Rightarrow> family \<Rightarrow> bool" where
  "ping_door gw m f \<longleftrightarrow> gw_allow_icmp_to_gateway gw \<and> m (IcmpEcho f)"

text \<open>What a quarantined source may still reach.\<close>

definition quarantine_door :: "gateway_spec \<Rightarrow> packet \<Rightarrow> bool" where
  "quarantine_door gw m \<longleftrightarrow> (\<exists>f. m (SaddrIn f (quarantine_set_name f)) \<and>
     (portal_door gw m f \<or> dns_door gw m \<or> ping_door gw m f))"

text \<open>What an active peer may reach on the gateway when the input policy is restricted.\<close>

definition restricted_door :: "gateway_spec \<Rightarrow> packet \<Rightarrow> bool" where
  "restricted_door gw m \<longleftrightarrow>
     (\<exists>f. portal_door gw m f) \<or> dns_door gw m \<or> (\<exists>f. ping_door gw m f) \<or>
     (\<exists>p\<in>set (gw_proxy_ports gw). m (Dport TCP p None))"

definition input_decision :: "ruleset_spec \<Rightarrow> packet \<Rightarrow> verdict" where
  "input_decision spec m =
     (let gw = sp_gateway spec in
      if m (IifNeq (gw_wg_interface gw)) then VAccept
      else if m CtInvalid then VDrop
      else if quarantine_door gw m then VAccept
      else if in_quarantine m then VDrop
      else if m CtEstablished \<or> icmp_error m then VAccept
      else if gw_gateway_input_policy gw \<noteq> RESTRICTED \<or> restricted_door gw m then VAccept
      else VDrop)"

definition acl_applies :: "packet \<Rightarrow> rule_spec \<Rightarrow> bool" where
  "acl_applies m r \<longleftrightarrow>
     (\<exists>f. case acl_matches r f of None \<Rightarrow> False | Some ms \<Rightarrow> list_all m ms)"

text \<open>The first rule by priority, then by id, whose expressions hold in some family.\<close>

definition acl_decision :: "ruleset_spec \<Rightarrow> packet \<Rightarrow> action option" where
  "acl_decision spec m =
     map_option rs_action (find (acl_applies m) (sort_key sort_key_rule (sp_rules spec)))"

definition intra_zone :: "ruleset_spec \<Rightarrow> packet \<Rightarrow> bool" where
  "intra_zone spec m \<longleftrightarrow> (\<exists>z\<in>set (sp_zones spec). zs_intra_zone z \<and>
     (\<exists>f. m (SaddrIn f (zone_set_name (zs_slug z) f)) \<and> m (DaddrIn f (zone_set_name (zs_slug z) f))))"

definition internet_exit :: "ruleset_spec \<Rightarrow> packet \<Rightarrow> bool" where
  "internet_exit spec m \<longleftrightarrow>
     m (OifEq (show_opt (gw_wan_interface (sp_gateway spec)))) \<and>
     (\<exists>f. m (DaddrNotIn f (internal_set_name f)) \<and>
       ((\<exists>g\<in>set (sp_groups spec). gs_internet_exit g \<and> m (SaddrIn f (group_set_name (gs_slug g) f))) \<or>
        (\<exists>z\<in>set (sp_zones spec). zs_internet_exit z \<and> m (SaddrIn f (zone_set_name (zs_slug z) f)))))"

definition forward_decision :: "ruleset_spec \<Rightarrow> packet \<Rightarrow> verdict" where
  "forward_decision spec m =
     (let wg = gw_wg_interface (sp_gateway spec) in
      if m (IifNeq wg) \<and> m (OifNeq wg) then VAccept
      else if m CtInvalid then VDrop
      else if in_quarantine m \<or> to_quarantine m then VDrop
      else if m CtEstablished \<or> icmp_error m then VAccept
      else (case acl_decision spec m of Some a \<Rightarrow> verdict_of a
        | None \<Rightarrow> if intra_zone spec m \<or> internet_exit spec m then VAccept else VDrop))"

section \<open>Blocks of rules with one verdict\<close>

definition hit_by :: "packet \<Rightarrow> item list \<Rightarrow> bool" where
  "hit_by m is \<longleftrightarrow> (\<exists>r\<in>set (item_rules is). rule_hits m r)"

definition all_verdict :: "verdict \<Rightarrow> item list \<Rightarrow> bool" where
  "all_verdict v is \<longleftrightarrow> (\<forall>r\<in>set (item_rules is). nr_verdict r = v)"

lemma block:
  "all_verdict v is \<Longrightarrow>
     chain_verdict m (item_rules is @ rs) = (if hit_by m is then v else chain_verdict m rs)"
  unfolding hit_by_def all_verdict_def by (rule fm.eval_uniform) blast

lemma hit_by_append [simp]: "hit_by m (xs @ ys) \<longleftrightarrow> hit_by m xs \<or> hit_by m ys"
  by (auto simp: hit_by_def)

lemma hit_by_Cons:
  "hit_by m (x # xs) \<longleftrightarrow> hit_by m xs \<or> (\<exists>r. x = Rule r \<and> rule_hits m r)"
  by (cases x) (auto simp: hit_by_def)

lemma hit_by_Nil [simp]: "\<not> hit_by m []"
  by (simp add: hit_by_def)

lemma hit_by_concat: "hit_by m (concat xss) \<longleftrightarrow> (\<exists>xs\<in>set xss. hit_by m xs)"
  by (induction xss) auto

lemma all_verdict_append [simp]: "all_verdict v (xs @ ys) \<longleftrightarrow> all_verdict v xs \<and> all_verdict v ys"
  by (auto simp: all_verdict_def)

lemma all_verdict_Cons:
  "all_verdict v (x # xs) \<longleftrightarrow> all_verdict v xs \<and> (\<forall>r. x = Rule r \<longrightarrow> nr_verdict r = v)"
  by (cases x) (auto simp: all_verdict_def)

lemma counted_verdict [simp]: "counted ms v c = Rule r \<longrightarrow> nr_verdict r = v"
  by (auto simp: counted_def)

lemma all_verdict_Nil [simp]: "all_verdict v []"
  by (simp add: all_verdict_def)

lemma all_verdict_concat: "all_verdict v (concat xss) \<longleftrightarrow> (\<forall>xs\<in>set xss. all_verdict v xs)"
  by (induction xss) auto

lemma hit_counted [simp]:
  "counted ms v c = Rule r \<and> rule_hits m r \<longleftrightarrow>
     r = \<lparr>nr_matches = ms, nr_counter = True, nr_verdict = v, nr_comment = Some c\<rparr> \<and>
     list_all m ms \<and> v \<noteq> VLog"
  by (auto simp: counted_def rule_hits_def)

lemma hit_map_counted:
  "hit_by m (map (\<lambda>x. counted (ms x) v (c x)) xs) \<longleftrightarrow> v \<noteq> VLog \<and> (\<exists>x\<in>set xs. list_all m (ms x))"
  by (induction xs) (auto simp: hit_by_Cons)

lemma verdict_map_counted: "all_verdict v (map (\<lambda>x. counted (ms x) v (c x)) xs)"
  by (induction xs) (auto simp: all_verdict_Cons counted_def)

lemma ex_family: "(\<exists>f. P f) \<longleftrightarrow> P V4 \<or> P V6"
  by (metis family.exhaust)

lemmas block_simps = hit_by_Cons all_verdict_Cons hit_by_concat all_verdict_concat
  hit_map_counted verdict_map_counted

section \<open>Input\<close>

lemma hit_portal:
  "hit_by m (map (\<lambda>f. case portal_match gw f of None \<Rightarrow> Note (t f)
     | Some ms \<Rightarrow> counted ([SaddrIn f (quarantine_set_name f)] @ ms @
         [Dport TCP (gw_portal_port gw) None]) VAccept c) fs) \<longleftrightarrow>
   (\<exists>f\<in>set fs. m (SaddrIn f (quarantine_set_name f)) \<and> portal_door gw m f)"
  by (induction fs) (auto simp: hit_by_Cons portal_door_def split: option.splits)

lemma verdict_portal:
  "all_verdict VAccept (map (\<lambda>f. case portal_match gw f of None \<Rightarrow> Note (t f)
     | Some ms \<Rightarrow> counted ([SaddrIn f (quarantine_set_name f)] @ ms @
         [Dport TCP (gw_portal_port gw) None]) VAccept c) fs)"
  by (induction fs) (auto simp: all_verdict_Cons counted_def split: option.splits)

lemma quarantine_accepts_hit: "hit_by m (quarantine_accepts gw) \<longleftrightarrow> quarantine_door gw m"
  unfolding quarantine_accepts_def hit_by_append hit_portal quarantine_door_def dns_door_def ping_door_def
  by (auto simp: block_simps ex_family FAMILIES_def)

lemma quarantine_accepts_verdict: "all_verdict VAccept (quarantine_accepts gw)"
  unfolding quarantine_accepts_def all_verdict_append
  by (auto simp: verdict_portal block_simps)

lemma quarantine_drops_hit: "hit_by m quarantine_drops \<longleftrightarrow> in_quarantine m"
  by (simp add: quarantine_drops_def hit_map_counted in_quarantine_def)

lemma quarantine_drops_verdict: "all_verdict VDrop quarantine_drops"
  by (simp add: quarantine_drops_def verdict_map_counted)

lemma hit_restricted_portal:
  "hit_by m (if gw_portal_addresses gw \<noteq> [] then concat (map (\<lambda>f. case portal_match gw f of
         None \<Rightarrow> []
       | Some ms \<Rightarrow> [counted (ms @ [Dport TCP (gw_portal_port gw) None]) VAccept c]) FAMILIES)
      else [counted [Dport TCP (gw_portal_port gw) None] VAccept c]) \<longleftrightarrow>
   (\<exists>f. portal_door gw m f)"
  by (auto simp: block_simps portal_door_def ex_family FAMILIES_def portal_match_def split: option.splits)

lemma verdict_restricted_portal:
  "all_verdict VAccept (if gw_portal_addresses gw \<noteq> [] then concat (map (\<lambda>f. case portal_match gw f of
         None \<Rightarrow> []
       | Some ms \<Rightarrow> [counted (ms @ [Dport TCP (gw_portal_port gw) None]) VAccept c]) FAMILIES)
      else [counted [Dport TCP (gw_portal_port gw) None] VAccept c])"
  by (auto simp: block_simps split: option.splits)

lemma restricted_accepts_hit: "hit_by m (restricted_accepts gw) \<longleftrightarrow> restricted_door gw m"
  unfolding restricted_accepts_def hit_by_append hit_restricted_portal restricted_door_def
  by (auto simp: block_simps dns_door_def ping_door_def ex_family FAMILIES_def)

lemma restricted_accepts_verdict: "all_verdict VAccept (restricted_accepts gw)"
  unfolding restricted_accepts_def all_verdict_append
  using verdict_restricted_portal [of gw "''fg:portal''"] by (auto simp: block_simps)

lemma chain_counted:
  "chain_verdict m (item_rules (counted ms v c # is)) =
     (if list_all m ms \<and> v \<noteq> VLog then v else chain_verdict m (item_rules is))"
  by (auto simp: counted_def rule_hits_def)

lemma chain_plain:
  "chain_verdict m (item_rules (plain_counted ms v # is)) =
     (if list_all m ms \<and> v \<noteq> VLog then v else chain_verdict m (item_rules is))"
  by (auto simp: plain_counted_def rule_hits_def)

lemma chain_uncounted:
  "chain_verdict m (item_rules (uncounted ms v c # is)) =
     (if list_all m ms \<and> v \<noteq> VLog then v else chain_verdict m (item_rules is))"
  by (auto simp: uncounted_def rule_hits_def)

lemma chain_block:
  "all_verdict v is \<Longrightarrow> chain_verdict m (item_rules (is @ js)) =
     (if hit_by m is then v else chain_verdict m (item_rules js))"
  by (simp add: block)

lemmas chain_simps = chain_counted chain_plain chain_uncounted

lemma input_decides: "chain_verdict m (item_rules (input_items spec)) = input_decision spec m"
proof -
  let ?gw = "sp_gateway spec"
  have tail: "chain_verdict m (item_rules (if gw_gateway_input_policy ?gw = RESTRICTED
      then restricted_items ?gw
      else [Note t, uncounted [] VAccept (Some c)])) =
    (if gw_gateway_input_policy ?gw \<noteq> RESTRICTED \<or> restricted_door ?gw m then VAccept else VDrop)" for t c
    unfolding restricted_items_def
    by (simp add: chain_block [OF restricted_accepts_verdict] restricted_accepts_hit chain_simps
        del: item_rules_append)
  show ?thesis
    unfolding input_items_def quarantine_items_def Let_def append_Cons append_Nil item_rules.simps
      append_assoc chain_simps chain_block [OF quarantine_accepts_verdict]
      chain_block [OF quarantine_drops_verdict] quarantine_accepts_hit quarantine_drops_hit
      tail
    by (auto simp: input_decision_def icmp_error_def Let_def)
qed

section \<open>Forward\<close>

lemma acl_chain:
  "chain_verdict m (item_rules (concat (map (\<lambda>r. concat (map (\<lambda>f. case acl_matches r f of None \<Rightarrow> []
        | Some ms \<Rightarrow> [Rule (acl_rule r ms)]) FAMILIES)) rs)) @ js) =
     (case find (acl_applies m) rs of Some r \<Rightarrow> verdict_of (rs_action r)
      | None \<Rightarrow> chain_verdict m js)"
proof (induction rs)
  case (Cons r rs)
  let ?is = "concat (map (\<lambda>f. case acl_matches r f of None \<Rightarrow> []
        | Some ms \<Rightarrow> [Rule (acl_rule r ms)]) FAMILIES)"
  have v: "verdict_of a \<noteq> VLog" for a by (cases a) simp_all
  have "all_verdict (verdict_of (rs_action r)) ?is"
    by (auto simp: block_simps acl_rule_def split: option.splits)
  moreover have "hit_by m ?is \<longleftrightarrow> acl_applies m r"
    by (auto simp: block_simps acl_rule_def rule_hits_def acl_applies_def v ex_family FAMILIES_def
        split: option.splits)
  ultimately show ?case using Cons.IH by (simp add: block)
qed simp

lemma intra_zone_hit: "hit_by m (intra_zone_items spec) \<longleftrightarrow> intra_zone spec m"
  by (auto simp: intra_zone_items_def intra_zone_def Let_def block_simps ex_family FAMILIES_def
      filter_empty_conv)

lemma intra_zone_verdict: "all_verdict VAccept (intra_zone_items spec)"
  by (auto simp: intra_zone_items_def Let_def block_simps)

lemma exit_hit: "hit_by m (exit_items spec) \<longleftrightarrow> internet_exit spec m"
  by (auto simp: exit_items_def exit_sources_def internet_exit_def block_simps ex_family FAMILIES_def
      filter_empty_conv)

lemma exit_verdict: "all_verdict VAccept (exit_items spec)"
  by (auto simp: exit_items_def block_simps)

lemma forward_decides: "chain_verdict m (item_rules (forward_items spec)) = forward_decision spec m"
proof -
  have acl: "chain_verdict m (item_rules ((if acl_items spec = [] then [Note t] else acl_items spec) @ js)) =
      (case acl_decision spec m of Some a \<Rightarrow> verdict_of a
       | None \<Rightarrow> chain_verdict m (item_rules js))" for t js
  proof -
    have "item_rules (if acl_items spec = [] then [Note t] else acl_items spec) = item_rules (acl_items spec)"
      by simp
    then show ?thesis
      using acl_chain [of m "sort_key sort_key_rule (sp_rules spec)" "item_rules js"]
      by (simp add: acl_items_def acl_decision_def option.case_eq_if option.map_sel)
  qed
  have quarantine: "all_verdict VDrop (concat (map (\<lambda>f.
       [counted [SaddrIn f (quarantine_set_name f)] VDrop c1,
        counted [DaddrIn f (quarantine_set_name f)] VDrop c2]) FAMILIES))" for c1 c2
    by (auto simp: block_simps)
  have quarantine_hit: "hit_by m (concat (map (\<lambda>f.
       [counted [SaddrIn f (quarantine_set_name f)] VDrop c1,
        counted [DaddrIn f (quarantine_set_name f)] VDrop c2]) FAMILIES)) \<longleftrightarrow>
      in_quarantine m \<or> to_quarantine m" for c1 c2
    by (auto simp: block_simps in_quarantine_def to_quarantine_def ex_family FAMILIES_def)
  have log: "chain_verdict m (item_rules ((if l then [uncounted [RateLimit] VLog None] else []) @ js)) =
      chain_verdict m (item_rules js)" for l js
    by (simp add: uncounted_def rule_hits_def)
  show ?thesis
    unfolding forward_items_def Let_def append_Cons append_Nil item_rules.simps
      append_assoc chain_simps chain_block [OF quarantine] quarantine_hit acl
      chain_block [OF intra_zone_verdict] intra_zone_hit chain_block [OF exit_verdict] exit_hit log
    by (auto simp: forward_decision_def icmp_error_def Let_def split: option.split)
qed

end
