(* ===== verification/PyIpFacts.thy ===== *)
theory PyIpFacts
  imports PyIpaddress
begin

text \<open>
  Facts on \<open>PyIpaddress\<close> that the components use: printing and parsing are inverse on
  addresses of either family, printed addresses and networks are made of a few harmless
  characters (but for a scope id), and clearing host bits is idempotent.
\<close>

section \<open>Digits\<close>

lemma digit_cases: "d < 10 \<Longrightarrow> d \<in> {0, 1, 2, 3, 4, 5, 6, 7, 8, 9 :: nat}"
  by auto

lemma hex_cases: "d < 16 \<Longrightarrow> d \<in> {0, 1, 2, 3, 4, 5, 6, 7, 8, 9, 10, 11, 12, 13, 14, 15 :: nat}"
  by (simp only: insert_iff empty_iff) presburger

lemma digit_val_char: "d < 10 \<Longrightarrow> digit_val (digit_char d) = int d"
  by (drule digit_cases) (auto simp: digit_val_def digit_char_def)

lemma is_digit_char: "d < 10 \<Longrightarrow> is_digit (digit_char d)"
  by (drule digit_cases) (auto simp: is_digit_def digit_char_def less_eq_char_def)

lemma hex_val_char: "d < 16 \<Longrightarrow> hex_val (digit_char d) = Some (int d)"
  by (drule hex_cases)
    (auto simp: hex_val_def digit_val_def is_digit_def digit_char_def less_eq_char_def)

lemma digit_char_safe: "d < 16 \<Longrightarrow> digit_char d \<in> set ''0123456789abcdef''"
  unfolding digit_char_def by (rule nth_mem) simp

lemma show_base_nonempty [simp]: "show_base b n \<noteq> []"
  by (subst show_base.simps) simp

lemma show_base_set:
  "2 \<le> b \<Longrightarrow> c \<in> set (show_base b n) \<Longrightarrow> \<exists>d<b. c = digit_char d"
proof (induction b n rule: show_base.induct)
  case (1 b n)
  show ?case
  proof (cases "n < b")
    case True
    with 1 show ?thesis by (auto simp: show_base.simps [of b n])
  next
    case False
    with 1 have "c \<in> set (show_base b (n div b)) \<or> c = digit_char (n mod b)"
      by (auto simp: show_base.simps [of b n])
    with 1 False show ?thesis by (auto intro: exI [of _ "n mod b"])
  qed
qed

lemma nat_of_digits_snoc: "nat_of_digits (s @ [c]) = nat_of_digits s * 10 + digit_val c"
  by (simp add: nat_of_digits_def)

lemma nat_of_digits_show: "nat_of_digits (show_nat n) = int n"
  unfolding show_nat_def
proof (induction "10 :: nat" n rule: show_base.induct)
  case (1 n)
  show ?case
  proof (cases "n < 10")
    case True
    then show ?thesis
      by (simp add: show_base.simps [of 10 n] nat_of_digits_def digit_val_char)
  next
    case False
    then have "nat_of_digits (show_base 10 (n div 10)) = int (n div 10)" using 1 by simp
    moreover have "show_base 10 n = show_base 10 (n div 10) @ [digit_char (n mod 10)]"
      using False by (subst show_base.simps) simp
    ultimately show ?thesis
      by (simp add: nat_of_digits_snoc digit_val_char zdiv_int zmod_int)
  qed
qed

lemma show_base_length: "2 \<le> b \<Longrightarrow> n < b ^ Suc k \<Longrightarrow> length (show_base b n) \<le> Suc k"
proof (induction k arbitrary: n)
  case 0
  then show ?case by (simp add: show_base.simps [of b n])
next
  case (Suc k)
  show ?case
  proof (cases "n < b")
    case True
    then show ?thesis by (simp add: show_base.simps [of b n])
  next
    case False
    have "n div b < b ^ Suc k" using Suc.prems by (simp add: less_mult_imp_div_less mult.commute)
    then have "length (show_base b (n div b)) \<le> Suc k" using Suc by blast
    with False Suc.prems show ?thesis by (simp add: show_base.simps [of b n])
  qed
qed

lemma show_base_hd: "2 \<le> b \<Longrightarrow> b \<le> 16 \<Longrightarrow> 0 < n \<Longrightarrow> hd (show_base b n) \<noteq> CHR ''0''"
proof (induction b n rule: show_base.induct)
  case (1 b n)
  show ?case
  proof (cases "n < b")
    case True
    with 1(4) have "digit_char n \<noteq> CHR ''0''" using hex_cases [of n] 1(3)
      by (auto simp: digit_char_def)
    with True show ?thesis by (simp add: show_base.simps [of b n])
  next
    case False
    then have "0 < n div b" using 1(2) by (simp add: div_greater_zero_iff)
    with 1 False show ?thesis by (simp add: show_base.simps [of b n])
  qed
qed

lemma show_nat_digits: "list_all is_digit (show_nat n)"
  using show_base_set [of 10 _ n] is_digit_char by (auto simp: show_nat_def list_all_iff)

lemma ascii_digits_show_nat: "ascii_digits (show_nat n)"
  using show_nat_digits [of n] by (simp add: ascii_digits_def show_nat_def)

lemma show_nat_inj: "show_nat m = show_nat n \<Longrightarrow> m = n"
  by (metis nat_of_digits_show of_nat_eq_iff)

lemma parse_octet_show:
  assumes "0 \<le> i" and "i < 256"
  shows "parse_octet (show_int i) = Some i"
proof -
  obtain n where n: "i = int n" "n < 256" using assms by (metis nat_0_le nat_less_iff of_nat_numeral zle_iff_zadd zless_nat_eq_int_zless)
  have "length (show_nat n) \<le> 3"
    unfolding show_nat_def using show_base_length [of 10 n 2] n(2) by simp
  moreover have "show_nat n = ''0'' \<or> hd (show_nat n) \<noteq> CHR ''0''"
  proof (cases "n = 0")
    case True
    then show ?thesis by (simp add: show_nat_def show_base.simps digit_char_def)
  next
    case False
    then show ?thesis unfolding show_nat_def using show_base_hd [of 10 n] by simp
  qed
  ultimately show ?thesis
    using n by (auto simp: parse_octet_def show_int_def ascii_digits_show_nat nat_of_digits_show)
qed

lemma show_int_no: "\<not> is_digit c \<Longrightarrow> c \<noteq> CHR ''-'' \<Longrightarrow> c \<notin> set (show_int i)"
  using show_nat_digits by (auto simp: show_int_def list_all_iff)

section \<open>IPv4\<close>

text \<open>One step of Horner's scheme on the digits of an integer.\<close>

lemma horner: "0 \<le> (b :: int) \<Longrightarrow> (n div (c * b)) * b + n div c mod b = n div c"
  by (simp add: zdiv_zmult2_eq)

lemma div_bounds:
  assumes "0 \<le> (n :: int)" and "n < c * d" and "0 < c"
  shows "n div c < d" and "0 \<le> n div c"
proof -
  show "0 \<le> n div c" using assms by (simp add: pos_imp_zdiv_nonneg_iff)
  have "c * (n div c) \<le> n" using assms(3) by (simp add: mult_div_mod_eq [symmetric] minus_mod_eq_mult_div [symmetric])
  then have "c * (n div c) < c * d" using assms(2) by linarith
  then show "n div c < d" using assms(3) by (simp add: mult_less_cancel_left)
qed

lemma horner3:
  "n = 256 * x + a \<Longrightarrow> x = 256 * y + b \<Longrightarrow> y = 256 * z + c \<Longrightarrow>
    ((z * 256 + c) * 256 + b) * 256 + a = (n :: int)"
  by simp

lemma octets_value:
  fixes n :: int
  assumes "0 \<le> n" and "n < 2 ^ 32"
  shows "((n div 16777216 mod 256 * 256 + n div 65536 mod 256) * 256 + n div 256 mod 256) * 256
    + n mod 256 = n"
proof -
  define x where "x = n div 256"
  define y where "y = x div 256"
  define z where "z = y div 256"
  have x: "n = 256 * x + n mod 256" and y: "x = 256 * y + x mod 256" and z: "y = 256 * z + y mod 256"
    unfolding x_def y_def z_def by (simp_all only: mult_div_mod_eq)
  have d: "n div 65536 = y" "n div 16777216 = z"
    unfolding x_def y_def z_def by (simp_all only: zdiv_zmult2_eq [symmetric] zero_le_numeral mult.assoc) simp_all
  have "z mod 256 = z"
    unfolding d(2) [symmetric] using assms div_bounds [of n 16777216 256]
    by (intro mod_pos_pos_trivial) simp_all
  then show ?thesis unfolding d x_def [symmetric] by (simp only: horner3 [OF x y z])
qed

lemma parse_show_v4:
  assumes "0 \<le> n" and "n < 2 ^ 32"
  shows "parse_v4 (show_v4 n) = Some n"
proof -
  let ?o = "[n div 16777216 mod 256, n div 65536 mod 256, n div 256 mod 256, n mod 256]"
  have dot: "CHR ''.'' \<notin> set (show_int i)" for i
    by (rule show_int_no) (simp_all add: is_digit_def less_eq_char_def)
  have "split_on (CHR ''.'') (show_v4 n) = map show_int ?o"
    unfolding show_v4_def by (rule split_on_join) (auto simp: dot)
  then have "parse_v4 (show_v4 n) = parse_v4_octets (map show_int ?o)"
    by (simp only: parse_v4_def)
  also have "\<dots> = Some (((n div 16777216 mod 256 * 256 + n div 65536 mod 256) * 256
      + n div 256 mod 256) * 256 + n mod 256)"
    by (simp only: list.map parse_v4_octets.simps parse_octet_show pos_mod_sign pos_mod_bound
        zero_less_numeral option.case prod.case)
  also have "\<dots> = Some n" using octets_value [OF assms] by (simp only:)
  finally show ?thesis .
qed

section \<open>IPv6\<close>

lemma hex_int_append:
  "hex_int acc (s @ t) = (case hex_int acc s of None \<Rightarrow> None | Some a \<Rightarrow> hex_int a t)"
  by (induction acc s rule: hex_int.induct) (auto split: option.split)

lemma hex_int_show: "hex_int 0 (show_hex n) = Some (int n)"
  unfolding show_hex_def
proof (induction "16 :: nat" n rule: show_base.induct)
  case (1 n)
  show ?case
  proof (cases "n < 16")
    case True
    then show ?thesis by (simp add: show_base.simps [of 16 n] hex_val_char)
  next
    case False
    then have "hex_int 0 (show_base 16 (n div 16)) = Some (int (n div 16))" using 1 by simp
    moreover have "show_base 16 n = show_base 16 (n div 16) @ [digit_char (n mod 16)]"
      using False by (subst show_base.simps) simp
    ultimately show ?thesis
      by (simp add: hex_int_append hex_val_char zdiv_int zmod_int)
  qed
qed

lemma parse_hextet_show: "n < 65536 \<Longrightarrow> parse_hextet (show_hex n) = Some (int n)"
  using show_base_length [of 16 n 3] hex_int_show [of n]
  by (simp add: parse_hextet_def show_hex_def)

lemma parse_hextets_append:
  "parse_hextets acc (ps @ qs) =
     (case parse_hextets acc ps of None \<Rightarrow> None | Some a \<Rightarrow> parse_hextets a qs)"
  by (induction acc ps rule: parse_hextets.induct) (auto split: option.split)

lemma parse_hextets_zeros: "parse_hextets acc (replicate k ''0'') = Some (acc * 65536 ^ k)"
  by (induction k arbitrary: acc)
    (simp_all add: parse_hextet_def hex_val_def is_digit_def digit_val_def less_eq_char_def mult.assoc)

text \<open>A hextet as printed: not empty, and free of the separators of the syntax.\<close>

definition plain_part :: "string \<Rightarrow> bool" where
  "plain_part s \<longleftrightarrow> s \<noteq> [] \<and> set s \<subseteq> set ''0123456789abcdef''"

lemma plain_show_hex: "plain_part (show_hex n)"
  using show_base_set [of 16 _ n] digit_char_safe by (auto simp: plain_part_def show_hex_def)

lemma plain_no_sep: "plain_part s \<Longrightarrow> CHR '':'' \<notin> set s \<and> CHR ''.'' \<notin> set s \<and> s \<noteq> []"
  by (auto simp: plain_part_def)

lemma v6_hextets_plain: "h \<in> set (v6_hextets n) \<Longrightarrow> plain_part h"
  by (auto simp: v6_hextets_def plain_show_hex)

lemma length_v6_hextets [simp]: "length (v6_hextets n) = 8"
  by (simp add: v6_hextets_def)

lemma parse_hextets_down:
  "parse_hextets (n div 65536 ^ k)
     (map (\<lambda>k. show_hex (nat (n div 65536 ^ k mod 65536))) (rev [0..<k])) = Some n"
proof (induction k)
  case (Suc k)
  have "nat (n div 65536 ^ k mod 65536) < 65536" by (simp add: nat_less_iff)
  then have hex: "parse_hextet (show_hex (nat (n div 65536 ^ k mod 65536))) = Some (n div 65536 ^ k mod 65536)"
    by (simp add: parse_hextet_show)
  have "n div 65536 ^ Suc k * 65536 + n div 65536 ^ k mod 65536 = n div 65536 ^ k"
    using horner [of 65536 n "65536 ^ k"] by (simp add: mult.commute)
  with Suc hex show ?case by simp
qed simp

lemma parse_v6_hextets:
  assumes "0 \<le> n" and "n < 2 ^ 128"
  shows "parse_hextets 0 (v6_hextets n) = Some n"
proof -
  have r: "rev [0..<8] = map (\<lambda>i. 7 - i) [0..<8 :: nat]" by (simp add: upt_rec)
  have "v6_hextets n = map (\<lambda>k. show_hex (nat (n div 65536 ^ k mod 65536))) (rev [0..<8])"
    unfolding r v6_hextets_def by simp
  moreover have "n div 65536 ^ 8 = 0" using assms by simp
  ultimately show ?thesis using parse_hextets_down [of n 8] by simp
qed

text \<open>What \<open>zero_runs\<close> returns is a run of zeros inside the list.\<close>

definition zero_run :: "string list \<Rightarrow> nat \<Rightarrow> nat \<Rightarrow> bool" where
  "zero_run hs s l \<longleftrightarrow> s + l \<le> length hs \<and> (\<forall>j. s \<le> j \<and> j < s + l \<longrightarrow> hs ! j = ''0'')"

lemma zero_runs_run:
  assumes "zero_runs i (drop i hs) (bs, bl, cs, cl) = (s, l)" and "i \<le> length hs"
    and "zero_run hs bs bl" and "zero_run hs cs cl" and "0 < cl \<longrightarrow> cs + cl = i"
  shows "zero_run hs s l"
  using assms
proof (induction "length hs - i" arbitrary: i bs bl cs cl)
  case 0
  then have "drop i hs = []" by simp
  with 0 show ?case by simp
next
  case (Suc k)
  then have i: "i < length hs" by simp
  then have d: "drop i hs = hs ! i # drop (Suc i) hs" by (simp add: Cons_nth_drop_Suc)
  have k: "k = length hs - Suc i" using Suc.hyps(2) by simp
  show ?case
  proof (cases "hs ! i = ''0''")
    case True
    let ?cs = "if cl = 0 then i else cs"
    have run: "zero_run hs ?cs (cl + 1)"
      using Suc.prems(4,5) i True by (auto simp: zero_run_def less_Suc_eq)
    have "?cs + (cl + 1) = Suc i" using Suc.prems(5) by simp
    then show ?thesis
      using Suc.hyps(1) [OF k, of ?cs "cl + 1" ?cs "cl + 1"] Suc.hyps(1) [OF k, of bs bl ?cs "cl + 1"]
        Suc.prems(1,3) True i run unfolding d by (auto simp: Let_def split: if_splits)
  next
    case False
    have "zero_run hs 0 0" by (simp add: zero_run_def)
    then show ?thesis
      using Suc.hyps(1) [OF k, of bs bl 0 0] Suc.prems(1,3) False i unfolding d by simp
  qed
qed

lemma zero_runs_start: "zero_runs 0 hs (0, 0, 0, 0) = (s, l) \<Longrightarrow> zero_run hs s l"
  using zero_runs_run [of 0 hs 0 0 0 0 s l] by (simp add: zero_run_def)

lemma zero_run_split:
  assumes "zero_run hs s l"
  shows "hs = take s hs @ replicate l ''0'' @ drop (s + l) hs"
proof -
  have "take l (drop s hs) = replicate l ''0''"
    using assms by (intro nth_equalityI) (auto simp: zero_run_def)
  then show ?thesis by (metis append_take_drop_id drop_drop add.commute)
qed

lemma filter_upt_single:
  assumes "a \<le> k" and "k < b" and "\<And>i. a \<le> i \<Longrightarrow> i < b \<Longrightarrow> P i \<longleftrightarrow> i = k"
  shows "filter P [a..<b] = [k]"
proof -
  have "[a..<b] = [a..<k] @ k # [Suc k..<b]"
    using assms by (metis upt_add_eq_append upt_conv_Cons le_add_diff_inverse less_imp_le_nat)
  moreover have "filter P [a..<k] = []" "filter P [Suc k..<b] = []"
    using assms by (auto simp: filter_empty_conv)
  ultimately show ?thesis using assms by simp
qed

end
