(* ===== verification/PyIpRoundTrip.thy ===== *)
theory PyIpRoundTrip
  imports PyIpFacts
begin

text \<open>
  Printing an address and parsing it back is the identity, for both families and with a
  scope id; what the parser returns is always inside the bounds of its family; a printed
  address read as a network is the network of that one address.
\<close>

section \<open>The compressed form\<close>

text \<open>The parts of an address whose run of zeros between \<open>a\<close> and \<open>b\<close> is squeezed out.\<close>

definition squeezed :: "string list \<Rightarrow> string list \<Rightarrow> string list" where
  "squeezed a b = (if a = [] then [[]] else []) @ a @ [[]] @ b @ (if b = [] then [[]] else [])"

lemma inner_empty_squeezed:
  assumes "\<forall>h\<in>set a. h \<noteq> []" and "\<forall>h\<in>set b. h \<noteq> []"
  shows "inner_empty (squeezed a b) = [if a = [] then 1 else length a]"
  unfolding inner_empty_def
proof (rule filter_upt_single)
  let ?k = "if a = [] then 1 else length a"
  have l: "length (squeezed a b) = (if a = [] then 1 else length a) + 1 + (if b = [] then 1 else length b)"
    by (simp add: squeezed_def)
  show "1 \<le> ?k" by (cases a) simp_all
  show "?k < length (squeezed a b) - 1" unfolding l by (cases b) simp_all
  fix i assume i: "1 \<le> i" "i < length (squeezed a b) - 1"
  have "squeezed a b ! i = [] \<longleftrightarrow> i = length a" if "a \<noteq> []"
  proof (cases "i < length a")
    case True
    then have "squeezed a b ! i = a ! i" using that by (simp add: squeezed_def nth_append)
    with True assms(1) show ?thesis using nth_mem [of i a] by force
  next
    case False
    then have j: "squeezed a b ! i = ([] # b) ! (i - length a)" using that i unfolding l
      by (cases b) (simp_all add: squeezed_def nth_append nth_Cons split: nat.split)
    have "i - length a \<le> length b" using i l that False by (simp split: if_splits)
    with j False assms(2) show ?thesis by (cases "i - length a") auto
  qed
  moreover have "squeezed a b ! i = [] \<longleftrightarrow> i = 1" if "a = []"
  proof -
    have j: "squeezed a b ! i = ([] # b) ! (i - 1)" using that i unfolding l
      by (cases b) (auto simp add: squeezed_def nth_append nth_Cons split: nat.split)
    have "i - 1 \<le> length b" using i l that by (simp split: if_splits)
    with j i assms(2) show ?thesis by (cases "i - 1") auto
  qed
  ultimately show "squeezed a b ! i = [] \<longleftrightarrow> i = ?k" by simp
qed

lemma plain_all_no_sep:
  "list_all plain_part xs \<Longrightarrow> (\<forall>h\<in>set xs. CHR '':'' \<notin> set h \<and> CHR ''.'' \<notin> set h \<and> h \<noteq> [])"
  by (auto simp: list_all_iff dest: plain_no_sep)

lemma parse_v6_int_mid:
  assumes "v6_parts s = Some P" and "length P \<le> 9" and "inner_empty P = [k]"
    and "(if hd P = [] then k - 1 else k) = hi"
    and "(let l = length P - k - 1 in if last P = [] then l - 1 else l) = lo"
    and "hd P = [] \<Longrightarrow> hi = 0" and "last P = [] \<Longrightarrow> lo = 0" and "hi + lo \<le> 7"
    and "parse_hextets 0 (take hi P) = Some h"
    and "parse_hextets (h * 65536 ^ (8 - (hi + lo))) (drop (length P - lo) P) = Some n"
  shows "parse_v6_int s = Some n"
proof -
  have "\<not> (hd P = [] \<and> hi \<noteq> 0 \<or> last P = [] \<and> lo \<noteq> 0)" "\<not> hi + lo > 7" using assms by auto
  then show ?thesis unfolding parse_v6_int_def assms(1)
    using assms(2,3) by (simp only: option.case list.case Let_def assms(4) assms(5) [unfolded Let_def]
        assms(9,10) if_False not_less [symmetric] simp_thms)
qed

lemma parse_squeezed:
  assumes "list_all plain_part a" and "list_all plain_part b" and "length a + length b \<le> 6"
    and n: "parse_hextets 0 (a @ replicate (8 - (length a + length b)) ''0'' @ b) = Some n"
  shows "parse_v6_int (join '':'' (squeezed a b)) = Some n"
proof -
  let ?P = "squeezed a b" and ?k = "if a = [] then 1 else length a"
  note pa = plain_all_no_sep [OF assms(1)] and pb = plain_all_no_sep [OF assms(2)]
  have l: "length ?P = (if a = [] then 1 else length a) + 1 + (if b = [] then 1 else length b)"
    by (simp add: squeezed_def)
  have sep: "CHR '':'' \<notin> set h \<and> CHR ''.'' \<notin> set h" if "h \<in> set ?P" for h
    using that pa pb by (auto simp: squeezed_def split: if_splits)
  have ne: "?P \<noteq> []" by (simp add: squeezed_def)
  have "split_on (CHR '':'') (join '':'' ?P) = ?P"
    using ne sep by (intro split_on_join) auto
  moreover have "3 \<le> length ?P" unfolding l by (cases a; cases b) simp_all
  moreover have "CHR ''.'' \<notin> set (last ?P)" using sep last_in_set [OF ne] by blast
  ultimately have parts: "v6_parts (join '':'' ?P) = Some ?P" by (simp add: v6_parts_def)
  have inner: "inner_empty ?P = [?k]" using pa pb by (intro inner_empty_squeezed) auto
  have hd: "hd ?P = [] \<longleftrightarrow> a = []" using pa by (cases a) (auto simp: squeezed_def)
  have lst: "last ?P = [] \<longleftrightarrow> b = []" using pb by (cases b rule: rev_cases) (auto simp: squeezed_def)
  have hi: "(if hd ?P = [] then ?k - 1 else ?k) = length a" unfolding hd by simp
  have lo: "(let l = length ?P - ?k - 1 in if last ?P = [] then l - 1 else l) = length b"
    unfolding l lst by simp
  have take: "parse_hextets 0 (take (length a) ?P) = parse_hextets 0 a"
    by (cases "a = []") (simp_all add: squeezed_def)
  have drop: "parse_hextets x (drop (length ?P - length b) ?P) = parse_hextets x b" for x
    by (cases "a = []"; cases "b = []") (simp_all add: squeezed_def)
  obtain h where h: "parse_hextets 0 a = Some h"
    and b: "parse_hextets (h * 65536 ^ (8 - (length a + length b))) b = Some n"
    using n by (auto simp: parse_hextets_append parse_hextets_zeros split: option.splits)
  have "length ?P \<le> 9" unfolding l using assms(3) by simp
  then show ?thesis
  proof (rule parse_v6_int_mid [OF parts _ inner hi lo])
    show "parse_hextets (h * 65536 ^ (8 - (length a + length b)))
        (drop (length ?P - length b) ?P) = Some n"
      unfolding drop by (rule b)
  qed (use assms(3) in \<open>simp_all add: hd lst take h\<close>)
qed

lemma parse_show_v6_int:
  assumes "0 \<le> n" and "n < 2 ^ 128"
  shows "parse_v6_int (show_v6 n) = Some n"
proof -
  let ?hs = "v6_hextets n"
  have pl: "list_all plain_part ?hs" using v6_hextets_plain by (auto simp: list_all_iff)
  obtain bs bl where z: "zero_runs 0 ?hs (0, 0, 0, 0) = (bs, bl)" by fastforce
  note run = zero_runs_start [OF z]
  show ?thesis
  proof (cases "bl > 1")
    case False
    note sep = plain_all_no_sep [OF pl]
    have ne: "?hs \<noteq> []" using length_v6_hextets [of n] by fastforce
    have "split_on (CHR '':'') (show_v6 n) = ?hs"
      unfolding show_v6_def compress_hextets_def z using False ne sep
      by (simp add: split_on_join)
    moreover have "CHR ''.'' \<notin> set (last ?hs)" using sep last_in_set [OF ne] by blast
    ultimately have parts: "v6_parts (show_v6 n) = Some ?hs" by (simp add: v6_parts_def)
    have "inner_empty ?hs = []" using sep by (auto simp: inner_empty_def filter_empty_conv)
    moreover have "hd ?hs \<noteq> []" "last ?hs \<noteq> []" using sep ne by auto
    ultimately show ?thesis by (simp add: parse_v6_int_def parts parse_v6_hextets [OF assms])
  next
    case True
    let ?a = "take bs ?hs" and ?b = "drop (bs + bl) ?hs"
    have len: "?hs \<noteq> []" using length_v6_hextets [of n] by fastforce
    have le: "bs + bl \<le> 8" using run by (simp add: zero_run_def)
    have "show_v6 n = join '':'' (squeezed ?a ?b)"
      using True le len by (auto simp: show_v6_def compress_hextets_def z squeezed_def)
    moreover have "?a @ replicate (8 - (length ?a + length ?b)) ''0'' @ ?b = ?hs"
      using zero_run_split [OF run] le by simp
    moreover have "list_all plain_part ?a" "list_all plain_part ?b"
      using pl by (auto simp: list_all_iff dest: in_set_takeD in_set_dropD)
    ultimately show ?thesis
      using parse_squeezed [of ?a ?b n] True le parse_v6_hextets [OF assms] by simp
  qed
qed

text \<open>Characters of a printed address: no separator of the grammar.\<close>

lemma show_v6_set: "set (show_v6 n) \<subseteq> set ''0123456789abcdef:''"
proof -
  have "set (compress_hextets hs) \<subseteq> insert [] (set hs)" for hs
    by (auto simp: compress_hextets_def split: prod.splits if_splits dest: in_set_takeD in_set_dropD)
  then show ?thesis
    using set_join [of "'':''" "compress_hextets (v6_hextets n)"] v6_hextets_plain [of _ n]
    unfolding show_v6_def plain_part_def by fastforce
qed

definition wf_addr :: "ip_addr \<Rightarrow> bool" where
  "wf_addr a = (case a of IP4 n \<Rightarrow> 0 \<le> n \<and> n < 2 ^ 32
     | IP6 n sc \<Rightarrow> 0 \<le> n \<and> n < 2 ^ 128 \<and>
         (case sc of None \<Rightarrow> True | Some s \<Rightarrow> s \<noteq> [] \<and> CHR ''%'' \<notin> set s \<and> CHR ''/'' \<notin> set s))"

lemma show_v6_head: "0 \<le> n \<Longrightarrow> n < 2 ^ 128 \<Longrightarrow> CHR '':'' \<in> set (show_v6 n)"
proof (rule ccontr)
  assume n: "0 \<le> n" "n < 2 ^ 128" and "CHR '':'' \<notin> set (show_v6 n)"
  then have "split_on (CHR '':'') (show_v6 n) = [show_v6 n]" by (simp add: split_on_no_sep)
  then have "v6_parts (show_v6 n) = None" by (simp add: v6_parts_def)
  then show False using parse_show_v6_int [OF n] by (simp add: parse_v6_int_def)
qed

lemma in_split_on: "x \<in> set s \<Longrightarrow> x \<noteq> c \<Longrightarrow> \<exists>p\<in>set (split_on c s). x \<in> set p"
proof (induction s)
  case (Cons y s)
  then show ?case
    by (cases "split_on c s") auto
qed simp

lemma parse_octet_digits: "parse_octet s = Some n \<Longrightarrow> list_all is_digit s"
  by (simp add: parse_octet_def ascii_digits_def split: if_splits)

lemma parse_v4_octets_digits:
  "parse_v4_octets ps = Some n \<Longrightarrow> p \<in> set ps \<Longrightarrow> list_all is_digit p"
  by (induction ps rule: parse_v4_octets.induct)
    (auto split: option.splits dest: parse_octet_digits)

lemma parse_v4_chars: "parse_v4 s = Some n \<Longrightarrow> c \<in> set s \<Longrightarrow> c = CHR ''.'' \<or> is_digit c"
  using in_split_on [of c s "CHR ''.''"] parse_v4_octets_digits
  by (fastforce simp: parse_v4_def list_all_iff)

lemma parse_v4_colon: "CHR '':'' \<in> set s \<Longrightarrow> parse_v4 s = None"
  using parse_v4_chars [of s _ "CHR '':''"] by (cases "parse_v4 s") (auto simp: is_digit_def less_eq_char_def)

lemma show_v6_no: "c \<notin> set ''0123456789abcdef:'' \<Longrightarrow> c \<notin> set (show_v6 n)"
  using show_v6_set [of n] by blast

lemma show_v4_set: "set (show_v4 n) \<subseteq> set ''0123456789.-''"
proof -
  have "set (show_int i) \<subseteq> set ''0123456789-''" for i
  proof
    fix c assume c: "c \<in> set (show_int i)"
    show "c \<in> set ''0123456789-''"
    proof (cases "c = CHR ''-''")
      case False
      with c obtain m where "c \<in> set (show_nat m)" by (auto simp: show_int_def split: if_splits)
      then obtain d where "d < 10" "c = digit_char d"
        using show_base_set [of 10 c m] by (auto simp: show_nat_def)
      then show ?thesis by (auto dest!: digit_cases simp: digit_char_def)
    qed simp
  qed
  then show ?thesis
    unfolding show_v4_def by (intro subset_trans [OF set_join]) fastforce
qed

lemma show_v4_no: "c \<notin> set ''0123456789.-'' \<Longrightarrow> c \<notin> set (show_v4 n)"
  using show_v4_set [of n] by blast

lemma ip_address_show: "wf_addr a \<Longrightarrow> ip_address (show_ip a) = Some a"
proof (induction a rule: show_ip.induct)
  case (1 n)
  then show ?case by (simp add: wf_addr_def ip_address_def parse_show_v4)
next
  case (2 n)
  then have n: "0 \<le> n" "n < 2 ^ 128" by (simp_all add: wf_addr_def)
  show ?case
    using parse_show_v6_int [OF n] show_v6_head [OF n]
    by (simp add: ip_address_def parse_v4_colon parse_v6_def show_v6_no split_on_no_sep)
next
  case (3 n sc)
  then have n: "0 \<le> n" "n < 2 ^ 128" and sc: "sc \<noteq> []" "CHR ''%'' \<notin> set sc" "CHR ''/'' \<notin> set sc"
    by (simp_all add: wf_addr_def)
  then show ?case
    using parse_show_v6_int [OF n] show_v6_head [OF n]
    by (simp add: ip_address_def parse_v4_colon parse_v6_def show_v6_no split_on_append split_on_no_sep)
qed

lemma show_ip_no_slash: "wf_addr a \<Longrightarrow> CHR ''/'' \<notin> set (show_ip a)"
  by (induction a rule: show_ip.induct) (auto simp: wf_addr_def show_v4_no show_v6_no)

lemma mask_off_full [simp]: "mask_off w w n = n"
  by (simp add: mask_off_def)

lemma v6_not_v4:
  assumes "wf_addr (IP6 n sc)"
  shows "parse_v4 (show_ip (IP6 n sc)) = None"
  using assms show_v6_head [of n] by (cases sc) (auto simp: wf_addr_def parse_v4_colon)

lemma ip_network_show:
  assumes "wf_addr a"
  shows "ip_network (show_ip a) = Some (IPNet a (max_prefixlen (ip_version a)))"
proof -
  have split: "split_on (CHR ''/'') (show_ip a) = [show_ip a]"
    by (simp add: show_ip_no_slash [OF assms] split_on_no_sep)
  show ?thesis
  proof (cases a)
    case (IP4 n)
    with assms split show ?thesis
      by (simp add: ip_network_def parse_network4_def parse_show_v4 wf_addr_def max_prefixlen_def)
  next
    case (IP6 n sc)
    have "parse_v6 (show_ip a) = Some a"
      using ip_address_show [OF assms] v6_not_v4 assms IP6 by (simp add: ip_address_def)
    with v6_not_v4 assms split show ?thesis unfolding IP6
      by (simp add: ip_network_def parse_network4_def parse_network6_def max_prefixlen_def)
  qed
qed

section \<open>What the parser returns\<close>

text \<open>A network whose host bits are clear and whose prefix fits its family.\<close>

definition wf_net :: "ip_net \<Rightarrow> bool" where
  "wf_net n \<longleftrightarrow> wf_addr (net_addr n) \<and> prefixlen n \<le> max_prefixlen (net_version n) \<and>
     ip_int (net_addr n) mod net_size n = 0"

lemma of_char_int: "(of_char c :: int) = int (of_char c)"
  by (rule of_nat_of_char [symmetric])

lemma digit_val_bounds: "is_digit c \<Longrightarrow> 0 \<le> digit_val c \<and> digit_val c \<le> 9"
proof -
  assume "is_digit c"
  then have "48 \<le> (of_char c :: nat)" "(of_char c :: nat) \<le> 57"
    by (simp_all add: is_digit_def of_char_le_iff)
  then show ?thesis unfolding digit_val_def of_char_int by linarith
qed

lemma nat_of_digits_nonneg: "list_all is_digit s \<Longrightarrow> 0 \<le> nat_of_digits s"
  by (induction s rule: rev_induct)
    (auto simp: nat_of_digits_snoc nat_of_digits_def digit_val_bounds)

lemma parse_octet_bounds: "parse_octet s = Some n \<Longrightarrow> 0 \<le> n \<and> n \<le> 255"
  by (auto simp: parse_octet_def ascii_digits_def nat_of_digits_nonneg split: if_splits)

lemma parse_v4_bounds: "parse_v4 s = Some n \<Longrightarrow> 0 \<le> n \<and> n < 2 ^ 32"
proof -
  have "parse_v4_octets ps = Some n \<Longrightarrow> 0 \<le> n \<and> n < 2 ^ 32" for ps
    by (induction ps rule: parse_v4_octets.induct)
      (auto split: option.splits dest!: parse_octet_bounds)
  then show "parse_v4 s = Some n \<Longrightarrow> 0 \<le> n \<and> n < 2 ^ 32" by (simp add: parse_v4_def)
qed

lemma hex_val_bounds: "hex_val c = Some v \<Longrightarrow> 0 \<le> v \<and> v < 16"
proof -
  assume h: "hex_val c = Some v"
  have "0 \<le> v \<and> v < 16" if "CHR ''a'' \<le> c" "c \<le> CHR ''f''" "v = of_char c - 87"
  proof -
    have "97 \<le> (of_char c :: nat)" "(of_char c :: nat) \<le> 102" using that by (simp_all add: of_char_le_iff)
    then show ?thesis using that(3) unfolding of_char_int by linarith
  qed
  moreover have "0 \<le> v \<and> v < 16" if "CHR ''A'' \<le> c" "c \<le> CHR ''F''" "v = of_char c - 55"
  proof -
    have "65 \<le> (of_char c :: nat)" "(of_char c :: nat) \<le> 70" using that by (simp_all add: of_char_le_iff)
    then show ?thesis using that(3) unfolding of_char_int by linarith
  qed
  moreover have "0 \<le> v \<and> v < 16" if "is_digit c" "v = digit_val c"
    using digit_val_bounds that by fastforce
  ultimately show ?thesis using h by (auto simp: hex_val_def split: if_splits)
qed

lemma hex_int_bounds:
  "hex_int acc s = Some v \<Longrightarrow> 0 \<le> acc \<Longrightarrow> 0 \<le> v \<and> v < (acc + 1) * 16 ^ length s"
proof (induction acc s rule: hex_int.induct)
  case (2 acc c cs)
  then obtain d where d: "hex_val c = Some d" and r: "hex_int (acc * 16 + d) cs = Some v"
    by (auto split: option.splits)
  have b: "0 \<le> d \<and> d < 16" by (rule hex_val_bounds [OF d])
  with 2 d r have v: "0 \<le> v" "v < (acc * 16 + d + 1) * 16 ^ length cs" by auto
  have "(acc * 16 + d + 1) * 16 ^ length cs \<le> ((acc + 1) * 16) * 16 ^ length cs"
    using b by (intro mult_right_mono) auto
  also have "\<dots> = (acc + 1) * 16 ^ Suc (length cs)" by (simp only: mult.assoc power_Suc)
  finally have "(acc * 16 + d + 1) * 16 ^ length cs \<le> (acc + 1) * 16 ^ Suc (length cs)" .
  with v show ?case unfolding length_Cons by linarith
qed auto

lemma parse_hextet_bounds: "parse_hextet s = Some v \<Longrightarrow> 0 \<le> v \<and> v < 65536"
proof -
  assume h: "parse_hextet s = Some v"
  then have v: "0 \<le> v \<and> v < 16 ^ length s" and l: "length s \<le> 4"
    using hex_int_bounds [of 0 s v] by (auto simp: parse_hextet_def split: if_splits)
  have "(16 :: int) ^ length s \<le> 16 ^ 4" using l by (intro power_increasing) auto
  with v show ?thesis by simp
qed

lemma parse_hextets_bounds:
  "parse_hextets acc ps = Some v \<Longrightarrow> 0 \<le> acc \<Longrightarrow> 0 \<le> v \<and> v < (acc + 1) * 65536 ^ length ps"
proof (induction acc ps rule: parse_hextets.induct)
  case (2 acc p ps)
  then obtain d where d: "parse_hextet p = Some d" and r: "parse_hextets (acc * 65536 + d) ps = Some v"
    by (auto split: option.splits)
  have b: "0 \<le> d \<and> d < 65536" by (rule parse_hextet_bounds [OF d])
  with 2 d r have v: "0 \<le> v" "v < (acc * 65536 + d + 1) * 65536 ^ length ps" by auto
  have "(acc * 65536 + d + 1) * 65536 ^ length ps \<le> ((acc + 1) * 65536) * 65536 ^ length ps"
    using b by (intro mult_right_mono) auto
  also have "\<dots> = (acc + 1) * 65536 ^ Suc (length ps)" by (simp only: mult.assoc power_Suc)
  finally have "(acc * 65536 + d + 1) * 65536 ^ length ps \<le> (acc + 1) * 65536 ^ Suc (length ps)" .
  with v show ?case unfolding length_Cons by linarith
qed auto

lemma parse_v6_int_bounds:
  assumes "parse_v6_int s = Some n"
  shows "0 \<le> n \<and> n < 2 ^ 128"
proof -
  have big: "(65536 :: int) ^ 8 = 2 ^ 128" by simp
  obtain P where P: "v6_parts s = Some P" "length P \<le> 9"
    using assms by (auto simp: parse_v6_int_def split: option.splits if_splits)
  show ?thesis
  proof (cases "inner_empty P")
    case Nil
    with assms P have "parse_hextets 0 P = Some n" "length P = 8"
      by (auto simp: parse_v6_int_def split: if_splits)
    then show ?thesis using parse_hextets_bounds [of 0 P n] big by simp
  next
    case (Cons k ks)
    then have ks: "ks = []" using assms P by (cases ks) (auto simp: parse_v6_int_def)
    define hi where "hi = (if hd P = [] then k - 1 else k)"
    define lo where "lo = (if last P = [] then length P - k - 1 - 1 else length P - k - 1)"
    from assms P Cons ks obtain h where le: "hi + lo \<le> 7"
      and h: "parse_hextets 0 (take hi P) = Some h"
      and n: "parse_hextets (h * 65536 ^ (8 - (hi + lo))) (drop (length P - lo) P) = Some n"
      by (auto simp: parse_v6_int_def Let_def hi_def lo_def not_less split: if_splits option.splits)
    have bh: "0 \<le> h" "h < 65536 ^ length (take hi P)"
      using parse_hextets_bounds [OF h] by simp_all
    have "(65536 :: int) ^ length (take hi P) \<le> 65536 ^ hi" by (intro power_increasing) simp_all
    with bh have bh': "h + 1 \<le> 65536 ^ hi" by linarith
    have dl: "length (drop (length P - lo) P) \<le> lo" by simp
    have n0: "0 \<le> n" "n < (h * 65536 ^ (8 - (hi + lo)) + 1) * 65536 ^ length (drop (length P - lo) P)"
      using parse_hextets_bounds [OF n] bh by simp_all
    let ?B = "65536 :: int"
    have "h * ?B ^ (8 - (hi + lo)) + 1 \<le> (h + 1) * ?B ^ (8 - (hi + lo))"
      by (simp add: distrib_right)
    also have "\<dots> \<le> ?B ^ hi * ?B ^ (8 - (hi + lo))" using bh' by (intro mult_right_mono) simp_all
    finally have a: "h * ?B ^ (8 - (hi + lo)) + 1 \<le> ?B ^ hi * ?B ^ (8 - (hi + lo))" .
    have "?B ^ length (drop (length P - lo) P) \<le> ?B ^ lo" using dl by (intro power_increasing) simp_all
    then have "(h * ?B ^ (8 - (hi + lo)) + 1) * ?B ^ length (drop (length P - lo) P)
        \<le> (?B ^ hi * ?B ^ (8 - (hi + lo))) * ?B ^ lo"
      using a bh by (intro mult_mono) simp_all
    also have "\<dots> = ?B ^ 8" using le by (simp add: power_add [symmetric])
    finally show ?thesis using n0 big by linarith
  qed
qed

lemma split_on_no_char: "p \<in> set (split_on c s) \<Longrightarrow> c \<notin> set p"
proof (induction s arbitrary: p)
  case (Cons y s)
  then show ?case by (cases "split_on c s") (auto split: if_splits)
qed simp

lemma split_on_subset: "p \<in> set (split_on c s) \<Longrightarrow> set p \<subseteq> set s"
proof (induction s arbitrary: p)
  case (Cons y s)
  then show ?case by (cases "split_on c s") (fastforce split: if_splits)+
qed simp

lemma parse_v6_wf: "parse_v6 s = Some a \<Longrightarrow> wf_addr a"
proof -
  assume p: "parse_v6 s = Some a"
  then have slash: "CHR ''/'' \<notin> set s" by (auto simp: parse_v6_def split: if_splits)
  have no: "q \<in> set (split_on (CHR ''%'') s) \<Longrightarrow> CHR ''%'' \<notin> set q \<and> CHR ''/'' \<notin> set q" for q
    using split_on_no_char split_on_subset slash by fastforce
  consider x where "split_on (CHR ''%'') s = [x]" | x y where "split_on (CHR ''%'') s = [x, y]"
    using p by (auto simp: parse_v6_def split: if_splits list.splits)
  then show ?thesis
    using p no by cases (auto simp: parse_v6_def wf_addr_def parse_v6_int_bounds [simplified] split: if_splits)
qed

lemma ip_address_wf: "ip_address s = Some a \<Longrightarrow> wf_addr a"
  unfolding ip_address_def
  by (auto split: option.splits dest: parse_v6_wf parse_v4_bounds) (simp_all add: wf_addr_def parse_v4_bounds [simplified])

lemma parse_prefixlen_bound: "parse_prefixlen w s = Some p \<Longrightarrow> p \<le> w"
  by (auto simp: parse_prefixlen_def split: if_splits)

lemma prefix_of_mask_bound: "prefix_of_mask m = Some p \<Longrightarrow> p \<le> 32"
  by (auto simp: prefix_of_mask_def find_Some_iff simp del: upt_Suc dest!: nth_mem)

lemma v4_mask_bound: "v4_mask s = Some p \<Longrightarrow> p \<le> 32"
  by (auto simp: v4_mask_def split: option.splits dest: parse_prefixlen_bound prefix_of_mask_bound)

lemma mask_off_bounds: "0 \<le> n \<Longrightarrow> 0 \<le> mask_off w p n \<and> mask_off w p n \<le> n"
  by (simp add: mask_off_def minus_mod_eq_mult_div pos_imp_zdiv_nonneg_iff)
    (metis mult_div_mod_eq pos_mod_sign add_increasing2 zero_less_power zero_less_numeral order_refl)

lemma mask_off_mod: "mask_off w p n mod 2 ^ (w - p) = 0"
  by (simp add: mask_off_def minus_mod_eq_mult_div)

lemma mask_off_idem [simp]: "mask_off w p (mask_off w p n) = mask_off w p n"
  using mask_off_mod [of w p n] by (simp add: mask_off_def [of w p "mask_off w p n"])

lemma parse_v6_version: "parse_v6 s = Some a \<Longrightarrow> ip_version a = 6"
  by (auto simp: parse_v6_def split: if_splits list.splits)

lemma mk_network_wf: "wf_addr a \<Longrightarrow> p \<le> max_prefixlen (ip_version a) \<Longrightarrow> wf_net (mk_network a p)"
  using mask_off_bounds [of "ip_int a" 32 p] mask_off_bounds [of "ip_int a" 128 p]
    mask_off_mod [of 32 p "ip_int a"] mask_off_mod [of 128 p "ip_int a"]
  by (cases a) (auto simp: wf_net_def wf_addr_def net_version_def net_size_def max_prefixlen_def
      split: option.splits)

lemma parse_network4_wf: "parse_network4 s = Some n \<Longrightarrow> wf_net n"
proof -
  have "wf_net (mk_network (IP4 x) p)" if "parse_v4 r = Some x" "p \<le> 32" for r x p
    using parse_v4_bounds [OF that(1)] that(2)
    by (intro mk_network_wf) (simp_all add: wf_addr_def max_prefixlen_def)
  then show "parse_network4 s = Some n \<Longrightarrow> wf_net n"
    by (auto simp: parse_network4_def simp del: mk_network.simps split: option.splits list.splits
        dest: v4_mask_bound)
qed

lemma parse_network6_wf: "parse_network6 s = Some n \<Longrightarrow> wf_net n"
proof -
  have "wf_net (mk_network x p)" if "parse_v6 r = Some x" "p \<le> 128" for r x p
    using parse_v6_wf [OF that(1)] parse_v6_version [OF that(1)] that(2)
    by (intro mk_network_wf) (simp_all add: max_prefixlen_def)
  then show "parse_network6 s = Some n \<Longrightarrow> wf_net n"
    by (auto simp: parse_network6_def simp del: mk_network.simps split: option.splits list.splits
        dest: parse_prefixlen_bound)
qed

lemma ip_network_wf: "ip_network s = Some n \<Longrightarrow> wf_net n"
  unfolding ip_network_def by (auto split: option.splits dest: parse_network4_wf parse_network6_wf)

lemma parse_prefixlen_show: "p \<le> w \<Longrightarrow> parse_prefixlen w (show_nat p) = Some p"
  by (simp add: parse_prefixlen_def ascii_digits_show_nat nat_of_digits_show)

lemma show_nat_no_slash: "CHR ''/'' \<notin> set (show_nat n)"
  using show_nat_digits [of n] by (auto simp: list_all_iff is_digit_def less_eq_char_def)

lemma mask_off_fix: "n mod 2 ^ (w - p) = 0 \<Longrightarrow> mask_off w p n = n"
  by (simp add: mask_off_def)

lemma ip_network_show_net:
  assumes "wf_net n"
  shows "ip_network (show_net n) = Some n"
proof -
  obtain a p where n: "n = IPNet a p" by (cases n)
  have wf: "wf_addr a" and p: "p \<le> max_prefixlen (ip_version a)"
    and host: "ip_int a mod 2 ^ (max_prefixlen (ip_version a) - p) = 0"
    using assms by (simp_all add: n wf_net_def net_version_def net_size_def)
  have mk: "mk_network a p = IPNet a p"
    using host by (cases a) (simp_all add: mask_off_fix max_prefixlen_def)
  have split: "split_on (CHR ''/'') (show_net n) = [show_ip a, show_nat p]"
    by (simp add: n show_net_def split_on_append show_ip_no_slash [OF wf] split_on_no_sep show_nat_no_slash)
  show ?thesis
  proof (cases a)
    case (IP4 m)
    then have "parse_v4 (show_ip a) = Some m" using wf by (simp add: wf_addr_def parse_show_v4)
    moreover have "v4_mask (show_nat p) = Some p"
      using p IP4 by (simp add: v4_mask_def parse_prefixlen_show max_prefixlen_def)
    ultimately have "parse_network4 (show_net n) = Some (mk_network (IP4 m) p)"
      by (simp only: parse_network4_def split list.case option.case prod.case)
    with mk show ?thesis by (simp add: ip_network_def IP4 n)
  next
    case (IP6 m sc)
    have v4: "parse_v4 (show_ip a) = None" using v6_not_v4 wf IP6 by simp
    then have "parse_v6 (show_ip a) = Some a" using ip_address_show [OF wf] by (simp add: ip_address_def)
    moreover have "parse_prefixlen 128 (show_nat p) = Some p"
      using p IP6 by (simp add: parse_prefixlen_show max_prefixlen_def)
    ultimately have "parse_network6 (show_net n) = Some (mk_network a p)"
      by (simp only: parse_network6_def split list.case option.case prod.case)
    moreover have "parse_network4 (show_net n) = None"
      by (simp only: parse_network4_def split list.case v4 option.case prod.case)
    ultimately show ?thesis using mk by (simp add: ip_network_def n)
  qed
qed

lemma in_host_net:
  "wf_addr b \<Longrightarrow> in_net a (IPNet b (max_prefixlen (ip_version b))) \<longleftrightarrow>
     ip_version a = ip_version b \<and> ip_int a = ip_int b"
  by (auto simp: in_net_def net_version_def broadcast_int_def net_size_def)

end
