(* ===== verification/NftSets.thy ===== *)
theory NftSets
  imports NftDecide PyIpRoundTrip
begin

text \<open>
  The named sets of the generated table: which elements each one gets, that the table
  declares no name twice, and that on a valid spec none of the helpers can raise, so that
  \<open>generate_ruleset\<close> fails exactly when validation does.
\<close>

section \<open>Helpers on valid input\<close>

lemma those_map: "(\<And>x. x \<in> set xs \<Longrightarrow> f x \<noteq> None) \<Longrightarrow> those (map f xs) = Some (map (the \<circ> f) xs)"
proof (induction xs)
  case (Cons x xs)
  obtain y where "f x = Some y" using Cons.prems [of x] by auto
  moreover have "those (map f xs) = Some (map (the \<circ> f) xs)" using Cons by (meson list.set_intros(2))
  ultimately show ?case by simp
qed simp

lemma concat_concat: "concat (concat xss) = concat (map concat xss)"
  by (induction xss) simp_all

definition addr_of :: "string \<Rightarrow> ip_addr" where
  "addr_of s = the (ip_address s)"

definition net_of :: "string \<Rightarrow> ip_net" where
  "net_of s = the (ip_network s)"

lemma sorted_addresses_ok:
  assumes "\<And>v. v \<in> set vs \<Longrightarrow> \<exists>x. ip_address v = Some x \<and> ip_version x = k"
  shows "sorted_addresses vs = Inr (map show_ip (sort_key ip_int (remdups (map addr_of vs))))"
proof -
  have "those (map ip_address vs) = Some (map addr_of vs)"
    using assms by (subst those_map) (force simp: addr_of_def)+
  moreover have "ip_version (addr_of v) = k" if "v \<in> set vs" for v
    using assms [OF that] by (auto simp: addr_of_def)
  ultimately show ?thesis by (auto simp: sorted_addresses_def)
qed

lemma sorted_networks_ok:
  assumes "\<And>v. v \<in> set vs \<Longrightarrow> ip_network v \<noteq> None"
  shows "sorted_networks vs = Inr (map show_net (sort_key net_key (remdups (map net_of vs))))"
proof -
  have "those (map ip_network vs) = Some (map net_of vs)"
    using assms by (subst those_map) (auto simp: net_of_def)
  then show ?thesis by (simp add: sorted_networks_def)
qed

section \<open>The elements of each set\<close>

text \<open>The addresses of family \<open>f\<close> of the peers that satisfy \<open>P\<close>, as the generator prints them.\<close>

definition peer_texts :: "(peer_spec \<Rightarrow> bool) \<Rightarrow> ruleset_spec \<Rightarrow> family \<Rightarrow> string list" where
  "peer_texts P spec f =
     concat (map (\<lambda>p. if P p then addresses p f else []) (sp_peers spec))"

definition peer_addrs :: "(peer_spec \<Rightarrow> bool) \<Rightarrow> ruleset_spec \<Rightarrow> family \<Rightarrow> ip_addr list" where
  "peer_addrs P spec f = sort_key ip_int (remdups (map addr_of (peer_texts P spec f)))"

definition in_group :: "string \<Rightarrow> peer_spec \<Rightarrow> bool" where
  "in_group slug p \<longleftrightarrow> is_active (ps_state p) \<and> slug \<in> set (ps_group_slugs p)"

definition in_zone :: "string \<Rightarrow> peer_spec \<Rightarrow> bool" where
  "in_zone slug p \<longleftrightarrow> is_active (ps_state p) \<and> ps_zone_slug p = Some slug"

definition confined :: "peer_spec \<Rightarrow> bool" where
  "confined p \<longleftrightarrow> is_confined (ps_state p)"

text \<open>The texts of a list that are networks of family \<open>f\<close>.\<close>

definition of_family :: "family \<Rightarrow> string list \<Rightarrow> string list" where
  "of_family f = filter (\<lambda>c. map_option net_version (ip_network c) = Some (family_version f))"

definition family_nets :: "family \<Rightarrow> string list \<Rightarrow> ip_net list" where
  "family_nets f cs = sort_key net_key (remdups (map net_of (of_family f cs)))"

lemma spec_okD:
  assumes "spec_ok spec"
  shows "\<And>c. c \<in> set (gw_internal_cidrs (sp_gateway spec)) \<Longrightarrow> ip_network c \<noteq> None"
    and "\<And>z r. z \<in> set (sp_zones spec) \<Longrightarrow> r \<in> set (zs_routes z) \<Longrightarrow> ip_network (rt_cidr r) \<noteq> None"
    and "\<And>p f a. p \<in> set (sp_peers spec) \<Longrightarrow> a \<in> set (addresses p f) \<Longrightarrow>
           \<exists>x. ip_address a = Some x \<and> ip_version x = family_version f"
    and "rules_ok (spec_group_slugs spec) (spec_zone_slugs spec) (sp_rules spec)"
    and "slugs_ok group_set_name (map gs_slug (sp_groups spec))"
    and "slugs_ok zone_set_name (map zs_slug (sp_zones spec))"
proof -
  have ok: "gateway_ok (sp_gateway spec)" "\<forall>z\<in>set (sp_zones spec). routes_ok (zs_routes z)"
    "peers_ok (spec_group_slugs spec) (spec_zone_slugs spec) (sp_peers spec)"
    using assms by (simp_all add: spec_ok_def Let_def)
  show "ip_network c \<noteq> None" if "c \<in> set (gw_internal_cidrs (sp_gateway spec))" for c
    using ok(1) that by (simp add: gateway_ok_def)
  show "ip_network (rt_cidr r) \<noteq> None"
    if "z \<in> set (sp_zones spec)" "r \<in> set (zs_routes z)" for z r
    using ok(2) that by (fastforce simp: routes_ok_def)
  show "\<exists>x. ip_address a = Some x \<and> ip_version x = family_version f"
    if "p \<in> set (sp_peers spec)" "a \<in> set (addresses p f)" for p f a
    using ok(3) that by (simp add: peers_ok_def peer_ok_def)
  show "rules_ok (spec_group_slugs spec) (spec_zone_slugs spec) (sp_rules spec)"
    and "slugs_ok group_set_name (map gs_slug (sp_groups spec))"
    and "slugs_ok zone_set_name (map zs_slug (sp_zones spec))"
    using assms by (simp_all add: spec_ok_def Let_def)
qed

lemma peer_texts_ok:
  "spec_ok spec \<Longrightarrow> v \<in> set (peer_texts P spec f) \<Longrightarrow>
     \<exists>x. ip_address v = Some x \<and> ip_version x = family_version f"
  using spec_okD(3) by (fastforce simp: peer_texts_def split: if_splits)

lemma sorted_peer_texts:
  "spec_ok spec \<Longrightarrow> sorted_addresses (peer_texts P spec f) = Inr (map show_ip (peer_addrs P spec f))"
  unfolding peer_addrs_def by (rule sorted_addresses_ok) (rule peer_texts_ok)

lemma group_members_ok:
  assumes "spec_ok spec"
  shows "group_members spec slug f = Inr (map show_ip (peer_addrs (in_group slug) spec f))"
proof -
  have "(if \<not> is_active (ps_state p) \<or> slug \<notin> set (ps_group_slugs p) then [] else addresses p f) =
      (if in_group slug p then addresses p f else [])" for p
    by (simp add: in_group_def)
  then show ?thesis
    using sorted_peer_texts [OF assms] by (simp only: group_members_def peer_texts_def)
qed

lemma confined_members_ok:
  "spec_ok spec \<Longrightarrow> confined_members spec f = Inr (map show_ip (peer_addrs confined spec f))"
  using sorted_peer_texts [of spec confined f]
  by (simp add: confined_members_def peer_texts_def confined_def [abs_def])

lemma peer_addrs_wf:
  assumes "spec_ok spec" and "a \<in> set (peer_addrs P spec f)"
  shows "wf_addr a \<and> ip_version a = family_version f"
proof -
  obtain v where v: "v \<in> set (peer_texts P spec f)" "a = addr_of v"
    using assms(2) by (auto simp: peer_addrs_def)
  obtain x where "ip_address v = Some x" "ip_version x = family_version f"
    using peer_texts_ok [OF assms(1) v(1)] by blast
  with v(2) show ?thesis using ip_address_wf by (simp add: addr_of_def)
qed

text \<open>The network of a single address.\<close>

definition host_net :: "ip_addr \<Rightarrow> ip_net" where
  "host_net a = IPNet a (max_prefixlen (ip_version a))"

definition zone_nets :: "ruleset_spec \<Rightarrow> zone_spec \<Rightarrow> family \<Rightarrow> ip_net list" where
  "zone_nets spec z f = map host_net (peer_addrs (in_zone (zs_slug z)) spec f) @
     family_nets f (map rt_cidr (zs_routes z))"

lemma of_family_networks: "v \<in> set (of_family f cs) \<Longrightarrow> ip_network v \<noteq> None"
  by (auto simp: of_family_def)

lemma sorted_family: "sorted_networks (of_family f cs) = Inr (map show_net (family_nets f cs))"
  unfolding family_nets_def by (rule sorted_networks_ok) (rule of_family_networks)

lemma zone_members_ok:
  assumes ok: "spec_ok spec" and z: "z \<in> set (sp_zones spec)"
  shows "zone_members spec z f = Inr (map show_net (zone_nets spec z f))"
proof -
  let ?as = "peer_addrs (in_zone (zs_slug z)) spec f"
  have peers: "sorted_addresses (concat (map (\<lambda>p.
       if is_active (ps_state p) \<and> ps_zone_slug p = Some (zs_slug z)
       then addresses p f else []) (sp_peers spec))) = Inr (map show_ip ?as)"
    using sorted_peer_texts [OF ok, of "in_zone (zs_slug z)" f]
    by (simp add: peer_texts_def in_zone_def [abs_def])
  have host: "ip_network (show_ip a) = Some (host_net a)" if "a \<in> set ?as" for a
    using peer_addrs_wf [OF ok that] by (simp add: ip_network_show host_net_def)
  have "those (map ip_network (map show_ip ?as)) = Some (map (the \<circ> ip_network) (map show_ip ?as))"
    using host by (intro those_map) auto
  then have nets: "those (map ip_network (map show_ip ?as)) = Some (map host_net ?as)"
    using host by simp
  have routes: "route_cidrs z f = Some (of_family f (map rt_cidr (zs_routes z)))"
    using spec_okD(2) [OF ok z] unfolding of_family_def by (rule route_cidrs_Some)
  show ?thesis
    unfolding zone_members_def peers bindR.simps nets routes option.case
      sorted_family zone_nets_def by simp
qed

lemma internal_networks_ok:
  assumes "spec_ok spec"
  shows "internal_networks spec f =
    Inr (map show_net (family_nets f (gw_internal_cidrs (sp_gateway spec))))"
  using spec_okD(1) [OF assms] sorted_family [of f "gw_internal_cidrs (sp_gateway spec)"]
  unfolding internal_networks_def Let_def of_family_def by auto

section \<open>The table of sets\<close>

text \<open>A set declaration: its name, family, elements, whether it holds intervals, its comment.\<close>

record set_decl =
  sd_name :: string
  sd_family :: family
  sd_elements :: "string list"
  sd_interval :: bool
  sd_description :: string

definition print_set :: "set_decl \<Rightarrow> string list" where
  "print_set d = render_set (sd_name d) (sd_family d) (sd_elements d) (sd_interval d)
     (sd_description d) @ [[]]"

definition internal_decl :: "ruleset_spec \<Rightarrow> family \<Rightarrow> set_decl" where
  "internal_decl spec f = \<lparr>sd_name = internal_set_name f, sd_family = f,
     sd_elements = map show_net (family_nets f (gw_internal_cidrs (sp_gateway spec))),
     sd_interval = True,
     sd_description = ''networks Foxguard considers internal ('' @ family_value f @ '')''\<rparr>"

definition quarantine_decl :: "ruleset_spec \<Rightarrow> family \<Rightarrow> set_decl" where
  "quarantine_decl spec f = \<lparr>sd_name = quarantine_set_name f, sd_family = f,
     sd_elements = map show_ip (peer_addrs confined spec f), sd_interval = False,
     sd_description =
       ''peers in staging/quarantine: portal access only ('' @ family_value f @ '')''\<rparr>"

definition group_decl :: "ruleset_spec \<Rightarrow> group_spec \<Rightarrow> family \<Rightarrow> set_decl" where
  "group_decl spec g f = \<lparr>sd_name = group_set_name (gs_slug g) f, sd_family = f,
     sd_elements = map show_ip (peer_addrs (in_group (gs_slug g)) spec f), sd_interval = False,
     sd_description = ''members of group '' @ gs_slug g @ '' ('' @ family_value f @ '')''\<rparr>"

definition zone_decl :: "ruleset_spec \<Rightarrow> zone_spec \<Rightarrow> family \<Rightarrow> set_decl" where
  "zone_decl spec z f = \<lparr>sd_name = zone_set_name (zs_slug z) f, sd_family = f,
     sd_elements = map show_net (zone_nets spec z f), sd_interval = True,
     sd_description = ''zone '' @ zs_slug z @ '': member peers and routed networks (''
       @ family_value f @ '')''\<rparr>"

definition set_decls :: "ruleset_spec \<Rightarrow> set_decl list" where
  "set_decls spec =
     map (internal_decl spec) FAMILIES @ map (quarantine_decl spec) FAMILIES @
     concat (map (\<lambda>g. map (group_decl spec g) FAMILIES) (sort_key gs_slug (sp_groups spec))) @
     concat (map (\<lambda>z. map (zone_decl spec z) FAMILIES) (sort_key zs_slug (sp_zones spec)))"

lemma render_sets_ok:
  assumes ok: "spec_ok spec"
  shows "render_sets spec = Inr (concat (map print_set (set_decls spec)))"
proof -
  have zones: "concatR (\<lambda>z. concatR (\<lambda>f. bindR (zone_members spec z f) (\<lambda>els.
         Inr (render_set (zone_set_name (zs_slug z) f) f els True
           (''zone '' @ zs_slug z @ '': member peers and routed networks ('' @ family_value f @ '')'')
           @ [[]]))) FAMILIES) (sort_key zs_slug (sp_zones spec)) =
      Inr (concat (map (\<lambda>z. concat (map (\<lambda>f. print_set (zone_decl spec z f)) FAMILIES))
        (sort_key zs_slug (sp_zones spec))))"
    by (intro concatR_Inr) (simp add: zone_members_ok [OF ok] print_set_def zone_decl_def)
  show ?thesis
    unfolding render_sets_def zones internal_networks_ok [OF ok] confined_members_ok [OF ok]
      group_members_ok [OF ok] bindR.simps
    by (simp only: concatR_Inr bindR.simps set_decls_def map_append concat_append map_concat
        concat_concat print_set_def internal_decl_def quarantine_decl_def group_decl_def
        map_map o_def set_decl.select_convs)
qed

section \<open>No name twice\<close>

lemma suffix_inj [simp]:
  "suffix_kw f = suffix_kw g \<longleftrightarrow> f = g"
  "a @ c # suffix_kw f = b @ c # suffix_kw g \<longleftrightarrow> a = b \<and> f = g"
  by (cases f; cases g; simp)+

lemma group_set_name_eq:
  "group_set_name s f = group_set_name t g \<longleftrightarrow> f = g \<and> group_set_name s V4 = group_set_name t V4"
  by (auto simp: group_set_name_def)

lemma zone_set_name_eq:
  "zone_set_name s f = zone_set_name t g \<longleftrightarrow> f = g \<and> zone_set_name s V4 = zone_set_name t V4"
  by (auto simp: zone_set_name_def)

lemma group_not_zone: "group_set_name s f \<noteq> zone_set_name t g"
  by (simp add: group_set_name_def zone_set_name_def)

lemma fixed_names:
  "group_set_name s f \<noteq> quarantine_set_name g" "group_set_name s f \<noteq> internal_set_name g"
  "zone_set_name s f \<noteq> quarantine_set_name g" "zone_set_name s f \<noteq> internal_set_name g"
  "quarantine_set_name f \<noteq> internal_set_name g"
  by (simp_all add: group_set_name_def zone_set_name_def quarantine_set_name_def internal_set_name_def)

lemma fixed_names_inj [simp]:
  "quarantine_set_name f = quarantine_set_name g \<longleftrightarrow> f = g"
  "internal_set_name f = internal_set_name g \<longleftrightarrow> f = g"
  by (auto simp: quarantine_set_name_def internal_set_name_def)

lemma distinct_names:
  assumes "distinct ss" and "inj_on (\<lambda>s. naming s V4) (set ss)"
    and eq: "\<And>s f t g. naming s f = naming t g \<longleftrightarrow> f = g \<and> naming s V4 = naming t V4"
  shows "distinct (concat (map (\<lambda>s. map (naming s) FAMILIES) ss))"
  using assms(1,2)
proof (induction ss)
  case (Cons s ss)
  have "naming s f \<noteq> naming t g" if "t \<in> set ss" for f t g
  proof
    assume "naming s f = naming t g"
    then have "naming s V4 = naming t V4" using eq by blast
    then have "s = t" using Cons.prems(2) that by (auto dest: inj_onD)
    with that Cons.prems(1) show False by simp
  qed
  moreover have "distinct (map (naming s) FAMILIES)" using eq [of s V4 s V6] by (simp add: FAMILIES_def)
  moreover have "inj_on (\<lambda>s. naming s V4) (set ss)" using Cons.prems(2) by (simp add: inj_on_def)
  ultimately show ?case using Cons by fastforce
qed simp

lemma decl_names:
  "map sd_name (set_decls spec) =
     map internal_set_name FAMILIES @ map quarantine_set_name FAMILIES @
     concat (map (\<lambda>s. map (group_set_name s) FAMILIES) (map gs_slug (sort_key gs_slug (sp_groups spec)))) @
     concat (map (\<lambda>s. map (zone_set_name s) FAMILIES) (map zs_slug (sort_key zs_slug (sp_zones spec))))"
  by (simp add: set_decls_def map_concat o_def internal_decl_def quarantine_decl_def group_decl_def
      zone_decl_def)

lemma distinct_sorted_slugs: "distinct (map k xs) \<Longrightarrow> distinct (map k (sort_key l xs))"
  by (simp add: distinct_map)

lemma decl_names_distinct:
  assumes "spec_ok spec"
  shows "distinct (map sd_name (set_decls spec))"
proof -
  have g: "distinct (map gs_slug (sp_groups spec))" "inj_on (\<lambda>s. group_set_name s V4) (set (map gs_slug (sp_groups spec)))"
    and z: "distinct (map zs_slug (sp_zones spec))" "inj_on (\<lambda>s. zone_set_name s V4) (set (map zs_slug (sp_zones spec)))"
    using spec_okD(5,6) [OF assms] by (simp_all add: slugs_ok_def)
  have gd: "distinct (concat (map (\<lambda>s. map (group_set_name s) FAMILIES)
      (map gs_slug (sort_key gs_slug (sp_groups spec)))))"
    using g by (intro distinct_names group_set_name_eq distinct_sorted_slugs) simp_all
  have zd: "distinct (concat (map (\<lambda>s. map (zone_set_name s) FAMILIES)
      (map zs_slug (sort_key zs_slug (sp_zones spec)))))"
    using z by (intro distinct_names zone_set_name_eq distinct_sorted_slugs) simp_all
  have fixed: "distinct (map internal_set_name FAMILIES @ map quarantine_set_name FAMILIES)"
    using fixed_names fixed_names(5) [symmetric] by (auto simp: FAMILIES_def)
  show ?thesis
    unfolding decl_names using gd zd fixed fixed_names group_not_zone
    by (auto simp del: concat_map_singleton) (metis fixed_names)+
qed

section \<open>Membership\<close>

text \<open>An address is in a named set when an element of its declaration covers it.\<close>

definition set_holds :: "ruleset_spec \<Rightarrow> string \<Rightarrow> ip_addr \<Rightarrow> bool" where
  "set_holds spec name a \<longleftrightarrow>
     (\<exists>d\<in>set (set_decls spec). sd_name d = name \<and>
       (\<exists>e\<in>set (sd_elements d). case ip_network e of None \<Rightarrow> False | Some n \<Rightarrow> in_net a n))"

lemma set_holds_iff:
  "set_holds spec name a \<longleftrightarrow>
     (\<exists>d\<in>set (set_decls spec). sd_name d = name \<and>
       (\<exists>e\<in>set (sd_elements d). \<exists>n. ip_network e = Some n \<and> in_net a n))"
  unfolding set_holds_def by (intro bex_cong conj_cong refl) (auto split: option.splits)

definition same_addr :: "ip_addr \<Rightarrow> ip_addr \<Rightarrow> bool" where
  "same_addr a b \<longleftrightarrow> ip_version a = ip_version b \<and> ip_int a = ip_int b"

text \<open>The address belongs, in family \<open>f\<close>, to a peer that satisfies \<open>P\<close>.\<close>

definition owned :: "(peer_spec \<Rightarrow> bool) \<Rightarrow> ruleset_spec \<Rightarrow> family \<Rightarrow> ip_addr \<Rightarrow> bool" where
  "owned P spec f a \<longleftrightarrow>
     (\<exists>p\<in>set (sp_peers spec). P p \<and> (\<exists>t\<in>set (addresses p f). same_addr a (addr_of t)))"

definition covered :: "family \<Rightarrow> string list \<Rightarrow> ip_addr \<Rightarrow> bool" where
  "covered f cs a \<longleftrightarrow> ip_version a = family_version f \<and> (\<exists>c\<in>set cs. in_net a (net_of c))"

lemma set_holds_unique:
  assumes "spec_ok spec" and "d \<in> set (set_decls spec)"
  shows "set_holds spec (sd_name d) a \<longleftrightarrow>
    (\<exists>e\<in>set (sd_elements d). \<exists>n. ip_network e = Some n \<and> in_net a n)"
  using decl_names_distinct [OF assms(1)] assms(2)
  by (auto simp: set_holds_iff distinct_map dest: inj_onD)

lemma peer_addrs_owned: "(\<exists>b\<in>set (peer_addrs P spec f). same_addr a b) \<longleftrightarrow> owned P spec f a"
  by (force simp: peer_addrs_def owned_def peer_texts_def split: if_splits)

lemma peer_addrs_holds:
  assumes "spec_ok spec"
  shows "(\<exists>e\<in>set (map show_ip (peer_addrs P spec f)). \<exists>n. ip_network e = Some n \<and> in_net a n)
    \<longleftrightarrow> owned P spec f a"
proof -
  have "(\<exists>n. ip_network (show_ip b) = Some n \<and> in_net a n) \<longleftrightarrow> same_addr a b"
    if "b \<in> set (peer_addrs P spec f)" for b
    using peer_addrs_wf [OF assms that] in_host_net [of b a] by (simp add: ip_network_show same_addr_def)
  then show ?thesis using peer_addrs_owned [of P spec f a] by auto
qed

lemma nets_holds:
  assumes "\<And>n. n \<in> set ns \<Longrightarrow> wf_net n"
  shows "(\<exists>e\<in>set (map show_net ns). \<exists>n. ip_network e = Some n \<and> in_net a n) \<longleftrightarrow>
    (\<exists>n\<in>set ns. in_net a n)"
  using assms ip_network_show_net by force

lemma set_family_nets:
  "set (family_nets f cs) = net_of ` {c \<in> set cs. \<exists>n. ip_network c = Some n \<and> net_version n = family_version f}"
  by (auto simp: family_nets_def of_family_def)

lemma family_nets_wf: "n \<in> set (family_nets f cs) \<Longrightarrow> wf_net n"
  using ip_network_wf by (auto simp: set_family_nets net_of_def)

lemma family_nets_covered:
  assumes "\<And>c. c \<in> set cs \<Longrightarrow> ip_network c \<noteq> None"
  shows "(\<exists>n\<in>set (family_nets f cs). in_net a n) \<longleftrightarrow> covered f cs a"
  using assms by (fastforce simp: set_family_nets covered_def net_of_def in_net_def)

lemma quarantine_holds:
  assumes "spec_ok spec"
  shows "set_holds spec (quarantine_set_name f) a \<longleftrightarrow> owned confined spec f a"
proof -
  have "quarantine_decl spec f \<in> set (set_decls spec)" by (simp add: set_decls_def)
  from set_holds_unique [OF assms this] show ?thesis
    using peer_addrs_holds [OF assms] by (simp add: quarantine_decl_def)
qed

lemma group_holds:
  assumes "spec_ok spec" and "g \<in> set (sp_groups spec)"
  shows "set_holds spec (group_set_name (gs_slug g) f) a \<longleftrightarrow> owned (in_group (gs_slug g)) spec f a"
proof -
  have "group_decl spec g f \<in> set (set_decls spec)" using assms(2) by (auto simp: set_decls_def)
  from set_holds_unique [OF assms(1) this] show ?thesis
    using peer_addrs_holds [OF assms(1)] by (simp add: group_decl_def)
qed

lemma internal_holds:
  assumes "spec_ok spec"
  shows "set_holds spec (internal_set_name f) a \<longleftrightarrow>
    covered f (gw_internal_cidrs (sp_gateway spec)) a"
proof -
  have "internal_decl spec f \<in> set (set_decls spec)" by (simp add: set_decls_def)
  from set_holds_unique [OF assms this] show ?thesis
    using nets_holds [OF family_nets_wf] family_nets_covered [OF spec_okD(1) [OF assms]]
    by (simp add: internal_decl_def)
qed

lemma zone_holds:
  assumes "spec_ok spec" and "z \<in> set (sp_zones spec)"
  shows "set_holds spec (zone_set_name (zs_slug z) f) a \<longleftrightarrow>
    owned (in_zone (zs_slug z)) spec f a \<or> covered f (map rt_cidr (zs_routes z)) a"
proof -
  let ?as = "peer_addrs (in_zone (zs_slug z)) spec f"
  have decl: "zone_decl spec z f \<in> set (set_decls spec)"
    unfolding set_decls_def set_append using assms(2) by (intro UnI2) auto
  have wf: "wf_addr b" if "b \<in> set ?as" for b using peer_addrs_wf [OF assms(1) that] by simp
  have host: "wf_net (host_net b) \<and> (in_net a (host_net b) \<longleftrightarrow> same_addr a b)" if "b \<in> set ?as" for b
    using wf [OF that] in_host_net [of b a]
    by (simp add: host_net_def wf_net_def net_version_def net_size_def same_addr_def)
  have nets: "wf_net n" if "n \<in> set (zone_nets spec z f)" for n
    using that host family_nets_wf by (auto simp: zone_nets_def)
  have routes: "(\<exists>n\<in>set (family_nets f (map rt_cidr (zs_routes z))). in_net a n) \<longleftrightarrow>
      covered f (map rt_cidr (zs_routes z)) a"
    by (rule family_nets_covered) (use spec_okD(2) [OF assms] in auto)
  have "(\<exists>n\<in>set (zone_nets spec z f). in_net a n) \<longleftrightarrow>
      (\<exists>b\<in>set ?as. same_addr a b) \<or> covered f (map rt_cidr (zs_routes z)) a"
    using host unfolding zone_nets_def set_append bex_Un routes by auto
  then show ?thesis
    using peer_addrs_owned [of "in_zone (zs_slug z)" spec f a] set_holds_unique [OF assms(1) decl] nets_holds [OF nets] by (simp add: zone_decl_def)
qed

end
