(* ===== verification/NftPacket.thy ===== *)
theory NftPacket
  imports NftSets
begin

text \<open>
  Concrete packets. \<open>holds\<close> gives every match expression its meaning on a packet with
  addresses, ports and a connection-tracking state, the named sets being those the table
  declares. The generated file as a whole is \<open>table_lines\<close>: the sets and the three chains
  that \<open>NftSemantics\<close> gives a meaning to.
\<close>

section \<open>Packets\<close>

datatype ct_state = CtNew | CtEst | CtBad

datatype icmp_kind = IcmpErr | EchoRequest | IcmpOther

record net_packet =
  np_iif :: string
  np_oif :: string
  np_src :: ip_addr
  np_dst :: ip_addr
  np_ct :: ct_state
  np_l4 :: string
  np_dport :: "int option"
  np_icmp :: "(family \<times> icmp_kind) option"
  np_within_limit :: bool

definition in_family :: "ip_addr \<Rightarrow> family \<Rightarrow> bool" where
  "in_family a f \<longleftrightarrow> ip_version a = family_version f"

fun holds :: "ruleset_spec \<Rightarrow> net_packet \<Rightarrow> nft_match \<Rightarrow> bool" where
  "holds spec pk (IifNeq i) = (np_iif pk \<noteq> i)"
| "holds spec pk (OifNeq i) = (np_oif pk \<noteq> i)"
| "holds spec pk (OifEq i) = (np_oif pk = i)"
| "holds spec pk CtInvalid = (np_ct pk = CtBad)"
| "holds spec pk CtEstablished = (np_ct pk = CtEst)"
| "holds spec pk (SaddrIn f s) = (in_family (np_src pk) f \<and> set_holds spec s (np_src pk))"
| "holds spec pk (DaddrIn f s) = (in_family (np_dst pk) f \<and> set_holds spec s (np_dst pk))"
| "holds spec pk (DaddrNotIn f s) = (in_family (np_dst pk) f \<and> \<not> set_holds spec s (np_dst pk))"
| "holds spec pk (SaddrNet f t) =
     (in_family (np_src pk) f \<and> (case ip_network t of None \<Rightarrow> False | Some n \<Rightarrow> in_net (np_src pk) n))"
| "holds spec pk (DaddrNet f t) =
     (in_family (np_dst pk) f \<and> (case ip_network t of None \<Rightarrow> False | Some n \<Rightarrow> in_net (np_dst pk) n))"
| "holds spec pk (DaddrIs f t) =
     (in_family (np_dst pk) f \<and> (case ip_address t of None \<Rightarrow> False | Some a \<Rightarrow> same_addr (np_dst pk) a))"
| "holds spec pk (L4Proto p) = (np_l4 pk = p)"
| "holds spec pk (Dport p lo hi) =
     (np_l4 pk = protocol_value p \<and> (case np_dport pk of None \<Rightarrow> False
        | Some d \<Rightarrow> lo \<le> d \<and> d \<le> (case hi of None \<Rightarrow> lo | Some h \<Rightarrow> h)))"
| "holds spec pk (IcmpError f) = (np_icmp pk = Some (f, IcmpErr))"
| "holds spec pk (IcmpEcho f) = (np_icmp pk = Some (f, EchoRequest))"
| "holds spec pk (NfProto f) = in_family (np_src pk) f"
| "holds spec pk RateLimit = np_within_limit pk"

section \<open>The whole file\<close>

definition input_hook :: string where
  "input_hook = ''type filter hook input priority filter; policy accept;''"

definition forward_hook :: string where
  "forward_hook = ''type filter hook forward priority filter; policy accept;''"

definition postrouting_hook :: string where
  "postrouting_hook = ''type nat hook postrouting priority srcnat; policy accept;''"

definition has_nat :: "ruleset_spec \<Rightarrow> bool" where
  "has_nat spec \<longleftrightarrow> exit_sources spec \<noteq> [] \<and> truthy (gw_wan_interface (sp_gateway spec))"

definition table_lines :: "ruleset_spec \<Rightarrow> string list" where
  "table_lines spec =
     (let table = ''table inet '' @ gw_table_name (sp_gateway spec) in
       [''# Create-then-delete makes the script idempotent: the first line is a'',
        ''# no-op if the table exists, and guarantees the delete never fails.'',
        table, ''delete '' @ table, [], table @ '' {''] @
       concat (map print_set (set_decls spec)) @
       print_chain ''input'' input_hook (input_items spec) @ [[]] @
       print_chain ''forward'' forward_hook (forward_items spec) @
       (if has_nat spec then [] # print_chain ''postrouting'' postrouting_hook (nat_items spec) else []) @
       [''}''])"

lemma render_body_ok:
  assumes "spec_ok spec"
  shows "render_body spec = Inr (table_lines spec)"
proof -
  have nat: "render_nat_chain spec = (if has_nat spec
      then print_chain ''postrouting'' postrouting_hook (nat_items spec) else [])"
    by (simp add: nat_refines has_nat_def postrouting_hook_def)
  have ne: "print_chain n h is \<noteq> []" for n h "is" by (simp add: print_chain_def)
  show ?thesis
    unfolding render_body_def render_sets_ok [OF assms] forward_refines [OF spec_okD(4) [OF assms]]
      input_refines Let_def bindR.simps nat table_lines_def input_hook_def [symmetric]
      forward_hook_def [symmetric]
    using ne by simp
qed

definition file_text :: "string list \<Rightarrow> string" where
  "file_text lines = BANNER @ rstrip_by (\<lambda>c. c = nl) (join [nl] lines) @ [nl]"

lemma generate_ok: "spec_ok spec \<Longrightarrow> generate_ruleset spec = Inr (file_text (table_lines spec))"
  by (simp add: generate_ruleset_def validate_spec_iff render_body_ok file_text_def)

lemma generate_bad:
  "\<not> spec_ok spec \<Longrightarrow> generate_ruleset spec = Inl (RulesetValidationError (validate_spec spec))"
  by (simp add: generate_ruleset_def validate_spec_iff)

section \<open>Packets and the policy\<close>

lemma owned_family: "spec_ok spec \<Longrightarrow> owned P spec f a \<Longrightarrow> in_family a f"
  using spec_okD(3) by (fastforce simp: owned_def in_family_def same_addr_def addr_of_def)

lemma in_quarantine_holds:
  "spec_ok spec \<Longrightarrow> in_quarantine (holds spec pk) \<longleftrightarrow> (\<exists>f. owned confined spec f (np_src pk))"
  by (auto simp: in_quarantine_def quarantine_holds dest: owned_family)

lemma to_quarantine_holds:
  "spec_ok spec \<Longrightarrow> to_quarantine (holds spec pk) \<longleftrightarrow> (\<exists>f. owned confined spec f (np_dst pk))"
  by (auto simp: to_quarantine_def quarantine_holds dest: owned_family)

lemma intra_zone_holds:
  assumes "spec_ok spec"
  shows "intra_zone spec (holds spec pk) \<longleftrightarrow> (\<exists>z\<in>set (sp_zones spec). zs_intra_zone z \<and>
     (\<exists>f. in_family (np_src pk) f \<and> in_family (np_dst pk) f \<and>
        (owned (in_zone (zs_slug z)) spec f (np_src pk) \<or> covered f (map rt_cidr (zs_routes z)) (np_src pk)) \<and>
        (owned (in_zone (zs_slug z)) spec f (np_dst pk) \<or> covered f (map rt_cidr (zs_routes z)) (np_dst pk))))"
  using zone_holds [OF assms] by (auto simp: intra_zone_def)

lemma internet_exit_holds:
  assumes "spec_ok spec"
  shows "internet_exit spec (holds spec pk) \<longleftrightarrow>
     np_oif pk = show_opt (gw_wan_interface (sp_gateway spec)) \<and>
     (\<exists>f. in_family (np_dst pk) f \<and> in_family (np_src pk) f \<and>
       \<not> covered f (gw_internal_cidrs (sp_gateway spec)) (np_dst pk) \<and>
       ((\<exists>g\<in>set (sp_groups spec). gs_internet_exit g \<and> owned (in_group (gs_slug g)) spec f (np_src pk)) \<or>
        (\<exists>z\<in>set (sp_zones spec). zs_internet_exit z \<and>
           (owned (in_zone (zs_slug z)) spec f (np_src pk) \<or>
            covered f (map rt_cidr (zs_routes z)) (np_src pk)))))"
  using zone_holds [OF assms] group_holds [OF assms] internal_holds [OF assms]
  by (auto simp: internet_exit_def)

lemma owned_by:
  assumes "p \<in> set (sp_peers spec)" and "P p" and "t \<in> set (addresses p f)" and "ip_address t = Some a"
  shows "owned P spec f a"
  using assms by (auto simp: owned_def same_addr_def addr_of_def intro!: bexI [of _ p] bexI [of _ t])

text \<open>What may reach the gateway from the tunnel at all.\<close>

definition from_tunnel :: "ruleset_spec \<Rightarrow> net_packet \<Rightarrow> bool" where
  "from_tunnel spec pk \<longleftrightarrow> np_iif pk = gw_wg_interface (sp_gateway spec)"

definition through_tunnel :: "ruleset_spec \<Rightarrow> net_packet \<Rightarrow> bool" where
  "through_tunnel spec pk \<longleftrightarrow> np_iif pk = gw_wg_interface (sp_gateway spec) \<or>
     np_oif pk = gw_wg_interface (sp_gateway spec)"

definition input_verdict :: "ruleset_spec \<Rightarrow> net_packet \<Rightarrow> verdict" where
  "input_verdict spec pk = chain_verdict (holds spec pk) (item_rules (input_items spec))"

definition forward_verdict :: "ruleset_spec \<Rightarrow> net_packet \<Rightarrow> verdict" where
  "forward_verdict spec pk = chain_verdict (holds spec pk) (item_rules (forward_items spec))"

definition nat_verdict :: "ruleset_spec \<Rightarrow> net_packet \<Rightarrow> verdict" where
  "nat_verdict spec pk =
     (if has_nat spec then chain_verdict (holds spec pk) (item_rules (nat_items spec)) else VAccept)"

lemma input_verdict_decision: "input_verdict spec pk = input_decision spec (holds spec pk)"
  by (simp add: input_verdict_def input_decides)

lemma forward_verdict_decision: "forward_verdict spec pk = forward_decision spec (holds spec pk)"
  by (simp add: forward_verdict_def forward_decides)

lemma nat_items_uniform: "all_verdict VMasquerade (nat_items spec)"
  by (auto simp: nat_items_def block_simps)

lemma nat_hit:
  "hit_by m (nat_items spec) \<longleftrightarrow>
     m (OifEq (show_opt (gw_wan_interface (sp_gateway spec)))) \<and>
     (\<exists>f. (\<exists>g\<in>set (sp_groups spec). gs_internet_exit g \<and> m (SaddrIn f (group_set_name (gs_slug g) f))) \<or>
        (\<exists>z\<in>set (sp_zones spec). zs_internet_exit z \<and> m (SaddrIn f (zone_set_name (zs_slug z) f))))"
  by (auto simp: nat_items_def exit_sources_def block_simps ex_family FAMILIES_def)

lemma nat_verdict_iff:
  "nat_verdict spec pk = (if has_nat spec \<and> hit_by (holds spec pk) (nat_items spec)
     then VMasquerade else VAccept)"
  using block [OF nat_items_uniform, of "holds spec pk" spec "[]"] by (simp add: nat_verdict_def)

lemma verdict_of_eq [simp]:
  "verdict_of a = VAccept \<longleftrightarrow> a = ACCEPT" "VAccept = verdict_of a \<longleftrightarrow> a = ACCEPT"
  by (cases a; simp)+

text \<open>Both directions of a confined peer are dropped, whatever else the packet is.\<close>

lemma confined_is_cut:
  assumes "spec_ok spec" and "through_tunnel spec pk" and "p \<in> set (sp_peers spec)"
    and "is_confined (ps_state p)" and "t \<in> set (addresses p f)" and "ip_address t = Some a"
    and "a \<in> {np_src pk, np_dst pk}"
  shows "forward_verdict spec pk = VDrop"
proof -
  have "owned confined spec f a" using assms owned_by by (simp add: confined_def)
  then have "in_quarantine (holds spec pk) \<or> to_quarantine (holds spec pk)"
    using assms(7) in_quarantine_holds [OF assms(1)] to_quarantine_holds [OF assms(1)] by auto
  then show ?thesis
    using assms(2) by (auto simp: forward_verdict_decision forward_decision_def Let_def through_tunnel_def)
qed

end
