(* ===== verification/NftProperties.thy ===== *)
theory NftProperties
  imports NftPacket
begin

text \<open>
  The properties of the ruleset generator: what validation accepts, that generation answers
  on every input, and what the generated chains do to a packet. \<open>demo_spec\<close> is a small
  valid deployment on which the properties with hypotheses are applied.
\<close>

section \<open>A deployment\<close>

definition demo_peer :: "string \<Rightarrow> peer_state \<Rightarrow> string \<Rightarrow> peer_spec" where
  "demo_peer i st ip = \<lparr>ps_id = i, ps_name = i, ps_state = st, ps_peer_type = USER,
     ps_tunnel_ip = Some ip, ps_tunnel_ip6 = None, ps_group_slugs = [''staff''],
     ps_zone_slug = None\<rparr>"

definition demo_rule :: rule_spec where
  "demo_rule = \<lparr>rs_id = ''r1'', rs_priority = 10, rs_action = ACCEPT,
     rs_src = endpoint_group ''staff'', rs_dst = endpoint_network ''10.0.5.0/24'',
     rs_protocol = TCP, rs_dst_port_start = Some 443, rs_dst_port_end = None, rs_comment = None\<rparr>"

definition demo_group :: group_spec where
  "demo_group = \<lparr>gs_slug = ''staff'', gs_internet_exit = True\<rparr>"

definition demo_zone :: zone_spec where
  "demo_zone = \<lparr>zs_slug = ''site'', zs_intra_zone = True, zs_internet_exit = False,
     zs_routes = [\<lparr>rt_cidr = ''192.168.7.0/24'', rt_via_peer_id = Some ''a'', rt_comment = None\<rparr>]\<rparr>"

definition demo_spec :: ruleset_spec where
  "demo_spec = \<lparr>sp_gateway = default_gateway\<lparr>gw_wan_interface := Some ''eth0'',
       gw_internal_cidrs := [''10.0.0.0/8'']\<rparr>,
     sp_groups = [demo_group], sp_zones = [demo_zone],
     sp_peers = [demo_peer ''a'' ACTIVE ''10.66.0.2'', demo_peer ''b'' QUARANTINED ''10.66.0.3''],
     sp_rules = [demo_rule]\<rparr>"

lemma demo_spec_ok: "spec_ok demo_spec"
  unfolding validate_spec_iff [symmetric] by code_simp

lemma demo_confined:
  "demo_peer ''b'' QUARANTINED ''10.66.0.3'' \<in> set (sp_peers demo_spec)"
  "ip_address ''10.66.0.3'' = Some (IP4 172097539)"
  by (simp add: demo_spec_def) code_simp

definition demo_packet :: net_packet where
  "demo_packet = \<lparr>np_iif = ''wg0'', np_oif = ''eth0'', np_src = IP4 172097539,
     np_dst = IP4 134744072, np_ct = CtEst, np_l4 = ''tcp'', np_dport = Some 443,
     np_icmp = None, np_within_limit = True\<rparr>"


definition demo_flow :: net_packet where
  "demo_flow = \<lparr>np_iif = ''wg0'', np_oif = ''eth1'', np_src = IP4 172097538,
     np_dst = IP4 167773441, np_ct = CtNew, np_l4 = ''tcp'', np_dport = Some 443,
     np_icmp = None, np_within_limit = True\<rparr>"

definition demo_surf :: net_packet where
  "demo_surf = \<lparr>np_iif = ''wg0'', np_oif = ''eth0'', np_src = IP4 172097538,
     np_dst = IP4 134744072, np_ct = CtNew, np_l4 = ''udp'', np_dport = Some 443,
     np_icmp = None, np_within_limit = True\<rparr>"

section \<open>Validation and generation\<close>

text \<open>
  C6: \<open>validate_spec\<close> raises nothing exactly on the specs that satisfy the declarative
  reading \<open>spec_ok\<close>: identifiers well formed and unique, set names that do not collide,
  known references, parsable addresses of the right family, no default route, one carrier
  per network, port ranges that make sense.
\<close>

theorem validation_is_spec_ok: "validate_spec spec = [] \<longleftrightarrow> spec_ok spec"
  by (rule validate_spec_iff)

text \<open>
  C8: \<open>generate_ruleset\<close> answers on every spec. It returns a text exactly on the valid ones,
  and that text is the one of the model (\<open>table_lines\<close>: the declared sets and the three
  chains whose meaning is proved below); on any other spec it raises
  \<open>RulesetValidationError\<close> with the non-empty list of messages, never \<open>ValueError\<close> or
  \<open>TypeError\<close> from a half rendered file.
\<close>

theorem generation_is_total:
  "case generate_ruleset spec of
     Inr txt \<Rightarrow> spec_ok spec \<and> txt = file_text (table_lines spec)
   | Inl e \<Rightarrow> \<not> spec_ok spec \<and> e = RulesetValidationError (validate_spec spec) \<and>
       validate_spec spec \<noteq> []"
  by (cases "spec_ok spec") (simp_all add: generate_ok generate_bad validate_spec_iff)

text \<open>
  On a valid spec the table declares no set twice, although the slugs of groups and
  zones are folded (hyphens become underscores) to make the names.
\<close>

theorem set_names_distinct:
  assumes "validate_spec spec = []"
  shows "distinct (map sd_name (set_decls spec)) \<and>
    render_sets spec = Inr (concat (map print_set (set_decls spec)))"
  using assms decl_names_distinct render_sets_ok by (simp add: validate_spec_iff)

theorem set_names_distinct_witness:
  "distinct (map sd_name (set_decls demo_spec)) \<and>
     render_sets demo_spec = Inr (concat (map print_set (set_decls demo_spec)))"
  by (rule set_names_distinct) (simp add: validate_spec_iff demo_spec_ok)



section \<open>The forward chain\<close>

text \<open>
  C1: quarantine cuts a peer off. On a valid spec, a packet that crosses the gateway through
  the tunnel, from or to an address of a peer in staging or quarantine, is dropped by the
  generated forward chain, whatever the ACL rules say and even on an established flow.
\<close>

theorem quarantine_cuts_forwarding:
  assumes "validate_spec spec = []" and "through_tunnel spec pk"
    and "p \<in> set (sp_peers spec)" and "is_confined (ps_state p)"
    and "t \<in> set (addresses p f)" and "ip_address t = Some a" and "a \<in> {np_src pk, np_dst pk}"
  shows "render_forward_chain spec = Inr (print_chain ''forward'' forward_hook (forward_items spec)) \<and>
    forward_verdict spec pk = VDrop"
proof -
  have ok: "spec_ok spec" using assms(1) by (simp add: validate_spec_iff)
  then show ?thesis
    using confined_is_cut [OF ok assms(2-7)] forward_refines [OF spec_okD(4) [OF ok]]
    by (simp add: forward_hook_def)
qed

theorem quarantine_cuts_forwarding_witness: "forward_verdict demo_spec demo_packet = VDrop"
proof -
  have "through_tunnel demo_spec demo_packet"
    by (simp add: through_tunnel_def demo_packet_def demo_spec_def default_gateway_def)
  moreover have "''10.66.0.3'' \<in> set (addresses (demo_peer ''b'' QUARANTINED ''10.66.0.3'') V4)"
    by (simp add: demo_peer_def addresses_def)
  moreover have "IP4 172097539 \<in> {np_src demo_packet, np_dst demo_packet}" by (simp add: demo_packet_def)
  ultimately show ?thesis
    using quarantine_cuts_forwarding [of demo_spec demo_packet] demo_confined demo_spec_ok
    by (simp add: validate_spec_iff demo_peer_def)
qed

text \<open>
  C3: the whole forward policy. On a valid spec the generator prints the chain
  \<open>forward_items\<close>, and first match over it decides every packet as the documented policy:
  foreign traffic passes untouched, invalid packets and both directions of quarantined peers
  drop, established flows and ICMP errors pass, then the first ACL rule by priority and id,
  then intra-zone and internet exit, then default deny.
\<close>

theorem forward_chain_is_the_policy:
  assumes "validate_spec spec = []"
  shows "render_forward_chain spec = Inr (print_chain ''forward'' forward_hook (forward_items spec)) \<and>
    chain_verdict m (item_rules (forward_items spec)) = forward_decision spec m"
  using assms forward_refines [OF spec_okD(4)] forward_decides
  by (simp add: validate_spec_iff forward_hook_def)

theorem forward_chain_is_the_policy_witness:
  "render_forward_chain demo_spec =
     Inr (print_chain ''forward'' forward_hook (forward_items demo_spec)) \<and>
   chain_verdict (\<lambda>_. False) (item_rules (forward_items demo_spec)) = VDrop"
proof -
  have "forward_decision demo_spec (\<lambda>_. False) = VDrop" by code_simp
  then show ?thesis
    using forward_chain_is_the_policy [of demo_spec "\<lambda>_. False"] demo_spec_ok
    by (simp add: validate_spec_iff)
qed



lemma find_sorted:
  assumes "find P (sort_key k xs) = Some x"
  shows "x \<in> set xs \<and> P x \<and> (\<forall>y\<in>set xs. P y \<longrightarrow> k x \<le> k y)"
proof -
  let ?ys = "sort_key k xs"
  obtain i where i: "i < length ?ys" "?ys ! i = x" "P x" "\<forall>j<i. \<not> P (?ys ! j)"
    using assms by (auto simp: find_Some_iff)
  have "k x \<le> k y" if y: "y \<in> set xs" "P y" for y
  proof -
    have "y \<in> set ?ys" using y by simp
    then obtain j where j: "j < length ?ys" "?ys ! j = y" by (auto simp only: in_set_conv_nth)
    then have "i \<le> j" using i(4) y(2) by (metis not_le)
    then have "map k ?ys ! i \<le> map k ?ys ! j" using j by (intro sorted_nth_mono) simp_all
    then show ?thesis using i j by simp
  qed
  moreover have "x \<in> set xs" using i by (metis nth_mem set_sort)
  ultimately show ?thesis using i by blast
qed

text \<open>
  ACL rules are first match by priority, then by rule id. The generator prints the rules
  in that order, so the action that decides a packet is that of a rule which applies and has
  the least (priority, id) among all rules that apply; none decides only if none applies.
\<close>

theorem acl_first_match:
  assumes "validate_spec spec = []"
  shows "render_acl_lines spec = Inr (map print_item (acl_items spec)) \<and>
    (case acl_decision spec m of
       None \<Rightarrow> \<forall>r\<in>set (sp_rules spec). \<not> acl_applies m r
     | Some a \<Rightarrow> \<exists>r\<in>set (sp_rules spec). acl_applies m r \<and> rs_action r = a \<and>
         (\<forall>q\<in>set (sp_rules spec). acl_applies m q \<longrightarrow> sort_key_rule r \<le> sort_key_rule q))"
proof -
  have "render_acl_lines spec = Inr (map print_item (acl_items spec))"
    using assms acl_lines_refine [OF spec_okD(4)] by (simp add: validate_spec_iff)
  moreover have "case acl_decision spec m of
       None \<Rightarrow> \<forall>r\<in>set (sp_rules spec). \<not> acl_applies m r
     | Some a \<Rightarrow> \<exists>r\<in>set (sp_rules spec). acl_applies m r \<and> rs_action r = a \<and>
         (\<forall>q\<in>set (sp_rules spec). acl_applies m q \<longrightarrow> sort_key_rule r \<le> sort_key_rule q)"
  proof (cases "find (acl_applies m) (sort_key sort_key_rule (sp_rules spec))")
    case None
    then have "\<forall>r\<in>set (sp_rules spec). \<not> acl_applies m r" by (auto simp: find_None_iff)
    then show ?thesis by (simp add: acl_decision_def None)
  next
    case (Some r)
    then show ?thesis using find_sorted [OF Some] by (auto simp: acl_decision_def)
  qed
  ultimately show ?thesis by blast
qed

theorem acl_first_match_witness:
  "\<exists>r\<in>set (sp_rules demo_spec). rs_action r = ACCEPT \<and> acl_applies (holds demo_spec demo_flow) r"
proof -
  have "acl_decision demo_spec (holds demo_spec demo_flow) = Some ACCEPT" by code_simp
  then show ?thesis
    using acl_first_match [of demo_spec "holds demo_spec demo_flow"] demo_spec_ok
    by (auto simp: validate_spec_iff)
qed

text \<open>
  C20: internet exit is never a shortcut into internal networks. On a valid spec the exit
  rules take a packet exactly when it leaves by the WAN interface, its destination is in no
  configured internal network of its family, and its source is an active member of a group
  or zone with internet exit, or a network routed to such a zone; and every packet they take
  is masqueraded by the generated postrouting chain.
\<close>

theorem internet_exit_is_not_internal:
  assumes "validate_spec spec = []" and "hit_by (holds spec pk) (exit_items spec)"
  shows "exit_lines spec = map print_item (exit_items spec) \<and>
    np_oif pk = show_opt (gw_wan_interface (sp_gateway spec)) \<and>
    (\<exists>f. in_family (np_src pk) f \<and> in_family (np_dst pk) f \<and>
       \<not> covered f (gw_internal_cidrs (sp_gateway spec)) (np_dst pk) \<and>
       ((\<exists>g\<in>set (sp_groups spec). gs_internet_exit g \<and> owned (in_group (gs_slug g)) spec f (np_src pk)) \<or>
        (\<exists>z\<in>set (sp_zones spec). zs_internet_exit z \<and>
           (owned (in_zone (zs_slug z)) spec f (np_src pk) \<or>
            covered f (map rt_cidr (zs_routes z)) (np_src pk))))) \<and>
    nat_verdict spec pk = VMasquerade"
proof -
  have ok: "spec_ok spec" using assms(1) by (simp add: validate_spec_iff)
  have exit: "internet_exit spec (holds spec pk)" using assms(2) by (simp add: exit_hit)
  then have "hit_by (holds spec pk) (nat_items spec)"
    by (auto simp: internet_exit_def nat_hit)
  moreover have "has_nat spec"
    using ok exit by (auto simp: has_nat_def spec_ok_def Let_def internet_exit_def exit_sources_def
        filter_empty_conv)
  ultimately have "nat_verdict spec pk = VMasquerade" by (simp add: nat_verdict_iff)
  then show ?thesis using exit internet_exit_holds [OF ok] exit_refines by auto
qed

theorem internet_exit_is_not_internal_witness:
  "nat_verdict demo_spec demo_surf = VMasquerade"
proof -
  have "internet_exit demo_spec (holds demo_spec demo_surf)" by code_simp
  then show ?thesis
    using internet_exit_is_not_internal [of demo_spec demo_surf] demo_spec_ok
    by (simp add: validate_spec_iff exit_hit)
qed

section \<open>The input chain\<close>

text \<open>
  C12: the whole input policy. Whatever the spec, the generator prints the chain
  \<open>input_items\<close>, and first match over it decides every packet as \<open>input_decision\<close>: what did
  not come from the tunnel is left alone, a quarantined source reaches the portal, DNS and
  ping and nothing else, other sources get established flows and ICMP errors, and the rest
  depends on the gateway's input policy.
\<close>

theorem input_chain_is_the_policy:
  "render_input_chain spec = print_chain ''input'' input_hook (input_items spec) \<and>
   chain_verdict m (item_rules (input_items spec)) = input_decision spec m"
  using input_refines [of spec] input_decides by (simp add: input_hook_def)





section \<open>What validation lets through\<close>

text \<open>
  C37: the identifier checks accept a final newline. Every name the expressions accept is
  accepted again with a newline after it, because Python's \<open>$\<close> matches before one; the names
  go verbatim into the script, whose design says that nothing but its alphabet can.
\<close>

theorem identifiers_accept_a_newline:
  "(SLUG_RE s \<and> nl \<notin> set s \<longrightarrow> SLUG_RE (s @ [nl])) \<and>
   (TABLE_RE s \<and> nl \<notin> set s \<longrightarrow> TABLE_RE (s @ [nl])) \<and>
   (IFACE_RE s \<and> nl \<notin> set s \<longrightarrow> IFACE_RE (s @ [nl])) \<and>
   (RULE_ID_RE s \<and> nl \<notin> set s \<longrightarrow> RULE_ID_RE (s @ [nl]))"
  unfolding SLUG_RE_def TABLE_RE_def IFACE_RE_def RULE_ID_RE_def
  using re_dollar_exact re_dollar_snoc by blast

theorem identifiers_accept_a_newline_witness:
  "IFACE_RE (''wg0'' @ [nl]) \<and> validate_spec (demo_spec\<lparr>sp_gateway :=
     default_gateway\<lparr>gw_wan_interface := Some (''eth0'' @ [nl])\<rparr>\<rparr>) = []"
proof -
  have "IFACE_RE ''wg0''" by code_simp
  moreover have "validate_spec (demo_spec\<lparr>sp_gateway :=
     default_gateway\<lparr>gw_wan_interface := Some (''eth0'' @ [nl])\<rparr>\<rparr>) = []" by code_simp
  ultimately show ?thesis using identifiers_accept_a_newline [of "''wg0''"] by simp
qed

text \<open>
  C39: a scope id is rendered verbatim. \<open>_check_cidr\<close> accepts \<open>::1%<scope>/128\<close> whatever the
  scope holds (short of a percent sign or a slash), and \<open>_sorted_networks\<close>, whose result is
  written between the braces of a set, returns it unchanged, newlines and braces included.
\<close>

theorem scope_id_is_rendered:
  assumes "sc \<noteq> []" and "CHR ''%'' \<notin> set sc" and "CHR ''/'' \<notin> set sc"
  shows "check_cidr (''::1%'' @ sc @ ''/128'') label = [] \<and>
    sorted_networks [''::1%'' @ sc @ ''/128''] = Inr [''::1%'' @ sc @ ''/128'']"
proof -
  let ?n = "IPNet (IP6 1 (Some sc)) 128"
  have hextets: "v6_hextets 1 = [''0'', ''0'', ''0'', ''0'', ''0'', ''0'', ''0'', ''1'']"
    by (simp add: v6_hextets_def upt_rec show_hex_def show_base.simps digit_char_def)
  have "show_v6 1 = ''::1''" by (simp add: show_v6_def hextets compress_hextets_def Let_def)
  moreover have "show_nat 128 = ''128''" by (simp add: show_nat_def show_base.simps digit_char_def)
  ultimately have shown: "show_net ?n = ''::1%'' @ sc @ ''/128''" by (simp add: show_net_def)
  have "wf_net ?n"
    using assms by (simp add: wf_net_def wf_addr_def net_version_def max_prefixlen_def net_size_def)
  then have net: "ip_network (''::1%'' @ sc @ ''/128'') = Some ?n"
    using ip_network_show_net [of ?n] shown by simp
  then have "sorted_networks [''::1%'' @ sc @ ''/128''] = Inr [show_net ?n]"
    by (simp add: sorted_networks_def)
  then show ?thesis using net shown by (simp add: check_cidr_def)
qed

theorem scope_id_is_rendered_witness:
  "sorted_networks [''::1%x }; flush ruleset; #/128''] =
     Inr [''::1%x }; flush ruleset; #/128'']"
  using scope_id_is_rendered [of "''x }; flush ruleset; #''" Unlabelled] by simp

end
