(* ===== verification/ProxyModel.thy ===== *)
theory ProxyModel
  imports NftModel
begin

text \<open>
  The enumerations of \<open>backend/foxguard/proxy/model.py\<close>: what is published through the
  gateway's reverse proxy, on which of its two doors, behind which proof and which filters.
\<close>

datatype service_kind = HTTP | TCP_PASS

datatype exposure = INTERNAL | EXTERNAL | BOTH_DOORS

fun has_internal :: "exposure \<Rightarrow> bool" where
  "has_internal e = (e \<in> {INTERNAL, BOTH_DOORS})"

fun has_external :: "exposure \<Rightarrow> bool" where
  "has_external e = (e \<in> {EXTERNAL, BOTH_DOORS})"

datatype scope = SCOPE_INTERNAL | SCOPE_EXTERNAL | SCOPE_BOTH

fun covers :: "scope \<Rightarrow> exposure \<Rightarrow> bool" where
  "covers SCOPE_BOTH e = True"
| "covers SCOPE_INTERNAL e = (e = INTERNAL)"
| "covers SCOPE_EXTERNAL e = (e = EXTERNAL)"

datatype auth_kind = PEER_IDENTITY | BEARER | BASIC | FOXGUARD_SSO | MTLS | PUBLIC

datatype filter_kind = IP_ALLOW | IP_DENY | GEO_ALLOW | GEO_DENY | RATE_LIMIT | WAF | CROWDSEC

end
