(* ===== verification/Records.thy ===== *)
theory Records
  imports ProxyModel
begin

text \<open>
  The tables of \<open>backend/foxguard/models.py\<close> that the services read and write, as records
  with the columns they use, and the database as a record of tables in the order of
  insertion. Keys and foreign keys are the text of their UUID. A relationship is the list
  of the keys it joins (\<open>pe_group_ids\<close>), or the child rows themselves when they are owned
  (\<open>gr_routes\<close>). A function of a service that takes the ORM session takes and returns the
  database; what it raises is an \<open>Inl\<close>, with which the transaction is rolled back.
\<close>

section \<open>Values\<close>

text \<open>
  A \<open>datetime\<close> with a zone is an instant, in microseconds since the epoch; one without is
  the same number read as local. The services read the latter as UTC.
\<close>

datatype datetime = Aware int | Naive int

fun instant :: "datetime \<Rightarrow> int" where
  "instant (Aware t) = t"
| "instant (Naive t) = t"

definition add_seconds :: "int \<Rightarrow> int \<Rightarrow> int" where
  "add_seconds t n = t + n * 1000000"

text \<open>JSON, for the audit trail's details and the policy documents.\<close>

datatype json = JNull | JBool bool | JInt int | JStr string | JList "json list"
  | JObj "(string \<times> json) list"

fun json_opt_str :: "string option \<Rightarrow> json" where
  "json_opt_str None = JNull"
| "json_opt_str (Some s) = JStr s"

section \<open>Enumerations of the control plane\<close>

datatype group_kind = GROUP | ZONE

datatype auth_method = LOCAL | OIDC

datatype actor_type = ADMIN_ACTOR | USER_ACTOR | AGENT_ACTOR | SYSTEM_ACTOR | PEER_ACTOR

datatype ruleset_status = PENDING | APPLIED | FAILED | SUPERSEDED

datatype session_status = SESSION_ACTIVE | SESSION_EXPIRED | SESSION_REVOKED

fun peer_state_value :: "peer_state \<Rightarrow> string" where
  "peer_state_value STAGING = ''staging''"
| "peer_state_value QUARANTINED = ''quarantined''"
| "peer_state_value ACTIVE = ''active''"
| "peer_state_value DISABLED = ''disabled''"
| "peer_state_value REVOKED = ''revoked''"

section \<open>Rows\<close>

record user_row =
  us_id :: string
  us_username :: string
  us_email :: "string option"
  us_display_name :: "string option"
  us_idp_issuer :: "string option"
  us_password_hash :: "string option"
  us_idp_subject :: "string option"
  us_totp_secret :: "string option"
  us_totp_enabled :: bool
  us_totp_last_used_step :: "int option"
  us_is_admin :: bool
  us_is_active :: bool
  us_last_login_at :: "int option"
  us_group_ids :: "string list"

definition available_auth_methods :: "user_row \<Rightarrow> auth_method list" where
  "available_auth_methods u =
     (if truthy (us_password_hash u) then [LOCAL] else []) @
     (if truthy (us_idp_subject u) then [OIDC] else [])"

record route_row =
  zr_id :: string
  zr_cidr :: string
  zr_via_peer_id :: "string option"
  zr_description :: "string option"
  zr_enabled :: bool

record group_row =
  gr_id :: string
  gr_slug :: string
  gr_name :: string
  gr_description :: "string option"
  gr_kind :: group_kind
  gr_parent_id :: "string option"
  gr_internet_exit :: bool
  gr_intra_zone :: bool
  gr_session_lifetime_seconds :: "int option"
  gr_routes :: "route_row list"

record peer_row =
  pe_id :: string
  pe_name :: string
  pe_description :: "string option"
  pe_peer_type :: peer_type
  pe_state :: peer_state
  pe_wg_public_key :: string
  pe_wg_interface :: string
  pe_tunnel_ip :: "string option"
  pe_tunnel_ip6 :: "string option"
  pe_dns_label :: "string option"
  pe_owner_user_id :: "string option"
  pe_zone_id :: "string option"
  pe_enrollment_key_hash :: "string option"
  pe_enrollment_key_expires_at :: "datetime option"
  pe_enrolled_at :: "int option"
  pe_last_authenticated_at :: "datetime option"
  pe_created_at :: int
  pe_group_ids :: "string list"
  pe_tags :: "string list"

record acl_row =
  ac_id :: string
  ac_ref :: string
  ac_name :: string
  ac_description :: "string option"
  ac_priority :: int
  ac_enabled :: bool
  ac_action :: action
  ac_src_kind :: endpoint_kind
  ac_src_group_id :: "string option"
  ac_src_cidr :: "string option"
  ac_dst_kind :: endpoint_kind
  ac_dst_group_id :: "string option"
  ac_dst_cidr :: "string option"
  ac_protocol :: protocol
  ac_dst_port_start :: "int option"
  ac_dst_port_end :: "int option"

record session_row =
  se_id :: string
  se_peer_id :: string
  se_user_id :: string
  se_auth_method :: auth_method
  se_status :: session_status
  se_authenticated_at :: int
  se_last_authenticated_at :: datetime
  se_expires_at :: "datetime option"
  se_revoked_at :: "int option"
  se_source_ip :: "string option"

record admin_session_row =
  as_id :: string
  as_user_id :: string
  as_token_hash :: string
  as_created_at :: int
  as_last_seen_at :: int
  as_expires_at :: int
  as_revoked_at :: "int option"
  as_source_ip :: "string option"
  as_user_agent :: "string option"

record sso_row =
  ss_id :: string
  ss_user_id :: string
  ss_source_ip :: "string option"
  ss_user_agent :: "string option"
  ss_expires_at :: int
  ss_revoked_at :: "int option"

datatype record_kind = REC_A | REC_AAAA | REC_CNAME

record dns_row =
  dn_id :: string
  dn_name :: string
  dn_kind :: record_kind
  dn_value :: string
  dn_description :: "string option"
  dn_enabled :: bool

text \<open>
  A published service with the rows it owns: authenticators, filters, access rules, bearer
  tokens and basic-auth accounts.
\<close>

record auth_row =
  sa_id :: string
  sa_kind :: auth_kind
  sa_scope :: scope
  sa_enabled :: bool
  sa_priority :: int
  sa_realm :: "string option"
  sa_require_admin :: bool
  sa_group_ids :: "string list"

record filter_row =
  sf_id :: string
  sf_kind :: filter_kind
  sf_scope :: scope
  sf_enabled :: bool
  sf_priority :: int
  sf_values :: "string list"
  sf_rate :: "int option"
  sf_period_seconds :: "int option"

record access_row =
  sx_id :: string
  sx_action :: action
  sx_kind :: endpoint_kind
  sx_group_id :: "string option"
  sx_cidr :: "string option"
  sx_priority :: int

record token_row =
  tk_id :: string
  tk_name :: string
  tk_token_hash :: string
  tk_prefix :: string
  tk_created_by_user_id :: "string option"
  tk_expires_at :: "int option"
  tk_revoked_at :: "int option"

record account_row =
  at_id :: string
  at_username :: string
  at_password_hash :: string
  at_revoked_at :: "int option"

record service_row =
  sv_id :: string
  sv_slug :: string
  sv_name :: string
  sv_description :: "string option"
  sv_enabled :: bool
  sv_kind :: service_kind
  sv_exposure :: exposure
  sv_upstream_peer_id :: "string option"
  sv_upstream_host :: string
  sv_upstream_port :: int
  sv_upstream_tls :: bool
  sv_upstream_tls_verify :: bool
  sv_internal_hostname :: "string option"
  sv_external_hostname :: "string option"
  sv_listen_port :: "int option"
  sv_sni_hostname :: "string option"
  sv_health_check :: bool
  sv_health_check_interval :: int
  sv_authenticators :: "auth_row list"
  sv_filters :: "filter_row list"
  sv_access :: "access_row list"
  sv_tokens :: "token_row list"
  sv_accounts :: "account_row list"

record audit_row =
  au_actor_type :: actor_type
  au_actor_user_id :: "string option"
  au_actor_label :: "string option"
  au_action :: string
  au_object_type :: "string option"
  au_object_id :: "string option"
  au_source_ip :: "string option"
  au_detail :: json

record version_row =
  ve_id :: string
  ve_created_at :: int
  ve_digest :: string
  ve_content :: string
  ve_status :: ruleset_status
  ve_applied_at :: "int option"
  ve_error :: "string option"
  ve_generated_by :: "string option"

record db =
  users :: "user_row list"
  groups :: "group_row list"
  peers :: "peer_row list"
  acl_rules :: "acl_row list"
  sessions :: "session_row list"
  admin_sessions :: "admin_session_row list"
  audit_log :: "audit_row list"
  versions :: "version_row list"
  services :: "service_row list"
  dns_records :: "dns_row list"
  sso_sessions :: "sso_row list"
  tags :: "string list"

text \<open>\<open>tags\<close>: the names of the tags that exist.\<close>

section \<open>Lookups\<close>

definition group_by_id :: "db \<Rightarrow> string option \<Rightarrow> group_row option" where
  "group_by_id d k = (case k of None \<Rightarrow> None | Some i \<Rightarrow> find (\<lambda>g. gr_id g = i) (groups d))"

definition user_by_id :: "db \<Rightarrow> string option \<Rightarrow> user_row option" where
  "user_by_id d k = (case k of None \<Rightarrow> None | Some i \<Rightarrow> find (\<lambda>u. us_id u = i) (users d))"

text \<open>\<open>peer.groups\<close>.\<close>

definition peer_groups :: "db \<Rightarrow> peer_row \<Rightarrow> group_row list" where
  "peer_groups d p = filter (\<lambda>g. gr_id g \<in> set (pe_group_ids p)) (groups d)"

definition peer_zone :: "db \<Rightarrow> peer_row \<Rightarrow> group_row option" where
  "peer_zone d p = group_by_id d (pe_zone_id p)"

text \<open>Writing a row back: the row of that key, and only it, is replaced.\<close>

definition update_peer :: "string \<Rightarrow> (peer_row \<Rightarrow> peer_row) \<Rightarrow> db \<Rightarrow> db" where
  "update_peer i f d = d\<lparr>peers := map (\<lambda>p. if pe_id p = i then f p else p) (peers d)\<rparr>"

definition update_user :: "string \<Rightarrow> (user_row \<Rightarrow> user_row) \<Rightarrow> db \<Rightarrow> db" where
  "update_user i f d = d\<lparr>users := map (\<lambda>u. if us_id u = i then f u else u) (users d)\<rparr>"

definition update_session :: "string \<Rightarrow> (session_row \<Rightarrow> session_row) \<Rightarrow> db \<Rightarrow> db" where
  "update_session i f d = d\<lparr>sessions := map (\<lambda>s. if se_id s = i then f s else s) (sessions d)\<rparr>"

section \<open>Audit\<close>

text \<open>\<open>services/audit.record\<close>: the trail only ever grows.\<close>

definition audit_record :: "audit_row \<Rightarrow> db \<Rightarrow> db" where
  "audit_record entry d = d\<lparr>audit_log := audit_log d @ [entry]\<rparr>"

definition audit_entry ::
  "string \<Rightarrow> actor_type \<Rightarrow> string option \<Rightarrow> string option \<Rightarrow> string option \<Rightarrow> string option
     \<Rightarrow> string option \<Rightarrow> json \<Rightarrow> audit_row" where
  "audit_entry act actor_type actor_user_id actor_label object_type object_id source_ip detail =
     \<lparr>au_actor_type = actor_type, au_actor_user_id = actor_user_id, au_actor_label = actor_label,
      au_action = act, au_object_type = object_type, au_object_id = object_id,
      au_source_ip = source_ip, au_detail = detail\<rparr>"

section \<open>Settings\<close>

text \<open>
  \<open>Settings\<close> of \<open>backend/foxguard/config.py\<close>, its fields grouped by the sections of the class.
  A secret is its text. \<open>default_settings\<close> is what the class holds when the environment sets
  nothing.
\<close>

datatype resolver_mode = FORWARD | SPLIT

datatype allowed_ips_mode = TUNNEL | ZONE_ONLY | ROUTED | FULL

record dns_settings =
  ds_enabled :: bool
  ds_zone :: string
  ds_gateway_label :: string
  ds_mode :: resolver_mode
  ds_upstreams :: "string list"
  ds_port :: int
  ds_listen_addresses :: "string list"
  ds_hosts_path :: string
  ds_conf_path :: string
  ds_cache_size :: int
  ds_stop_dns_rebind :: bool
  ds_log_queries :: bool
  ds_extra_options :: "string list"

record proxy_settings =
  px_enabled :: bool
  px_domain :: "string option"
  px_internal_binds :: "string list"
  px_external_binds :: "string list"
  px_internal_https_port :: int
  px_external_https_port :: int
  px_external_http_port :: int
  px_tcp_port_start :: int
  px_tcp_port_end :: int
  px_conf_path :: string
  px_certs_dir :: string
  px_maps_dir :: string
  px_runtime_socket :: string
  px_hsts_max_age :: int
  px_send_group_header :: bool
  px_killswitch_stops_internal :: bool
  px_killswitch_stops_external :: bool
  px_connect_timeout_seconds :: int
  px_client_timeout_seconds :: int
  px_server_timeout_seconds :: int
  px_tunnel_timeout_seconds :: int
  px_extra_options :: "string list"
  px_sso_secret :: "string option"
  px_sso_cookie_name :: string
  px_sso_lifetime_seconds :: int
  px_sso_hostname :: "string option"
  px_dashboard_enabled :: bool
  px_dashboard_hostname :: "string option"
  px_dashboard_host :: "string option"
  px_dashboard_port :: int

record client_settings =
  cc_allowed_ips :: allowed_ips_mode
  cc_extra_allowed_ips :: "string list"
  cc_keepalive :: int
  cc_mtu :: "int option"
  cc_dns :: bool

record session_settings =
  sn_default_lifetime_seconds :: int
  sn_enrollment_key_bytes :: nat
  sn_sweep_enabled :: bool
  sn_sweep_interval_seconds :: int
  sn_login_max_attempts :: int
  sn_login_window_seconds :: int
  sn_enroll_max_attempts :: int
  sn_enroll_window_seconds :: int
  sn_totp_issuer :: string

record oidc_settings =
  oi_issuer :: "string option"
  oi_client_id :: "string option"
  oi_client_secret :: "string option"
  oi_redirect_url :: "string option"
  oi_scopes :: string
  oi_transaction_ttl_seconds :: int
  oi_post_login_redirect :: "string option"
  oi_admin_redirect_url :: "string option"

record settings =
  st_dev_mode :: bool
  st_admin_api_token :: "string option"
  st_admin_session_lifetime_seconds :: int
  st_admin_login_max_attempts :: int
  st_admin_login_window_seconds :: int
  st_agent_api_token :: "string option"
  st_wg_interface :: string
  st_wg_listen_port :: int
  st_wg_public_key :: "string option"
  st_wg_endpoint_host :: "string option"
  st_wg_pool_v4 :: string
  st_wg_pool_v6 :: "string option"
  st_wg_staging_pool_v4 :: "string option"
  st_wg_staging_pool_v6 :: "string option"
  st_wg_gateway_ip :: "string option"
  st_nft_table_name :: string
  st_wan_interface :: "string option"
  st_portal_port :: int
  st_portal_bind_ip :: "string option"
  st_portal_bind_ip6 :: "string option"
  st_portal_dedicated_port :: int
  st_portal_hostname :: "string option"
  st_internal_cidrs :: "string list"
  st_allow_dns_in_quarantine :: bool
  st_allow_icmp_to_gateway :: bool
  st_gateway_input_policy :: gateway_input_policy
  st_log_dropped :: bool
  st_portal_tls_certfile :: "string option"
  st_dns :: dns_settings
  st_proxy :: proxy_settings
  st_client :: client_settings
  st_session :: session_settings
  st_oidc :: oidc_settings

definition default_dns :: dns_settings where
  "default_dns = \<lparr>ds_enabled = False, ds_zone = ''fox.internal'', ds_gateway_label = ''gw'',
     ds_mode = FORWARD, ds_upstreams = [], ds_port = 53, ds_listen_addresses = [],
     ds_hosts_path = ''/etc/foxguard/dns/hosts'', ds_conf_path = ''/etc/foxguard/dns/dnsmasq.conf'',
     ds_cache_size = 1000, ds_stop_dns_rebind = False, ds_log_queries = False,
     ds_extra_options = []\<rparr>"

definition default_proxy :: proxy_settings where
  "default_proxy = \<lparr>px_enabled = False, px_domain = None, px_internal_binds = [],
     px_external_binds = [], px_internal_https_port = 443, px_external_https_port = 443,
     px_external_http_port = 80, px_tcp_port_start = 20000, px_tcp_port_end = 20999,
     px_conf_path = ''/etc/foxguard/proxy/haproxy.cfg'', px_certs_dir = ''/etc/foxguard/proxy/certs'',
     px_maps_dir = ''/etc/foxguard/proxy/maps'', px_runtime_socket = ''/run/foxguard/haproxy.sock'',
     px_hsts_max_age = 31536000, px_send_group_header = False,
     px_killswitch_stops_internal = True, px_killswitch_stops_external = False,
     px_connect_timeout_seconds = 5, px_client_timeout_seconds = 60,
     px_server_timeout_seconds = 60, px_tunnel_timeout_seconds = 3600, px_extra_options = [],
     px_sso_secret = None, px_sso_cookie_name = ''fg_sso'', px_sso_lifetime_seconds = 28800,
     px_sso_hostname = None, px_dashboard_enabled = False, px_dashboard_hostname = None,
     px_dashboard_host = None, px_dashboard_port = 3000\<rparr>"

definition default_client :: client_settings where
  "default_client = \<lparr>cc_allowed_ips = ROUTED, cc_extra_allowed_ips = [], cc_keepalive = 25,
     cc_mtu = None, cc_dns = True\<rparr>"

definition default_session :: session_settings where
  "default_session = \<lparr>sn_default_lifetime_seconds = 28800, sn_enrollment_key_bytes = 32,
     sn_sweep_enabled = True, sn_sweep_interval_seconds = 60, sn_login_max_attempts = 10,
     sn_login_window_seconds = 300, sn_enroll_max_attempts = 10, sn_enroll_window_seconds = 300,
     sn_totp_issuer = ''Foxguard''\<rparr>"

definition default_oidc :: oidc_settings where
  "default_oidc = \<lparr>oi_issuer = None, oi_client_id = None, oi_client_secret = None,
     oi_redirect_url = None, oi_scopes = ''openid profile email'',
     oi_transaction_ttl_seconds = 600, oi_post_login_redirect = None,
     oi_admin_redirect_url = None\<rparr>"

definition default_settings :: settings where
  "default_settings = \<lparr>st_dev_mode = False, st_admin_api_token = None,
     st_admin_session_lifetime_seconds = 43200, st_admin_login_max_attempts = 10,
     st_admin_login_window_seconds = 300, st_agent_api_token = None, st_wg_interface = ''wg0'',
     st_wg_listen_port = 51820, st_wg_public_key = None, st_wg_endpoint_host = None,
     st_wg_pool_v4 = ''10.88.0.0/24'', st_wg_pool_v6 = None, st_wg_staging_pool_v4 = None,
     st_wg_staging_pool_v6 = None, st_wg_gateway_ip = None, st_nft_table_name = ''foxguard'',
     st_wan_interface = None, st_portal_port = 8080, st_portal_bind_ip = None,
     st_portal_bind_ip6 = None, st_portal_dedicated_port = 443, st_portal_hostname = None,
     st_internal_cidrs = [], st_allow_dns_in_quarantine = True, st_allow_icmp_to_gateway = True,
     st_gateway_input_policy = OPEN, st_log_dropped = True,
     st_portal_tls_certfile = None, st_dns = default_dns, st_proxy = default_proxy, st_client = default_client, st_session = default_session,
     st_oidc = default_oidc\<rparr>"

abbreviation st_proxy_enabled :: "settings \<Rightarrow> bool" where
  "st_proxy_enabled st \<equiv> px_enabled (st_proxy st)"

abbreviation st_proxy_domain :: "settings \<Rightarrow> string option" where
  "st_proxy_domain st \<equiv> px_domain (st_proxy st)"

abbreviation st_default_session_lifetime_seconds :: "settings \<Rightarrow> int" where
  "st_default_session_lifetime_seconds st \<equiv> sn_default_lifetime_seconds (st_session st)"

lemma update_peer_simps [simp]:
  "peers (update_peer i f d) = map (\<lambda>p. if pe_id p = i then f p else p) (peers d)"
  "groups (update_peer i f d) = groups d" "users (update_peer i f d) = users d"
  "acl_rules (update_peer i f d) = acl_rules d" "sessions (update_peer i f d) = sessions d"
  "audit_log (update_peer i f d) = audit_log d" "versions (update_peer i f d) = versions d"
  "admin_sessions (update_peer i f d) = admin_sessions d"
  "services (update_peer i f d) = services d" "dns_records (update_peer i f d) = dns_records d"
  "sso_sessions (update_peer i f d) = sso_sessions d" "tags (update_peer i f d) = tags d"
  by (simp_all add: update_peer_def)

lemma update_session_simps [simp]:
  "sessions (update_session i f d) = map (\<lambda>s. if se_id s = i then f s else s) (sessions d)"
  "groups (update_session i f d) = groups d" "users (update_session i f d) = users d"
  "acl_rules (update_session i f d) = acl_rules d" "peers (update_session i f d) = peers d"
  "audit_log (update_session i f d) = audit_log d" "versions (update_session i f d) = versions d"
  "admin_sessions (update_session i f d) = admin_sessions d"
  "services (update_session i f d) = services d" "dns_records (update_session i f d) = dns_records d"
  "sso_sessions (update_session i f d) = sso_sessions d" "tags (update_session i f d) = tags d"
  by (simp_all add: update_session_def)

lemma update_user_simps [simp]:
  "users (update_user i f d) = map (\<lambda>s. if us_id s = i then f s else s) (users d)"
  "groups (update_user i f d) = groups d" "sessions (update_user i f d) = sessions d"
  "acl_rules (update_user i f d) = acl_rules d" "peers (update_user i f d) = peers d"
  "audit_log (update_user i f d) = audit_log d" "versions (update_user i f d) = versions d"
  "admin_sessions (update_user i f d) = admin_sessions d"
  "services (update_user i f d) = services d" "dns_records (update_user i f d) = dns_records d"
  "sso_sessions (update_user i f d) = sso_sessions d" "tags (update_user i f d) = tags d"
  by (simp_all add: update_user_def)

lemma audit_record_simps [simp]:
  "audit_log (audit_record e d) = audit_log d @ [e]"
  "groups (audit_record e d) = groups d" "sessions (audit_record e d) = sessions d"
  "acl_rules (audit_record e d) = acl_rules d" "peers (audit_record e d) = peers d"
  "users (audit_record e d) = users d" "versions (audit_record e d) = versions d"
  "admin_sessions (audit_record e d) = admin_sessions d"
  "services (audit_record e d) = services d" "dns_records (audit_record e d) = dns_records d"
  "sso_sessions (audit_record e d) = sso_sessions d" "tags (audit_record e d) = tags d"
  by (simp_all add: audit_record_def)

lemma peer_groups_cong: "groups d = groups d' \<Longrightarrow> pe_group_ids p = pe_group_ids q \<Longrightarrow>
    peer_groups d p = peer_groups d' q"
  by (simp add: peer_groups_def)

end
