(* ===== verification/ClientConfig.thy ===== *)
theory ClientConfig
  imports PyIpRoundTrip Records
begin

text \<open>
  \<open>backend/foxguard/clientconfig.py\<close>, the part of a client configuration a server may know:
  which networks go into \<open>AllowedIPs\<close> and how an endpoint is written. A \<open>ValueError\<close> from
  \<open>ipaddress\<close> is an \<open>Inl\<close> with the text that did not parse.
\<close>

section \<open>Networks\<close>

datatype value_error = NotANetwork string

definition py_network :: "string \<Rightarrow> (value_error, ip_net) result" where
  "py_network s = (case ip_network s of None \<Rightarrow> Inl (NotANetwork s) | Some n \<Rightarrow> Inr n)"

text \<open>\<open>list(dict.fromkeys(xs))\<close>: the first occurrence of each key, in order.\<close>

definition dict_keys :: "'a list \<Rightarrow> 'a list" where
  "dict_keys xs = rev (remdups (rev xs))"

definition cidr_sort_key :: "string \<Rightarrow> nat \<times> int \<times> nat" where
  "cidr_sort_key s = (case ip_network s of None \<Rightarrow> (0, 0, 0) | Some n \<Rightarrow> net_key n)"

section \<open>AllowedIPs\<close>

text \<open>\<open>any(_network(pool).version == 6 for pool in pools)\<close>, lazy as \<open>any\<close> is.\<close>

fun any_v6_pool :: "string list \<Rightarrow> (value_error, bool) result" where
  "any_v6_pool [] = Inr False"
| "any_v6_pool (p # ps) =
     bindR (py_network p) (\<lambda>n. if net_version n = 6 then Inr True else any_v6_pool ps)"

definition chosen_networks ::
  "allowed_ips_mode \<Rightarrow> string list \<Rightarrow> string list \<Rightarrow> string list \<Rightarrow> string list
     \<Rightarrow> (value_error, string list) result" where
  "chosen_networks mode pools own_zone_routes fleet_routes extra =
     (if mode = FULL then bindR (any_v6_pool pools) (\<lambda>v6.
        Inr ([''0.0.0.0/0''] @ (if v6 then [''::/0''] else []) @ extra))
      else Inr (pools @ (if mode = ZONE_ONLY then own_zone_routes
        else if mode = ROUTED then fleet_routes else []) @ extra))"

definition is_carried :: "ip_net list \<Rightarrow> ip_net \<Rightarrow> bool" where
  "is_carried carried n \<longleftrightarrow> n \<in> set carried \<and> 0 < prefixlen n"

definition compute_allowed_ips ::
  "allowed_ips_mode \<Rightarrow> string list \<Rightarrow> string list \<Rightarrow> string list \<Rightarrow> string list \<Rightarrow> string list
     \<Rightarrow> (value_error, string list \<times> string list) result" where
  "compute_allowed_ips mode pools own_zone_routes fleet_routes carried_by_peer extra =
     bindR (mapR py_network carried_by_peer) (\<lambda>carried.
     bindR (chosen_networks mode pools own_zone_routes fleet_routes extra) (\<lambda>chosen.
     bindR (mapR py_network chosen) (\<lambda>nets.
       let keep = dict_keys (map show_net (filter (\<lambda>n. \<not> is_carried carried n) nets));
           excluded = dict_keys (map show_net (filter (is_carried carried) nets))
       in Inr (sort_key cidr_sort_key keep, sort_key cidr_sort_key excluded))))"

section \<open>Endpoints\<close>

definition count_char :: "char \<Rightarrow> string \<Rightarrow> nat" where
  "count_char c s = length (filter (\<lambda>d. d = c) s)"

text \<open>\<open>text.rfind("]") < len(text) - 1\<close>: something follows the last bracket, or there is none.\<close>

definition join_endpoint :: "string \<Rightarrow> int \<Rightarrow> string" where
  "join_endpoint host default_port =
     (let text = py_strip host; with_port = (\<lambda>s. s @ CHR '':'' # show_int default_port) in
      if starts_with ''['' text then
        (if last text \<noteq> CHR '']'' then text else with_port text)
      else if count_char (CHR '':'') text = 1 then text
      else if 1 < count_char (CHR '':'') text then with_port (''['' @ text @ '']'')
      else with_port text)"

section \<open>Lemmas\<close>

lemma set_dict_keys [simp]: "set (dict_keys xs) = set xs"
  by (simp add: dict_keys_def)

lemma distinct_dict_keys [simp]: "distinct (dict_keys xs)"
  by (simp add: dict_keys_def)

lemma py_network_Inr [simp]: "py_network s = Inr n \<longleftrightarrow> ip_network s = Some n"
  by (simp add: py_network_def split: option.splits)

lemma mapR_iff: "mapR f xs = Inr ys \<longleftrightarrow> list_all2 (\<lambda>x y. f x = Inr y) xs ys"
proof (induction xs arbitrary: ys)
  case (Cons x xs)
  then show ?case by (cases ys) auto
qed auto

lemma mapR_networks: "mapR py_network xs = Inr ns \<Longrightarrow> map Some ns = map ip_network xs"
  unfolding mapR_iff py_network_Inr by (induction rule: list_all2_induct) auto

lemma networks_set: "mapR py_network xs = Inr ns \<Longrightarrow> set ns = {n. \<exists>x\<in>set xs. ip_network x = Some n}"
  unfolding mapR_iff by (induction rule: list_all2_induct) auto

text \<open>
  A device never routes a network it carries. Whatever the mode, when the computation
  succeeds every network asked for is kept or excluded, none is both, the excluded ones are
  exactly those the peer carries (default routes apart), and both lists are free of
  duplicates and hold the canonical spelling.
\<close>

theorem carried_networks_are_excluded:
  assumes "compute_allowed_ips mode pools own fleet carried extra = Inr (keep, excluded)"
    and "chosen_networks mode pools own fleet extra = Inr chosen"
  shows "distinct keep \<and> distinct excluded \<and>
    set keep = {show_net n |n c. c \<in> set chosen \<and> ip_network c = Some n \<and>
       \<not> (0 < prefixlen n \<and> (\<exists>x\<in>set carried. ip_network x = Some n))} \<and>
    set excluded = {show_net n |n c. c \<in> set chosen \<and> ip_network c = Some n \<and>
       0 < prefixlen n \<and> (\<exists>x\<in>set carried. ip_network x = Some n)} \<and>
    set keep \<inter> set excluded = {}"
proof -
  obtain cs ns where cs: "mapR py_network carried = Inr cs" and ns: "mapR py_network chosen = Inr ns"
    and k: "keep = sort_key cidr_sort_key (dict_keys (map show_net (filter (\<lambda>n. \<not> is_carried cs n) ns)))"
    and e: "excluded = sort_key cidr_sort_key (dict_keys (map show_net (filter (is_carried cs) ns)))"
    using assms by (auto simp: compute_allowed_ips_def Let_def)
  have carried: "is_carried cs n \<longleftrightarrow> 0 < prefixlen n \<and> (\<exists>x\<in>set carried. ip_network x = Some n)" for n
    using networks_set [OF cs] by (auto simp: is_carried_def)
  have "show_net n \<noteq> show_net m" if "n \<in> set ns" "m \<in> set ns" "n \<noteq> m" for n m
  proof
    assume same: "show_net n = show_net m"
    have "wf_net n" "wf_net m" using that networks_set [OF ns] ip_network_wf by blast+
    then show False using same that(3) ip_network_show_net by (metis option.inject)
  qed
  then have "set keep \<inter> set excluded = {}" unfolding k e by auto
  moreover have "set keep = show_net ` {n \<in> set ns. \<not> is_carried cs n}"
    "set excluded = show_net ` {n \<in> set ns. is_carried cs n}" unfolding k e by auto
  ultimately show ?thesis
    unfolding k e carried networks_set [OF ns] by auto
qed

theorem carried_networks_are_excluded_witness:
  "compute_allowed_ips ROUTED [''10.88.0.0/24''] [] [''192.168.7.0/24''] [''192.168.7.0/24''] []
     = Inr ([''10.88.0.0/24''], [''192.168.7.0/24'']) \<and> ''192.168.7.0/24'' \<notin> set [''10.88.0.0/24'']"
proof -
  have c: "compute_allowed_ips ROUTED [''10.88.0.0/24''] [] [''192.168.7.0/24''] [''192.168.7.0/24''] []
     = Inr ([''10.88.0.0/24''], [''192.168.7.0/24''])" by code_simp
  have "chosen_networks ROUTED [''10.88.0.0/24''] [] [''192.168.7.0/24''] [] =
      Inr [''10.88.0.0/24'', ''192.168.7.0/24'']" by code_simp
  from carried_networks_are_excluded [OF c this]
  have "set [''10.88.0.0/24''] \<inter> set [''192.168.7.0/24''] = {}" by blast
  then show ?thesis using c by simp
qed

text \<open>
  C38: exclusion is by equality only. A fleet route that strictly contains the network a device
  carries stays in that device's \<open>AllowedIPs\<close>, in a mode that is not full tunnel, so the
  device does receive back a prefix that covers its own network.
\<close>

theorem wider_route_is_not_excluded:
  "\<exists>keep excluded n m. compute_allowed_ips ROUTED [''10.88.0.0/24''] []
       [''192.168.0.0/16'', ''192.168.7.0/24''] [''192.168.7.0/24''] [] = Inr (keep, excluded) \<and>
     ''192.168.0.0/16'' \<in> set keep \<and> ip_network ''192.168.0.0/16'' = Some n \<and>
     ip_network ''192.168.7.0/24'' = Some m \<and> in_net (net_addr m) n \<and> 0 < prefixlen n"
proof -
  have "compute_allowed_ips ROUTED [''10.88.0.0/24''] []
       [''192.168.0.0/16'', ''192.168.7.0/24''] [''192.168.7.0/24''] [] =
     Inr ([''10.88.0.0/24'', ''192.168.0.0/16''], [''192.168.7.0/24''])" by code_simp
  moreover have "ip_network ''192.168.0.0/16'' = Some (IPNet (IP4 3232235520) 16)" by code_simp
  moreover have "ip_network ''192.168.7.0/24'' = Some (IPNet (IP4 3232237312) 24)" by code_simp
  moreover have "in_net (net_addr (IPNet (IP4 3232237312) 24)) (IPNet (IP4 3232235520) 16)" by code_simp
  ultimately show ?thesis by fastforce
qed

end
