(* ===== verification/Config.thy ===== *)
theory Config
  imports ClientConfig
begin

text \<open>
  The checked and the derived settings of \<open>backend/foxguard/config.py\<close>. \<open>validated\<close> says that a
  settings record is one the class can hold: each validator returned the stored value. The
  derived values parse pools again; on validated settings that never fails.
\<close>

section \<open>Validators\<close>

text \<open>\<open>[a-z0-9]([a-z0-9-]{0,61}[a-z0-9])?\<close>, one DNS label.\<close>

definition label_char :: "char \<Rightarrow> bool" where
  "label_char c \<longleftrightarrow> is_lower c \<or> is_digit c"

definition dns_label :: "string \<Rightarrow> bool" where
  "dns_label s \<longleftrightarrow> s \<noteq> [] \<and> length s \<le> 63 \<and> label_char (hd s) \<and> label_char (last s) \<and>
     list_all (\<lambda>c. label_char c \<or> c = CHR ''-'') s"

definition LABEL_RE :: "string \<Rightarrow> bool" where
  "LABEL_RE s \<longleftrightarrow> re_dollar dns_label s"

definition NAME_RE :: "string \<Rightarrow> bool" where
  "NAME_RE s \<longleftrightarrow> re_dollar (\<lambda>t. list_all dns_label (split_on (CHR ''.'') t)) s"

datatype config_error = InvalidNetwork string | WrongFamily string | BadZone string
  | MissingSecrets "string list"

definition validate_dns_zone :: "string \<Rightarrow> (config_error, string) result" where
  "validate_dns_zone value =
     (let candidate = py_lower (rstrip_by (\<lambda>c. c = CHR ''.'') (py_strip value)) in
      if candidate = [] \<or> \<not> NAME_RE candidate \<or> 253 < length candidate then Inl (BadZone value)
      else Inr candidate)"

fun validate_pool :: "nat \<Rightarrow> string option \<Rightarrow> (config_error, string option) result" where
  "validate_pool v None = Inr None"
| "validate_pool v (Some value) =
     (case ip_network value of None \<Rightarrow> Inl (InvalidNetwork value)
      | Some n \<Rightarrow> if net_version n \<noteq> v then Inl (WrongFamily value) else Inr (Some (show_net n)))"

definition validate_internal_cidrs :: "string list \<Rightarrow> (config_error, string list) result" where
  "validate_internal_cidrs value =
     mapR (\<lambda>c. if ip_network c = None then Inl (InvalidNetwork c) else Inr c) value"

definition validate_extra_allowed_ips :: "string list \<Rightarrow> (config_error, string list) result" where
  "validate_extra_allowed_ips value =
     mapR (\<lambda>c. if ip_network c = None then Inl (InvalidNetwork c) else Inr c) value"

definition check_secrets :: "settings \<Rightarrow> (config_error, unit) result" where
  "check_secrets st =
     (let missing = concat (map (\<lambda>(name, value). if truthy value then [] else [name])
        [(''FOXGUARD_ADMIN_API_TOKEN'', st_admin_api_token st),
         (''FOXGUARD_AGENT_API_TOKEN'', st_agent_api_token st)])
      in if st_dev_mode st \<or> missing = [] then Inr () else Inl (MissingSecrets missing))"

text \<open>\<open>_split_list\<close> on the comma separated form; the JSON form is the standard library's.\<close>

definition split_list :: "string \<Rightarrow> string list" where
  "split_list value = filter (\<lambda>i. i \<noteq> []) (map py_strip (split_on (CHR '','') (py_strip value)))"

definition validated :: "settings \<Rightarrow> bool" where
  "validated st \<longleftrightarrow>
     validate_pool 4 (Some (st_wg_pool_v4 st)) = Inr (Some (st_wg_pool_v4 st)) \<and>
     validate_pool 6 (st_wg_pool_v6 st) = Inr (st_wg_pool_v6 st) \<and>
     validate_pool 4 (st_wg_staging_pool_v4 st) = Inr (st_wg_staging_pool_v4 st) \<and>
     validate_pool 6 (st_wg_staging_pool_v6 st) = Inr (st_wg_staging_pool_v6 st) \<and>
     validate_internal_cidrs (st_internal_cidrs st) = Inr (st_internal_cidrs st) \<and>
     validate_dns_zone (ds_zone (st_dns st)) = Inr (ds_zone (st_dns st)) \<and>
     check_secrets st = Inr ()"

section \<open>Hosts of a network\<close>

text \<open>
  \<open>network.hosts()\<close> as the interval of its addresses: all of a prefix one short of the width,
  the address itself at full width, otherwise without the first and, for IPv4, the last.
\<close>

definition host_bounds :: "ip_net \<Rightarrow> int \<times> int" where
  "host_bounds n =
     (let w = max_prefixlen (net_version n); a = ip_int (net_addr n); b = broadcast_int n in
      if prefixlen n = w then (a, a)
      else if prefixlen n = w - 1 then (a, b)
      else if net_version n = 4 then (a + 1, b - 1) else (a + 1, b))"

text \<open>The address object of a host: it keeps the scope id only at full width.\<close>

definition host_at :: "ip_net \<Rightarrow> int \<Rightarrow> ip_addr" where
  "host_at n i =
     (if net_version n = 4 then IP4 i
      else if prefixlen n = 128 then (case net_addr n of IP6 a sc \<Rightarrow> IP6 i sc | IP4 a \<Rightarrow> IP6 i None)
      else IP6 i None)"

section \<open>Derived settings\<close>

definition gateway_ip :: "settings \<Rightarrow> string" where
  "gateway_ip st =
     (if truthy (st_wg_gateway_ip st) then the (st_wg_gateway_ip st)
      else (case ip_network (st_wg_pool_v4 st) of None \<Rightarrow> []
        | Some n \<Rightarrow> show_ip (host_at n (fst (host_bounds n)))))"

definition client_endpoint :: "settings \<Rightarrow> string option" where
  "client_endpoint st =
     (if truthy (st_wg_endpoint_host st)
      then Some (join_endpoint (the (st_wg_endpoint_host st)) (st_wg_listen_port st)) else None)"

definition tunnel_pools :: "settings \<Rightarrow> string list" where
  "tunnel_pools st = concat (map (\<lambda>p. if truthy p then [the p] else [])
     [Some (st_wg_pool_v4 st), st_wg_pool_v6 st, st_wg_staging_pool_v4 st, st_wg_staging_pool_v6 st])"

fun in_pools :: "ip_addr \<Rightarrow> string list \<Rightarrow> bool" where
  "in_pools a [] = False"
| "in_pools a (p # ps) =
     ((case ip_network p of None \<Rightarrow> False | Some n \<Rightarrow> in_net a n) \<or> in_pools a ps)"

definition is_tunnel_address :: "settings \<Rightarrow> string \<Rightarrow> bool" where
  "is_tunnel_address st address =
     (case ip_address address of None \<Rightarrow> False | Some a \<Rightarrow> in_pools a (tunnel_pools st))"

definition dns_listen :: "settings \<Rightarrow> string list" where
  "dns_listen st = (if ds_listen_addresses (st_dns st) \<noteq> [] then ds_listen_addresses (st_dns st)
     else [gateway_ip st])"

definition client_dns :: "settings \<Rightarrow> string list" where
  "client_dns st =
     (if \<not> (ds_enabled (st_dns st) \<and> cc_dns (st_client st)) then []
      else (let reachable = filter (is_tunnel_address st) (dns_listen st)
            in (if reachable = [] then [gateway_ip st] else reachable) @ [ds_zone (st_dns st)]))"

definition oidc_enabled :: "settings \<Rightarrow> bool" where
  "oidc_enabled st \<longleftrightarrow> truthy (oi_issuer (st_oidc st)) \<and> truthy (oi_client_id (st_oidc st)) \<and>
     truthy (oi_client_secret (st_oidc st)) \<and> truthy (oi_redirect_url (st_oidc st))"

definition oidc_admin_enabled :: "settings \<Rightarrow> bool" where
  "oidc_admin_enabled st \<longleftrightarrow> oidc_enabled st \<and> truthy (oi_admin_redirect_url (st_oidc st))"

definition portal_addresses :: "settings \<Rightarrow> string list" where
  "portal_addresses st = concat (map (\<lambda>a. if truthy a then [the a] else [])
     [st_portal_bind_ip st, st_portal_bind_ip6 st])"

definition portal_listen_port :: "settings \<Rightarrow> int" where
  "portal_listen_port st =
     (if portal_addresses st \<noteq> [] then st_portal_dedicated_port st else st_portal_port st)"

definition portal_listen_host :: "settings \<Rightarrow> string" where
  "portal_listen_host st = or_else (st_portal_bind_ip st) (gateway_ip st)"

definition portal_host :: "settings \<Rightarrow> string option" where
  "portal_host st =
     (if truthy (st_portal_hostname st) then st_portal_hostname st
      else if portal_addresses st \<noteq> [] \<and> truthy (st_proxy_domain st)
      then Some (''portal.'' @ the (st_proxy_domain st)) else None)"

definition proxy_dashboard_host :: "settings \<Rightarrow> string option" where
  "proxy_dashboard_host st =
     (if \<not> px_dashboard_enabled (st_proxy st) then None
      else if truthy (px_dashboard_hostname (st_proxy st)) then px_dashboard_hostname (st_proxy st)
      else if truthy (st_proxy_domain st) then Some (''admin.'' @ the (st_proxy_domain st)) else None)"

section \<open>Lemmas\<close>

lemma validate_pool_parses:
  "validate_pool v p = Inr q \<Longrightarrow> p = Some s \<Longrightarrow> \<exists>n. ip_network s = Some n \<and> net_version n = v"
  by (auto split: option.splits if_splits)

lemma tunnel_pools_parse:
  assumes "validated st" and "p \<in> set (tunnel_pools st)"
  shows "\<exists>n. ip_network p = Some n"
proof -
  have "\<exists>v. validate_pool v (Some p) = Inr (Some p)"
    using assms by (auto simp: validated_def tunnel_pools_def truthy_iff simp del: validate_pool.simps)
  then show ?thesis using validate_pool_parses by blast
qed

lemma in_pools_iff: "in_pools a ps \<longleftrightarrow> (\<exists>p\<in>set ps. \<exists>n. ip_network p = Some n \<and> in_net a n)"
  by (induction ps) (auto split: option.splits)

lemma is_tunnel_address_iff:
  "is_tunnel_address st t \<longleftrightarrow>
     (\<exists>a p n. ip_address t = Some a \<and> p \<in> set (tunnel_pools st) \<and> ip_network p = Some n \<and> in_net a n)"
  by (auto simp: is_tunnel_address_def in_pools_iff split: option.splits)

end
