(* ===== verification/RulesetService.thy ===== *)
theory RulesetService
  imports Config NftProperties
begin

text \<open>
  \<open>backend/foxguard/services/ruleset.py\<close>: the projection of the database onto a
  \<open>ruleset_spec\<close>, and the history of rendered versions. The digest, a SHA-256 of the text in
  the source, is a parameter \<open>sha\<close>; the key a new row gets and the clock are arguments.
\<close>

section \<open>Projection\<close>

text \<open>\<open>Settings.gateway_spec\<close>; \<open>proxy_ports\<close> keeps its default.\<close>

definition settings_gateway_spec :: "settings \<Rightarrow> gateway_spec" where
  "settings_gateway_spec st = \<lparr>gw_wg_interface = st_wg_interface st,
     gw_wan_interface = st_wan_interface st, gw_table_name = st_nft_table_name st,
     gw_portal_port = portal_listen_port st, gw_internal_cidrs = st_internal_cidrs st,
     gw_allow_dns_in_quarantine = st_allow_dns_in_quarantine st,
     gw_allow_icmp_to_gateway = st_allow_icmp_to_gateway st,
     gw_gateway_input_policy = st_gateway_input_policy st, gw_log_dropped = st_log_dropped st,
     gw_proxy_ports = [], gw_portal_addresses = portal_addresses st\<rparr>"

definition proxy_ports :: "db \<Rightarrow> settings \<Rightarrow> int list" where
  "proxy_ports d st = sort (remdups (px_internal_https_port (st_proxy st) #
     concat (map (\<lambda>s. case sv_listen_port s of None \<Rightarrow> []
        | Some p \<Rightarrow> if sv_enabled s \<and> has_internal (sv_exposure s) \<and> p \<noteq> 0 then [p] else [])
       (services d))))"

datatype projection_error = NoGroupRow endpoint_kind | NoCidrValue

definition rule_endpoint ::
  "endpoint_kind \<Rightarrow> group_row option \<Rightarrow> string option \<Rightarrow> (projection_error, endpoint) result" where
  "rule_endpoint kind grp cidr =
     (if kind = KGROUP \<or> kind = KZONE then
        (case grp of None \<Rightarrow> Inl (NoGroupRow kind)
         | Some g \<Rightarrow> if gr_kind g = ZONE then Inr (endpoint_zone (gr_slug g))
                     else Inr (endpoint_group (gr_slug g)))
      else if kind = KCIDR then
        (case cidr of None \<Rightarrow> Inl NoCidrValue | Some c \<Rightarrow> Inr (endpoint_network c))
      else Inr endpoint_any)"

definition route_specs :: "group_row \<Rightarrow> route_spec list" where
  "route_specs z = map (\<lambda>r. \<lparr>rt_cidr = zr_cidr r, rt_via_peer_id = zr_via_peer_id r,
       rt_comment = zr_description r\<rparr>) (filter zr_enabled (sort_key zr_cidr (gr_routes z)))"

definition zone_spec_of :: "group_row \<Rightarrow> zone_spec" where
  "zone_spec_of z = \<lparr>zs_slug = gr_slug z, zs_intra_zone = gr_intra_zone z,
     zs_internet_exit = gr_internet_exit z, zs_routes = route_specs z\<rparr>"

definition group_spec_of :: "group_row \<Rightarrow> group_spec" where
  "group_spec_of g = \<lparr>gs_slug = gr_slug g, gs_internet_exit = gr_internet_exit g\<rparr>"

definition present_text :: "string option \<Rightarrow> string option" where
  "present_text v = (if truthy v then v else None)"

definition peer_spec_of :: "db \<Rightarrow> peer_row \<Rightarrow> peer_spec" where
  "peer_spec_of d p = \<lparr>ps_id = pe_id p, ps_name = pe_name p, ps_state = pe_state p,
     ps_peer_type = pe_peer_type p, ps_tunnel_ip = present_text (pe_tunnel_ip p),
     ps_tunnel_ip6 = present_text (pe_tunnel_ip6 p),
     ps_group_slugs = sort (map gr_slug (filter (\<lambda>g. gr_kind g \<noteq> ZONE) (peer_groups d p))),
     ps_zone_slug = map_option gr_slug (peer_zone d p)\<rparr>"

definition rule_spec_of :: "db \<Rightarrow> acl_row \<Rightarrow> (projection_error, rule_spec) result" where
  "rule_spec_of d r =
     bindR (rule_endpoint (ac_src_kind r) (group_by_id d (ac_src_group_id r)) (ac_src_cidr r)) (\<lambda>src.
     bindR (rule_endpoint (ac_dst_kind r) (group_by_id d (ac_dst_group_id r)) (ac_dst_cidr r)) (\<lambda>dst.
     Inr \<lparr>rs_id = ac_ref r, rs_priority = ac_priority r, rs_action = ac_action r, rs_src = src,
       rs_dst = dst, rs_protocol = ac_protocol r, rs_dst_port_start = ac_dst_port_start r,
       rs_dst_port_end = ac_dst_port_end r, rs_comment = Some (ac_name r)\<rparr>))"

definition build_spec :: "db \<Rightarrow> settings \<Rightarrow> (projection_error, ruleset_spec) result" where
  "build_spec d st =
     (let rows = sort_key gr_slug (groups d);
          gw = settings_gateway_spec st;
          gateway = (if st_proxy_enabled st then gw\<lparr>gw_proxy_ports := proxy_ports d st\<rparr> else gw)
      in bindR (mapR (rule_spec_of d)
           (sort_key (\<lambda>r. (ac_priority r, ac_ref r)) (filter ac_enabled (acl_rules d)))) (\<lambda>rules.
         Inr \<lparr>sp_gateway = gateway,
           sp_groups = map group_spec_of (filter (\<lambda>g. gr_kind g \<noteq> ZONE) rows),
           sp_zones = map zone_spec_of (filter (\<lambda>g. gr_kind g = ZONE) rows),
           sp_peers = map (peer_spec_of d) (sort_key (\<lambda>p. (pe_created_at p, pe_id p)) (peers d)),
           sp_rules = rules\<rparr>))"

section \<open>Versions\<close>

datatype render_error = Projection projection_error | Generation gen_exn

definition render :: "db \<Rightarrow> settings \<Rightarrow> (render_error, string) result" where
  "render d st =
     (case build_spec d st of Inl e \<Rightarrow> Inl (Projection e)
      | Inr spec \<Rightarrow> (case generate_ruleset spec of Inl e \<Rightarrow> Inl (Generation e)
          | Inr text \<Rightarrow> Inr text))"

definition store_version ::
  "(string \<Rightarrow> string) \<Rightarrow> string \<Rightarrow> int \<Rightarrow> string option \<Rightarrow> string \<Rightarrow> db \<Rightarrow> version_row \<times> db" where
  "store_version sha fresh now generated_by content d =
     (case find (\<lambda>v. ve_digest v = sha content) (versions d) of
        Some v \<Rightarrow> (v, d)
      | None \<Rightarrow>
          (let old = map (\<lambda>v. if ve_status v = PENDING then v\<lparr>ve_status := SUPERSEDED\<rparr> else v) (versions d);
               v = \<lparr>ve_id = fresh, ve_created_at = now, ve_digest = sha content, ve_content = content,
                    ve_status = PENDING, ve_applied_at = None, ve_error = None,
                    ve_generated_by = generated_by\<rparr>
           in (v, d\<lparr>versions := old @ [v]\<rparr>)))"

definition update_version :: "string \<Rightarrow> (version_row \<Rightarrow> version_row) \<Rightarrow> db \<Rightarrow> db" where
  "update_version i f d = d\<lparr>versions := map (\<lambda>v. if ve_id v = i then f v else v) (versions d)\<rparr>"

definition mark_applied :: "int \<Rightarrow> string \<Rightarrow> db \<Rightarrow> db" where
  "mark_applied now i d = update_version i
     (\<lambda>v. v\<lparr>ve_status := APPLIED, ve_applied_at := Some now, ve_error := None\<rparr>) d"

definition mark_failed :: "string \<Rightarrow> string \<Rightarrow> db \<Rightarrow> db" where
  "mark_failed err i d =
     update_version i (\<lambda>v. v\<lparr>ve_status := FAILED, ve_error := Some (take 4000 err)\<rparr>) d"

definition regenerate ::
  "(string \<Rightarrow> string) \<Rightarrow> string \<Rightarrow> int \<Rightarrow> settings \<Rightarrow> string \<Rightarrow> db
     \<Rightarrow> (render_error, version_row \<times> db) result" where
  "regenerate sha fresh now st generated_by d =
     bindR (render d st) (\<lambda>content. Inr (store_version sha fresh now (Some generated_by) content d))"

text \<open>The newest of the applied versions; PostgreSQL sorts NULL first in descending order.\<close>

definition applied_key :: "version_row \<Rightarrow> int \<times> int" where
  "applied_key v = (case ve_applied_at v of None \<Rightarrow> (0, 0) | Some t \<Rightarrow> (1, - t))"

definition latest_applied :: "db \<Rightarrow> version_row option" where
  "latest_applied d = (case sort_key applied_key (filter (\<lambda>v. ve_status v = APPLIED) (versions d)) of
     [] \<Rightarrow> None | v # _ \<Rightarrow> Some v)"

section \<open>Lemmas\<close>

lemma bindR_mono_error: "bindR m f = Inl e \<Longrightarrow> m = Inl e \<or> (\<exists>x. m = Inr x \<and> f x = Inl e)"
  by (cases m) auto

lemma regenerate_peers:
  "regenerate sha fresh now st g d = Inr (v, d') \<Longrightarrow>
     peers d' = peers d \<and> groups d' = groups d \<and> users d' = users d \<and> sessions d' = sessions d \<and>
     acl_rules d' = acl_rules d \<and> audit_log d' = audit_log d \<and> admin_sessions d' = admin_sessions d \<and>
     services d' = services d"
  by (auto simp: regenerate_def store_version_def Let_def split: option.splits)

text \<open>What the projection reads of the database.\<close>

lemma build_spec_cong:
  assumes "groups d' = groups d" and "peers d' = peers d" and "acl_rules d' = acl_rules d"
    and "services d' = services d"
  shows "build_spec d' st = build_spec d st"
proof -
  have g: "group_by_id d' = group_by_id d" by (simp add: group_by_id_def[abs_def] assms)
  have "rule_spec_of d' = rule_spec_of d" by (simp add: rule_spec_of_def[abs_def] g)
  moreover have "peer_spec_of d' = peer_spec_of d"
    by (intro ext) (simp only: peer_spec_of_def peer_zone_def peer_groups_def g assms(1))
  moreover have "proxy_ports d' st = proxy_ports d st" by (simp add: proxy_ports_def assms)
  ultimately show ?thesis unfolding build_spec_def by (simp only: assms)
qed

lemma render_cong:
  "groups d' = groups d \<Longrightarrow> peers d' = peers d \<Longrightarrow> acl_rules d' = acl_rules d \<Longrightarrow>
     services d' = services d \<Longrightarrow> render d' st = render d st"
  unfolding render_def by (simp only: build_spec_cong [of d' d st])

end
