(* ===== verification/Sessions.thy ===== *)
theory Sessions
  imports RulesetService
begin

text \<open>
  \<open>services/sessions.py\<close>, \<open>services/expiry.py\<close> and \<open>services/killswitch.py\<close>: who is
  entitled to be active. Opening a session, sweeping the expired ones and the panic button
  are functions on the database; the last two end with a regeneration of the ruleset, whose
  failure is theirs.
\<close>

section \<open>Portal sessions\<close>

definition lifetime_seconds :: "db \<Rightarrow> peer_row \<Rightarrow> settings \<Rightarrow> int" where
  "lifetime_seconds d p st =
     (let overrides = concat (map (\<lambda>g. case gr_session_lifetime_seconds g of None \<Rightarrow> []
          | Some n \<Rightarrow> if n = 0 then [] else [n]) (peer_groups d p))
      in if overrides \<noteq> [] then Min (set overrides) else st_default_session_lifetime_seconds st)"

definition active_session :: "db \<Rightarrow> peer_row \<Rightarrow> session_row option" where
  "active_session d p =
     (case sort_key (\<lambda>s. - instant (se_last_authenticated_at s))
        (filter (\<lambda>s. se_peer_id s = pe_id p \<and> se_status s = SESSION_ACTIVE) (sessions d)) of
      [] \<Rightarrow> None | s # _ \<Rightarrow> Some s)"

definition revoke_sessions :: "string \<Rightarrow> int \<Rightarrow> db \<Rightarrow> db" where
  "revoke_sessions peer_id now d = d\<lparr>sessions := map (\<lambda>s.
     if se_peer_id s = peer_id \<and> se_status s = SESSION_ACTIVE
     then s\<lparr>se_status := SESSION_REVOKED, se_revoked_at := Some now\<rparr> else s) (sessions d)\<rparr>"

definition open_session ::
  "string \<Rightarrow> int \<Rightarrow> peer_row \<Rightarrow> user_row \<Rightarrow> auth_method \<Rightarrow> settings \<Rightarrow> string option \<Rightarrow> db
     \<Rightarrow> session_row \<times> db" where
  "open_session fresh now p u meth st source_ip d =
     (let d1 = revoke_sessions (pe_id p) now d;
          row = \<lparr>se_id = fresh, se_peer_id = pe_id p, se_user_id = us_id u,
            se_auth_method = meth, se_status = SESSION_ACTIVE, se_authenticated_at = now,
            se_last_authenticated_at = Aware now,
            se_expires_at = Some (Aware (add_seconds now (lifetime_seconds d p st))),
            se_revoked_at = None, se_source_ip = source_ip\<rparr>;
          d2 = d1\<lparr>sessions := sessions d1 @ [row]\<rparr>;
          d3 = update_peer (pe_id p) (\<lambda>q. q\<lparr>pe_last_authenticated_at := Some (Aware now)\<rparr>) d2
      in (row, update_user (us_id u) (\<lambda>v. v\<lparr>us_last_login_at := Some now\<rparr>) d3))"

section \<open>Expiry\<close>

definition REASON_TIMEOUT :: string where "REASON_TIMEOUT = ''session-expired''"
definition REASON_NEVER :: string where "REASON_NEVER = ''never-authenticated''"

record expired_peer =
  ex_peer_id :: string
  ex_name :: string
  ex_tunnel_ip :: "string option"
  ex_reason :: string
  ex_deadline :: "int option"

definition effective_deadline ::
  "db \<Rightarrow> peer_row \<Rightarrow> session_row option \<Rightarrow> settings \<Rightarrow> int option" where
  "effective_deadline d p row st =
     (case pe_last_authenticated_at p of
        None \<Rightarrow> None
      | Some anchor \<Rightarrow>
          (let recomputed = add_seconds (instant anchor) (lifetime_seconds d p st)
           in case (case row of None \<Rightarrow> None | Some r \<Rightarrow> se_expires_at r) of
                None \<Rightarrow> Some recomputed
              | Some stored \<Rightarrow> Some (min recomputed (instant stored))))"

text \<open>The loop that keeps, per peer, the live session of the latest authentication.\<close>

fun live_sessions :: "session_row list \<Rightarrow> (string \<rightharpoonup> session_row) \<Rightarrow> (string \<rightharpoonup> session_row)" where
  "live_sessions [] live = live"
| "live_sessions (r # rs) live =
     live_sessions rs (case live (se_peer_id r) of
         None \<Rightarrow> live(se_peer_id r \<mapsto> r)
       | Some c \<Rightarrow> if instant (se_last_authenticated_at r) > instant (se_last_authenticated_at c)
                   then live(se_peer_id r \<mapsto> r) else live)"

definition expiry_reason :: "int option \<Rightarrow> int \<Rightarrow> string option" where
  "expiry_reason deadline now =
     (case deadline of None \<Rightarrow> Some REASON_NEVER
      | Some t \<Rightarrow> if t \<le> now then Some REASON_TIMEOUT else None)"

definition find_expired ::
  "db \<Rightarrow> settings \<Rightarrow> int \<Rightarrow> (peer_row \<times> session_row option \<times> expired_peer) list" where
  "find_expired d st now =
     (let ps = sort_key pe_id (filter (\<lambda>p. pe_peer_type p = USER \<and> pe_state p = ACTIVE) (peers d));
          rows = filter (\<lambda>s. se_peer_id s \<in> set (map pe_id ps) \<and> se_status s = SESSION_ACTIVE) (sessions d);
          live = live_sessions rows Map.empty
      in concat (map (\<lambda>p.
           let row = live (pe_id p); deadline = effective_deadline d p row st
           in case expiry_reason deadline now of None \<Rightarrow> []
              | Some reason \<Rightarrow> [(p, row, \<lparr>ex_peer_id = pe_id p, ex_name = pe_name p,
                   ex_tunnel_ip = present_text (pe_tunnel_ip p), ex_reason = reason,
                   ex_deadline = deadline\<rparr>)]) ps))"

text \<open>The detail of the audit entry; \<open>deadline\<close> is the instant, which the code writes in ISO form.\<close>

definition expired_detail :: "db \<Rightarrow> peer_row \<Rightarrow> expired_peer \<Rightarrow> json" where
  "expired_detail d p e = JObj [(''reason'', JStr (ex_reason e)),
     (''deadline'', (case ex_deadline e of None \<Rightarrow> JNull | Some t \<Rightarrow> JInt t)),
     (''groups'', JList (map JStr (sort (map gr_slug (peer_groups d p)))))]"

definition expire_one :: "int \<Rightarrow> peer_row \<times> session_row option \<times> expired_peer \<Rightarrow> db \<Rightarrow> db" where
  "expire_one now f d = (case f of (p, row, e) \<Rightarrow>
     (let d1 = update_peer (pe_id p) (\<lambda>q. q\<lparr>pe_state := QUARANTINED\<rparr>) d;
          d2 = (case row of None \<Rightarrow> d1 | Some r \<Rightarrow> update_session (se_id r)
             (\<lambda>s. s\<lparr>se_status := SESSION_EXPIRED, se_revoked_at := Some now\<rparr>) d1)
      in audit_record (audit_entry ''session.expired'' SYSTEM_ACTOR None (Some ''session-sweeper'')
           (Some ''peer'') (Some (pe_id p)) None (expired_detail d p e)) d2))"

definition sweep ::
  "(string \<Rightarrow> string) \<Rightarrow> string \<Rightarrow> settings \<Rightarrow> int \<Rightarrow> db
     \<Rightarrow> (render_error, (expired_peer list \<times> bool) \<times> db) result" where
  "sweep sha fresh st now d =
     (let findings = find_expired d st now in
      if findings = [] then Inr (([], False), d)
      else (let d1 = fold (expire_one now) findings d in
        bindR (regenerate sha fresh now st ''session.expiry'' d1) (\<lambda>(v, d2).
          Inr ((map (\<lambda>(p, row, e). e) findings, True), d2))))"

section \<open>Kill switch\<close>

datatype kill_switch_mode = QUARANTINE | LOCKDOWN

fun kill_target :: "kill_switch_mode \<Rightarrow> peer_state" where
  "kill_target QUARANTINE = QUARANTINED"
| "kill_target LOCKDOWN = DISABLED"

fun kill_sources :: "kill_switch_mode \<Rightarrow> peer_state set" where
  "kill_sources QUARANTINE = {ACTIVE}"
| "kill_sources LOCKDOWN = {STAGING, QUARANTINED, ACTIVE}"

fun kill_mode_value :: "kill_switch_mode \<Rightarrow> string" where
  "kill_mode_value QUARANTINE = ''quarantine''"
| "kill_mode_value LOCKDOWN = ''lockdown''"

fun CONFIRMATION :: "kill_switch_mode \<Rightarrow> string" where
  "CONFIRMATION QUARANTINE = ''QUARANTINE ALL PEERS''"
| "CONFIRMATION LOCKDOWN = ''DISABLE ALL PEERS''"

record affected_peer =
  af_peer_id :: string
  af_name :: string
  af_peer_type :: string
  af_previous_state :: string
  af_state :: string

record kill_result =
  kr_mode :: kill_switch_mode
  kr_affected :: "affected_peer list"
  kr_sessions_revoked :: nat
  kr_regenerated :: bool

datatype kill_error = KillIllegal illegal_transition | KillRender render_error

text \<open>The loop over the selected peers: guard, record, move.\<close>

fun kill_peers ::
  "peer_state \<Rightarrow> peer_row list \<Rightarrow> db \<Rightarrow> (kill_error, affected_peer list \<times> db) result" where
  "kill_peers target [] d = Inr ([], d)"
| "kill_peers target (p # ps) d =
     (case assert_admin_transition (pe_state p) target of
        Inl e \<Rightarrow> Inl (KillIllegal e)
      | Inr _ \<Rightarrow>
          (let a = \<lparr>af_peer_id = pe_id p, af_name = pe_name p,
               af_peer_type = peer_type_value (pe_peer_type p),
               af_previous_state = peer_state_value (pe_state p),
               af_state = peer_state_value target\<rparr>;
               d' = update_peer (pe_id p) (\<lambda>q. q\<lparr>pe_state := target\<rparr>) d
           in bindR (kill_peers target ps d') (\<lambda>(as, d''). Inr (a # as, d''))))"

definition revoke_all_sessions :: "int \<Rightarrow> db \<Rightarrow> nat \<times> db" where
  "revoke_all_sessions now d =
     (length (filter (\<lambda>s. se_status s = SESSION_ACTIVE) (sessions d)),
      d\<lparr>sessions := map (\<lambda>s. if se_status s = SESSION_ACTIVE
         then s\<lparr>se_status := SESSION_REVOKED, se_revoked_at := Some now\<rparr> else s) (sessions d)\<rparr>)"

definition kill_detail :: "kill_switch_mode \<Rightarrow> affected_peer list \<Rightarrow> nat \<Rightarrow> json" where
  "kill_detail mode affected revoked = JObj [(''mode'', JStr (kill_mode_value mode)),
     (''target_state'', JStr (peer_state_value (kill_target mode))),
     (''peers_affected'', JInt (int (length affected))),
     (''sessions_revoked'', JInt (int revoked)),
     (''peers'', JList (map (\<lambda>a. JObj [(''id'', JStr (af_peer_id a)), (''name'', JStr (af_name a)),
        (''from'', JStr (af_previous_state a))]) affected))]"

definition trigger ::
  "(string \<Rightarrow> string) \<Rightarrow> string \<Rightarrow> settings \<Rightarrow> kill_switch_mode \<Rightarrow> actor_type option \<Rightarrow>
     string option \<Rightarrow> string option \<Rightarrow> string option \<Rightarrow> int \<Rightarrow> db
     \<Rightarrow> (kill_error, kill_result \<times> db) result" where
  "trigger sha fresh st mode actor_type actor_user_id actor_label source_ip now d =
     (let ps = sort_key (\<lambda>p. (pe_name p, pe_id p)) (filter (\<lambda>p. pe_state p \<in> kill_sources mode) (peers d)) in
      bindR (kill_peers (kill_target mode) ps d) (\<lambda>(affected, d1).
      (let (revoked, d2) = revoke_all_sessions now d1;
           d3 = audit_record (audit_entry ''killswitch.trigger''
             (case actor_type of None \<Rightarrow> ADMIN_ACTOR | Some a \<Rightarrow> a) actor_user_id actor_label
             (Some ''fleet'') None source_ip (kill_detail mode affected revoked)) d2
       in if affected \<noteq> [] \<or> revoked \<noteq> 0 then
            (case regenerate sha fresh now st ''killswitch'' d3 of
               Inl e \<Rightarrow> Inl (KillRender e)
             | Inr (v, d4) \<Rightarrow> Inr (\<lparr>kr_mode = mode, kr_affected = affected,
                 kr_sessions_revoked = revoked, kr_regenerated = True\<rparr>, d4))
          else Inr (\<lparr>kr_mode = mode, kr_affected = affected, kr_sessions_revoked = revoked,
                 kr_regenerated = False\<rparr>, d3))))"

end
