(* ===== verification/DemoFleet.thy ===== *)
theory DemoFleet
  imports Sessions
begin

text \<open>
  A small deployment in the database: one group with a session limit, one zone with a network
  carried by a peer, a user, three peers and one live session. The properties of the services
  that have hypotheses are applied on it.
\<close>

definition demo_settings :: settings where
  "demo_settings = default_settings\<lparr>st_wan_interface := Some ''eth0'',
     st_internal_cidrs := [''10.0.0.0/8''], st_wg_pool_v4 := ''10.66.0.0/24'',
     st_session := default_session\<lparr>sn_default_lifetime_seconds := 3600\<rparr>\<rparr>"

definition demo_row :: "string \<Rightarrow> peer_state \<Rightarrow> string \<Rightarrow> peer_row" where
  "demo_row i s ip = \<lparr>pe_id = i, pe_name = i, pe_description = None, pe_peer_type = USER, pe_state = s,
     pe_wg_public_key = i, pe_wg_interface = ''wg0'', pe_tunnel_ip = Some ip, pe_tunnel_ip6 = None, pe_dns_label = None,
     pe_owner_user_id = Some ''u'', pe_zone_id = Some ''z'', pe_enrollment_key_hash = None,
     pe_enrollment_key_expires_at = None, pe_enrolled_at = Some 0,
     pe_last_authenticated_at = Some (Aware 0), pe_created_at = 0, pe_group_ids = [''g''],
     pe_tags = []\<rparr>"

definition demo_staff :: group_row where
  "demo_staff = \<lparr>gr_id = ''g'', gr_slug = ''staff'', gr_name = ''Staff'', gr_description = None,
     gr_kind = GROUP, gr_parent_id = None, gr_internet_exit = True, gr_intra_zone = False,
     gr_session_lifetime_seconds = Some 60, gr_routes = []\<rparr>"

definition demo_site :: group_row where
  "demo_site = \<lparr>gr_id = ''z'', gr_slug = ''site'', gr_name = ''Site'', gr_description = None,
     gr_kind = ZONE, gr_parent_id = None, gr_internet_exit = False, gr_intra_zone = True,
     gr_session_lifetime_seconds = None,
     gr_routes = [\<lparr>zr_id = ''r'', zr_cidr = ''192.168.7.0/24'', zr_via_peer_id = Some ''a'',
        zr_description = None, zr_enabled = True\<rparr>]\<rparr>"

definition demo_session :: session_row where
  "demo_session = \<lparr>se_id = ''s'', se_peer_id = ''a'', se_user_id = ''u'', se_auth_method = LOCAL,
     se_status = SESSION_ACTIVE, se_authenticated_at = 0, se_last_authenticated_at = Aware 0,
     se_expires_at = Some (Naive 3600000000), se_revoked_at = None, se_source_ip = None\<rparr>"

definition demo_user :: user_row where
  "demo_user = \<lparr>us_id = ''u'', us_username = ''ada'', us_email = None, us_display_name = None,
     us_idp_issuer = None, us_password_hash = Some ''h'',
     us_idp_subject = None, us_totp_secret = None, us_totp_enabled = False,
     us_totp_last_used_step = None, us_is_admin = True, us_is_active = True,
     us_last_login_at = None, us_group_ids = []\<rparr>"

definition demo_db :: db where
  "demo_db = \<lparr>users = [demo_user], groups = [demo_staff, demo_site],
     peers = [demo_row ''a'' ACTIVE ''10.66.0.2'', demo_row ''b'' QUARANTINED ''10.66.0.3'',
              demo_row ''c'' REVOKED ''10.66.0.4''],
     acl_rules = [], sessions = [demo_session], admin_sessions = [], audit_log = [], versions = [],
     services = [], dns_records = [], sso_sessions = [], tags = []\<rparr>"

lemma demo_rows [simp]:
  "pe_id (demo_row i s ip) = i" "pe_state (demo_row i s ip) = s" "pe_name (demo_row i s ip) = i"
  "pe_peer_type (demo_row i s ip) = USER" "pe_tunnel_ip (demo_row i s ip) = Some ip"
  "pe_last_authenticated_at (demo_row i s ip) = Some (Aware 0)"
  by (simp_all add: demo_row_def)

lemma demo_db_simps [simp]:
  "peers demo_db = [demo_row ''a'' ACTIVE ''10.66.0.2'', demo_row ''b'' QUARANTINED ''10.66.0.3'',
     demo_row ''c'' REVOKED ''10.66.0.4'']"
  "sessions demo_db = [demo_session]" "groups demo_db = [demo_staff, demo_site]"
  "versions demo_db = []" "audit_log demo_db = []"
  by (simp_all add: demo_db_def)

definition demo_now :: int where "demo_now = 120000000"

lemma demo_renders: "\<exists>txt. render demo_db demo_settings = Inr txt"
proof -
  have "case build_spec demo_db demo_settings of Inl e \<Rightarrow> False | Inr s \<Rightarrow> validate_spec s = []"
    by code_simp
  then show ?thesis
    by (auto simp: render_def validate_spec_iff generate_ok split: sum.splits)
qed

end
