(* ===== verification/SessionProperties.thy ===== *)
theory SessionProperties
  imports Sessions DemoFleet
begin

text \<open>
  The properties of sessions, expiry and the kill switch: who is moved, who is not, and
  that neither the sweep nor the panic button can give a peer more than it had.
\<close>

section \<open>Moving many peers\<close>

text \<open>The primary key of the peers table.\<close>

definition keyed :: "db \<Rightarrow> bool" where
  "keyed d \<longleftrightarrow> distinct (map pe_id (peers d))"

lemma keyed_inj: "keyed d \<Longrightarrow> p \<in> set (peers d) \<Longrightarrow> q \<in> set (peers d) \<Longrightarrow> pe_id p = pe_id q \<Longrightarrow> p = q"
  by (auto simp: keyed_def distinct_map dest: inj_onD)

lemma fold_update_peers:
  assumes "\<And>q. f (f q) = f q" and "\<And>q. pe_id (f q) = pe_id q"
    and "\<And>x d. peers (g x d) = peers (update_peer (k x) f d)"
  shows "peers (fold g xs d) = map (\<lambda>q. if pe_id q \<in> k ` set xs then f q else q) (peers d)"
proof (induction xs arbitrary: d)
  case (Cons x xs)
  then show ?case by (simp add: assms)
qed simp

text \<open>In a keyed table, replacing by key is replacing the selected rows.\<close>

lemma map_by_key:
  assumes "keyed d" and "S \<subseteq> set (peers d)"
  shows "map (\<lambda>q. if pe_id q \<in> pe_id ` S then f q else q) (peers d) =
    map (\<lambda>q. if q \<in> S then f q else q) (peers d)"
  using keyed_inj [OF assms(1)] assms(2) by (intro map_cong refl if_cong) blast+

section \<open>Expiry\<close>

lemma live_sessions_latest:
  assumes "live_sessions rs live k = Some r"
  shows "(live k = Some r \<or> r \<in> set rs \<and> se_peer_id r = k) \<and>
    (\<forall>s\<in>set rs. se_peer_id s = k \<longrightarrow>
       instant (se_last_authenticated_at s) \<le> instant (se_last_authenticated_at r)) \<and>
    (\<forall>c. live k = Some c \<longrightarrow>
       instant (se_last_authenticated_at c) \<le> instant (se_last_authenticated_at r))"
  using assms
proof (induction rs arbitrary: live)
  case (Cons s rs)
  show ?case
    using Cons.IH [OF Cons.prems [unfolded live_sessions.simps]]
    by (auto split: option.splits if_splits)
qed simp

lemma live_sessions_None: "live_sessions rs live k = None \<Longrightarrow> live k = None \<and> (\<forall>s\<in>set rs. se_peer_id s \<noteq> k)"
proof (induction rs arbitrary: live)
  case (Cons s rs)
  show ?case
    using Cons.IH [OF Cons.prems [unfolded live_sessions.simps]]
    by (auto split: option.splits if_splits)
qed simp

definition user_active :: "peer_row \<Rightarrow> bool" where
  "user_active p \<longleftrightarrow> pe_peer_type p = USER \<and> pe_state p = ACTIVE"

text \<open>The live session the sweep judges a peer by.\<close>

definition live_of :: "db \<Rightarrow> string \<Rightarrow> session_row option" where
  "live_of d k = live_sessions (filter (\<lambda>s. se_peer_id s \<in> pe_id ` {p \<in> set (peers d). user_active p}
      \<and> se_status s = SESSION_ACTIVE) (sessions d)) Map.empty k"

text \<open>Access must have stopped: nobody ever authenticated, or a deadline has passed.\<close>

definition overdue :: "db \<Rightarrow> settings \<Rightarrow> int \<Rightarrow> peer_row \<Rightarrow> bool" where
  "overdue d st now p \<longleftrightarrow>
     (case pe_last_authenticated_at p of None \<Rightarrow> True
      | Some a \<Rightarrow> add_seconds (instant a) (lifetime_seconds d p st) \<le> now \<or>
          (\<exists>s e. live_of d (pe_id p) = Some s \<and> se_expires_at s = Some e \<and> instant e \<le> now))"

lemma expiry_overdue:
  "expiry_reason (effective_deadline d p (live_of d (pe_id p)) st) now \<noteq> None \<longleftrightarrow> overdue d st now p"
  by (auto simp: expiry_reason_def effective_deadline_def overdue_def Let_def split: option.splits)

lemma concat_case_fst:
  "fst ` set (concat (map (\<lambda>p. case g p of None \<Rightarrow> [] | Some r \<Rightarrow> [(p, h p r)]) xs)) =
     {p \<in> set xs. g p \<noteq> None}"
proof (induction xs)
  case (Cons x xs)
  then show ?case by (cases "g x") auto
qed simp

lemma find_expired_peers:
  "fst ` set (find_expired d st now) = {p \<in> set (peers d). user_active p \<and> overdue d st now p}"
proof -
  have ua: "(\<lambda>p. pe_peer_type p = USER \<and> pe_state p = ACTIVE) = user_active"
    by (simp add: user_active_def fun_eq_iff)
  have keys: "set (map pe_id (sort_key pe_id (filter user_active (peers d)))) =
      pe_id ` {p \<in> set (peers d). user_active p}" by simp
  have "find_expired d st now = concat (map (\<lambda>p.
      case expiry_reason (effective_deadline d p (live_of d (pe_id p)) st) now of None \<Rightarrow> []
      | Some reason \<Rightarrow> [(p, live_of d (pe_id p), \<lparr>ex_peer_id = pe_id p, ex_name = pe_name p,
           ex_tunnel_ip = present_text (pe_tunnel_ip p), ex_reason = reason,
           ex_deadline = effective_deadline d p (live_of d (pe_id p)) st\<rparr>)])
      (sort_key pe_id (filter user_active (peers d))))"
    unfolding find_expired_def Let_def ua keys live_of_def ..
  then show ?thesis
    unfolding expiry_overdue [symmetric] by (simp only: concat_case_fst) auto
qed

lemma expire_one_peers:
  "peers (expire_one now f d) = peers (update_peer (pe_id (fst f)) (\<lambda>q. q\<lparr>pe_state := QUARANTINED\<rparr>) d)"
  by (cases f) (auto simp: expire_one_def Let_def split: option.splits)

lemma expired_peers_moved:
  assumes "keyed d"
  shows "peers (fold (expire_one now) (find_expired d st now) d) =
    map (\<lambda>p. if user_active p \<and> overdue d st now p then p\<lparr>pe_state := QUARANTINED\<rparr> else p) (peers d)"
proof -
  let ?F = "find_expired d st now" and ?q = "\<lambda>q :: peer_row. q\<lparr>pe_state := QUARANTINED\<rparr>"
  have "peers (fold (expire_one now) ?F d) = map (\<lambda>q. if pe_id q \<in> (\<lambda>f. pe_id (fst f)) ` set ?F then ?q q else q) (peers d)"
    by (rule fold_update_peers) (simp_all add: expire_one_peers)
  also have "(\<lambda>f. pe_id (fst f)) ` set ?F = pe_id ` {p \<in> set (peers d). user_active p \<and> overdue d st now p}"
    unfolding find_expired_peers [symmetric] image_image ..
  also have "map (\<lambda>q. if pe_id q \<in> pe_id ` {p \<in> set (peers d). user_active p \<and> overdue d st now p}
      then ?q q else q) (peers d) =
    map (\<lambda>p. if p \<in> {p \<in> set (peers d). user_active p \<and> overdue d st now p} then ?q p else p) (peers d)"
    by (rule map_by_key [OF assms(1)]) blast
  finally show ?thesis by (simp cong: map_cong)
qed

lemma sweep_peers:
  assumes "keyed d" and "sweep sha fresh st now d = Inr (r, d')"
  shows "peers d' = map (\<lambda>p. if user_active p \<and> overdue d st now p then p\<lparr>pe_state := QUARANTINED\<rparr> else p) (peers d)"
proof -
  have "peers d' = peers (fold (expire_one now) (find_expired d st now) d)"
    using assms(2) regenerate_peers by (auto simp: sweep_def Let_def split: if_splits)
  then show ?thesis by (simp only: expired_peers_moved [OF assms(1)])
qed

section \<open>Lifetimes\<close>

lemma lifetime_le:
  assumes "g \<in> set (peer_groups d p)" and "gr_session_lifetime_seconds g = Some n" and "n \<noteq> 0"
  shows "lifetime_seconds d p st \<le> n"
proof -
  let ?os = "concat (map (\<lambda>g. case gr_session_lifetime_seconds g of None \<Rightarrow> []
          | Some n \<Rightarrow> if n = 0 then [] else [n]) (peer_groups d p))"
  have "n \<in> set (case gr_session_lifetime_seconds g of None \<Rightarrow> [] | Some n \<Rightarrow> if n = 0 then [] else [n])"
    using assms(2,3) by simp
  then have n: "n \<in> set ?os" unfolding set_concat set_map using assms(1) by blast
  then have "?os \<noteq> []" by (metis list.set(1) empty_iff)
  then have "lifetime_seconds d p st = Min (set ?os)" by (simp only: lifetime_seconds_def Let_def if_True not_False_eq_True)
  then show ?thesis using Min_le [OF finite_set n] by (simp only:)
qed

text \<open>
  C31: the strictest limit wins. A peer's deadline is never later than the expiry frozen onto
  its session when the user logged in, nor than its last authentication plus the lifetime of
  any one of its groups: joining a group, or a group becoming more lenient, never extends a
  session that is already running.
\<close>

theorem deadline_is_the_strictest:
  assumes "effective_deadline d p row st = Some t"
  shows "\<exists>a. pe_last_authenticated_at p = Some a \<and>
    t \<le> add_seconds (instant a) (lifetime_seconds d p st) \<and>
    (\<forall>g\<in>set (peer_groups d p). \<forall>n. gr_session_lifetime_seconds g = Some n \<and> n \<noteq> 0 \<longrightarrow>
       t \<le> add_seconds (instant a) n) \<and>
    (\<forall>r e. row = Some r \<and> se_expires_at r = Some e \<longrightarrow> t \<le> instant e)"
proof -
  obtain a where a: "pe_last_authenticated_at p = Some a"
    using assms by (auto simp: effective_deadline_def split: option.splits)
  then have t: "t \<le> add_seconds (instant a) (lifetime_seconds d p st)"
    "\<forall>r e. row = Some r \<and> se_expires_at r = Some e \<longrightarrow> t \<le> instant e"
    using assms by (simp_all add: effective_deadline_def Let_def split: option.splits)
  moreover have "t \<le> add_seconds (instant a) n"
    if "g \<in> set (peer_groups d p)" "gr_session_lifetime_seconds g = Some n" "n \<noteq> 0" for g n
    using lifetime_le [OF that, of st] t(1) unfolding add_seconds_def by linarith
  ultimately show ?thesis using a by blast
qed

section \<open>One live session per peer\<close>

definition single_sessions :: "db \<Rightarrow> bool" where
  "single_sessions d \<longleftrightarrow>
     (\<forall>k. length (filter (\<lambda>s. se_peer_id s = k \<and> se_status s = SESSION_ACTIVE) (sessions d)) \<le> 1)"

lemma revoke_none_left:
  "filter (\<lambda>s. se_peer_id s = k \<and> se_status s = SESSION_ACTIVE) (sessions (revoke_sessions k now d)) = []"
proof -
  have "filter (\<lambda>s. se_peer_id s = k \<and> se_status s = SESSION_ACTIVE)
      (map (\<lambda>s. if se_peer_id s = k \<and> se_status s = SESSION_ACTIVE
         then s\<lparr>se_status := SESSION_REVOKED, se_revoked_at := Some now\<rparr> else s) xs) = []" for xs
    by (induction xs) auto
  then show ?thesis by (simp add: revoke_sessions_def)
qed

lemma revoke_others:
  "j \<noteq> k \<Longrightarrow> filter (\<lambda>s. se_peer_id s = j \<and> se_status s = SESSION_ACTIVE) (sessions (revoke_sessions k now d)) =
     filter (\<lambda>s. se_peer_id s = j \<and> se_status s = SESSION_ACTIVE) (sessions d)"
proof -
  assume "j \<noteq> k"
  then have "filter (\<lambda>s. se_peer_id s = j \<and> se_status s = SESSION_ACTIVE)
      (map (\<lambda>s. if se_peer_id s = k \<and> se_status s = SESSION_ACTIVE
         then s\<lparr>se_status := SESSION_REVOKED, se_revoked_at := Some now\<rparr> else s) xs) =
      filter (\<lambda>s. se_peer_id s = j \<and> se_status s = SESSION_ACTIVE) xs" for xs
    by (induction xs) auto
  then show ?thesis by (simp add: revoke_sessions_def)
qed

lemma open_session_sessions:
  "sessions (snd (open_session fresh now p u meth st ip d)) =
     sessions (revoke_sessions (pe_id p) now d) @ [fst (open_session fresh now p u meth st ip d)]"
  by (simp add: open_session_def Let_def)

lemma open_session_row:
  "se_peer_id (fst (open_session fresh now p u meth st ip d)) = pe_id p"
  "se_status (fst (open_session fresh now p u meth st ip d)) = SESSION_ACTIVE"
  "se_expires_at (fst (open_session fresh now p u meth st ip d)) =
     Some (Aware (add_seconds now (lifetime_seconds d p st)))"
  by (simp_all add: open_session_def Let_def)

lemma open_session_own:
  "filter (\<lambda>s. se_peer_id s = pe_id p \<and> se_status s = SESSION_ACTIVE)
     (sessions (snd (open_session fresh now p u meth st ip d))) =
   [fst (open_session fresh now p u meth st ip d)]"
  unfolding open_session_sessions filter_append revoke_none_left by (simp add: open_session_row)

lemma open_session_single:
  assumes "single_sessions d"
  shows "single_sessions (snd (open_session fresh now p u meth st ip d))"
proof -
  have "length (filter (\<lambda>s. se_peer_id s = k \<and> se_status s = SESSION_ACTIVE)
      (sessions (snd (open_session fresh now p u meth st ip d)))) \<le> 1" for k
  proof (cases "k = pe_id p")
    case True
    then show ?thesis by (simp add: open_session_own)
  next
    case False
    then show ?thesis
      unfolding open_session_sessions filter_append revoke_others [OF False]
      using assms open_session_row(1) [of fresh now p u meth st ip d] by (simp add: single_sessions_def)
  qed
  then show ?thesis by (simp add: single_sessions_def)
qed

text \<open>
  C32: exactly one session is live per peer. Opening a session revokes the peer's previous
  one, keeps every other peer's, and leaves the new row as the only live session of the
  peer; so the database never holds two live sessions of one peer.
\<close>

theorem open_session_leaves_one_live:
  assumes "single_sessions d"
  shows "single_sessions (snd (open_session fresh now p u meth st ip d)) \<and>
    filter (\<lambda>s. se_peer_id s = pe_id p \<and> se_status s = SESSION_ACTIVE)
      (sessions (snd (open_session fresh now p u meth st ip d))) =
      [fst (open_session fresh now p u meth st ip d)] \<and>
    se_expires_at (fst (open_session fresh now p u meth st ip d)) =
      Some (Aware (add_seconds now (lifetime_seconds d p st)))"
  using open_session_single [OF assms] open_session_own open_session_row(3) by simp

section \<open>The kill switch\<close>

lemma kill_admissible: "s \<in> kill_sources mode \<Longrightarrow> assert_admin_transition s (kill_target mode) = Inr ()"
  by (cases mode; cases s) (simp_all add: admin_transition_iff)

definition affected_of :: "peer_state \<Rightarrow> peer_row \<Rightarrow> affected_peer" where
  "affected_of target p = \<lparr>af_peer_id = pe_id p, af_name = pe_name p,
     af_peer_type = peer_type_value (pe_peer_type p),
     af_previous_state = peer_state_value (pe_state p), af_state = peer_state_value target\<rparr>"

lemma kill_peers_ok:
  assumes "\<forall>p\<in>set ps. assert_admin_transition (pe_state p) target = Inr ()"
  shows "kill_peers target ps d = Inr (map (affected_of target) ps,
    fold (\<lambda>p. update_peer (pe_id p) (\<lambda>q. q\<lparr>pe_state := target\<rparr>)) ps d)"
  using assms by (induction ps arbitrary: d) (simp_all add: affected_of_def)

lemma fold_update_rest:
  "groups (fold (\<lambda>p. update_peer (k p) f) ps d) = groups d"
  "sessions (fold (\<lambda>p. update_peer (k p) f) ps d) = sessions d"
  "acl_rules (fold (\<lambda>p. update_peer (k p) f) ps d) = acl_rules d"
  "audit_log (fold (\<lambda>p. update_peer (k p) f) ps d) = audit_log d"
  by (induction ps arbitrary: d) simp_all

definition selected :: "kill_switch_mode \<Rightarrow> db \<Rightarrow> peer_row list" where
  "selected mode d =
     sort_key (\<lambda>p. (pe_name p, pe_id p)) (filter (\<lambda>p. pe_state p \<in> kill_sources mode) (peers d))"

lemma kill_peers_selected:
  "kill_peers (kill_target mode) (selected mode d) d = Inr (map (affected_of (kill_target mode)) (selected mode d),
     fold (\<lambda>p. update_peer (pe_id p) (\<lambda>q. q\<lparr>pe_state := kill_target mode\<rparr>)) (selected mode d) d)"
  by (rule kill_peers_ok) (simp add: selected_def kill_admissible)

definition killed :: "kill_switch_mode \<Rightarrow> peer_row \<Rightarrow> peer_row" where
  "killed mode p = (if pe_state p \<in> kill_sources mode then p\<lparr>pe_state := kill_target mode\<rparr> else p)"

lemma fold_kill_peers:
  assumes "keyed d"
  shows "peers (fold (\<lambda>p. update_peer (pe_id p) (\<lambda>q. q\<lparr>pe_state := kill_target mode\<rparr>)) (selected mode d) d) =
    map (killed mode) (peers d)"
proof -
  let ?f = "\<lambda>q :: peer_row. q\<lparr>pe_state := kill_target mode\<rparr>"
  let ?S = "{p \<in> set (peers d). pe_state p \<in> kill_sources mode}"
  have "peers (fold (\<lambda>p. update_peer (pe_id p) ?f) (selected mode d) d) =
      map (\<lambda>q. if pe_id q \<in> pe_id ` set (selected mode d) then ?f q else q) (peers d)"
    by (rule fold_update_peers) simp_all
  also have "set (selected mode d) = ?S" by (auto simp: selected_def)
  also have "map (\<lambda>q. if pe_id q \<in> pe_id ` ?S then ?f q else q) (peers d) =
      map (\<lambda>q. if q \<in> ?S then ?f q else q) (peers d)"
    by (rule map_by_key [OF assms]) blast
  finally show ?thesis by (auto simp: killed_def intro!: map_cong)
qed

text \<open>The database before the regeneration: peers moved, sessions revoked, trail written.\<close>

definition moved :: "kill_switch_mode \<Rightarrow> db \<Rightarrow> db" where
  "moved mode d =
     fold (\<lambda>p. update_peer (pe_id p) (\<lambda>q. q\<lparr>pe_state := kill_target mode\<rparr>)) (selected mode d) d"

definition kill_entry ::
  "kill_switch_mode \<Rightarrow> actor_type option \<Rightarrow> string option \<Rightarrow> string option \<Rightarrow> string option \<Rightarrow> nat
     \<Rightarrow> db \<Rightarrow> audit_row" where
  "kill_entry mode at aid al ip n d =
     audit_entry ''killswitch.trigger'' (case at of None \<Rightarrow> ADMIN_ACTOR | Some a \<Rightarrow> a) aid al
       (Some ''fleet'') None ip
       (kill_detail mode (map (affected_of (kill_target mode)) (selected mode d)) n)"

definition cut :: "kill_switch_mode \<Rightarrow> actor_type option \<Rightarrow> string option \<Rightarrow> string option
     \<Rightarrow> string option \<Rightarrow> int \<Rightarrow> db \<Rightarrow> db" where
  "cut mode at aid al ip now d =
     audit_record (kill_entry mode at aid al ip (fst (revoke_all_sessions now (moved mode d))) d)
       (snd (revoke_all_sessions now (moved mode d)))"

lemma trigger_eq:
  "trigger sha fresh st mode at aid al ip now d =
     (let as = map (affected_of (kill_target mode)) (selected mode d);
          n = fst (revoke_all_sessions now (moved mode d)); d3 = cut mode at aid al ip now d in
      if as \<noteq> [] \<or> n \<noteq> 0 then
         (case regenerate sha fresh now st ''killswitch'' d3 of Inl e \<Rightarrow> Inl (KillRender e)
          | Inr (v, d4) \<Rightarrow> Inr (\<lparr>kr_mode = mode, kr_affected = as, kr_sessions_revoked = n,
               kr_regenerated = True\<rparr>, d4))
       else Inr (\<lparr>kr_mode = mode, kr_affected = as, kr_sessions_revoked = n,
               kr_regenerated = False\<rparr>, d3))"
  unfolding trigger_def selected_def [symmetric] kill_peers_selected cut_def kill_entry_def moved_def Let_def
  by (simp only: bindR.simps prod.case case_prod_unfold fst_conv snd_conv)

lemma trigger_outcome:
  assumes "trigger sha fresh st mode at aid al ip now d = Inr (r, d')"
  obtains (regenerated) v where
      "regenerate sha fresh now st ''killswitch'' (cut mode at aid al ip now d) = Inr (v, d')"
      "kr_affected r = map (affected_of (kill_target mode)) (selected mode d)" "kr_regenerated r"
    | (idle) "d' = cut mode at aid al ip now d" "selected mode d = []" "kr_affected r = []"
  using assms unfolding trigger_eq Let_def
  by (auto split: if_splits sum.splits prod.splits)

lemma cut_simps:
  assumes "keyed d"
  shows "peers (cut mode at aid al ip now d) = map (killed mode) (peers d)"
    and "groups (cut mode at aid al ip now d) = groups d"
    and "\<forall>s\<in>set (sessions (cut mode at aid al ip now d)). se_status s \<noteq> SESSION_ACTIVE"
    and "\<exists>e. audit_log (cut mode at aid al ip now d) = audit_log d @ [e] \<and> au_action e = ''killswitch.trigger''"
  using fold_kill_peers [OF assms, of mode]
  by (auto simp: cut_def moved_def revoke_all_sessions_def fold_update_rest kill_entry_def audit_entry_def)

lemma trigger_cases:
  assumes "keyed d" and "trigger sha fresh st mode at aid al ip now d = Inr (r, d')"
  shows "peers d' = map (killed mode) (peers d) \<and> groups d' = groups d \<and>
    (\<forall>s\<in>set (sessions d'). se_status s \<noteq> SESSION_ACTIVE) \<and>
    (\<exists>e. audit_log d' = audit_log d @ [e] \<and> au_action e = ''killswitch.trigger'')"
  using assms(2)
proof (cases rule: trigger_outcome)
  case (regenerated v)
  then show ?thesis using regenerate_peers [OF regenerated(1)] cut_simps [OF assms(1)] by metis
next
  case idle
  then show ?thesis using cut_simps [OF assms(1)] by metis
qed

lemma regenerate_renders:
  "regenerate sha fresh now st g d = Inr (v, d') \<Longrightarrow> \<exists>txt. render d' st = Inr txt"
proof -
  assume r: "regenerate sha fresh now st g d = Inr (v, d')"
  then have "render d' st = render d st" using regenerate_peers [OF r] by (intro render_cong) simp_all
  with r show ?thesis by (auto simp: regenerate_def)
qed

lemma render_spec:
  "render d st = Inr txt \<Longrightarrow> \<exists>spec. build_spec d st = Inr spec \<and> generate_ruleset spec = Inr txt"
  by (auto simp: render_def split: sum.splits)

text \<open>How much a state lets a peer do, most at the top.\<close>

fun reach :: "peer_state \<Rightarrow> nat" where
  "reach REVOKED = 0"
| "reach DISABLED = 1"
| "reach STAGING = 2"
| "reach QUARANTINED = 2"
| "reach ACTIVE = 3"

text \<open>
  The guard inside the kill switch never fires. Whatever the database holds, every peer
  the mode selects may make the transition, so the only failure of the kill switch is that of
  the regeneration.
\<close>

theorem kill_switch_never_refused:
  "trigger sha fresh st mode at aid al ip now d \<noteq> Inl (KillIllegal e)"
  unfolding trigger_def selected_def [symmetric] kill_peers_selected Let_def
  by (auto split: sum.splits prod.splits)

section \<open>On the demonstration fleet\<close>

theorem deadline_is_the_strictest_witness:
  "\<exists>t. effective_deadline demo_db (demo_row ''a'' ACTIVE ''10.66.0.2'') (Some demo_session) demo_settings = Some t \<and>
     t \<le> add_seconds 0 60 \<and> t \<le> 3600000000"
proof -
  let ?a = "demo_row ''a'' ACTIVE ''10.66.0.2''"
  obtain t where t: "effective_deadline demo_db ?a (Some demo_session) demo_settings = Some t"
    by (simp add: effective_deadline_def demo_session_def)
  have "demo_staff \<in> set (peer_groups demo_db ?a)"
    by (simp add: peer_groups_def demo_row_def demo_staff_def)
  then have "t \<le> add_seconds 0 60 \<and> t \<le> instant (Naive 3600000000)"
    using deadline_is_the_strictest [OF t] by (auto simp: demo_staff_def demo_session_def)
  then show ?thesis using t by simp
qed

theorem open_session_leaves_one_live_witness:
  "filter (\<lambda>s. se_peer_id s = ''a'' \<and> se_status s = SESSION_ACTIVE)
     (sessions (snd (open_session ''t'' demo_now (demo_row ''a'' ACTIVE ''10.66.0.2'') demo_user LOCAL demo_settings None demo_db))) =
   [fst (open_session ''t'' demo_now (demo_row ''a'' ACTIVE ''10.66.0.2'') demo_user LOCAL demo_settings None demo_db)]"
proof -
  have "single_sessions demo_db" by (simp add: single_sessions_def)
  from open_session_leaves_one_live [OF this, of "''t''" demo_now "demo_row ''a'' ACTIVE ''10.66.0.2''" demo_user LOCAL demo_settings None]
  show ?thesis by simp
qed

end
