(* ===== verification/FleetProperties.thy ===== *)
theory FleetProperties
  imports SessionProperties DemoFleet
begin

text \<open>
  What a change of peer states does to the firewall: the database, its projection and the
  generated chains taken together. A step that only narrows states (the kill switch, the
  sweep) keeps a ruleset that renders rendering, and the peers it confined are cut off by the
  forward chain of the new ruleset.
\<close>

section \<open>Narrowing the states of a fleet\<close>

lemma sort_key_map_same: "(\<And>x. k (f x) = k x) \<Longrightarrow> sort_key k (map f xs) = map f (sort_key k xs)"
proof (induction xs)
  case (Cons x xs)
  have "insort_key k (f x) (map f ys) = map f (insort_key k x ys)" for ys
    by (induction ys) (simp_all add: Cons.prems)
  then show ?case using Cons by simp
qed simp

text \<open>\<open>d'\<close> is \<open>d\<close> with the state of every peer \<open>p\<close> replaced by \<open>s p\<close>.\<close>

definition restated :: "(peer_row \<Rightarrow> peer_state) \<Rightarrow> db \<Rightarrow> db \<Rightarrow> bool" where
  "restated s d d' \<longleftrightarrow> peers d' = map (\<lambda>p. p\<lparr>pe_state := s p\<rparr>) (peers d) \<and> groups d' = groups d \<and>
     acl_rules d' = acl_rules d \<and> services d' = services d"

lemma peer_spec_restated:
  assumes "groups d' = groups d"
  shows "peer_spec_of d' (p\<lparr>pe_state := x\<rparr>) = (peer_spec_of d p)\<lparr>ps_state := x\<rparr>"
proof -
  have "group_by_id d' = group_by_id d" by (simp add: group_by_id_def[abs_def] assms)
  then show ?thesis by (simp add: peer_spec_of_def peer_zone_def peer_groups_def assms)
qed

lemma build_spec_restated:
  assumes "restated s d d'" and "build_spec d st = Inr spec"
  shows "build_spec d' st = Inr (spec\<lparr>sp_peers := map (\<lambda>p. (peer_spec_of d p)\<lparr>ps_state := s p\<rparr>)
     (sort_key (\<lambda>p. (pe_created_at p, pe_id p)) (peers d))\<rparr>)"
    and "sp_peers spec = map (peer_spec_of d) (sort_key (\<lambda>p. (pe_created_at p, pe_id p)) (peers d))"
proof -
  have r: "groups d' = groups d" "acl_rules d' = acl_rules d" "services d' = services d"
    "peers d' = map (\<lambda>p. p\<lparr>pe_state := s p\<rparr>) (peers d)"
    using assms(1) by (simp_all add: restated_def)
  have g: "group_by_id d' = group_by_id d" by (simp add: group_by_id_def[abs_def] r(1))
  have rules: "rule_spec_of d' = rule_spec_of d" by (simp add: rule_spec_of_def[abs_def] g)
  have ports: "proxy_ports d' st = proxy_ports d st" by (simp add: proxy_ports_def r(3))
  have ps: "map (peer_spec_of d') (sort_key (\<lambda>p. (pe_created_at p, pe_id p)) (peers d')) =
      map (\<lambda>p. (peer_spec_of d p)\<lparr>ps_state := s p\<rparr>)
        (sort_key (\<lambda>p. (pe_created_at p, pe_id p)) (peers d))"
    unfolding r(4)
    by (subst sort_key_map_same) (simp_all add: peer_spec_restated [OF r(1)] comp_def)
  obtain rs where rs: "mapR (rule_spec_of d) (sort_key (\<lambda>r. (ac_priority r, ac_ref r))
      (filter ac_enabled (acl_rules d))) = Inr rs"
    using assms(2) unfolding build_spec_def Let_def
    by (cases "mapR (rule_spec_of d) (sort_key (\<lambda>r. (ac_priority r, ac_ref r))
      (filter ac_enabled (acl_rules d)))") simp_all
  show "sp_peers spec = map (peer_spec_of d) (sort_key (\<lambda>p. (pe_created_at p, pe_id p)) (peers d))"
    using assms(2) unfolding build_spec_def Let_def rs by auto
  show "build_spec d' st = Inr (spec\<lparr>sp_peers := map (\<lambda>p. (peer_spec_of d p)\<lparr>ps_state := s p\<rparr>)
     (sort_key (\<lambda>p. (pe_created_at p, pe_id p)) (peers d))\<rparr>)"
    using assms(2) unfolding build_spec_def Let_def rules ports r(1,2) ps rs by auto
qed

lemma peers_ok_restated:
  assumes "peers_ok kg kz (map h xs)" and "\<And>x. x \<in> set xs \<Longrightarrow> is_active (s x) \<Longrightarrow> is_active (ps_state (h x))"
  shows "peers_ok kg kz (map (\<lambda>x. (h x)\<lparr>ps_state := s x\<rparr>) xs)"
proof -
  have a: "addresses (p\<lparr>ps_state := y\<rparr>) f = addresses p f" for p f y
    by (cases f) (simp_all add: addresses_def)
  have "peer_ok kg kz ((h x)\<lparr>ps_state := s x\<rparr>)" if "x \<in> set xs" for x
    using assms that by (auto simp: peers_ok_def peer_ok_def a)
  then show ?thesis using assms(1) by (auto simp: peers_ok_def a comp_def)
qed

lemma spec_ok_restated:
  assumes "spec_ok spec" and "sp_peers spec = map h xs"
    and "\<And>x. x \<in> set xs \<Longrightarrow> is_active (s x) \<Longrightarrow> is_active (ps_state (h x))"
  shows "spec_ok (spec\<lparr>sp_peers := map (\<lambda>x. (h x)\<lparr>ps_state := s x\<rparr>) xs\<rparr>)"
proof -
  have ids: "set (map ps_id (map (\<lambda>x. (h x)\<lparr>ps_state := s x\<rparr>) xs)) = set (map ps_id (sp_peers spec))"
    by (simp add: assms(2) image_image)
  have "peers_ok (spec_group_slugs spec) (spec_zone_slugs spec) (map h xs)"
    using assms(1,2) by (simp add: spec_ok_def Let_def)
  then have "peers_ok (spec_group_slugs spec) (spec_zone_slugs spec) (map (\<lambda>x. (h x)\<lparr>ps_state := s x\<rparr>) xs)"
    by (rule peers_ok_restated) (rule assms(3))
  then show ?thesis
    using assms(1) ids
    by (simp add: spec_ok_def Let_def spec_group_slugs_def spec_zone_slugs_def del: set_map) blast
qed

lemma render_restated:
  assumes "restated s d d'" and "\<And>p. p \<in> set (peers d) \<Longrightarrow> is_active (s p) \<Longrightarrow> is_active (pe_state p)"
    and "render d st = Inr txt"
  shows "\<exists>spec. build_spec d' st = Inr spec \<and> spec_ok spec \<and> render d' st = Inr (file_text (table_lines spec)) \<and>
    set (sp_peers spec) = (\<lambda>p. (peer_spec_of d p)\<lparr>ps_state := s p\<rparr>) ` set (peers d)"
proof -
  obtain spec where spec: "build_spec d st = Inr spec" "generate_ruleset spec = Inr txt"
    using render_spec [OF assms(3)] by blast
  then have ok: "spec_ok spec" using generate_bad by fastforce
  let ?spec = "spec\<lparr>sp_peers := map (\<lambda>p. (peer_spec_of d p)\<lparr>ps_state := s p\<rparr>)
     (sort_key (\<lambda>p. (pe_created_at p, pe_id p)) (peers d))\<rparr>"
  have ok': "spec_ok ?spec"
    by (rule spec_ok_restated [OF ok build_spec_restated(2) [OF assms(1) spec(1)]])
      (use assms(2) in \<open>auto simp: peer_spec_of_def\<close>)
  moreover have b: "build_spec d' st = Inr ?spec" by (rule build_spec_restated(1) [OF assms(1) spec(1)])
  moreover have "render d' st = Inr (file_text (table_lines ?spec))"
    by (simp add: render_def b generate_ok [OF ok'])
  moreover have "set (sp_peers ?spec) = (\<lambda>p. (peer_spec_of d p)\<lparr>ps_state := s p\<rparr>) ` set (peers d)" by simp
  ultimately show ?thesis by blast
qed

section \<open>The kill switch on the firewall\<close>

lemma restated_regenerate:
  assumes "restated s d d1" and "regenerate sha fresh now st g d1 = Inr (v, d2)"
  shows "restated s d d2"
  using assms(1) regenerate_peers [OF assms(2)] by (simp add: restated_def)

lemma regenerate_answers:
  assumes "render d st = Inr txt"
  obtains v d' where "regenerate sha fresh now st g d = Inr (v, d')"
  using assms by (cases "store_version sha fresh now (Some g) txt d") (simp add: regenerate_def)

lemma killed_state: "p\<lparr>pe_state := pe_state (killed mode p)\<rparr> = killed mode p"
  by (simp add: killed_def)

lemma cut_restated:
  assumes "keyed d"
  shows "restated (\<lambda>p. pe_state (killed mode p)) d (cut mode at aid al ip now d)"
proof -
  have "acl_rules (moved mode d) = acl_rules d" by (simp add: moved_def fold_update_rest)
  moreover have "services (fold (\<lambda>p. update_peer (k p) f) ps e) = services e" for k f ps e
    by (induction ps arbitrary: e) simp_all
  then have "services (moved mode d) = services d" by (simp add: moved_def)
  ultimately show ?thesis
    using cut_simps(1,2) [OF assms, of mode at aid al ip now]
    by (simp add: restated_def killed_state cut_def revoke_all_sessions_def)
qed

lemma killed_active: "is_active (pe_state (killed mode p)) \<Longrightarrow> is_active (pe_state p)"
  by (cases mode) (auto simp: killed_def split: if_splits)

lemma kill_outcome:
  assumes "keyed d" and "render d st = Inr txt"
  obtains r d' spec where "trigger sha fresh st mode at aid al ip now d = Inr (r, d')"
    and "build_spec d' st = Inr spec" and "spec_ok spec"
    and "render d' st = Inr (file_text (table_lines spec))"
    and "set (sp_peers spec) = (\<lambda>p. (peer_spec_of d p)\<lparr>ps_state := pe_state (killed mode p)\<rparr>) ` set (peers d)"
proof -
  let ?d3 = "cut mode at aid al ip now d"
  have "\<exists>txt'. render ?d3 st = Inr txt'"
    using render_restated [OF cut_restated [OF assms(1)] _ assms(2), of mode at aid al ip now] killed_active
    by blast
  then obtain v d4 where reg: "regenerate sha fresh now st ''killswitch'' ?d3 = Inr (v, d4)"
    using regenerate_answers by blast
  have "\<exists>r d'. trigger sha fresh st mode at aid al ip now d = Inr (r, d') \<and> d' \<in> {?d3, d4}"
    unfolding trigger_eq Let_def reg by simp
  then obtain r d' where t: "trigger sha fresh st mode at aid al ip now d = Inr (r, d')"
    and d': "d' \<in> {?d3, d4}" by blast
  have rs: "restated (\<lambda>p. pe_state (killed mode p)) d d'"
    using d' cut_restated [OF assms(1), of mode at aid al ip now] restated_regenerate [OF _ reg] by auto
  then show ?thesis
    using render_restated [OF rs _ assms(2)] killed_active t that by blast
qed

text \<open>
  C27: the panic button answers and cuts. On a fleet whose ruleset renders, pressing
  \<open>QUARANTINE\<close> always succeeds, the ruleset of the resulting database renders again, and the
  forward chain of that ruleset drops every tunnel packet from or to an address of any peer
  that was active: what the API promised is what the gateway will enforce.
\<close>

theorem killed_peers_are_cut:
  assumes "keyed d" and "render d st = Inr txt"
  shows "\<exists>r d' spec. trigger sha fresh st QUARANTINE at aid al ip now d = Inr (r, d') \<and>
    build_spec d' st = Inr spec \<and> render d' st = Inr (file_text (table_lines spec)) \<and>
    (\<forall>p\<in>set (peers d). \<forall>t f a pk. pe_state p = ACTIVE \<and> t \<in> set (addresses (peer_spec_of d p) f) \<and>
       ip_address t = Some a \<and> through_tunnel spec pk \<and> a \<in> {np_src pk, np_dst pk}
         \<longrightarrow> forward_verdict spec pk = VDrop)"
proof -
  obtain r d' spec where o: "trigger sha fresh st QUARANTINE at aid al ip now d = Inr (r, d')"
    "build_spec d' st = Inr spec" "spec_ok spec" "render d' st = Inr (file_text (table_lines spec))"
    "set (sp_peers spec) = (\<lambda>p. (peer_spec_of d p)\<lparr>ps_state := pe_state (killed QUARANTINE p)\<rparr>) ` set (peers d)"
    by (rule kill_outcome [OF assms])
  have "forward_verdict spec pk = VDrop"
    if p: "p \<in> set (peers d)" "pe_state p = ACTIVE" and t: "t \<in> set (addresses (peer_spec_of d p) f)"
      "ip_address t = Some a" and pk: "through_tunnel spec pk" "a \<in> {np_src pk, np_dst pk}" for p t f a pk
  proof (rule confined_is_cut [OF o(3) pk(1) _ _ _ t(2) pk(2)])
    show "(peer_spec_of d p)\<lparr>ps_state := QUARANTINED\<rparr> \<in> set (sp_peers spec)"
      using p unfolding o(5) by (auto simp: killed_def intro!: image_eqI [of _ _ p])
    show "is_confined (ps_state ((peer_spec_of d p)\<lparr>ps_state := QUARANTINED\<rparr>))" by simp
    show "t \<in> set (addresses ((peer_spec_of d p)\<lparr>ps_state := QUARANTINED\<rparr>) f)"
      using t(1) by (cases f) (simp_all add: addresses_def)
  qed
  then show ?thesis using o by blast
qed

lemma demo_keyed: "keyed demo_db" by (simp add: keyed_def)

lemma demo_address:
  "''10.66.0.2'' \<in> set (addresses (peer_spec_of demo_db (demo_row ''a'' ACTIVE ''10.66.0.2'')) V4)"
  "ip_address ''10.66.0.2'' = Some (IP4 172097538)"
  by (simp add: addresses_def peer_spec_of_def present_text_def) code_simp

theorem killed_peers_are_cut_witness:
  "\<exists>r d' spec. trigger (\<lambda>s. s) ''v'' demo_settings QUARANTINE None None None None demo_now demo_db = Inr (r, d') \<and>
     build_spec d' demo_settings = Inr spec \<and>
     (\<forall>pk. through_tunnel spec pk \<and> np_src pk = IP4 172097538 \<longrightarrow> forward_verdict spec pk = VDrop)"
proof -
  obtain x where "render demo_db demo_settings = Inr x" using demo_renders by blast
  from killed_peers_are_cut [OF demo_keyed this, of "\<lambda>s. s" "''v''" None None None None demo_now]
  obtain r d' spec where t: "trigger (\<lambda>s. s) ''v'' demo_settings QUARANTINE None None None None demo_now demo_db = Inr (r, d')"
    "build_spec d' demo_settings = Inr spec"
    and cut: "\<forall>p\<in>set (peers demo_db). \<forall>t f a pk. pe_state p = ACTIVE \<and>
       t \<in> set (addresses (peer_spec_of demo_db p) f) \<and> ip_address t = Some a \<and>
       through_tunnel spec pk \<and> a \<in> {np_src pk, np_dst pk} \<longrightarrow> forward_verdict spec pk = VDrop"
    by blast
  have "demo_row ''a'' ACTIVE ''10.66.0.2'' \<in> set (peers demo_db)"
    "pe_state (demo_row ''a'' ACTIVE ''10.66.0.2'') = ACTIVE" by simp_all
  then have "\<forall>pk. through_tunnel spec pk \<and> IP4 172097538 \<in> {np_src pk, np_dst pk} \<longrightarrow> forward_verdict spec pk = VDrop"
    using cut demo_address by blast
  then have "\<forall>pk. through_tunnel spec pk \<and> np_src pk = IP4 172097538 \<longrightarrow> forward_verdict spec pk = VDrop"
    by simp
  then show ?thesis using t by (intro exI conjI)
qed

section \<open>The sweep on the firewall\<close>

definition swept :: "db \<Rightarrow> settings \<Rightarrow> int \<Rightarrow> peer_row \<Rightarrow> peer_state" where
  "swept d st now p = (if user_active p \<and> overdue d st now p then QUARANTINED else pe_state p)"

lemma expire_one_rest:
  "groups (expire_one now f d) = groups d" "acl_rules (expire_one now f d) = acl_rules d"
  "services (expire_one now f d) = services d"
  by (cases f; auto simp: expire_one_def Let_def split: option.splits)+

lemma fold_expire_rest:
  "groups (fold (expire_one now) fs d) = groups d" "acl_rules (fold (expire_one now) fs d) = acl_rules d"
  "services (fold (expire_one now) fs d) = services d"
  by (induction fs arbitrary: d) (simp_all add: expire_one_rest)

lemma expired_restated:
  assumes "keyed d"
  shows "restated (swept d st now) d (fold (expire_one now) (find_expired d st now) d)"
proof -
  have "(if user_active p \<and> overdue d st now p then p\<lparr>pe_state := QUARANTINED\<rparr> else p) =
      p\<lparr>pe_state := swept d st now p\<rparr>" for p by (simp add: swept_def)
  then show ?thesis
    using expired_peers_moved [OF assms, of now st] by (simp add: restated_def fold_expire_rest)
qed

lemma swept_active: "is_active (swept d st now p) \<Longrightarrow> is_active (pe_state p)"
  by (auto simp: swept_def split: if_splits)

lemma sweep_outcome:
  assumes "keyed d" and "render d st = Inr txt"
  obtains r d' spec where "sweep sha fresh st now d = Inr (r, d')"
    and "build_spec d' st = Inr spec" and "spec_ok spec"
    and "render d' st = Inr (file_text (table_lines spec))"
    and "set (sp_peers spec) = (\<lambda>p. (peer_spec_of d p)\<lparr>ps_state := swept d st now p\<rparr>) ` set (peers d)"
proof -
  let ?d1 = "fold (expire_one now) (find_expired d st now) d"
  have "\<exists>txt'. render ?d1 st = Inr txt'"
    using render_restated [OF expired_restated [OF assms(1)] _ assms(2), of st now] swept_active by blast
  then obtain v d2 where reg: "regenerate sha fresh now st ''session.expiry'' ?d1 = Inr (v, d2)"
    using regenerate_answers by blast
  have "\<exists>r d'. sweep sha fresh st now d = Inr (r, d') \<and> d' \<in> {?d1, d2}"
  proof (cases "find_expired d st now = []")
    case True
    then have "sweep sha fresh st now d = Inr (([], False), d) \<and> d = ?d1" by (simp add: sweep_def)
    then show ?thesis by blast
  next
    case False
    then have "sweep sha fresh st now d = Inr ((map (\<lambda>(p, row, e). e) (find_expired d st now), True), d2)"
      using reg by (simp add: sweep_def)
    then show ?thesis by blast
  qed
  then obtain r d' where t: "sweep sha fresh st now d = Inr (r, d')" and d': "d' \<in> {?d1, d2}" by blast
  have rs: "restated (swept d st now) d d'"
    using d' expired_restated [OF assms(1), of st now] restated_regenerate [OF _ reg] by auto
  then obtain spec where "build_spec d' st = Inr spec" "spec_ok spec"
    "render d' st = Inr (file_text (table_lines spec))"
    "set (sp_peers spec) = (\<lambda>p. (peer_spec_of d p)\<lparr>ps_state := swept d st now p\<rparr>) ` set (peers d)"
    using render_restated [OF rs _ assms(2)] swept_active by blast
  then show ?thesis by (rule that [OF t])
qed

text \<open>
  An expired user is cut off. On a fleet whose ruleset renders, the sweep always succeeds,
  the resulting ruleset renders, and its forward chain drops every tunnel packet from or to
  an address of any user peer that was active and overdue.
\<close>

theorem swept_peers_are_cut:
  assumes "keyed d" and "render d st = Inr txt"
  shows "\<exists>r d' spec. sweep sha fresh st now d = Inr (r, d') \<and>
    build_spec d' st = Inr spec \<and> render d' st = Inr (file_text (table_lines spec)) \<and>
    (\<forall>p\<in>set (peers d). \<forall>t f a pk. user_active p \<and> overdue d st now p \<and>
       t \<in> set (addresses (peer_spec_of d p) f) \<and> ip_address t = Some a \<and>
       through_tunnel spec pk \<and> a \<in> {np_src pk, np_dst pk}
         \<longrightarrow> forward_verdict spec pk = VDrop)"
proof -
  obtain r d' spec where o: "sweep sha fresh st now d = Inr (r, d')"
    "build_spec d' st = Inr spec" "spec_ok spec" "render d' st = Inr (file_text (table_lines spec))"
    "set (sp_peers spec) = (\<lambda>p. (peer_spec_of d p)\<lparr>ps_state := swept d st now p\<rparr>) ` set (peers d)"
    by (rule sweep_outcome [OF assms])
  have "forward_verdict spec pk = VDrop"
    if p: "p \<in> set (peers d)" "user_active p" "overdue d st now p"
      and t: "t \<in> set (addresses (peer_spec_of d p) f)" "ip_address t = Some a"
      and pk: "through_tunnel spec pk" "a \<in> {np_src pk, np_dst pk}" for p t f a pk
  proof (rule confined_is_cut [OF o(3) pk(1) _ _ _ t(2) pk(2)])
    show "(peer_spec_of d p)\<lparr>ps_state := QUARANTINED\<rparr> \<in> set (sp_peers spec)"
      using p unfolding o(5) by (auto simp: swept_def intro!: image_eqI [of _ _ p])
    show "is_confined (ps_state ((peer_spec_of d p)\<lparr>ps_state := QUARANTINED\<rparr>))" by simp
    show "t \<in> set (addresses ((peer_spec_of d p)\<lparr>ps_state := QUARANTINED\<rparr>) f)"
      using t(1) by (cases f) (simp_all add: addresses_def)
  qed
  then show ?thesis using o by blast
qed

lemma demo_overdue:
  "user_active (demo_row ''a'' ACTIVE ''10.66.0.2'')"
  "overdue demo_db demo_settings demo_now (demo_row ''a'' ACTIVE ''10.66.0.2'')"
proof -
  have "lifetime_seconds demo_db (demo_row ''a'' ACTIVE ''10.66.0.2'') demo_settings = 60" by code_simp
  then show "overdue demo_db demo_settings demo_now (demo_row ''a'' ACTIVE ''10.66.0.2'')"
    by (simp add: overdue_def add_seconds_def demo_now_def)
qed (simp add: user_active_def)

theorem swept_peers_are_cut_witness:
  "\<exists>r d' spec. sweep (\<lambda>s. s) ''v'' demo_settings demo_now demo_db = Inr (r, d') \<and>
     build_spec d' demo_settings = Inr spec \<and>
     (\<forall>pk. through_tunnel spec pk \<and> np_src pk = IP4 172097538 \<longrightarrow> forward_verdict spec pk = VDrop)"
proof -
  let ?a = "demo_row ''a'' ACTIVE ''10.66.0.2''"
  obtain x where "render demo_db demo_settings = Inr x" using demo_renders by blast
  from swept_peers_are_cut [OF demo_keyed this, of "\<lambda>s. s" "''v''" demo_now]
  obtain r d' spec where t: "sweep (\<lambda>s. s) ''v'' demo_settings demo_now demo_db = Inr (r, d')"
    "build_spec d' demo_settings = Inr spec"
    and cut: "\<forall>p\<in>set (peers demo_db). \<forall>t f a pk. user_active p \<and> overdue demo_db demo_settings demo_now p \<and>
       t \<in> set (addresses (peer_spec_of demo_db p) f) \<and> ip_address t = Some a \<and>
       through_tunnel spec pk \<and> a \<in> {np_src pk, np_dst pk} \<longrightarrow> forward_verdict spec pk = VDrop"
    by blast
  have "?a \<in> set (peers demo_db)" by simp
  then have "\<forall>pk. through_tunnel spec pk \<and> IP4 172097538 \<in> {np_src pk, np_dst pk} \<longrightarrow> forward_verdict spec pk = VDrop"
    using cut demo_overdue demo_address by blast
  then have "\<forall>pk. through_tunnel spec pk \<and> np_src pk = IP4 172097538 \<longrightarrow> forward_verdict spec pk = VDrop"
    by simp
  then show ?thesis using t by (intro exI conjI)
qed

section \<open>Exactly whom they move\<close>

text \<open>
  C28: the sweep quarantines exactly whom it should. When it succeeds, every user peer that
  is active and overdue is \<open>QUARANTINED\<close> afterwards and no other peer has changed in any
  column: server peers, peers in other states and peers with time left are untouched.
\<close>

theorem sweep_quarantines_exactly_the_overdue:
  assumes "keyed d" and "sweep sha fresh st now d = Inr (r, d')"
  shows "peers d' = map (\<lambda>p. if user_active p \<and> overdue d st now p
    then p\<lparr>pe_state := QUARANTINED\<rparr> else p) (peers d)"
  by (rule sweep_peers [OF assms])

theorem sweep_quarantines_exactly_the_overdue_witness:
  "\<exists>r d'. sweep (\<lambda>s. s) ''v'' demo_settings demo_now demo_db = Inr (r, d') \<and>
     map pe_state (peers d') = [QUARANTINED, QUARANTINED, REVOKED]"
proof -
  obtain x where x: "render demo_db demo_settings = Inr x" using demo_renders by blast
  have "\<exists>r d'. sweep (\<lambda>s. s) ''v'' demo_settings demo_now demo_db = Inr (r, d')"
    by (rule sweep_outcome [OF demo_keyed x]) (intro exI)
  then obtain r d' where t: "sweep (\<lambda>s. s) ''v'' demo_settings demo_now demo_db = Inr (r, d')" by blast
  have "map pe_state (peers d') = [QUARANTINED, QUARANTINED, REVOKED]"
    unfolding sweep_quarantines_exactly_the_overdue [OF demo_keyed t]
    using demo_overdue by (simp add: user_active_def)
  then show ?thesis using t by (intro exI conjI)
qed

text \<open>
  C29: the kill switch only ever narrows. Pressing it, in either mode, moves exactly the peers
  in its source states to its target and changes no other column of any peer; nobody's reach
  grows, a revoked peer stays revoked, no peer is left active and no session is left live;
  one audit entry records it.
\<close>

theorem kill_switch_only_narrows:
  assumes "keyed d" and "trigger sha fresh st mode at aid al ip now d = Inr (r, d')"
  shows "peers d' = map (killed mode) (peers d) \<and>
    (\<forall>p\<in>set (peers d). reach (pe_state (killed mode p)) \<le> reach (pe_state p) \<and>
       (pe_state p = REVOKED \<longrightarrow> killed mode p = p)) \<and>
    (\<forall>p\<in>set (peers d'). pe_state p \<noteq> ACTIVE) \<and>
    (\<forall>s\<in>set (sessions d'). se_status s \<noteq> SESSION_ACTIVE) \<and>
    (\<exists>e. audit_log d' = audit_log d @ [e] \<and> au_action e = ''killswitch.trigger'')"
proof -
  note t = trigger_cases [OF assms]
  have "reach (pe_state (killed mode p)) \<le> reach (pe_state p) \<and> (pe_state p = REVOKED \<longrightarrow> killed mode p = p)
      \<and> pe_state (killed mode p) \<noteq> ACTIVE" for p
    by (cases mode; cases "pe_state p") (simp_all add: killed_def)
  then show ?thesis using t by auto
qed

theorem kill_switch_only_narrows_witness:
  "\<exists>r d'. trigger (\<lambda>s. s) ''v'' demo_settings LOCKDOWN None None None None demo_now demo_db = Inr (r, d') \<and>
     map pe_state (peers d') = [DISABLED, DISABLED, REVOKED]"
proof -
  obtain x where x: "render demo_db demo_settings = Inr x" using demo_renders by blast
  have "\<exists>r d'. trigger (\<lambda>s. s) ''v'' demo_settings LOCKDOWN None None None None demo_now demo_db = Inr (r, d')"
    by (rule kill_outcome [OF demo_keyed x]) (intro exI)
  then obtain r d' where t: "trigger (\<lambda>s. s) ''v'' demo_settings LOCKDOWN None None None None demo_now demo_db = Inr (r, d')"
    by blast
  have "peers d' = map (killed LOCKDOWN) (peers demo_db)"
    using kill_switch_only_narrows [OF demo_keyed t] by blast
  then have "map pe_state (peers d') = [DISABLED, DISABLED, REVOKED]" by (simp add: killed_def)
  then show ?thesis using t by (intro exI conjI)
qed

end
