(* ===== verification/Ipam.thy ===== *)
theory Ipam
  imports Config
begin

text \<open>
  \<open>backend/foxguard/services/ipam.py\<close>: the lowest free host address of a pool. The loop over
  \<open>network.hosts()\<close> is \<open>first_free\<close>, which walks the interval of the hosts and ends because the
  interval shrinks.
\<close>

datatype ipam_error = BadPool string | PoolExhausted string

text \<open>\<open>str(value).split("/", 1)[0]\<close>.\<close>

definition before_slash :: "string \<Rightarrow> string" where
  "before_slash s = takeWhile (\<lambda>c. c \<noteq> CHR ''/'') s"

definition taken_addresses :: "nat \<Rightarrow> string list \<Rightarrow> ip_addr list" where
  "taken_addresses version values = concat (map (\<lambda>v.
     if v = [] then []
     else (case ip_address (before_slash v) of None \<Rightarrow> []
       | Some a \<Rightarrow> if ip_version a = version then [a] else [])) values)"

function first_free :: "ip_net \<Rightarrow> ip_addr list \<Rightarrow> int \<Rightarrow> int \<Rightarrow> ip_addr option" where
  "first_free n taken lo hi =
     (if hi < lo then None
      else if host_at n lo \<in> set taken then first_free n taken (lo + 1) hi
      else Some (host_at n lo))"
  by pat_completeness auto
termination by (relation "measure (\<lambda>(n, t, lo, hi). nat (hi - lo + 1))") auto

declare first_free.simps [simp del]

definition next_free_address ::
  "string \<Rightarrow> string list \<Rightarrow> string list \<Rightarrow> (ipam_error, string) result" where
  "next_free_address pool used reserved =
     (case ip_network pool of None \<Rightarrow> Inl (BadPool pool)
      | Some n \<Rightarrow>
          (let taken = taken_addresses (net_version n) (used @ reserved);
               bounds = host_bounds n
           in case first_free n taken (fst bounds) (snd bounds) of
                None \<Rightarrow> Inl (PoolExhausted pool)
              | Some a \<Rightarrow> Inr (show_ip a)))"

definition used_addresses :: "db \<Rightarrow> nat \<Rightarrow> string list" where
  "used_addresses d version = concat (map (\<lambda>p.
     case (if version = 4 then pe_tunnel_ip p else pe_tunnel_ip6 p) of None \<Rightarrow> [] | Some a \<Rightarrow> [a]) (peers d))"

definition allocate_from ::
  "string option \<Rightarrow> string list \<Rightarrow> string list \<Rightarrow> (ipam_error, string option) result" where
  "allocate_from pool used reserved =
     (if truthy pool then bindR (next_free_address (the pool) used reserved) (\<lambda>a. Inr (Some a))
      else Inr None)"

definition allocate_addresses ::
  "db \<Rightarrow> string option \<Rightarrow> string option \<Rightarrow> string list
     \<Rightarrow> (ipam_error, string option \<times> string option) result" where
  "allocate_addresses d pool_v4 pool_v6 reserved =
     bindR (allocate_from pool_v4 (used_addresses d 4) reserved) (\<lambda>ipv4.
     bindR (allocate_from pool_v6 (used_addresses d 6) reserved) (\<lambda>ipv6. Inr (ipv4, ipv6)))"

section \<open>The walk\<close>

lemma first_free_Some:
  assumes "first_free n taken lo hi = Some a"
  shows "\<exists>i. lo \<le> i \<and> i \<le> hi \<and> a = host_at n i \<and> a \<notin> set taken \<and>
    (\<forall>j. lo \<le> j \<and> j < i \<longrightarrow> host_at n j \<in> set taken)"
  using assms
proof (induction n taken lo hi rule: first_free.induct)
  case (1 n taken lo hi)
  show ?case
  proof (cases "\<not> hi < lo \<and> host_at n lo \<in> set taken")
    case True
    then obtain i where "lo + 1 \<le> i \<and> i \<le> hi \<and> a = host_at n i \<and> a \<notin> set taken \<and>
      (\<forall>j. lo + 1 \<le> j \<and> j < i \<longrightarrow> host_at n j \<in> set taken)"
      using 1 by (auto simp: first_free.simps [of n taken lo])
    moreover have "j = lo \<or> lo + 1 \<le> j" if "lo \<le> j" for j :: int using that by linarith
    ultimately show ?thesis using True by (intro exI [of _ i]) auto
  next
    case False
    then show ?thesis using 1(2) by (auto simp: first_free.simps [of n taken lo] split: if_splits)
  qed
qed

lemma first_free_None:
  "first_free n taken lo hi = None \<Longrightarrow> lo \<le> j \<Longrightarrow> j \<le> hi \<Longrightarrow> host_at n j \<in> set taken"
proof (induction n taken lo hi rule: first_free.induct)
  case (1 n taken lo hi)
  then show ?case
    by (cases "j = lo") (auto simp: first_free.simps [of n taken lo] split: if_splits)
qed

lemma ip_int_host [simp]: "ip_int (host_at n i) = i"
  by (auto simp: host_at_def split: ip_addr.splits)

lemma version_host: "wf_net n \<Longrightarrow> ip_version (host_at n i) = net_version n"
  by (cases n; cases "net_addr n") (auto simp: host_at_def net_version_def split: ip_addr.splits)

lemma taken_iff: "a \<in> set (taken_addresses v xs) \<longleftrightarrow>
    (\<exists>x\<in>set xs. x \<noteq> [] \<and> ip_address (before_slash x) = Some a \<and> ip_version a = v)"
  by (induction xs) (auto simp: taken_addresses_def split: option.splits)

lemma net_int_bounds:
  "wf_net n \<Longrightarrow> 0 \<le> ip_int (net_addr n) \<and> ip_int (net_addr n) < 2 ^ max_prefixlen (net_version n)"
  by (cases "net_addr n") (auto simp: wf_net_def wf_addr_def net_version_def max_prefixlen_def)

lemma broadcast_bound:
  assumes "wf_net n"
  shows "broadcast_int n < 2 ^ max_prefixlen (net_version n)"
proof -
  let ?a = "ip_int (net_addr n)" and ?w = "max_prefixlen (net_version n)" and ?p = "prefixlen n"
  have p: "?p \<le> ?w" and dvd: "?a mod 2 ^ (?w - ?p) = 0"
    using assms by (simp_all add: wf_net_def net_size_def)
  obtain k where k: "?a = 2 ^ (?w - ?p) * k" using dvd by (metis mod_0_imp_dvd dvdE)
  have w: "(2 :: int) ^ ?w = 2 ^ (?w - ?p) * 2 ^ ?p" using p by (simp add: power_add [symmetric])
  have "2 ^ (?w - ?p) * k < (2 :: int) ^ (?w - ?p) * 2 ^ ?p"
    using net_int_bounds [OF assms] k w by simp
  then have "k + 1 \<le> 2 ^ ?p" by simp
  then have "(2 :: int) ^ (?w - ?p) * (k + 1) \<le> 2 ^ (?w - ?p) * 2 ^ ?p" by (intro mult_left_mono) simp_all
  then show ?thesis using k w by (simp add: broadcast_int_def net_size_def distrib_left)
qed

text \<open>A host between the bounds is an address of the network, and printing it loses nothing.\<close>

lemma host_between:
  assumes "wf_net n" and "fst (host_bounds n) \<le> i" and "i \<le> snd (host_bounds n)"
  shows "in_net (host_at n i) n" and "ip_address (show_ip (host_at n i)) = Some (host_at n i)"
proof -
  have size: "0 < net_size n" by (simp add: net_size_def)
  then have i: "ip_int (net_addr n) \<le> i" "i \<le> broadcast_int n"
    using assms(2,3) by (auto simp: host_bounds_def Let_def broadcast_int_def split: if_splits)
  then show "in_net (host_at n i) n" using version_host [OF assms(1)] by (simp add: in_net_def)
  have "wf_addr (host_at n i)"
    using i net_int_bounds [OF assms(1)] broadcast_bound [OF assms(1)] assms(1)
    by (auto simp: host_at_def wf_addr_def wf_net_def net_version_def max_prefixlen_def
        split: ip_addr.splits option.splits if_splits)
  then show "ip_address (show_ip (host_at n i)) = Some (host_at n i)" by (rule ip_address_show)
qed

text \<open>The hosts of \<open>n\<close> below \<open>i\<close> are all among the values.\<close>

definition hosts_below_taken :: "ip_net \<Rightarrow> string list \<Rightarrow> int \<Rightarrow> bool" where
  "hosts_below_taken n values i \<longleftrightarrow> (\<forall>j. fst (host_bounds n) \<le> j \<and> j < i \<longrightarrow>
     (\<exists>u\<in>set values. ip_address (before_slash u) = Some (host_at n j)))"

text \<open>
  C30: the lowest free address. On a pool that parses, allocation returns the canonical text of
  a host of the pool that no used or reserved value denotes, in whatever spelling, and every
  lower host is taken; it fails with \<open>PoolExhaustedError\<close> only when every host is taken.
\<close>

theorem allocation_is_lowest_free:
  assumes "ip_network pool = Some n"
  shows "case next_free_address pool used reserved of
     Inr s \<Rightarrow> \<exists>a. ip_address s = Some a \<and> in_net a n \<and>
       fst (host_bounds n) \<le> ip_int a \<and> ip_int a \<le> snd (host_bounds n) \<and>
       (\<forall>u\<in>set used \<union> set reserved. u \<noteq> [] \<longrightarrow> ip_address (before_slash u) \<noteq> Some a) \<and>
       hosts_below_taken n (used @ reserved) (ip_int a)
   | Inl e \<Rightarrow> e = PoolExhausted pool \<and>
       hosts_below_taken n (used @ reserved) (snd (host_bounds n) + 1)"
proof -
  let ?t = "taken_addresses (net_version n) (used @ reserved)"
  let ?lo = "fst (host_bounds n)" and ?hi = "snd (host_bounds n)"
  have wf: "wf_net n" by (rule ip_network_wf [OF assms])
  have taken: "\<exists>u\<in>set (used @ reserved). ip_address (before_slash u) = Some b" if "b \<in> set ?t" for b
    using that by (auto simp: taken_iff)
  show ?thesis
  proof (cases "first_free n ?t ?lo ?hi")
    case None
    then have "next_free_address pool used reserved = Inl (PoolExhausted pool)"
      by (simp add: next_free_address_def assms Let_def)
    moreover have "hosts_below_taken n (used @ reserved) (?hi + 1)"
      unfolding hosts_below_taken_def using first_free_None [OF None] taken by simp
    ultimately show ?thesis by simp
  next
    case (Some a)
    then obtain i where i: "?lo \<le> i" "i \<le> ?hi" "a = host_at n i" "a \<notin> set ?t"
      "\<forall>j. ?lo \<le> j \<and> j < i \<longrightarrow> host_at n j \<in> set ?t" using first_free_Some by blast
    have "next_free_address pool used reserved = Inr (show_ip a)"
      using Some by (simp add: next_free_address_def assms Let_def)
    moreover have "\<forall>u\<in>set used \<union> set reserved. u \<noteq> [] \<longrightarrow> ip_address (before_slash u) \<noteq> Some a"
      using i(4) version_host [OF wf] i(3) by (auto simp: taken_iff)
    moreover have "hosts_below_taken n (used @ reserved) (ip_int a)"
      unfolding hosts_below_taken_def using i(3,5) taken by simp
    ultimately show ?thesis using i(1-3) host_between [OF wf i(1,2)] by simp
  qed
qed

theorem allocation_is_lowest_free_witness:
  "next_free_address ''10.66.0.0/30'' [''10.66.0.1/32''] [[]] = Inr ''10.66.0.2'' \<and>
   (\<exists>a. ip_address ''10.66.0.2'' = Some a \<and> a \<noteq> IP4 172097537)"
proof -
  have n: "ip_network ''10.66.0.0/30'' = Some (IPNet (IP4 172097536) 30)" by code_simp
  have v: "next_free_address ''10.66.0.0/30'' [''10.66.0.1/32''] [[]] = Inr ''10.66.0.2''" by code_simp
  have u: "ip_address (before_slash ''10.66.0.1/32'') = Some (IP4 172097537)" by code_simp
  have "\<exists>a. ip_address ''10.66.0.2'' = Some a \<and> a \<noteq> IP4 172097537"
    using allocation_is_lowest_free [OF n, of "[''10.66.0.1/32'']" "[[]]"] u unfolding v by auto
  then show ?thesis using v by blast
qed

section \<open>How far the walk goes\<close>

lemma host_at_inj: "host_at n i = host_at n j \<longleftrightarrow> i = j"
  by (metis ip_int_host)

lemma hosts_in_taken:
  assumes "\<And>j. lo \<le> j \<Longrightarrow> j < i \<Longrightarrow> host_at n j \<in> set taken" and "lo \<le> i"
  shows "i - lo \<le> int (length taken)"
proof -
  have "card (host_at n ` {lo..<i}) \<le> card (set taken)" using assms(1) by (intro card_mono) auto
  moreover have "card (host_at n ` {lo..<i}) = nat (i - lo)"
    by (subst card_image) (auto simp: inj_on_def host_at_inj)
  ultimately show ?thesis using card_length [of taken] assms(2) by linarith
qed

lemma taken_length: "length (taken_addresses v xs) \<le> length xs"
  by (induction xs) (auto simp: taken_addresses_def split: option.splits)

text \<open>
  C39: the search for an address ends early. On a pool with more hosts than there are addresses in
  use or reserved, even one of 2^64 hosts, allocation succeeds, and the walk examines at most one
  host more than there are such addresses.
\<close>

theorem allocation_ends_early:
  assumes "ip_network pool = Some n"
    and "int (length (used @ reserved)) \<le> snd (host_bounds n) - fst (host_bounds n)"
  shows "\<exists>i. next_free_address pool used reserved = Inr (show_ip (host_at n i)) \<and>
    fst (host_bounds n) \<le> i \<and> i - fst (host_bounds n) \<le> int (length (used @ reserved))"
proof -
  let ?t = "taken_addresses (net_version n) (used @ reserved)"
  let ?lo = "fst (host_bounds n)" and ?hi = "snd (host_bounds n)"
  have t: "length ?t \<le> length (used @ reserved)" by (rule taken_length)
  show ?thesis
  proof (cases "first_free n ?t ?lo ?hi")
    case None
    then have "?hi + 1 - ?lo \<le> int (length ?t)"
      using assms(2) by (intro hosts_in_taken [of _ _ n]) (auto intro: first_free_None)
    then show ?thesis using t assms(2) by linarith
  next
    case (Some a)
    then obtain i where i: "?lo \<le> i" "a = host_at n i" "\<forall>j. ?lo \<le> j \<and> j < i \<longrightarrow> host_at n j \<in> set ?t"
      using first_free_Some by blast
    then have "i - ?lo \<le> int (length ?t)" by (intro hosts_in_taken [of _ _ n]) simp_all
    then show ?thesis using i(1, 2) t Some assms(1)
      by (intro exI [of _ i]) (auto simp: next_free_address_def Let_def)
  qed
qed

theorem allocation_ends_early_witness:
  "\<exists>i. next_free_address ''fd00::/64'' [''fd00::1''] [] = Inr (show_ip (host_at (IPNet (IP6 (253 * 2 ^ 120) None) 64) i)) \<and>
     i - (253 * 2 ^ 120 + 1) \<le> 1"
proof -
  have n: "ip_network ''fd00::/64'' = Some (IPNet (IP6 (253 * 2 ^ 120) None) 64)" by code_simp
  have b: "host_bounds (IPNet (IP6 (253 * 2 ^ 120) None) 64) = (253 * 2 ^ 120 + 1, 253 * 2 ^ 120 + (2 ^ 64 - 1))" by code_simp
  show ?thesis using allocation_ends_early [OF n, of "[''fd00::1'']" "[]"] unfolding b by auto
qed

end
