(* ===== verification/Credentials.thy ===== *)
theory Credentials
  imports Records
begin

text \<open>
  Secrets and who they prove: \<open>services/enrollment.py\<close>, \<open>services/totp.py\<close>,
  \<open>services/passwords.py\<close> and \<open>services/admin_auth.py\<close>. The primitives come from libraries
  and are the fields of \<open>crypto\<close>: SHA-256 in hexadecimal, argon2's verification, hashing and
  rehash test (\<open>None\<close> is \<open>InvalidHashError\<close>), and the code \<open>pyotp\<close> computes for a second.
  What \<open>secrets\<close> draws is an argument.
\<close>

record crypto =
  cr_sha256 :: "string \<Rightarrow> string"
  cr_argon_verify :: "string \<Rightarrow> string \<Rightarrow> bool"
  cr_argon_hash :: "string \<Rightarrow> string"
  cr_argon_stale :: "string \<Rightarrow> bool option"
  cr_totp_at :: "string \<Rightarrow> int \<Rightarrow> string"

datatype digest_error = DigestTypeError

text \<open>\<open>hmac.compare_digest\<close> on two strings: both must be ASCII.\<close>

definition compare_digest :: "string \<Rightarrow> string \<Rightarrow> (digest_error, bool) result" where
  "compare_digest a b =
     (if list_all is_ascii a \<and> list_all is_ascii b then Inr (a = b) else Inl DigestTypeError)"

text \<open>\<open>s.split("$", 2)\<close>, when it yields three parts.\<close>

definition split3 :: "char \<Rightarrow> string \<Rightarrow> (string \<times> string \<times> string) option" where
  "split3 c s = (case split_on c s of
     a # b # p # ps \<Rightarrow> Some (a, b, join [c] (p # ps)) | _ \<Rightarrow> None)"

section \<open>Enrollment keys\<close>

definition KEY_PREFIX :: string where "KEY_PREFIX = ''fgk_''"
definition HASH_PREFIX :: string where "HASH_PREFIX = ''sha256$''"

definition generate_key :: "string \<Rightarrow> string" where
  "generate_key random = KEY_PREFIX @ random"

definition hash_key :: "crypto \<Rightarrow> string \<Rightarrow> string \<Rightarrow> string" where
  "hash_key cr key salt = HASH_PREFIX @ salt @ ''$'' @ cr_sha256 cr (salt @ key)"

definition verify_key :: "crypto \<Rightarrow> string \<Rightarrow> string option \<Rightarrow> (digest_error, bool) result" where
  "verify_key cr key stored =
     (if \<not> (truthy stored \<and> starts_with HASH_PREFIX (the stored)) then Inr False
      else (case split3 (CHR ''$'') (the stored) of None \<Rightarrow> Inr False
        | Some (h, salt, digest) \<Rightarrow> compare_digest (cr_sha256 cr (salt @ key)) digest))"

definition is_expired :: "datetime option \<Rightarrow> int \<Rightarrow> bool" where
  "is_expired expires_at now = (case expires_at of None \<Rightarrow> False | Some t \<Rightarrow> instant t \<le> now)"

section \<open>One-time codes\<close>

definition INTERVAL_SECONDS :: int where "INTERVAL_SECONDS = 30"
definition SKEW_STEPS :: int where "SKEW_STEPS = 1"

text \<open>\<open>int(now.timestamp()) // 30\<close>: \<open>int\<close> truncates towards zero.\<close>

definition current_step :: "int \<Rightarrow> int" where
  "current_step now =
     (if now < 0 then - ((- now) div 1000000) else now div 1000000) div INTERVAL_SECONDS"

text \<open>\<open>str.isdigit\<close> on one character: the decimal digits and the three superscripts of Latin-1.\<close>

definition py_isdigit_char :: "char \<Rightarrow> bool" where
  "py_isdigit_char c \<longleftrightarrow> is_digit c \<or> c \<in> {CHR 0xB2, CHR 0xB3, CHR 0xB9}"

definition py_isdigit :: "string \<Rightarrow> bool" where
  "py_isdigit s \<longleftrightarrow> s \<noteq> [] \<and> list_all py_isdigit_char s"

fun try_steps ::
  "crypto \<Rightarrow> string \<Rightarrow> string \<Rightarrow> int option \<Rightarrow> int list \<Rightarrow> (digest_error, int option) result" where
  "try_steps cr secret candidate last_used [] = Inr None"
| "try_steps cr secret candidate last_used (tested # ts) =
     (if (case last_used of None \<Rightarrow> False | Some l \<Rightarrow> tested \<le> l)
      then try_steps cr secret candidate last_used ts
      else bindR (compare_digest (cr_totp_at cr secret (tested * INTERVAL_SECONDS)) candidate)
        (\<lambda>ok. if ok then Inr (Some tested) else try_steps cr secret candidate last_used ts))"

definition totp_verify ::
  "crypto \<Rightarrow> string option \<Rightarrow> string option \<Rightarrow> int option \<Rightarrow> int \<Rightarrow> (digest_error, int option) result" where
  "totp_verify cr secret code last_used now =
     (if \<not> truthy secret \<or> \<not> truthy code then Inr None
      else (let candidate = remove_char (CHR '' '') (py_strip (the code)) in
        if \<not> py_isdigit candidate then Inr None
        else try_steps cr (the secret) candidate last_used
          (map (\<lambda>k. current_step now + k) [- SKEW_STEPS .. SKEW_STEPS])))"

section \<open>Passwords\<close>

definition verify_password :: "crypto \<Rightarrow> string \<Rightarrow> string option \<Rightarrow> bool" where
  "verify_password cr password stored_hash \<longleftrightarrow>
     truthy stored_hash \<and> cr_argon_verify cr (the stored_hash) password"

definition needs_rehash :: "crypto \<Rightarrow> string \<Rightarrow> bool" where
  "needs_rehash cr stored_hash = (case cr_argon_stale cr stored_hash of None \<Rightarrow> True | Some b \<Rightarrow> b)"

definition token_digest :: "crypto \<Rightarrow> string \<Rightarrow> string" where
  "token_digest cr token = cr_sha256 cr token"

text \<open>What the login paths do with a correct password: hash it again if its cost is stale.\<close>

definition rehashed :: "crypto \<Rightarrow> string \<Rightarrow> user_row \<Rightarrow> user_row" where
  "rehashed cr password u =
     (if truthy (us_password_hash u) \<and> needs_rehash cr (the (us_password_hash u))
      then u\<lparr>us_password_hash := Some (cr_argon_hash cr password)\<rparr> else u)"

section \<open>Administrators\<close>

definition ADMIN_PREFIX :: string where "ADMIN_PREFIX = ''fga_''"

record admin_identity =
  ai_actor_type :: actor_type
  ai_user_id :: "string option"
  ai_label :: string

definition machine :: admin_identity where
  "machine = \<lparr>ai_actor_type = SYSTEM_ACTOR, ai_user_id = None, ai_label = ''admin-token''\<rparr>"

definition person :: "user_row \<Rightarrow> admin_identity" where
  "person u = \<lparr>ai_actor_type = ADMIN_ACTOR, ai_user_id = Some (us_id u), ai_label = us_username u\<rparr>"

definition is_person :: "admin_identity \<Rightarrow> bool" where
  "is_person i \<longleftrightarrow> ai_user_id i \<noteq> None"

record auth_outcome =
  ao_user :: "user_row option"
  ao_reason :: string

definition refused :: "string \<Rightarrow> auth_outcome" where
  "refused reason = \<lparr>ao_user = None, ao_reason = reason\<rparr>"

definition hash_token :: "crypto \<Rightarrow> string \<Rightarrow> string \<Rightarrow> string" where
  "hash_token cr token salt = HASH_PREFIX @ salt @ ''$'' @ cr_sha256 cr (salt @ token)"

definition verify_hash :: "crypto \<Rightarrow> string \<Rightarrow> string \<Rightarrow> (digest_error, bool) result" where
  "verify_hash cr token stored =
     (case split3 (CHR ''$'') stored of None \<Rightarrow> Inr False
      | Some (h, salt, digest) \<Rightarrow> compare_digest (cr_sha256 cr (salt @ token)) digest)"

definition user_named :: "db \<Rightarrow> string \<Rightarrow> user_row option" where
  "user_named d name = find (\<lambda>u. us_username u = name) (users d)"

definition authenticate ::
  "crypto \<Rightarrow> string \<Rightarrow> string \<Rightarrow> string option \<Rightarrow> bool \<Rightarrow> int \<Rightarrow> db
     \<Rightarrow> (digest_error, auth_outcome \<times> db) result" where
  "authenticate cr username password totp_code require_admin now d =
     (case user_named d username of None \<Rightarrow> Inr (refused ''no such account'', d)
      | Some u \<Rightarrow>
        if \<not> us_is_active u then Inr (refused ''account disabled'', d)
        else if require_admin \<and> \<not> us_is_admin u then Inr (refused ''not an administrator'', d)
        else if \<not> verify_password cr password (us_password_hash u)
        then Inr (refused ''wrong password'', d)
        else bindR (if us_totp_enabled u
             then bindR (totp_verify cr (us_totp_secret u) totp_code (us_totp_last_used_step u) now)
               (\<lambda>s. Inr (case s of None \<Rightarrow> None | Some t \<Rightarrow> Some (u\<lparr>us_totp_last_used_step := Some t\<rparr>)))
             else Inr (Some u))
          (\<lambda>v. case v of None \<Rightarrow> Inr (refused ''missing or invalid TOTP code'', d)
           | Some v' \<Rightarrow> (let w = rehashed cr password v' in
               Inr (\<lparr>ao_user = Some w, ao_reason = ''''\<rparr>, update_user (us_id u) (\<lambda>_. w) d))))"

definition issue ::
  "crypto \<Rightarrow> string \<Rightarrow> string \<Rightarrow> string \<Rightarrow> user_row \<Rightarrow> int \<Rightarrow> string option \<Rightarrow> string option
     \<Rightarrow> int \<Rightarrow> db \<Rightarrow> (admin_session_row \<times> string) \<times> db" where
  "issue cr fresh random salt u lifetime_seconds source_ip user_agent now d =
     (let token = ADMIN_PREFIX @ random;
          agent = take 255 (or_else user_agent '''');
          row = \<lparr>as_id = fresh, as_user_id = us_id u, as_token_hash = hash_token cr token salt,
             as_created_at = now, as_last_seen_at = now,
             as_expires_at = add_seconds now lifetime_seconds, as_revoked_at = None,
             as_source_ip = source_ip, as_user_agent = (if agent = [] then None else Some agent)\<rparr>
      in ((row, token), update_user (us_id u) (\<lambda>v. v\<lparr>us_last_login_at := Some now\<rparr>)
            (d\<lparr>admin_sessions := admin_sessions d @ [row]\<rparr>)))"

fun find_token ::
  "crypto \<Rightarrow> string \<Rightarrow> admin_session_row list \<Rightarrow> (digest_error, admin_session_row option) result" where
  "find_token cr token [] = Inr None"
| "find_token cr token (r # rs) =
     bindR (verify_hash cr token (as_token_hash r)) (\<lambda>ok.
       if ok then Inr (Some r) else find_token cr token rs)"

definition update_admin_session ::
  "string \<Rightarrow> (admin_session_row \<Rightarrow> admin_session_row) \<Rightarrow> db \<Rightarrow> db" where
  "update_admin_session i f d =
     d\<lparr>admin_sessions := map (\<lambda>r. if as_id r = i then f r else r) (admin_sessions d)\<rparr>"

definition usable :: "int \<Rightarrow> admin_session_row \<Rightarrow> bool" where
  "usable now r \<longleftrightarrow> as_revoked_at r = None \<and> as_expires_at r > now"

definition resolve ::
  "crypto \<Rightarrow> string \<Rightarrow> int \<Rightarrow> db \<Rightarrow> (digest_error, admin_session_row option \<times> db) result" where
  "resolve cr token now d =
     (if token = [] \<or> \<not> starts_with ADMIN_PREFIX token then Inr (None, d)
      else bindR (find_token cr token (filter (usable now) (admin_sessions d))) (\<lambda>found.
        Inr (case found of None \<Rightarrow> (None, d)
          | Some r \<Rightarrow>
              (case user_by_id d (Some (as_user_id r)) of None \<Rightarrow> (None, d)
               | Some u \<Rightarrow>
                   if \<not> us_is_active u \<or> \<not> us_is_admin u then (None, d)
                   else (Some (r\<lparr>as_last_seen_at := now\<rparr>),
                     update_admin_session (as_id r) (\<lambda>s. s\<lparr>as_last_seen_at := now\<rparr>) d)))))"

definition revoke :: "admin_session_row \<Rightarrow> int \<Rightarrow> db \<Rightarrow> db" where
  "revoke r now d = update_admin_session (as_id r) (\<lambda>s. s\<lparr>as_revoked_at := Some now\<rparr>) d"

definition revoke_all_for_user :: "string \<Rightarrow> int \<Rightarrow> db \<Rightarrow> nat \<times> db" where
  "revoke_all_for_user user_id now d =
     (let hit = (\<lambda>r. as_user_id r = user_id \<and> as_revoked_at r = None) in
      (length (filter hit (admin_sessions d)),
       d\<lparr>admin_sessions := map (\<lambda>r. if hit r then r\<lparr>as_revoked_at := Some now\<rparr> else r)
          (admin_sessions d)\<rparr>))"

end
