(* ===== verification/CredentialProperties.thy ===== *)
theory CredentialProperties
  imports Credentials DemoFleet
begin

text \<open>
  The properties of secrets: a key verifies against its own hash, a one-time code is spent
  once, an administrator's session is honoured only while it and its account are good.
\<close>

section \<open>Stored hashes\<close>

lemma join_split [simp]: "join [c] (split_on c s) = s"
proof (induction s)
  case (Cons x s)
  have "join [c] ((x # p) # ps) = x # join [c] (p # ps)" for p ps by (cases ps) simp_all
  then show ?case using Cons by (cases "split_on c s") auto
qed simp

lemma split3_hash:
  assumes "CHR ''$'' \<notin> set salt"
  shows "split3 (CHR ''$'') (HASH_PREFIX @ salt @ ''$'' @ digest) = Some (''sha256'', salt, digest)"
proof -
  have "split_on (CHR ''$'') (HASH_PREFIX @ salt @ ''$'' @ digest) =
      ''sha256'' # salt # split_on (CHR ''$'') digest"
    using split_on_append [of "CHR ''$''" "''sha256''" "salt @ ''$'' @ digest"]
      split_on_append [OF assms, of digest] by (simp add: HASH_PREFIX_def)
  then show ?thesis by (cases "split_on (CHR ''$'') digest") (simp_all add: split3_def, metis join_split)
qed

lemma starts_with_append [simp]: "starts_with p (p @ s)"
  by (simp add: starts_with_def)

definition demo_crypto :: crypto where
  "demo_crypto = \<lparr>cr_sha256 = (\<lambda>s. s), cr_argon_verify = (\<lambda>h p. h = p), cr_argon_hash = (\<lambda>p. p),
     cr_argon_stale = (\<lambda>h. Some False), cr_totp_at = (\<lambda>s t. show_int t)\<rparr>"

text \<open>
  C38: an enrollment key round trips. What \<open>hash_key\<close> stored for a key, under a salt without a
  dollar sign, is verified by \<open>verify_key\<close> for exactly the keys whose salted hash is the same:
  the key itself always, and no other while SHA-256 does not collide.
\<close>

theorem enrollment_key_round_trip:
  assumes "CHR ''$'' \<notin> set salt" and "\<And>s. list_all is_ascii (cr_sha256 cr s)"
  shows "verify_key cr key (Some (hash_key cr stored salt)) =
    Inr (cr_sha256 cr (salt @ key) = cr_sha256 cr (salt @ stored))"
proof -
  have "truthy (Some (hash_key cr stored salt))" by (simp add: hash_key_def HASH_PREFIX_def)
  then show ?thesis
    using split3_hash [OF assms(1), of "cr_sha256 cr (salt @ stored)"] assms(2)
    by (simp add: verify_key_def hash_key_def compare_digest_def)
qed

theorem enrollment_key_round_trip_witness:
  "verify_key (demo_crypto\<lparr>cr_sha256 := \<lambda>s. if s = ''aak'' then ''1'' else ''0''\<rparr>) ''k''
     (Some (hash_key (demo_crypto\<lparr>cr_sha256 := \<lambda>s. if s = ''aak'' then ''1'' else ''0''\<rparr>) ''k'' ''aa'')) = Inr True"
  by (subst enrollment_key_round_trip) (simp_all add: is_ascii_def)

section \<open>One-time codes\<close>

lemma try_steps_Some:
  "try_steps cr secret cand used ts = Inr (Some s) \<Longrightarrow>
     s \<in> set ts \<and> cr_totp_at cr secret (s * INTERVAL_SECONDS) = cand \<and>
     (case used of None \<Rightarrow> True | Some l \<Rightarrow> l < s)"
  by (induction ts) (auto simp: compare_digest_def split: if_splits option.splits)

lemma totp_verify_Some:
  assumes "totp_verify cr secret code used now = Inr (Some s)"
  shows "\<bar>s - current_step now\<bar> \<le> SKEW_STEPS \<and> (case used of None \<Rightarrow> True | Some l \<Rightarrow> l < s)"
  using assms try_steps_Some
  by (fastforce simp: totp_verify_def Let_def SKEW_STEPS_def split: if_splits)

text \<open>
  Attempts at one account, each a clock reading and a code, with what the login paths do
  after each: the step a code matched becomes the last one used.
\<close>

fun spent_steps ::
  "crypto \<Rightarrow> string option \<Rightarrow> int option \<Rightarrow> (int \<times> string) list \<Rightarrow> (int \<times> int) list" where
  "spent_steps cr secret used [] = []"
| "spent_steps cr secret used ((now, code) # as) =
     (case totp_verify cr secret (Some code) used now of
        Inr (Some s) \<Rightarrow> (now, s) # spent_steps cr secret (Some s) as
      | _ \<Rightarrow> spent_steps cr secret used as)"

text \<open>
  C36: a one-time code is spent once. Over any sequence of attempts, at any times and with any
  codes, the steps accepted are strictly increasing and above the one already used, and each
  is within one step of the clock at its attempt; so no step is ever accepted twice.
\<close>

theorem totp_codes_are_single_use:
  "sorted_wrt (<) (map snd (spent_steps cr secret used as)) \<and>
   (\<forall>l. used = Some l \<longrightarrow> (\<forall>(now, s)\<in>set (spent_steps cr secret used as). l < s)) \<and>
   (\<forall>(now, s)\<in>set (spent_steps cr secret used as). \<bar>s - current_step now\<bar> \<le> SKEW_STEPS)"
proof (induction as arbitrary: used)
  case (Cons x as)
  obtain now code where x: "x = (now, code)" by (cases x)
  show ?case
  proof (cases "\<exists>s. totp_verify cr secret (Some code) used now = Inr (Some s)")
    case True
    then obtain s where v: "totp_verify cr secret (Some code) used now = Inr (Some s)" by blast
    have run: "spent_steps cr secret used (x # as) = (now, s) # spent_steps cr secret (Some s) as"
      by (simp add: x v)
    have bound: "\<bar>s - current_step now\<bar> \<le> SKEW_STEPS" "\<forall>l. used = Some l \<longrightarrow> l < s"
      using totp_verify_Some [OF v] by (auto split: option.splits)
    show ?thesis unfolding run using Cons.IH [of "Some s"] bound by fastforce
  next
    case False
    then have run: "spent_steps cr secret used (x # as) = spent_steps cr secret used as"
      by (auto simp: x split: sum.splits option.splits)
    show ?thesis unfolding run by (rule Cons.IH)
  qed
qed simp

theorem totp_codes_are_single_use_witness:
  "spent_steps demo_crypto (Some ''s'') None [(60000000, ''60''), (60000000, ''60''), (61000000, ''90'')] =
     [(60000000, 2), (61000000, 3)] \<and> sorted_wrt (<) [2 :: int, 3]"
proof -
  have r: "spent_steps demo_crypto (Some ''s'') None [(60000000, ''60''), (60000000, ''60''), (61000000, ''90'')] =
     [(60000000, 2), (61000000, 3)]" by code_simp
  show ?thesis
    using totp_codes_are_single_use [of demo_crypto "Some ''s''" None
      "[(60000000, ''60''), (60000000, ''60''), (61000000, ''90'')]"] unfolding r by simp
qed

lemma strip_nothing:
  assumes "\<And>c. c \<in> set s \<Longrightarrow> \<not> is_space c \<and> c \<noteq> b"
  shows "remove_char b (py_strip s) = s"
proof -
  have d: "dropWhile is_space t = t" if "set t = set s" for t
    using assms that by (cases t) auto
  have "filter (\<lambda>c. c \<noteq> b) s = s" using assms by (intro filter_True) auto
  then show ?thesis
    using d [of s] d [of "rev s"]
    by (simp add: py_strip_def strip_by_def lstrip_by_def rstrip_by_def remove_char_def)
qed

text \<open>
  C40: a superscript digit is not refused but raises. \<open>isdigit\<close> holds of it, and
  \<open>compare_digest\<close> refuses text that is not ASCII, so the request that sent the code fails with
  an exception the login path does not catch, and no failure is recorded.
\<close>

theorem superscript_code_raises:
  assumes "secret \<noteq> []" and "set code = {CHR 0xB2}"
  shows "totp_verify cr (Some secret) (Some code) None now = Inl DigestTypeError"
proof -
  have "\<not> is_space (CHR 0xB2)" by code_simp
  then have cand: "remove_char (CHR '' '') (py_strip code) = code"
    using assms(2) by (intro strip_nothing) simp
  have "code \<noteq> []" using assms(2) by (metis empty_not_insert list.set(1))
  moreover have "py_isdigit code"
    using calculation assms(2) by (simp add: py_isdigit_def list.pred_set py_isdigit_char_def)
  moreover have "\<not> list_all is_ascii code"
    using assms(2) by (simp add: list.pred_set is_ascii_def)
  moreover have "[- SKEW_STEPS .. SKEW_STEPS] = [- 1, 0, 1]" by code_simp
  ultimately show ?thesis
    using assms(1) cand by (simp add: totp_verify_def compare_digest_def)
qed

theorem superscript_code_raises_witness:
  "totp_verify demo_crypto (Some ''s'') (Some [CHR 0xB2]) None 60000000 = Inl DigestTypeError"
  by (rule superscript_code_raises) simp_all

section \<open>Administrators' sessions\<close>

lemma find_token_Some:
  "find_token cr token rs = Inr (Some r) \<Longrightarrow> r \<in> set rs \<and> verify_hash cr token (as_token_hash r) = Inr True"
  by (induction rs) (auto split: if_splits)

lemma resolve_Some:
  assumes "resolve cr token now d = Inr (Some r, d')"
  shows "\<exists>row u. row \<in> set (admin_sessions d) \<and> usable now row \<and> r = row\<lparr>as_last_seen_at := now\<rparr> \<and>
    verify_hash cr token (as_token_hash row) = Inr True \<and>
    user_by_id d (Some (as_user_id row)) = Some u \<and> us_is_active u \<and> us_is_admin u \<and>
    d' = update_admin_session (as_id row) (\<lambda>s. s\<lparr>as_last_seen_at := now\<rparr>) d"
proof -
  obtain f where f: "find_token cr token (filter (usable now) (admin_sessions d)) = Inr f"
    using assms unfolding resolve_def by (auto split: if_splits)
  then obtain row where "f = Some row" using assms unfolding resolve_def
    by (cases f) (auto split: if_splits)
  with f have row: "find_token cr token (filter (usable now) (admin_sessions d)) = Inr (Some row)" by simp
  then have rest: "(case user_by_id d (Some (as_user_id row)) of None \<Rightarrow> (None, d)
       | Some u \<Rightarrow> if \<not> us_is_active u \<or> \<not> us_is_admin u then (None, d)
           else (Some (row\<lparr>as_last_seen_at := now\<rparr>),
             update_admin_session (as_id row) (\<lambda>s. s\<lparr>as_last_seen_at := now\<rparr>) d)) = (Some r, d')"
    using assms unfolding resolve_def by (simp split: if_splits)
  show ?thesis
  proof (cases "user_by_id d (Some (as_user_id row))")
    case None
    then show ?thesis using rest by simp
  next
    case (Some u)
    then have "us_is_active u \<and> us_is_admin u \<and> r = row\<lparr>as_last_seen_at := now\<rparr> \<and>
       d' = update_admin_session (as_id row) (\<lambda>s. s\<lparr>as_last_seen_at := now\<rparr>) d"
      using rest by (auto split: if_splits)
    then show ?thesis using find_token_Some [OF row] Some by auto
  qed
qed

text \<open>
  C33: an administrator's session is honoured only while everything about it is good. What
  \<open>resolve\<close> returns is a stored session that was never revoked and has not expired, whose hash
  the token matches and whose account exists, is active and is an administrator; the request
  changes nothing but its used use. And once all sessions of an account are revoked, no token
  resolves to a session of that account.
\<close>

theorem admin_session_is_live:
  assumes "resolve cr token now d = Inr (Some r, d')"
  shows "(\<exists>row u. row \<in> set (admin_sessions d) \<and> as_revoked_at row = None \<and> now < as_expires_at row \<and>
      r = row\<lparr>as_last_seen_at := now\<rparr> \<and> verify_hash cr token (as_token_hash row) = Inr True \<and>
      user_by_id d (Some (as_user_id row)) = Some u \<and> us_is_active u \<and> us_is_admin u \<and>
      d' = update_admin_session (as_id row) (\<lambda>s. s\<lparr>as_last_seen_at := now\<rparr>) d) \<and>
    (\<forall>t token' now' q d''. resolve cr token' now' (snd (revoke_all_for_user (as_user_id r) t d)) = Inr (Some q, d'')
       \<longrightarrow> as_user_id q \<noteq> as_user_id r)"
proof -
  have "as_user_id q \<noteq> as_user_id r"
    if "resolve cr token' now' (snd (revoke_all_for_user (as_user_id r) t d)) = Inr (Some q, d'')"
    for t token' now' q d''
    using resolve_Some [OF that] by (auto simp: revoke_all_for_user_def usable_def)
  then show ?thesis using resolve_Some [OF assms] by (auto simp: usable_def)
qed

definition demo_admin_db :: db where
  "demo_admin_db = snd (issue demo_crypto ''n'' ''rnd'' ''salt'' demo_user 3600 None None 0 demo_db)"

theorem admin_session_is_live_witness:
  "\<exists>r d'. resolve demo_crypto ''fga_rnd'' 1 demo_admin_db = Inr (Some r, d') \<and>
     (\<exists>u. user_by_id demo_admin_db (Some (as_user_id r)) = Some u \<and> us_is_admin u)"
proof -
  have "case resolve demo_crypto ''fga_rnd'' 1 demo_admin_db of Inr (Some r, d') \<Rightarrow> True | _ \<Rightarrow> False"
    by code_simp
  then obtain r d' where r: "resolve demo_crypto ''fga_rnd'' 1 demo_admin_db = Inr (Some r, d')"
    by (auto split: sum.splits prod.splits option.splits)
  show ?thesis using admin_session_is_live [OF r] r by auto
qed

end
