(* ===== verification/RateLimiter.thy ===== *)
theory RateLimiter
  imports FoxPrelude Complex_Main "HOL-Library.AList"
begin

text \<open>
  \<open>backend/foxguard/services/ratelimit.py\<close>: the sliding-log limiter in front of every
  credential check. Its dictionary is an association list in insertion order and its clock
  readings are rationals, so that the arithmetic of the model is exact. Each public method
  is one critical section of the lock, hence one function on the state.
\<close>

section \<open>The limiter\<close>

datatype rate_limited = RateLimited string int

record limiter =
  rl_max :: nat
  rl_window :: rat
  rl_hits :: "(string \<times> rat list) list"

definition MAX_KEYS :: nat where
  "MAX_KEYS = 4096"

text \<open>\<open>int(x)\<close> of a Python float: truncation.\<close>

definition py_int :: "rat \<Rightarrow> int" where
  "py_int x = (if x < 0 then \<lceil>x\<rceil> else \<lfloor>x\<rfloor>)"

definition new_limiter :: "int \<Rightarrow> rat \<Rightarrow> (string, limiter) result" where
  "new_limiter max_attempts window_seconds =
     (if max_attempts < 1 then Inl ''max_attempts must be >= 1''
      else if window_seconds \<le> 0 then Inl ''window_seconds must be > 0''
      else Inr \<lparr>rl_max = nat max_attempts, rl_window = window_seconds, rl_hits = []\<rparr>)"

definition hits_of :: "limiter \<Rightarrow> string \<Rightarrow> rat list" where
  "hits_of s key = (case map_of (rl_hits s) key of None \<Rightarrow> [] | Some h \<Rightarrow> h)"

definition prune :: "limiter \<Rightarrow> string \<Rightarrow> rat \<Rightarrow> rat list \<times> limiter" where
  "prune s key now =
     (let h = dropWhile (\<lambda>t. t \<le> now - rl_window s) (hits_of s key)
      in (h, s\<lparr>rl_hits := AList.update key h (rl_hits s)\<rparr>))"

definition collect :: "limiter \<Rightarrow> rat \<Rightarrow> limiter" where
  "collect s now =
     (if length (rl_hits s) \<le> MAX_KEYS then s
      else s\<lparr>rl_hits := filter (\<lambda>(k, v). \<not> (v = [] \<or> last v \<le> now - rl_window s)) (rl_hits s)\<rparr>)"

definition check :: "limiter \<Rightarrow> string \<Rightarrow> rat \<Rightarrow> (rate_limited, unit) result \<times> limiter" where
  "check s key now =
     (let (h, s') = prune s key now in
      if rl_max s \<le> length h
      then (Inl (RateLimited key (max 1 (py_int (hd h + rl_window s - now) + 1))), s')
      else (Inr (), s'))"

definition record_failure :: "limiter \<Rightarrow> string \<Rightarrow> rat \<Rightarrow> limiter" where
  "record_failure s key now =
     (let (h, s') = prune s key now
      in collect (s'\<lparr>rl_hits := AList.update key (h @ [now]) (rl_hits s')\<rparr>) now)"

definition reset :: "limiter \<Rightarrow> string \<Rightarrow> limiter" where
  "reset s key = s\<lparr>rl_hits := AList.delete key (rl_hits s)\<rparr>"

definition remaining :: "limiter \<Rightarrow> string \<Rightarrow> rat \<Rightarrow> nat \<times> limiter" where
  "remaining s key now = (let (h, s') = prune s key now in (rl_max s - length h, s'))"

section \<open>The contract\<close>

text \<open>Events in the order of a monotonic clock: key, time of the check, time of the outcome.\<close>

fun clocked :: "rat \<Rightarrow> (string \<times> rat \<times> rat \<times> bool) list \<Rightarrow> bool" where
  "clocked t [] = True"
| "clocked t ((k, u, v, good) # es) = (t \<le> u \<and> u \<le> v \<and> clocked v es)"

definition spent :: "string \<Rightarrow> (string \<times> rat) list \<Rightarrow> rat list" where
  "spent k fs = map snd (filter (\<lambda>f. fst f = k) fs)"

definition in_window :: "rat \<Rightarrow> rat \<Rightarrow> rat list \<Rightarrow> rat list" where
  "in_window w a ts = filter (\<lambda>x. a < x \<and> x \<le> a + w) ts"

text \<open>
  What a caller relies on: a log of failures per key, of which only those inside the window
  count (\<open>live\<close>), that the guard consults and the two other operations extend or clear.
  \<open>ok s now\<close> is the implementation's invariant when the clock reads \<open>now\<close>.
\<close>

locale sliding_log =
  fixes ok :: "'s \<Rightarrow> rat \<Rightarrow> bool"
    and window :: rat
    and budget :: nat
    and live :: "'s \<Rightarrow> string \<Rightarrow> rat \<Rightarrow> rat list"
    and guard :: "'s \<Rightarrow> string \<Rightarrow> rat \<Rightarrow> (rate_limited, unit) result \<times> 's"
    and fail :: "'s \<Rightarrow> string \<Rightarrow> rat \<Rightarrow> 's"
    and clear :: "'s \<Rightarrow> string \<Rightarrow> 's"
  assumes live_mono: "ok s t \<Longrightarrow> t \<le> u \<Longrightarrow> live s k u = filter (\<lambda>x. u - window < x) (live s k t)"
    and live_recent: "ok s t \<Longrightarrow> x \<in> set (live s k t) \<Longrightarrow> t - window < x \<and> x \<le> t"
    and guard_ok: "ok s t \<Longrightarrow> t \<le> u \<Longrightarrow> ok (snd (guard s k u)) u"
    and guard_live: "ok s t \<Longrightarrow> t \<le> u \<Longrightarrow> live (snd (guard s k u)) j u = live s j u"
    and guard_passes: "ok s t \<Longrightarrow> t \<le> u \<Longrightarrow>
          fst (guard s k u) = Inr () \<longleftrightarrow> length (live s k u) < budget"
    and fail_ok: "ok s t \<Longrightarrow> t \<le> u \<Longrightarrow> ok (fail s k u) u"
    and fail_live: "ok s t \<Longrightarrow> t \<le> u \<Longrightarrow>
          live (fail s k u) j u = (if j = k then live s k u @ [u] else live s j u)"
    and clear_ok: "ok s t \<Longrightarrow> ok (clear s k) t"
    and clear_live: "ok s t \<Longrightarrow> live (clear s k) j t = (if j = k then [] else live s j t)"
begin

text \<open>
  One credential check behind the guard: refused without looking at the credential, or
  looked at at time \<open>u\<close> and then recorded or forgiven at \<open>v\<close>.
\<close>

definition attempt :: "'s \<Rightarrow> string \<times> rat \<times> rat \<times> bool \<Rightarrow> 's \<times> (string \<times> rat) list" where
  "attempt s e = (case e of (k, u, v, good) \<Rightarrow>
     (case guard s k u of
        (Inl _, s') \<Rightarrow> (s', [])
      | (Inr _, s') \<Rightarrow> if good then (clear s' k, []) else (fail s' k v, [(k, v)])))"

fun attempts :: "'s \<Rightarrow> (string \<times> rat \<times> rat \<times> bool) list \<Rightarrow> (string \<times> rat) list" where
  "attempts s [] = []"
| "attempts s (e # es) = (let (s', fs) = attempt s e in fs @ attempts s' es)"

lemma filter_above: "a \<le> b \<Longrightarrow> filter (\<lambda>x. b < x) (filter (\<lambda>x. a < x) xs) = filter (\<lambda>x :: rat. b < x) xs"
  by (induction xs) auto

lemma attempt_spent: "(i, x) \<in> set (snd (attempt s (j, u, v, good))) \<Longrightarrow> i = j \<and> x = v"
  by (auto simp: attempt_def split: sum.splits prod.splits if_splits)

lemma attempt_step:
  assumes "ok s t" and "t \<le> u" and "u \<le> v"
  obtains t' where "t \<le> t'" and "t' \<le> v" and "ok (fst (attempt s (j, u, v, good))) t'"
    and "(j = k \<longrightarrow> \<not> good) \<Longrightarrow> live (fst (attempt s (j, u, v, good))) k t' =
      filter (\<lambda>x. t' - window < x) (live s k t) @ spent k (snd (attempt s (j, u, v, good)))"
    and "(j = k \<longrightarrow> \<not> good) \<Longrightarrow> length (live s k t) \<le> budget \<Longrightarrow>
      length (live (fst (attempt s (j, u, v, good))) k t') \<le> budget"
proof -
  let ?s = "snd (guard s j u)"
  have s: "ok ?s u" by (rule guard_ok [OF assms(1,2)])
  have lu: "live ?s k u = filter (\<lambda>x. u - window < x) (live s k t)"
    using guard_live [OF assms(1,2)] live_mono [OF assms(1,2)] by simp
  show thesis
  proof (cases "fst (guard s j u)")
    case (Inl err)
    then have att: "attempt s (j, u, v, good) = (?s, [])"
      by (simp add: attempt_def split: prod.split sum.split) (metis fst_conv sum.distinct(1))
    show thesis
      by (rule that [of u]) (use assms s lu in \<open>auto simp: att spent_def intro: le_trans [OF length_filter_le]\<close>)
  next
    case (Inr x)
    show thesis
    proof (cases good)
      case True
      with Inr have att: "attempt s (j, u, v, good) = (clear ?s j, [])"
        by (simp add: attempt_def split: prod.split sum.split) (metis fst_conv sum.distinct(1))
      then have att': "attempt s (j, u, v, True) = (clear ?s j, [])" using True by simp
      show thesis
        by (rule that [of u])
          (use assms s lu True in \<open>auto simp: att' spent_def clear_ok clear_live intro: le_trans [OF length_filter_le]\<close>)
    next
      case False
      with Inr have att: "attempt s (j, u, v, good) = (fail ?s j v, [(j, v)])"
        by (simp add: attempt_def split: prod.split sum.split) (metis fst_conv sum.distinct(1))
      have "u - window \<le> v - window" using assms(3) by simp
      then have lv: "live ?s k v = filter (\<lambda>x. v - window < x) (live s k t)"
        using live_mono [OF s assms(3)] lu filter_above by metis
      have new: "live (fail ?s j v) k v = live ?s k v @ (if k = j then [v] else [])"
        using fail_live [OF s assms(3)] by simp
      have "length (live s j u) < budget" using guard_passes [OF assms(1,2), of j] Inr by simp
      then have "length (live ?s j u) < budget" using guard_live [OF assms(1,2)] by simp
      then have lb: "length (live ?s j v) < budget"
        using live_mono [OF s assms(3), of j] length_filter_le le_less_trans by metis
      show thesis
      proof (rule that [of v])
        show "ok (fst (attempt s (j, u, v, good))) v" using fail_ok [OF s assms(3)] by (simp add: att)
        show "live (fst (attempt s (j, u, v, good))) k v =
          filter (\<lambda>x. v - window < x) (live s k t) @ spent k (snd (attempt s (j, u, v, good)))"
          by (auto simp: att new lv spent_def)
        show "length (live (fst (attempt s (j, u, v, good))) k v) \<le> budget"
          if "length (live s k t) \<le> budget"
          using that lb new lv by (auto simp: att intro: le_trans [OF length_filter_le])
      qed (use assms in simp_all)
    qed
  qed
qed

lemma clocked_earlier: "clocked t es \<Longrightarrow> t' \<le> t \<Longrightarrow> clocked t' es"
  by (cases es) auto

lemma attempts_Cons: "attempts s (e # es) = snd (attempt s e) @ attempts (fst (attempt s e)) es"
  by (simp add: case_prod_unfold Let_def)

lemma fresh_after: "ok s t \<Longrightarrow> clocked t es \<Longrightarrow> (k, x) \<in> set (attempts s es) \<Longrightarrow> t \<le> x"
proof (induction es arbitrary: s t)
  case (Cons e es)
  obtain j u v good where e: "e = (j, u, v, good)" by (cases e)
  with Cons.prems have tu: "t \<le> u" "u \<le> v" and c: "clocked v es" by simp_all
  obtain t' where t': "t \<le> t'" "t' \<le> v" "ok (fst (attempt s e)) t'"
    using attempt_step [OF Cons.prems(1) tu] unfolding e by metis
  from Cons.prems(3) consider "(k, x) \<in> set (snd (attempt s e))" | "(k, x) \<in> set (attempts (fst (attempt s e)) es)"
    unfolding attempts_Cons by auto
  then show ?case
  proof cases
    case 1
    then show ?thesis using attempt_spent tu unfolding e by fastforce
  next
    case 2
    then show ?thesis using Cons.IH [OF t'(3) clocked_earlier [OF c t'(2)]] t'(1) by simp
  qed
qed simp

text \<open>
  The budget: of one key's failures, at most \<open>budget\<close> fall inside any window, as long as no
  success clears the log in between.
\<close>

lemma in_window_append: "in_window window a (xs @ ys) = in_window window a xs @ in_window window a ys"
  by (simp add: in_window_def)

lemma spent_append: "spent k (xs @ ys) = spent k xs @ spent k ys"
  by (simp add: spent_def)

lemma budget_kept:
  assumes "ok s t" and "clocked t es" and "\<forall>e\<in>set es. fst e = k \<longrightarrow> \<not> snd (snd (snd e))"
    and "length (live s k t) \<le> budget"
  shows "length (in_window window a (live s k t @ spent k (attempts s es))) \<le> budget"
  using assms
proof (induction es arbitrary: s t)
  case Nil
  then show ?case
    using order_trans [OF length_filter_le [of "\<lambda>x. a < x \<and> x \<le> a + window" "live s k t"]]
    by (simp add: in_window_def spent_def)
next
  case (Cons e es)
  obtain j u v good where e: "e = (j, u, v, good)" by (cases e)
  with Cons.prems have tu: "t \<le> u" "u \<le> v" and c: "clocked v es" and g: "j = k \<longrightarrow> \<not> good" by auto
  let ?s = "fst (attempt s e)" and ?new = "spent k (snd (attempt s e))"
  obtain t' where t': "t \<le> t'" "t' \<le> v" "ok ?s t'"
    and l: "live ?s k t' = filter (\<lambda>x. t' - window < x) (live s k t) @ ?new"
    and b: "length (live ?s k t') \<le> budget"
    using attempt_step [OF Cons.prems(1) tu, where j = j and good = good and k = k] g Cons.prems(4)
    unfolding e by metis
  let ?rest = "spent k (attempts ?s es)"
  have c': "clocked t' es" by (rule clocked_earlier [OF c t'(2)])
  have IH: "length (in_window window a (live ?s k t' @ ?rest)) \<le> budget"
    using Cons.IH [OF t'(3) c' _ b] Cons.prems(3) by simp
  have new: "x \<in> set ?new \<Longrightarrow> t' \<le> x" for x
    using attempt_spent t' unfolding e spent_def by fastforce
  have rest: "x \<in> set ?rest \<Longrightarrow> t' \<le> x" for x
    using fresh_after [OF t'(3) c'] unfolding spent_def by auto
  have att: "spent k (attempts s (e # es)) = ?new @ ?rest" unfolding attempts_Cons spent_append ..
  show ?case
  proof (cases "\<exists>x\<in>set (live s k t). a < x \<and> x \<le> t' - window")
    case True
    then have "a + window < t'" by auto
    then have "in_window window a ?new = []" "in_window window a ?rest = []"
      using new rest by (fastforce simp: in_window_def filter_empty_conv)+
    then show ?thesis
      using order_trans [OF length_filter_le [of "\<lambda>x. a < x \<and> x \<le> a + window" "live s k t"] Cons.prems(4)]
      by (simp only: att in_window_append) (simp add: in_window_def)
  next
    case False
    then have "in_window window a (live s k t) = in_window window a (filter (\<lambda>x. t' - window < x) (live s k t))"
      unfolding in_window_def filter_filter by (intro filter_cong) auto
    then show ?thesis using IH by (simp only: att l in_window_append append_assoc)
  qed
qed

end

section \<open>The limiter keeps the contract\<close>

definition limiter_ok :: "nat \<Rightarrow> rat \<Rightarrow> limiter \<Rightarrow> rat \<Rightarrow> bool" where
  "limiter_ok m w s now \<longleftrightarrow> 0 < w \<and> rl_max s = m \<and> rl_window s = w \<and> distinct (map fst (rl_hits s)) \<and>
     (\<forall>k. sorted (hits_of s k) \<and> (\<forall>x\<in>set (hits_of s k). x \<le> now))"

definition live :: "limiter \<Rightarrow> string \<Rightarrow> rat \<Rightarrow> rat list" where
  "live s k now = filter (\<lambda>x. now - rl_window s < x) (hits_of s k)"

lemma dropWhile_sorted: "sorted xs \<Longrightarrow> dropWhile (\<lambda>x. x \<le> (c :: rat)) xs = filter (\<lambda>x. c < x) xs"
proof (induction xs)
  case (Cons x xs)
  have "filter (\<lambda>x. c < x) xs = xs" if "\<not> x \<le> c"
    using Cons.prems that by (auto simp: filter_id_conv)
  with Cons show ?case by auto
qed simp

lemma hits_of_update [simp]:
  "hits_of (s\<lparr>rl_hits := AList.update k h (rl_hits s)\<rparr>) j = (if j = k then h else hits_of s j)"
  by (simp add: hits_of_def update_conv')

lemma prune_live: "limiter_ok m w s t \<Longrightarrow> fst (prune s k u) = live s k u"
  by (simp add: prune_def Let_def live_def limiter_ok_def dropWhile_sorted)

lemma snd_prune: "limiter_ok m w s t \<Longrightarrow> snd (prune s k u) = s\<lparr>rl_hits := AList.update k (live s k u) (rl_hits s)\<rparr>"
  using prune_live [of m w s t k u] by (simp add: prune_def Let_def)

lemma live_sorted: "limiter_ok m w s t \<Longrightarrow> sorted (live s k u) \<and> (\<forall>x\<in>set (live s k u). x \<le> t)"
  by (auto simp: live_def limiter_ok_def intro: sorted_wrt_filter)

lemma update_ok:
  assumes "limiter_ok m w s t" and "t \<le> u" and "sorted h" and "\<forall>x\<in>set h. x \<le> u"
  shows "limiter_ok m w (s\<lparr>rl_hits := AList.update k h (rl_hits s)\<rparr>) u"
  using assms by (auto simp: limiter_ok_def distinct_update intro: order_trans)

lemma prune_ok: "limiter_ok m w s t \<Longrightarrow> t \<le> u \<Longrightarrow> limiter_ok m w (snd (prune s k u)) u"
  using live_sorted [of m w s t k u] by (auto simp: snd_prune intro!: update_ok)

lemma prune_keeps_live: "limiter_ok m w s t \<Longrightarrow> live (snd (prune s k u)) j u = live s j u"
  by (simp add: snd_prune live_def)

lemma map_of_filter_snd:
  "distinct (map fst al) \<Longrightarrow> map_of (filter (\<lambda>(k, v). P v) al) k =
     (case map_of al k of None \<Rightarrow> None | Some v \<Rightarrow> if P v then Some v else None)"
proof (induction al)
  case (Cons a al)
  obtain k' v where a: "a = (k', v)" by (cases a)
  have "map_of al k' = None" using Cons.prems a by (simp add: map_of_eq_None_iff)
  with Cons a show ?case by (auto split: option.splits)
qed simp

lemma hits_of_collect:
  assumes "limiter_ok m w s t"
  shows "hits_of (collect s u) k = hits_of s k \<or>
    hits_of (collect s u) k = [] \<and> (hits_of s k = [] \<or> last (hits_of s k) \<le> u - w)"
  using assms map_of_filter_snd [of "rl_hits s" "\<lambda>v. \<not> (v = [] \<or> last v \<le> u - w)" k]
  by (auto simp: collect_def hits_of_def limiter_ok_def split: option.splits)

lemma collect_ok: "limiter_ok m w s t \<Longrightarrow> limiter_ok m w (collect s u) t"
proof -
  assume ok: "limiter_ok m w s t"
  have "distinct (map fst (rl_hits (collect s u)))"
    using ok by (auto simp: collect_def limiter_ok_def distinct_map_filter)
  moreover have "rl_max (collect s u) = m \<and> rl_window (collect s u) = w"
    using ok by (simp add: collect_def limiter_ok_def)
  moreover have "sorted (hits_of (collect s u) k) \<and> (\<forall>x\<in>set (hits_of (collect s u) k). x \<le> t)" for k
    using hits_of_collect [OF ok, of u k] ok by (auto simp: limiter_ok_def)
  moreover have "0 < w" using ok by (simp add: limiter_ok_def)
  ultimately show ?thesis by (simp add: limiter_ok_def)
qed

lemma sorted_last: "sorted xs \<Longrightarrow> x \<in> set xs \<Longrightarrow> x \<le> last xs"
  by (induction xs) (auto split: if_splits)

lemma collect_live: "limiter_ok m w s t \<Longrightarrow> live (collect s u) k u = live s k u"
proof -
  assume ok: "limiter_ok m w s t"
  have w: "rl_window (collect s u) = w" "rl_window s = w" using ok by (simp_all add: collect_def limiter_ok_def)
  have "sorted (hits_of s k)" using ok by (simp add: limiter_ok_def)
  then have "last (hits_of s k) \<le> u - w \<Longrightarrow> live s k u = []"
    using sorted_last by (fastforce simp: live_def w filter_empty_conv)
  then show ?thesis using hits_of_collect [OF ok, of u k] by (auto simp: live_def w)
qed

lemma record_steps:
  assumes "limiter_ok m w s t" and "t \<le> u"
  shows "limiter_ok m w (record_failure s k u) u"
    and "live (record_failure s k u) j u = (if j = k then live s k u @ [u] else live s j u)"
proof -
  let ?p = "snd (prune s k u)"
  let ?r = "?p\<lparr>rl_hits := AList.update k (live s k u @ [u]) (rl_hits ?p)\<rparr>"
  have p: "limiter_ok m w ?p u" by (rule prune_ok [OF assms])
  have r: "limiter_ok m w ?r u"
    using live_sorted [OF assms(1), of k u] assms(2)
    by (intro update_ok [OF p]) (auto simp: sorted_append)
  have st: "record_failure s k u = collect ?r u"
    using prune_live [OF assms(1)] by (simp add: record_failure_def case_prod_unfold Let_def)
  show "limiter_ok m w (record_failure s k u) u" unfolding st by (rule collect_ok [OF r])
  have "live ?r j u = (if j = k then live s k u @ [u] else live ?p j u)"
    using p assms(1) by (simp add: live_def limiter_ok_def)
  then show "live (record_failure s k u) j u = (if j = k then live s k u @ [u] else live s j u)"
    unfolding st collect_live [OF r] using prune_keeps_live [OF assms(1)] by simp
qed

lemma reset_steps:
  assumes "limiter_ok m w s t"
  shows "limiter_ok m w (reset s k) t" and "live (reset s k) j t = (if j = k then [] else live s j t)"
proof -
  have "hits_of (reset s k) j = (if j = k then [] else hits_of s j)" for j
    by (simp add: reset_def hits_of_def delete_conv')
  then show "limiter_ok m w (reset s k) t" "live (reset s k) j t = (if j = k then [] else live s j t)"
    using assms by (auto simp: limiter_ok_def reset_def live_def distinct_delete)
qed

lemma live_later:
  "limiter_ok m w s t \<Longrightarrow> t \<le> u \<Longrightarrow> live s k u = filter (\<lambda>x. u - w < x) (live s k t)"
  unfolding live_def filter_filter by (intro filter_cong) (auto simp: limiter_ok_def)

lemma check_passes:
  assumes "limiter_ok m w s t"
  shows "fst (check s k u) = Inr () \<longleftrightarrow> length (live s k u) < m"
proof -
  obtain p where "prune s k u = (live s k u, p)"
    using prune_live [OF assms, of k u] by (metis prod.collapse)
  then show ?thesis using assms by (auto simp: check_def limiter_ok_def)
qed

lemma snd_check: "snd (check s k u) = snd (prune s k u)"
  by (simp add: check_def case_prod_unfold Let_def)

interpretation lim: sliding_log "limiter_ok m w" w m live check record_failure reset for m w
proof unfold_locales
  fix s :: limiter and t u :: rat and k j :: string
  assume ok: "limiter_ok m w s t"
  show "x \<in> set (live s k t) \<Longrightarrow> t - w < x \<and> x \<le> t" for x
    using ok by (auto simp: live_def limiter_ok_def)
  show "limiter_ok m w (reset s k) t" "live (reset s k) j t = (if j = k then [] else live s j t)"
    using reset_steps [OF ok] by simp_all
  assume tu: "t \<le> u"
  show "live s k u = filter (\<lambda>x. u - w < x) (live s k t)" by (rule live_later [OF ok tu])
  show "limiter_ok m w (snd (check s k u)) u" unfolding snd_check by (rule prune_ok [OF ok tu])
  show "live (snd (check s k u)) j u = live s j u" unfolding snd_check by (rule prune_keeps_live [OF ok])
  show "fst (check s k u) = Inr () \<longleftrightarrow> length (live s k u) < m" by (rule check_passes [OF ok])
  show "limiter_ok m w (record_failure s k u) u"
    "live (record_failure s k u) j u = (if j = k then live s k u @ [u] else live s j u)"
    using record_steps [OF ok tu] by simp_all
qed

section \<open>Properties\<close>

text \<open>A sequence of credential checks behind the limiter, as the login handlers make them.\<close>

fun login_attempts :: "limiter \<Rightarrow> (string \<times> rat \<times> rat \<times> bool) list \<Rightarrow> (string \<times> rat) list" where
  "login_attempts s [] = []"
| "login_attempts s ((k, u, v, good) # es) =
     (case check s k u of
        (Inl _, s') \<Rightarrow> login_attempts s' es
      | (Inr _, s') \<Rightarrow>
          if good then login_attempts (reset s' k) es
          else (k, v) # login_attempts (record_failure s' k v) es)"

lemma login_attempts_lim: "login_attempts s es = sliding_log.attempts check record_failure reset s es"
  by (induction s es rule: login_attempts.induct)
    (auto simp: lim.attempt_def lim.attempts.simps split: prod.split sum.split)

lemma new_limiter_ok:
  "new_limiter m w = Inr s \<Longrightarrow>
     limiter_ok (nat m) w s t \<and> live s k t = [] \<and> 1 \<le> m \<and> 0 < w"
  by (auto simp: new_limiter_def limiter_ok_def live_def hits_of_def split: if_splits)



text \<open>
  C35: \<open>Retry-After\<close> is honest. When a key is refused, the number of seconds it is told is at
  least one; a caller who waits that long and whose key fails no more meanwhile is let
  through, and one who waits a whole second less than that is still refused.
\<close>

theorem retry_after_is_exact:
  assumes "limiter_ok m w s t" and "t \<le> u" and "length (live s k u) \<le> m"
    and "fst (check s k u) = Inl (RateLimited k' r)" and "1 \<le> m"
  shows "k' = k \<and> 1 \<le> r \<and>
    fst (check (snd (check s k u)) k (u + rat_of_int r)) = Inr () \<and>
    (\<forall>v. u \<le> v \<and> v < u + rat_of_int r - 1 \<longrightarrow> fst (check (snd (check s k u)) k v) \<noteq> Inr ())"
proof -
  let ?h = "live s k u" and ?s = "snd (check s k u)"
  obtain p where p: "prune s k u = (?h, p)" using prune_live [OF assms(1), of k u] by (metis prod.collapse)
  have w: "rl_window s = w" "rl_max s = m" using assms(1) by (simp_all add: limiter_ok_def)
  have len: "length ?h = m" and k': "k' = k" and r: "r = max 1 (py_int (hd ?h + w - u) + 1)"
    using assms(3,4) by (auto simp: check_def p w split: if_splits)
  obtain x xs where h: "?h = x # xs" using len assms(5) by (cases ?h) auto
  have "x \<in> set (live s k u)" using h by simp
  then have x: "u - w < x" by (simp add: live_def w)
  then have fl: "r = \<lfloor>x + w - u\<rfloor> + 1"
    using r h by (simp add: py_int_def max_def)
  have ok: "limiter_ok m w ?s u" unfolding snd_check by (rule prune_ok [OF assms(1,2)])
  have live: "live ?s k v = filter (\<lambda>y. v - w < y) (x # xs)" if "u \<le> v" for v
    using live_later [OF ok that] prune_keeps_live [OF assms(1), of k u k] h by (simp add: snd_check)
  have sorted: "\<forall>y\<in>set xs. x \<le> y" using live_sorted [OF assms(1), of k u] h by simp
  have r1: "1 \<le> r" using r by simp
  have "x + w - u < rat_of_int r" using fl by linarith
  then have "\<not> u + rat_of_int r - w < x" by simp
  moreover have "length (filter (\<lambda>y. u + rat_of_int r - w < y) xs) < m"
    using len h by (auto intro: le_less_trans [OF length_filter_le])
  ultimately have "length (live ?s k (u + rat_of_int r)) < m"
    using live [of "u + rat_of_int r"] r1 len h by simp
  then have free: "fst (check ?s k (u + rat_of_int r)) = Inr ()"
    using check_passes [OF ok] by simp
  have "fst (check ?s k v) \<noteq> Inr ()" if v: "u \<le> v" "v < u + rat_of_int r - 1" for v
  proof -
    have "rat_of_int r - 1 \<le> x + w - u" using fl by simp
    then have "v - w < x" using v(2) by simp
    then have "live ?s k v = x # xs" using live [OF v(1)] sorted by (auto simp: filter_id_conv)
    then show ?thesis using check_passes [OF ok] len h by simp
  qed
  with k' r1 free show ?thesis by blast
qed

theorem retry_after_is_exact_witness:
  "fst (check (snd (check \<lparr>rl_max = 1, rl_window = 60, rl_hits = [(''ip'', [10])]\<rparr> ''ip'' 15)) ''ip''
     (15 + rat_of_int 56)) = Inr ()"
proof -
  let ?s = "\<lparr>rl_max = 1, rl_window = 60, rl_hits = [(''ip'', [10])]\<rparr> :: limiter"
  have "limiter_ok 1 60 ?s 10" by (simp add: limiter_ok_def hits_of_def)
  moreover have "live ?s ''ip'' 15 = [10]" by (simp add: live_def hits_of_def)
  moreover have "fst (check ?s ''ip'' 15) = Inl (RateLimited ''ip'' 56)"
    by (simp add: check_def prune_def hits_of_def py_int_def Let_def)
  ultimately show ?thesis using retry_after_is_exact [of 1 60 ?s 10 15 "''ip''" "''ip''" 56] by simp
qed

text \<open>
  The same limiter under several request threads: a thread checks in one critical section
  and records in another, so checks of several threads can all come first.
\<close>

fun checks :: "limiter \<Rightarrow> string \<Rightarrow> rat \<Rightarrow> nat \<Rightarrow> bool \<times> limiter" where
  "checks s k u 0 = (True, s)"
| "checks s k u (Suc n) =
     (let (r, s') = check s k u; (b, s'') = checks s' k u n in (r = Inr () \<and> b, s''))"

fun failures :: "limiter \<Rightarrow> string \<Rightarrow> rat \<Rightarrow> nat \<Rightarrow> limiter" where
  "failures s k u 0 = s"
| "failures s k u (Suc n) = failures (record_failure s k u) k u n"

lemma checks_pass:
  "limiter_ok m w s u \<Longrightarrow> live s k u = [] \<Longrightarrow> 1 \<le> m \<Longrightarrow>
     fst (checks s k u n) \<and> limiter_ok m w (snd (checks s k u n)) u \<and> live (snd (checks s k u n)) k u = []"
proof (induction n arbitrary: s)
  case (Suc n)
  have "limiter_ok m w (snd (check s k u)) u" "live (snd (check s k u)) k u = []"
    using lim.guard_ok [OF Suc.prems(1) order_refl] lim.guard_live [OF Suc.prems(1) order_refl] Suc.prems(2)
    by simp_all
  moreover have "fst (check s k u) = Inr ()" using check_passes [OF Suc.prems(1)] Suc.prems by simp
  ultimately show ?case using Suc by (auto simp: case_prod_unfold Let_def)
qed simp

lemma failures_live:
  "limiter_ok m w s u \<Longrightarrow> live (failures s k u n) k u = live s k u @ replicate n u"
proof (induction n arbitrary: s)
  case (Suc n)
  then show ?case using record_steps [OF Suc.prems order_refl] by (simp add: replicate_app_Cons_same)
qed simp

text \<open>
  C36: the check and the record are not one step. If \<open>n\<close> request threads check a fresh key
  before any of them has verified its credential, all \<open>n\<close> pass whatever the budget is, and
  the limiter then counts \<open>n\<close> failures inside one window.
\<close>

theorem concurrent_attempts_exceed_the_budget:
  assumes "new_limiter m w = Inr s"
  shows "fst (checks s k u n) \<and> length (live (failures (snd (checks s k u n)) k u n) k u) = n"
proof -
  have "limiter_ok (nat m) w s u" "live s k u = []" "1 \<le> nat m"
    using new_limiter_ok [OF assms, of u k] by auto
  then have c: "fst (checks s k u n)" "limiter_ok (nat m) w (snd (checks s k u n)) u"
    "live (snd (checks s k u n)) k u = []"
    using checks_pass by blast+
  then show ?thesis using failures_live [OF c(2), of k n] by simp
qed

theorem concurrent_attempts_exceed_the_budget_witness:
  "fst (checks \<lparr>rl_max = 5, rl_window = 60, rl_hits = []\<rparr> ''ip'' 1 40)"
  using concurrent_attempts_exceed_the_budget [of 5 60 "\<lparr>rl_max = 5, rl_window = 60, rl_hits = []\<rparr>" "''ip''" 1 40]
  by (simp add: new_limiter_def)

end
