(* ===== verification/ApiDeps.thy ===== *)
theory ApiDeps
  imports CredentialProperties RateLimiter Sessions
begin

text \<open>
  \<open>backend/foxguard/api/deps.py\<close>, what every route depends on: who is calling, and the
  regeneration that ends each change. An \<open>HTTPException\<close> is a value of \<open>http_exn\<close>; \<open>Unhandled\<close>
  is an exception no route catches (status 500). A handler maps a \<open>world\<close> to an outcome and a
  world: on an exception the database is the last one committed, while the limiters, which
  are process state, keep what was done to them.

  \<open>request\<close> holds what a handler reads from outside: the caller's address and header names,
  the identity the admin dependency resolved, the clocks (one reading of \<open>datetime.now\<close>; the
  limiter's clock at its check and at a later failure), fresh keys and random text, the
  libraries' primitives, the text PostgreSQL keeps for an address literal, and the outcome of rendering the reverse proxy (\<open>proxy_check\<close>, the
  message of a \<open>ProxyValidationError\<close>).
\<close>

datatype http_exn = HTTPException nat string | RulesetInvalid "ruleset_error list"
  | RulesetUnprojectable projection_error | ProxyInvalid string | TooManyRequests int | Unhandled

record request =
  rq_client :: "string option"
  rq_headers :: "string list"
  rq_admin :: "admin_identity option"
  rq_now :: int
  rq_clock :: rat
  rq_clock_late :: rat
  rq_id :: string
  rq_version_id :: string
  rq_random :: string
  rq_salt :: string
  rq_crypto :: crypto
  rq_inet :: "string \<Rightarrow> string option"
  rq_proxy_check :: "db \<Rightarrow> string option"

record world =
  wo_db :: db
  wo_login :: limiter
  wo_enroll :: limiter
  wo_admin_login :: limiter

section \<open>Credentials of a request\<close>

text \<open>\<open>header.split(" ", 1)[1].strip()\<close> after \<open>lower().startswith("bearer ")\<close>.\<close>

definition has_bearer :: "string option \<Rightarrow> bool" where
  "has_bearer header \<longleftrightarrow> truthy header \<and> starts_with ''bearer '' (py_lower (the header))"

definition presented_of :: "string \<Rightarrow> string" where
  "presented_of header = py_strip (tl (dropWhile (\<lambda>c. c \<noteq> CHR '' '') header))"

definition bearer_token :: "string option \<Rightarrow> string option" where
  "bearer_token header =
     (if \<not> has_bearer header then None
      else (let t = presented_of (the header) in if t = [] then None else Some t))"

definition check_bearer :: "string option \<Rightarrow> string option \<Rightarrow> string \<Rightarrow> (http_exn, unit) result" where
  "check_bearer header expected realm =
     (if \<not> truthy expected then Inr ()
      else if \<not> has_bearer header then Inl (HTTPException 401 (''missing '' @ realm @ '' bearer token''))
      else (case compare_digest (presented_of (the header)) (the expected) of
          Inl e \<Rightarrow> Inl Unhandled
        | Inr ok \<Rightarrow> if ok then Inr () else Inl (HTTPException 401 (''invalid '' @ realm @ '' token''))))"

definition require_agent :: "string option \<Rightarrow> settings \<Rightarrow> (http_exn, unit) result" where
  "require_agent authorization st = check_bearer authorization (st_agent_api_token st) ''foxguard-agent''"

text \<open>\<open>ip_address(s).is_loopback\<close>: 127.0.0.0/8 and ::1.\<close>

definition is_loopback :: "string option \<Rightarrow> bool" where
  "is_loopback address =
     (if \<not> truthy address then False
      else (case ip_address (the address) of None \<Rightarrow> False
        | Some (IP4 n) \<Rightarrow> n div 16777216 = 127
        | Some (IP6 n sc) \<Rightarrow> n = 1))"

definition require_admin ::
  "request \<Rightarrow> string option \<Rightarrow> settings \<Rightarrow> db \<Rightarrow> (http_exn, admin_identity \<times> db) result" where
  "require_admin rq authorization st d =
     (let presented = bearer_token authorization; expected = st_admin_api_token st;
          static = (\<lambda>_ :: unit.
            if \<not> truthy expected then
              (if is_loopback (rq_client rq) then Inr (machine, d)
               else Inl (HTTPException 401 ''missing foxguard-admin credentials''))
            else (case presented of
                None \<Rightarrow> Inl (HTTPException 401 ''missing foxguard-admin credentials'')
              | Some p \<Rightarrow> (case compare_digest p (the expected) of
                    Inl e \<Rightarrow> Inl Unhandled
                  | Inr ok \<Rightarrow> if ok then Inr (machine, d)
                      else Inl (HTTPException 401 ''invalid foxguard-admin credentials''))))
      in case presented of None \<Rightarrow> static ()
         | Some p \<Rightarrow>
             (case resolve (rq_crypto rq) p (rq_now rq) d of
                Inl e \<Rightarrow> Inl Unhandled
              | Inr (None, d') \<Rightarrow> static ()
              | Inr (Some row, d') \<Rightarrow>
                  (case user_by_id d' (Some (as_user_id row)) of None \<Rightarrow> Inl Unhandled
                   | Some u \<Rightarrow> Inr (person u, d'))))"

section \<open>The caller behind a tunnel address\<close>

definition FORWARDED_HEADERS :: "string list" where
  "FORWARDED_HEADERS = [''x-forwarded-for'', ''forwarded'', ''x-real-ip'']"

definition assert_no_forwarded_headers :: "request \<Rightarrow> (http_exn, unit) result" where
  "assert_no_forwarded_headers rq =
     (if list_ex (\<lambda>h. h \<in> set (rq_headers rq)) FORWARDED_HEADERS
      then Inl (HTTPException 403
        ''this endpoint must be reached directly from the tunnel, not through a proxy'')
      else Inr ())"

text \<open>The database compares addresses by value, not by spelling.\<close>

definition same_inet :: "string option \<Rightarrow> string \<Rightarrow> bool" where
  "same_inet stored address =
     (case stored of None \<Rightarrow> False
      | Some s \<Rightarrow> ip_address s \<noteq> None \<and> ip_address s = ip_address address)"

definition TUNNEL_ONLY :: http_exn where
  "TUNNEL_ONLY = HTTPException 403
     ''this endpoint is only reachable from inside the WireGuard tunnel''"

definition calling_peer :: "request \<Rightarrow> settings \<Rightarrow> db \<Rightarrow> (http_exn, peer_row) result" where
  "calling_peer rq st d =
     bindR (assert_no_forwarded_headers rq) (\<lambda>_.
       if \<not> truthy (rq_client rq) \<or> \<not> is_tunnel_address st (the (rq_client rq)) then Inl TUNNEL_ONLY
       else (case find (\<lambda>p. same_inet (pe_tunnel_ip p) (the (rq_client rq)) \<or>
                same_inet (pe_tunnel_ip6 p) (the (rq_client rq))) (peers d) of
            None \<Rightarrow> Inl TUNNEL_ONLY
          | Some p \<Rightarrow> Inr p))"

section \<open>What ends a change\<close>

definition regenerate_or_422 ::
  "request \<Rightarrow> settings \<Rightarrow> string \<Rightarrow> db \<Rightarrow> (http_exn, db) result" where
  "regenerate_or_422 rq st actor d =
     (case regenerate (cr_sha256 (rq_crypto rq)) (rq_version_id rq) (rq_now rq) st actor d of
        Inl (Generation (RulesetValidationError es)) \<Rightarrow> Inl (RulesetInvalid es)
      | Inl (Projection e) \<Rightarrow> Inl (RulesetUnprojectable e)
      | Inl _ \<Rightarrow> Inl Unhandled
      | Inr (v, d') \<Rightarrow>
          if st_proxy_enabled st then
            (case rq_proxy_check rq d' of None \<Rightarrow> Inr d' | Some msg \<Rightarrow> Inl (ProxyInvalid msg))
          else Inr d')"

text \<open>A plain \<open>ruleset_service.regenerate\<close>: what it raises is not caught by the route.\<close>

definition regenerate_or_500 ::
  "request \<Rightarrow> settings \<Rightarrow> string \<Rightarrow> db \<Rightarrow> (http_exn, db) result" where
  "regenerate_or_500 rq st actor d =
     (case regenerate (cr_sha256 (rq_crypto rq)) (rq_version_id rq) (rq_now rq) st actor d of
        Inl _ \<Rightarrow> Inl Unhandled | Inr (v, d') \<Rightarrow> Inr d')"

text \<open>The actor and address of an audit entry written for an admin request.\<close>

definition audit_as ::
  "request \<Rightarrow> string \<Rightarrow> string \<Rightarrow> string option \<Rightarrow> json \<Rightarrow> db \<Rightarrow> db" where
  "audit_as rq act object_type object_id detail d =
     audit_record (case rq_admin rq of
         None \<Rightarrow> audit_entry act ADMIN_ACTOR None None (Some object_type) object_id (rq_client rq) detail
       | Some i \<Rightarrow> audit_entry act (ai_actor_type i) (ai_user_id i) (Some (ai_label i))
           (Some object_type) object_id (rq_client rq) detail) d"

definition resolve_groups ::
  "db \<Rightarrow> string list \<Rightarrow> string \<Rightarrow> (http_exn, group_row list) result" where
  "resolve_groups d slugs zone_hint =
     (let found = filter (\<lambda>g. gr_slug g \<in> set slugs) (groups d);
          missing = sort (remdups (filter (\<lambda>s. s \<notin> gr_slug ` set found) slugs));
          zones = sort (map gr_slug (filter (\<lambda>g. gr_kind g = ZONE) found))
      in if slugs = [] then Inr []
         else if missing \<noteq> [] then Inl (HTTPException 422 (''unknown groups: '' @ join '', '' missing))
         else if zones \<noteq> [] then Inl (HTTPException 422
           (join '', '' zones @ '' are zones, not groups: '' @ zone_hint))
         else Inr found)"

definition rate_limited_response :: "rate_limited \<Rightarrow> http_exn" where
  "rate_limited_response e = (case e of RateLimited key retry_after \<Rightarrow> TooManyRequests retry_after)"

text \<open>The limiters of the process, made from the settings at first use.\<close>

definition login_limiter :: "settings \<Rightarrow> (string, limiter) result" where
  "login_limiter st = new_limiter (sn_login_max_attempts (st_session st))
     (rat_of_int (sn_login_window_seconds (st_session st)))"

definition enroll_limiter :: "settings \<Rightarrow> (string, limiter) result" where
  "enroll_limiter st = new_limiter (sn_enroll_max_attempts (st_session st))
     (rat_of_int (sn_enroll_window_seconds (st_session st)))"

definition admin_login_limiter :: "settings \<Rightarrow> (string, limiter) result" where
  "admin_login_limiter st = new_limiter (st_admin_login_max_attempts st)
     (rat_of_int (st_admin_login_window_seconds st))"

definition start_world :: "settings \<Rightarrow> db \<Rightarrow> (string, world) result" where
  "start_world st d = bindR (login_limiter st) (\<lambda>l. bindR (enroll_limiter st) (\<lambda>e.
     bindR (admin_login_limiter st) (\<lambda>a.
       Inr \<lparr>wo_db = d, wo_login = l, wo_enroll = e, wo_admin_login = a\<rparr>)))"

text \<open>\<open>except RateLimited\<close> around \<open>limiter.check\<close>.\<close>

definition guarded ::
  "limiter \<Rightarrow> string \<Rightarrow> rat \<Rightarrow> (http_exn, unit) result \<times> limiter" where
  "guarded l key now = (case check l key now of
     (Inl e, l') \<Rightarrow> (Inl (rate_limited_response e), l') | (Inr u, l') \<Rightarrow> (Inr u, l'))"

section \<open>Who may use the admin API\<close>


definition demo_request :: request where
  "demo_request = \<lparr>rq_client = Some ''10.66.0.2'', rq_headers = [], rq_admin = None, rq_now = demo_now,
     rq_clock = 1, rq_clock_late = 2, rq_id = ''s2'', rq_version_id = ''v'', rq_random = ''r'',
     rq_salt = ''t'', rq_crypto = demo_crypto, rq_inet = (\<lambda>s. map_option show_ip (ip_address s)),
     rq_proxy_check = (\<lambda>d. None)\<rparr>"


end
