(* ===== verification/PortalApi.thy ===== *)
theory PortalApi
  imports ApiDeps
begin

text \<open>
  The two endpoints a confined peer can reach: \<open>api/routes/portal.py\<close>, where a person logs in,
  and \<open>api/routes/enroll.py\<close>, where a machine presents its key. Both identify the peer by the
  tunnel address it sends from. A refusal commits its audit entry, and whatever was changed
  before it; an exception after the checks rolls everything back.
\<close>

section \<open>The portal\<close>

definition owner_of :: "db \<Rightarrow> peer_row \<Rightarrow> user_row option" where
  "owner_of d p = user_by_id d (pe_owner_user_id p)"

record portal_status =
  po_peer_id :: string
  po_peer_name :: string
  po_peer_type :: peer_type
  po_state :: peer_state
  po_authenticated :: bool
  po_username :: "string option"
  po_auth_methods :: "auth_method list"
  po_totp_required :: bool
  po_oidc_available :: bool
  po_session_expires_at :: "datetime option"

definition portal_status_of :: "request \<Rightarrow> settings \<Rightarrow> db \<Rightarrow> (http_exn, portal_status) result" where
  "portal_status_of rq st d = bindR (calling_peer rq st d) (\<lambda>p.
     (let owner = owner_of d p;
          live_row = (if pe_state p = ACTIVE then active_session d p else None)
      in Inr \<lparr>po_peer_id = pe_id p, po_peer_name = pe_name p, po_peer_type = pe_peer_type p,
        po_state = pe_state p, po_authenticated = (pe_state p = ACTIVE),
        po_username = map_option us_username owner,
        po_auth_methods = (case owner of None \<Rightarrow> [] | Some u \<Rightarrow> available_auth_methods u),
        po_totp_required = (case owner of None \<Rightarrow> False | Some u \<Rightarrow> us_totp_enabled u),
        po_oidc_available = (oidc_enabled st \<and>
          (case owner of None \<Rightarrow> False | Some u \<Rightarrow> truthy (us_idp_subject u))),
        po_session_expires_at = (case live_row of None \<Rightarrow> None | Some s \<Rightarrow> se_expires_at s)\<rparr>))"

text \<open>
  The checks of a login, in the order of the code: a refusal with its reason and what the
  database holds by then, an exception, or the account with its code spent and its hash
  renewed.
\<close>

datatype refusal = Denied string db | Crashed

definition spend_code ::
  "request \<Rightarrow> string option \<Rightarrow> user_row \<Rightarrow> db \<Rightarrow> (refusal, user_row \<times> db) result" where
  "spend_code rq totp_code u d =
     (if us_totp_enabled u then
        (case totp_verify (rq_crypto rq) (us_totp_secret u) totp_code (us_totp_last_used_step u) (rq_now rq) of
           Inl e \<Rightarrow> Inl Crashed
         | Inr None \<Rightarrow> Inl (Denied ''missing or invalid TOTP code'' d)
         | Inr (Some step) \<Rightarrow> (let v = u\<lparr>us_totp_last_used_step := Some step\<rparr>
             in Inr (v, update_user (us_id u) (\<lambda>_. v) d)))
      else Inr (u, d))"

definition login_checks ::
  "request \<Rightarrow> peer_row \<Rightarrow> string \<Rightarrow> string \<Rightarrow> string option \<Rightarrow> db
     \<Rightarrow> (refusal, user_row \<times> db) result" where
  "login_checks rq p username password totp_code d =
     (if pe_peer_type p \<noteq> USER then Inl (Denied ''not a user peer'' d)
      else (case (owner_of d p, user_named d username) of
         (Some owner, Some candidate) \<Rightarrow>
           if us_id candidate \<noteq> us_id owner
           then Inl (Denied ''username does not match the account bound to this peer'' d)
           else if \<not> us_is_active owner then Inl (Denied ''account disabled'' d)
           else if \<not> verify_password (rq_crypto rq) password (us_password_hash owner)
           then Inl (Denied ''wrong password'' d)
           else bindR (spend_code rq totp_code owner d) (\<lambda>(u, d1).
             case assert_self_service_transition (pe_state p) ACTIVE of
               Inl e \<Rightarrow> Inl (Denied (''state '' @ peer_state_value (pe_state p) @ '' is not eligible'') d1)
             | Inr _ \<Rightarrow> (let v = rehashed (rq_crypto rq) password u
                 in Inr (v, update_user (us_id u) (\<lambda>_. v) d1)))
       | _ \<Rightarrow> Inl (Denied ''username does not match the account bound to this peer'' d)))"

definition login_denied_entry :: "request \<Rightarrow> peer_row \<Rightarrow> string \<Rightarrow> string \<Rightarrow> audit_row" where
  "login_denied_entry rq p reason username =
     audit_entry ''portal.login.denied'' PEER_ACTOR None (Some (pe_name p)) (Some ''peer'')
       (Some (pe_id p)) (rq_client rq)
       (JObj [(''reason'', JStr reason), (''username'', JStr username)])"

record login_response =
  lo_peer_id :: string
  lo_state :: peer_state
  lo_username :: string
  lo_group_slugs :: "string list"
  lo_session_expires_at :: "datetime option"

text \<open>What a login does once the checks have passed, up to the regeneration.\<close>

definition activate ::
  "request \<Rightarrow> settings \<Rightarrow> peer_row \<Rightarrow> user_row \<Rightarrow> auth_method \<Rightarrow> (session_row \<Rightarrow> json) \<Rightarrow> db
     \<Rightarrow> session_row \<times> db" where
  "activate rq st p u meth detail d =
     (let (row, d1) = open_session (rq_id rq) (rq_now rq) p u meth st (rq_client rq) d;
          d2 = update_peer (pe_id p) (\<lambda>q. q\<lparr>pe_state := ACTIVE\<rparr>) d1
      in (row, audit_record (audit_entry ''portal.login'' USER_ACTOR (Some (us_id u))
           (Some (us_username u)) (Some ''peer'') (Some (pe_id p)) (rq_client rq)
           (detail row)) d2))"

definition local_detail :: "session_row \<Rightarrow> json" where
  "local_detail row = JObj [(''method'', JStr ''local''),
     (''expires_at'', (case se_expires_at row of None \<Rightarrow> JNull | Some t \<Rightarrow> JInt (instant t)))]"

definition portal_key :: "peer_row \<Rightarrow> string" where
  "portal_key p = ''portal:'' @ pe_id p"

definition login ::
  "request \<Rightarrow> settings \<Rightarrow> string \<Rightarrow> string \<Rightarrow> string option \<Rightarrow> world
     \<Rightarrow> (http_exn, login_response) result \<times> world" where
  "login rq st username password totp_code w =
     (case calling_peer rq st (wo_db w) of Inl e \<Rightarrow> (Inl e, w)
      | Inr p \<Rightarrow>
        (case guarded (wo_login w) (portal_key p) (rq_clock rq) of
           (Inl e, l) \<Rightarrow> (Inl e, w\<lparr>wo_login := l\<rparr>)
         | (Inr _, l) \<Rightarrow>
           (case login_checks rq p username password totp_code (wo_db w) of
              Inl (Denied reason d) \<Rightarrow>
                (Inl (HTTPException 401 ''invalid credentials''),
                 w\<lparr>wo_login := record_failure l (portal_key p) (rq_clock_late rq),
                   wo_db := audit_record (login_denied_entry rq p reason username) d\<rparr>)
            | Inl Crashed \<Rightarrow> (Inl Unhandled, w\<lparr>wo_login := l\<rparr>)
            | Inr (u, d) \<Rightarrow>
                (let (row, d1) = activate rq st p u LOCAL local_detail d;
                     w' = w\<lparr>wo_login := reset l (portal_key p)\<rparr>
                 in case regenerate_or_500 rq st ''portal.login'' d1 of
                      Inl e \<Rightarrow> (Inl e, w')
                    | Inr d2 \<Rightarrow> (Inr \<lparr>lo_peer_id = pe_id p, lo_state = ACTIVE,
                         lo_username = us_username u,
                         lo_group_slugs = sort (map gr_slug (peer_groups d2 p)),
                         lo_session_expires_at = se_expires_at row\<rparr>, w'\<lparr>wo_db := d2\<rparr>)))))"

definition logout ::
  "request \<Rightarrow> settings \<Rightarrow> db \<Rightarrow> (http_exn, string \<times> peer_state) result \<times> db" where
  "logout rq st d =
     (case calling_peer rq st d of Inl e \<Rightarrow> (Inl e, d)
      | Inr p \<Rightarrow>
        if pe_peer_type p \<noteq> USER
        then (Inl (HTTPException 409 ''server peers do not have portal sessions''), d)
        else (let d1 = revoke_sessions (pe_id p) (rq_now rq) d;
                  s = (if pe_state p = ACTIVE then QUARANTINED else pe_state p);
                  d2 = update_peer (pe_id p) (\<lambda>q. q\<lparr>pe_state := s\<rparr>) d1;
                  d3 = audit_record (audit_entry ''portal.logout'' PEER_ACTOR None (Some (pe_name p))
                    (Some ''peer'') (Some (pe_id p)) (rq_client rq) (JObj [])) d2
              in case regenerate_or_500 rq st ''portal.logout'' d3 of
                   Inl e \<Rightarrow> (Inl e, d) | Inr d4 \<Rightarrow> (Inr (pe_id p, s), d4)))"

section \<open>Enrollment\<close>

definition enroll_key :: "peer_row \<Rightarrow> string" where
  "enroll_key p = ''enroll:'' @ pe_id p"

definition enroll_checks ::
  "request \<Rightarrow> peer_row \<Rightarrow> string \<Rightarrow> string option \<Rightarrow> db \<Rightarrow> (refusal, unit) result" where
  "enroll_checks rq p key wg_public_key d =
     (if pe_peer_type p \<noteq> SERVER then Inl (Denied ''not a server peer'' d)
      else if truthy wg_public_key \<and> py_strip (the wg_public_key) \<noteq> pe_wg_public_key p
      then Inl (Denied ''public key does not match the peer holding this address'' d)
      else (case verify_key (rq_crypto rq) key (pe_enrollment_key_hash p) of
          Inl e \<Rightarrow> Inl Crashed
        | Inr ok \<Rightarrow>
            if \<not> ok then Inl (Denied ''invalid enrollment key'' d)
            else if is_expired (pe_enrollment_key_expires_at p) (rq_now rq)
            then Inl (Denied ''enrollment key expired'' d)
            else (case assert_self_service_transition (pe_state p) ACTIVE of
                Inl e \<Rightarrow> Inl (Denied (''state '' @ peer_state_value (pe_state p) @ '' is not eligible'') d)
              | Inr _ \<Rightarrow> Inr ())))"

definition enroll_refused_entry :: "request \<Rightarrow> peer_row \<Rightarrow> string \<Rightarrow> audit_row" where
  "enroll_refused_entry rq p reason =
     audit_entry ''peer.enroll.denied'' PEER_ACTOR None (Some (pe_name p)) (Some ''peer'')
       (Some (pe_id p)) (rq_client rq) (JObj [(''reason'', JStr reason)])"

definition enroll ::
  "request \<Rightarrow> settings \<Rightarrow> string \<Rightarrow> string option \<Rightarrow> world
     \<Rightarrow> (http_exn, string) result \<times> world" where
  "enroll rq st key wg_public_key w =
     (case calling_peer rq st (wo_db w) of Inl e \<Rightarrow> (Inl e, w)
      | Inr p \<Rightarrow>
        (case guarded (wo_enroll w) (enroll_key p) (rq_clock rq) of
           (Inl e, l) \<Rightarrow> (Inl e, w\<lparr>wo_enroll := l\<rparr>)
         | (Inr _, l) \<Rightarrow>
           (case enroll_checks rq p key wg_public_key (wo_db w) of
              Inl (Denied reason d) \<Rightarrow>
                (Inl (HTTPException 403 ''enrollment refused''),
                 w\<lparr>wo_enroll := record_failure l (enroll_key p) (rq_clock_late rq),
                   wo_db := audit_record (enroll_refused_entry rq p reason) d\<rparr>)
            | Inl Crashed \<Rightarrow> (Inl Unhandled, w\<lparr>wo_enroll := l\<rparr>)
            | Inr _ \<Rightarrow>
                (let d1 = update_peer (pe_id p)
                       (\<lambda>q. q\<lparr>pe_state := ACTIVE, pe_enrolled_at := Some (rq_now rq)\<rparr>) (wo_db w);
                     d2 = audit_record (audit_entry ''peer.enroll'' PEER_ACTOR None (Some (pe_name p))
                       (Some ''peer'') (Some (pe_id p)) (rq_client rq)
                       (JObj [(''groups'', JList (map JStr (sort (map gr_slug (peer_groups d1 p)))))])) d1;
                     w' = w\<lparr>wo_enroll := reset l (enroll_key p)\<rparr>
                 in case regenerate_or_500 rq st ''peer.enroll'' d2 of
                      Inl e \<Rightarrow> (Inl e, w')
                    | Inr d3 \<Rightarrow> (Inr (pe_id p), w'\<lparr>wo_db := d3\<rparr>)))))"

end
