(* ===== verification/PortalProperties.thy ===== *)
theory PortalProperties
  imports PortalApi FleetProperties
begin

text \<open>
  What a portal login and an enrollment establish, and what their failures leave behind.
\<close>

definition live_sessions_of :: "db \<Rightarrow> string \<Rightarrow> session_row list" where
  "live_sessions_of d i = filter (\<lambda>s. se_peer_id s = i \<and> se_status s = SESSION_ACTIVE) (sessions d)"

text \<open>The tables that decide access are those of \<open>d\<close>.\<close>

definition same_access :: "db \<Rightarrow> db \<Rightarrow> bool" where
  "same_access d d' \<longleftrightarrow> peers d' = peers d \<and> sessions d' = sessions d \<and> groups d' = groups d \<and>
     acl_rules d' = acl_rules d \<and> versions d' = versions d \<and> services d' = services d"

lemma same_access_refl [simp]: "same_access d d" by (simp add: same_access_def)

lemma same_access_audit [simp]: "same_access d (audit_record e d') \<longleftrightarrow> same_access d d'"
  by (simp add: same_access_def)

lemma same_access_user [simp]: "same_access d (update_user i f d') \<longleftrightarrow> same_access d d'"
  by (simp add: same_access_def)

lemma regenerate_or_500_rest:
  assumes "regenerate_or_500 rq st g d = Inr d'"
  shows "peers d' = peers d \<and> groups d' = groups d \<and> users d' = users d \<and> sessions d' = sessions d \<and>
    audit_log d' = audit_log d"
  using assms regenerate_peers unfolding regenerate_or_500_def
  by (fastforce split: sum.splits)

section \<open>The checks\<close>

lemma unit_result: "\<forall>e. (r :: ('e, unit) result) \<noteq> Inl e \<Longrightarrow> r = Inr ()"
  by (cases r) auto

lemma user_named_some: "user_named d n = Some u \<Longrightarrow> u \<in> set (users d) \<and> us_username u = n"
  by (auto simp: user_named_def find_Some_iff)

lemma user_by_id_some: "user_by_id d k = Some u \<Longrightarrow> u \<in> set (users d) \<and> k = Some (us_id u)"
  by (auto simp: user_by_id_def find_Some_iff split: option.splits)

lemma spend_code_ok:
  assumes "spend_code rq code u d = Inr (v, d')"
  shows "same_access d d' \<and> us_id v = us_id u \<and> us_username v = us_username u \<and>
    (us_totp_enabled u \<longrightarrow> (\<exists>step. totp_verify (rq_crypto rq) (us_totp_secret u) code
       (us_totp_last_used_step u) (rq_now rq) = Inr (Some step)))"
  using assms unfolding spend_code_def Let_def by (auto split: if_splits sum.splits option.splits)

lemma spend_code_denied:
  assumes "spend_code rq code u d = Inl (Denied r d')" shows "d' = d"
  using assms unfolding spend_code_def Let_def by (auto split: if_splits sum.splits option.splits)

lemma rehashed_ids [simp]: "us_id (rehashed c pw u) = us_id u" "us_username (rehashed c pw u) = us_username u"
  by (simp_all add: rehashed_def)

lemma login_checks_ok:
  assumes "login_checks rq p username password code d = Inr (v, d')" and "distinct (map us_id (users d))"
  shows "\<exists>u. user_by_id d (pe_owner_user_id p) = Some u \<and> us_id v = us_id u \<and> us_username v = username \<and>
    us_username u = username \<and> us_is_active u \<and> pe_peer_type p = USER \<and>
    pe_state p \<in> {STAGING, QUARANTINED, ACTIVE} \<and> same_access d d' \<and>
    verify_password (rq_crypto rq) password (us_password_hash u) \<and>
    (us_totp_enabled u \<longrightarrow> (\<exists>step. totp_verify (rq_crypto rq) (us_totp_secret u) code
       (us_totp_last_used_step u) (rq_now rq) = Inr (Some step)))"
proof -
  obtain u c where u: "owner_of d p = Some u" and c: "user_named d username = Some c" "us_id c = us_id u"
      and t: "pe_peer_type p = USER" "us_is_active u" "verify_password (rq_crypto rq) password (us_password_hash u)"
      and r: "bindR (spend_code rq code u d) (\<lambda>(u, d1).
             case assert_self_service_transition (pe_state p) ACTIVE of
               Inl e \<Rightarrow> Inl (Denied (''state '' @ peer_state_value (pe_state p) @ '' is not eligible'') d1)
             | Inr _ \<Rightarrow> (let v = rehashed (rq_crypto rq) password u
                 in Inr (v, update_user (us_id u) (\<lambda>_. v) d1))) = Inr (v, d')"
    using assms(1) unfolding login_checks_def by (auto split: if_splits option.splits)
  from r obtain u1 d1 where s: "spend_code rq code u d = Inr (u1, d1)"
      and a: "assert_self_service_transition (pe_state p) ACTIVE = Inr ()"
      and v: "v = rehashed (rq_crypto rq) password u1" "d' = update_user (us_id u1) (\<lambda>_. v) d1"
    by (auto split: sum.splits simp: Let_def dest: unit_result)
  have "u \<in> set (users d)" using user_by_id_some u by (auto simp: owner_of_def)
  then have "c = u" using user_named_some [OF c(1)] c(2) assms(2) by (auto simp: distinct_map dest: inj_onD)
  then have "us_username u = username" using user_named_some [OF c(1)] by simp
  moreover have "pe_state p \<in> {STAGING, QUARANTINED, ACTIVE}"
    using a by (cases "pe_state p") (simp_all add: self_service_transition_iff)
  ultimately show ?thesis using u t spend_code_ok [OF s] v by (simp add: owner_of_def)
qed

lemma login_checks_denied:
  assumes "login_checks rq p username password code d = Inl (Denied r d')"
  shows "same_access d d'"
proof -
  have "d' = d \<or> (\<exists>u v. spend_code rq code u d = Inr (v, d')) \<or>
      (\<exists>u s. spend_code rq code u d = Inl (Denied s d'))"
    using assms unfolding login_checks_def
    by (auto simp: Let_def bindR_Inl_iff dest: unit_result split: if_splits option.splits sum.splits)
  then show ?thesis using spend_code_ok spend_code_denied by fastforce
qed

section \<open>Login\<close>

lemma activate_sessions:
  assumes "activate rq st p u meth detail d = (row, d')"
  shows "row = fst (open_session (rq_id rq) (rq_now rq) p u meth st (rq_client rq) d) \<and>
    sessions d' = sessions (snd (open_session (rq_id rq) (rq_now rq) p u meth st (rq_client rq) d)) \<and>
    groups d' = groups d \<and> peers d' = map (\<lambda>q. if pe_id q = pe_id p
      then q\<lparr>pe_last_authenticated_at := Some (Aware (rq_now rq)), pe_state := ACTIVE\<rparr> else q) (peers d)"
  using assms by (auto simp: activate_def open_session_def revoke_sessions_def Let_def comp_def)

lemma login_ok:
  assumes "login rq st username password code w = (Inr r, w')"
  shows "\<exists>p u d row d1. calling_peer rq st (wo_db w) = Inr p \<and>
    login_checks rq p username password code (wo_db w) = Inr (u, d) \<and>
    activate rq st p u LOCAL local_detail d = (row, d1) \<and>
    regenerate_or_500 rq st ''portal.login'' d1 = Inr (wo_db w') \<and>
    lo_peer_id r = pe_id p \<and> lo_username r = us_username u"
  using assms unfolding login_def
  by (auto split: sum.splits prod.splits refusal.splits simp: Let_def)

text \<open>
  C25: a login admits only the owner of the device, and exactly that device. When it succeeds the
  caller is a user peer that is staging, quarantined or already active, its owner is the
  account of that name, active, with that password and, where a second factor is enabled, a
  one-time code not yet spent; afterwards that peer is active and holds exactly one live
  session, of its owner, expiring after the peer's lifetime, and every other peer is as
  before.
\<close>

theorem login_admits_only_the_owner:
  assumes "login rq st username password code w = (Inr r, w')" and "distinct (map us_id (users (wo_db w)))"
  shows "\<exists>p u s. calling_peer rq st (wo_db w) = Inr p \<and> pe_peer_type p = USER \<and>
    pe_state p \<in> {STAGING, QUARANTINED, ACTIVE} \<and>
    user_by_id (wo_db w) (pe_owner_user_id p) = Some u \<and> us_username u = username \<and> us_is_active u \<and>
    verify_password (rq_crypto rq) password (us_password_hash u) \<and>
    (us_totp_enabled u \<longrightarrow> (\<exists>step. totp_verify (rq_crypto rq) (us_totp_secret u) code
       (us_totp_last_used_step u) (rq_now rq) = Inr (Some step))) \<and>
    peers (wo_db w') = map (\<lambda>q. if pe_id q = pe_id p
       then q\<lparr>pe_last_authenticated_at := Some (Aware (rq_now rq)), pe_state := ACTIVE\<rparr> else q)
       (peers (wo_db w)) \<and>
    live_sessions_of (wo_db w') (pe_id p) = [s] \<and> se_user_id s = us_id u \<and>
    se_expires_at s = Some (Aware (add_seconds (rq_now rq) (lifetime_seconds (wo_db w) p st)))"
proof -
  obtain p v d row d1 where c: "calling_peer rq st (wo_db w) = Inr p"
      "login_checks rq p username password code (wo_db w) = Inr (v, d)"
      and a: "activate rq st p v LOCAL local_detail d = (row, d1)"
      and g: "regenerate_or_500 rq st ''portal.login'' d1 = Inr (wo_db w')"
    using login_ok [OF assms(1)] by blast
  obtain u where u: "user_by_id (wo_db w) (pe_owner_user_id p) = Some u" "us_id v = us_id u"
      "us_username u = username" "us_is_active u" "pe_peer_type p = USER"
      "pe_state p \<in> {STAGING, QUARANTINED, ACTIVE}" "same_access (wo_db w) d"
      "verify_password (rq_crypto rq) password (us_password_hash u)"
      "us_totp_enabled u \<longrightarrow> (\<exists>step. totp_verify (rq_crypto rq) (us_totp_secret u) code
         (us_totp_last_used_step u) (rq_now rq) = Inr (Some step))"
    using login_checks_ok [OF c(2) assms(2)] by blast
  have "live_sessions_of (wo_db w') (pe_id p) = [row]"
    using activate_sessions [OF a] regenerate_or_500_rest [OF g] open_session_own
    by (simp add: live_sessions_of_def)
  moreover have "peers (wo_db w') = map (\<lambda>q. if pe_id q = pe_id p
       then q\<lparr>pe_last_authenticated_at := Some (Aware (rq_now rq)), pe_state := ACTIVE\<rparr> else q)
       (peers (wo_db w))"
    using activate_sessions [OF a] regenerate_or_500_rest [OF g] u(7) by (simp add: same_access_def)
  moreover have "lifetime_seconds d p st = lifetime_seconds (wo_db w) p st"
    using u(7) by (simp add: lifetime_seconds_def peer_groups_def same_access_def)
  then have "se_user_id row = us_id u \<and>
      se_expires_at row = Some (Aware (add_seconds (rq_now rq) (lifetime_seconds (wo_db w) p st)))"
    using activate_sessions [OF a] u(2) by (simp add: open_session_def Let_def)
  ultimately show ?thesis using c(1) u by blast
qed

section \<open>Failed logins\<close>

text \<open>
  A login that fails changes nobody's access: peers, sessions, groups, rules, services and
  the ruleset are as before, whatever refused it. When it fails after the credentials were
  accepted (an exception, no refusal) the whole transaction is lost, the spending of the
  one-time code included: the code is good for another attempt.
\<close>

theorem failed_login_changes_no_access:
  assumes "login rq st username password code w = (Inl e, w')"
  shows "same_access (wo_db w) (wo_db w') \<and> (e = Unhandled \<longrightarrow> wo_db w' = wo_db w)"
proof (cases "calling_peer rq st (wo_db w)")
  case (Inl x)
  then show ?thesis using assms by (simp add: login_def)
next
  case (Inr p)
  then show ?thesis using assms login_checks_denied [of rq p username password code "wo_db w"]
    by (auto simp: login_def Let_def regenerate_or_500_def
        split: sum.splits prod.splits refusal.splits)
qed

section \<open>The two theorems at work\<close>

definition demo_limiter :: limiter where
  "demo_limiter = \<lparr>rl_max = 10, rl_window = 300, rl_hits = []\<rparr>"

definition demo_world :: "db \<Rightarrow> world" where
  "demo_world d = \<lparr>wo_db = d, wo_login = demo_limiter, wo_enroll = demo_limiter,
     wo_admin_login = demo_limiter\<rparr>"

lemma demo_world_simps [simp]: "wo_db (demo_world d) = d" "wo_login (demo_world d) = demo_limiter"
  by (simp_all add: demo_world_def)

lemma demo_world_starts: "start_world demo_settings d = Inr (demo_world d)"
  by (simp add: start_world_def demo_world_def demo_settings_def default_settings_def demo_limiter_def
      default_session_def login_limiter_def enroll_limiter_def admin_login_limiter_def
      new_limiter_def)

definition demo_b :: peer_row where "demo_b = demo_row ''b'' QUARANTINED ''10.66.0.3''"

definition from_b :: request where "from_b = demo_request\<lparr>rq_client := Some ''10.66.0.3''\<rparr>"

lemma demo_caller: "calling_peer from_b demo_settings demo_db = Inr demo_b"
  by code_simp

lemma demo_guard: "\<exists>l. guarded demo_limiter (portal_key demo_b) (rq_clock from_b) = (Inr (), l)"
proof -
  have "fst (guarded demo_limiter (portal_key demo_b) (rq_clock from_b)) = Inr ()" by code_simp
  then show ?thesis by (metis prod.collapse)
qed

lemma regenerate_or_500_valid:
  assumes "case build_spec d st of Inl e \<Rightarrow> False | Inr s \<Rightarrow> validate_spec s = []"
  shows "\<exists>d'. regenerate_or_500 rq st g d = Inr d'"
  using assms by (auto simp: regenerate_or_500_def regenerate_def render_def validate_spec_iff
      generate_ok split: sum.splits)

lemma regenerate_or_500_invalid:
  assumes "case build_spec d st of Inl e \<Rightarrow> False | Inr s \<Rightarrow> validate_spec s \<noteq> []"
  shows "regenerate_or_500 rq st g d = Inl Unhandled"
  using assms by (auto simp: regenerate_or_500_def regenerate_def render_def validate_spec_iff
      generate_bad split: sum.splits)

theorem login_admits_only_the_owner_witness:
  "\<exists>r w' s. login from_b demo_settings ''ada'' ''h'' None (demo_world demo_db) = (Inr r, w') \<and>
     live_sessions_of (wo_db w') ''b'' = [s] \<and> se_user_id s = ''u''"
proof -
  have k: "login_checks from_b demo_b ''ada'' ''h'' None demo_db = Inr (demo_user, demo_db)"
    by code_simp
  have "case build_spec (snd (activate from_b demo_settings demo_b demo_user LOCAL local_detail demo_db))
      demo_settings of Inl e \<Rightarrow> False | Inr s \<Rightarrow> validate_spec s = []" by code_simp
  then obtain d' where "regenerate_or_500 from_b demo_settings ''portal.login''
      (snd (activate from_b demo_settings demo_b demo_user LOCAL local_detail demo_db)) = Inr d'"
    using regenerate_or_500_valid by blast
  then obtain r w' where l: "login from_b demo_settings ''ada'' ''h'' None (demo_world demo_db) = (Inr r, w')"
    using demo_guard by (auto simp: login_def demo_caller k Let_def split_beta)
  have "distinct (map us_id (users demo_db))" by (simp add: demo_db_def)
  then have "distinct (map us_id (users (wo_db (demo_world demo_db))))" by simp
  note adm = login_admits_only_the_owner [OF l this]
  have "user_by_id demo_db (pe_owner_user_id demo_b) = Some demo_user" "us_id demo_user = ''u''"
      "pe_id demo_b = ''b''" by code_simp+
  with adm have "\<exists>s. live_sessions_of (wo_db w') ''b'' = [s] \<and> se_user_id s = ''u''"
    by (auto simp: demo_caller)
  with l show ?thesis by blast
qed

text \<open>
  An account with a second factor logs in while the fleet has an internet exit and no WAN
  interface: the code is accepted, the regeneration raises, and the code is not spent.
\<close>

definition demo_totp_user :: user_row where
  "demo_totp_user = demo_user\<lparr>us_totp_enabled := True, us_totp_secret := Some ''k''\<rparr>"

definition demo_totp_db :: db where "demo_totp_db = demo_db\<lparr>users := [demo_totp_user]\<rparr>"

definition no_wan :: settings where "no_wan = demo_settings\<lparr>st_wan_interface := None\<rparr>"

theorem failed_login_changes_no_access_witness:
  "\<exists>u d w'. login_checks from_b demo_b ''ada'' ''h'' (Some ''120'') demo_totp_db = Inr (u, d) \<and>
     us_totp_last_used_step u = Some 4 \<and>
     login from_b no_wan ''ada'' ''h'' (Some ''120'') (demo_world demo_totp_db) = (Inl Unhandled, w') \<and>
     wo_db w' = demo_totp_db"
proof -
  let ?u = "demo_totp_user\<lparr>us_totp_last_used_step := Some 4\<rparr>"
  let ?d = "demo_db\<lparr>users := [?u]\<rparr>"
  have c: "calling_peer from_b no_wan demo_totp_db = Inr demo_b" by code_simp
  have k: "login_checks from_b demo_b ''ada'' ''h'' (Some ''120'') demo_totp_db = Inr (?u, ?d)"
    by code_simp
  have "case build_spec (snd (activate from_b no_wan demo_b ?u LOCAL local_detail ?d)) no_wan of
      Inl e \<Rightarrow> False | Inr s \<Rightarrow> validate_spec s \<noteq> []" by code_simp
  then have "regenerate_or_500 from_b no_wan ''portal.login''
      (snd (activate from_b no_wan demo_b ?u LOCAL local_detail ?d)) = Inl Unhandled"
    by (rule regenerate_or_500_invalid)
  then have "\<exists>w'. login from_b no_wan ''ada'' ''h'' (Some ''120'') (demo_world demo_totp_db) = (Inl Unhandled, w')"
    using demo_guard by (auto simp: login_def c k Let_def split: prod.splits)
  then show ?thesis using failed_login_changes_no_access k by fastforce
qed

end
