(* ===== verification/DnsNaming.thy ===== *)
theory DnsNaming
  imports Config
begin

text \<open>
  \<open>backend/foxguard/dns/naming.py\<close>: the DNS label a display name suggests. The Unicode
  normalisation is the standard library's table, written out for Latin-1, the characters a
  string of this development holds.
\<close>

definition MAX_LABEL :: nat where "MAX_LABEL = 63"

text \<open>What is left of a character by \<open>normalize("NFKD", c).encode("ascii", "ignore")\<close>.\<close>

definition nfkd_ascii :: "char \<Rightarrow> string" where
  "nfkd_ascii c = (let n = of_char c :: nat in
     if n < 128 then [c]
     else if n \<in> {160, 168, 175, 180, 184} then '' ''
     else if n = 170 then ''a'' else if n = 186 then ''o''
     else if n = 185 then ''1'' else if n = 178 then ''2'' else if n = 179 then ''3''
     else if n = 188 then ''14'' else if n = 189 then ''12'' else if n = 190 then ''34''
     else if 192 \<le> n \<and> n \<le> 197 then ''A'' else if n = 199 then ''C''
     else if 200 \<le> n \<and> n \<le> 203 then ''E'' else if 204 \<le> n \<and> n \<le> 207 then ''I''
     else if n = 209 then ''N'' else if 210 \<le> n \<and> n \<le> 214 then ''O''
     else if 217 \<le> n \<and> n \<le> 220 then ''U'' else if n = 221 then ''Y''
     else if 224 \<le> n \<and> n \<le> 229 then ''a'' else if n = 231 then ''c''
     else if 232 \<le> n \<and> n \<le> 235 then ''e'' else if 236 \<le> n \<and> n \<le> 239 then ''i''
     else if n = 241 then ''n'' else if 242 \<le> n \<and> n \<le> 246 then ''o''
     else if 249 \<le> n \<and> n \<le> 252 then ''u'' else if n = 253 \<or> n = 255 then ''y''
     else [])"

text \<open>\<open>re.sub("[^a-z0-9]+", "-", s)\<close>: each maximal run of other characters becomes one hyphen.\<close>

fun sub_non_label :: "string \<Rightarrow> string" where
  "sub_non_label [] = []"
| "sub_non_label [c] = (if label_char c then [c] else ''-'')"
| "sub_non_label (c # d # s) =
     (if label_char c then c # sub_non_label (d # s)
      else if label_char d then CHR ''-'' # sub_non_label (d # s)
      else sub_non_label (d # s))"

definition is_hyphen :: "char \<Rightarrow> bool" where "is_hyphen c \<longleftrightarrow> c = CHR ''-''"

definition derive_label :: "string \<Rightarrow> string option" where
  "derive_label name =
     (let folded = concat (map nfkd_ascii name);
          label = rstrip_by is_hyphen (take MAX_LABEL
            (strip_by is_hyphen (sub_non_label (py_lower folded))))
      in if label = [] then None else Some label)"

definition fallback_label :: "string \<Rightarrow> string" where
  "fallback_label peer_id = ''peer-'' @ take 12 (remove_char (CHR ''-'') peer_id)"

section \<open>The labels are labels\<close>

lemma sub_non_label_chars: "c \<in> set (sub_non_label s) \<Longrightarrow> label_char c \<or> is_hyphen c"
  by (induction s rule: sub_non_label.induct) (auto simp: is_hyphen_def split: if_splits)

lemma last_rstrip: "rstrip_by p s \<noteq> [] \<Longrightarrow> \<not> p (last (rstrip_by p s))"
  by (simp add: rstrip_by_def last_rev hd_dropWhile)

lemma rstrip_prefix: "\<exists>t. s = rstrip_by p s @ t"
  by (metis rstrip_by_def rev_append rev_rev_ident takeWhile_dropWhile_id)

lemma hd_rstrip: "rstrip_by p s \<noteq> [] \<Longrightarrow> hd (rstrip_by p s) = hd s"
  using rstrip_prefix [of s p] by (metis hd_append2)

lemma hd_strip:
  assumes "strip_by p s \<noteq> []"
  shows "\<not> p (hd (strip_by p s))"
proof -
  have r: "rstrip_by p (dropWhile p s) \<noteq> []" using assms by (simp add: strip_by_def lstrip_by_def)
  have "dropWhile p s \<noteq> []"
  proof
    assume "dropWhile p s = []"
    from r [unfolded this] show False by (simp add: rstrip_by_def)
  qed
  moreover have "hd (strip_by p s) = hd (dropWhile p s)"
    using hd_rstrip [OF r] by (simp add: strip_by_def lstrip_by_def)
  ultimately show ?thesis using hd_dropWhile by metis
qed

lemma set_rstrip: "set (rstrip_by p s) \<subseteq> set s"
  by (auto simp: rstrip_by_def dest!: set_dropWhileD)

text \<open>
  C40: A label the naming derives from a device name is a DNS label, whatever the name: letters,
  digits and hyphens only, at most 63 of them, and a letter or a digit at both ends.
\<close>

theorem derived_label_ok:
  assumes "derive_label name = Some l"
  shows "dns_label l"
proof -
  let ?s = "strip_by is_hyphen (sub_non_label (py_lower (concat (map nfkd_ascii name))))"
  let ?t = "take MAX_LABEL ?s"
  have l: "l = rstrip_by is_hyphen ?t" "l \<noteq> []"
    using assms by (auto simp: derive_label_def Let_def split: if_splits)
  have c: "label_char x \<or> is_hyphen x" if "x \<in> set l" for x
  proof -
    have "x \<in> set ?t" using that l(1) set_rstrip by blast
    then have "x \<in> set ?s" by (rule in_set_takeD)
    then show ?thesis using set_strip_by sub_non_label_chars by blast
  qed
  have t: "?t \<noteq> []" using l by (cases "?t = []") (simp_all add: rstrip_by_def)
  then have "?s \<noteq> []" by auto
  then have "\<not> is_hyphen (hd ?s)" by (rule hd_strip)
  moreover have "hd l = hd ?s" using l hd_rstrip [of is_hyphen ?t] t by (simp add: hd_take MAX_LABEL_def)
  ultimately have h: "label_char (hd l)" using c l(2) by (metis hd_in_set)
  have "\<not> is_hyphen (last l)" using l last_rstrip [of is_hyphen ?t] by simp
  then have e: "label_char (last l)" using c l(2) last_in_set by blast
  have "length l \<le> length ?t" using l(1) rstrip_prefix [of ?t is_hyphen]
    by (metis length_append le_add1)
  then have "length l \<le> 63" by (simp add: MAX_LABEL_def)
  then show ?thesis using h e c l(2) by (auto simp: dns_label_def list_all_iff is_hyphen_def)
qed

theorem derived_label_ok_witness: "dns_label ''lea-s-pc-nr-2''"
proof (rule derived_label_ok)
  show "derive_label (CHR ''-'' # ''L'' @ [CHR 0xE9] @ ''a's PC (nr. '' @ [CHR 0xB2] @ '')'') =
      Some ''lea-s-pc-nr-2''"
    by code_simp
qed

end
