(* ===== verification/Schemas.thy ===== *)
theory Schemas
  imports ApiDeps DnsNaming
begin

text \<open>
  \<open>backend/foxguard/schemas.py\<close>: the request bodies of the admin API, each a record with the
  function that accepts it (and normalises it) or says why it is a 422. The patterns are run by
  pydantic's own engine, where \<open>$\<close> is the end of the text only. A field of a partial update is
  \<open>None\<close> when it was not sent and \<open>Some None\<close> when it was sent as null.
\<close>

type_synonym 'a sent = "'a option option"

fun all_hold :: "(bool \<times> string) list \<Rightarrow> (string, unit) result" where
  "all_hold [] = Inr ()"
| "all_hold ((ok, msg) # cs) = (if ok then all_hold cs else Inl msg)"

lemma all_hold_iff: "all_hold cs = Inr () \<longleftrightarrow> list_all fst cs"
  by (induction cs) (auto split: if_splits)

definition max_length :: "nat \<Rightarrow> string \<Rightarrow> bool" where
  "max_length n s \<longleftrightarrow> length s \<le> n"

fun opt_ok :: "('a \<Rightarrow> bool) \<Rightarrow> 'a option \<Rightarrow> bool" where
  "opt_ok p None = True"
| "opt_ok p (Some x) = p x"

fun sent_ok :: "('a \<Rightarrow> bool) \<Rightarrow> 'a sent \<Rightarrow> bool" where
  "sent_ok p None = True"
| "sent_ok p (Some v) = opt_ok p v"

fun is_null :: "'a sent \<Rightarrow> bool" where
  "is_null (Some None) = True"
| "is_null _ = False"

text \<open>\<open>setattr\<close> of a sent field: null clears an optional column.\<close>

fun set_opt :: "'a sent \<Rightarrow> 'a option \<Rightarrow> 'a option" where
  "set_opt None old = old"
| "set_opt (Some v) old = v"

text \<open>A column that is not nullable; a null sent for it never survives the flush.\<close>

fun set_req :: "'a sent \<Rightarrow> 'a \<Rightarrow> 'a" where
  "set_req (Some (Some v)) old = v"
| "set_req _ old = old"

definition sent_keys :: "(bool \<times> string) list \<Rightarrow> string list" where
  "sent_keys fs = map snd (filter fst fs)"

section \<open>Field types\<close>

definition SLUG_PATTERN :: "string \<Rightarrow> bool" where
  "SLUG_PATTERN = re_head_tail (\<lambda>c. is_lower c \<or> is_digit c) slug_tail 23"

definition REF_PATTERN :: "string \<Rightarrow> bool" where
  "REF_PATTERN = re_class (\<lambda>c. is_lower c \<or> is_upper c \<or> is_digit c \<or> c \<in> set ''_.:-'') 1 64"

definition DNS_LABEL_PATTERN :: "string \<Rightarrow> bool" where "DNS_LABEL_PATTERN = dns_label"

definition DNS_NAME_PATTERN :: "string \<Rightarrow> bool" where
  "DNS_NAME_PATTERN s \<longleftrightarrow> list_all dns_label (split_on (CHR ''.'') s)"

definition username_pattern :: "string \<Rightarrow> bool" where
  "username_pattern = re_class (\<lambda>c. is_lower c \<or> is_upper c \<or> is_digit c \<or> c \<in> set ''._@-'') 1 64"

definition is_port :: "int \<Rightarrow> bool" where "is_port p \<longleftrightarrow> 1 \<le> p \<and> p \<le> 65535"

definition b64_char :: "char \<Rightarrow> bool" where
  "b64_char c \<longleftrightarrow> is_lower c \<or> is_upper c \<or> is_digit c \<or> c = CHR ''+'' \<or> c = CHR ''/''"

text \<open>
  \<open>b64decode(candidate, validate=True)\<close> of 44 characters gives 32 bytes when the text is 43
  characters of the alphabet and one padding sign; the two bits left over are not looked at.
\<close>

definition validate_wg_key :: "string \<Rightarrow> (string, string) result" where
  "validate_wg_key value = (let candidate = py_strip value in
     if length candidate \<noteq> 44 then Inl ''WireGuard public key must be 44 base64 characters''
     else if list_all b64_char (take 43 candidate) \<and> last candidate = CHR ''='' then Inr candidate
     else if list_all b64_char candidate \<or>
         (list_all b64_char (take 42 candidate) \<and> drop 42 candidate = ''=='')
     then Inl ''WireGuard public key must decode to 32 bytes''
     else Inl ''invalid base64 in WireGuard public key'')"

fun validate_cidr :: "string option \<Rightarrow> (string, string option) result" where
  "validate_cidr None = Inr None"
| "validate_cidr (Some v) = (case ip_network v of None \<Rightarrow> Inl ''not a network''
     | Some n \<Rightarrow> Inr (Some (show_net n)))"

section \<open>Groups and zones\<close>

record group_create =
  gc_slug :: string
  gc_name :: string
  gc_description :: "string option"
  gc_kind :: group_kind
  gc_internet_exit :: bool
  gc_session_lifetime_seconds :: "int option"
  gc_parent_id :: "string option"

definition validate_group_create :: "group_create \<Rightarrow> (string, group_create) result" where
  "validate_group_create p = bindR (all_hold
     [(SLUG_PATTERN (gc_slug p), ''slug''), (max_length 128 (gc_name p), ''name''),
      (opt_ok (\<lambda>n. 60 \<le> n) (gc_session_lifetime_seconds p), ''session_lifetime_seconds'')])
     (\<lambda>_. Inr p)"

record group_update =
  gu_name :: "string sent"
  gu_description :: "string sent"
  gu_internet_exit :: "bool sent"
  gu_session_lifetime_seconds :: "int sent"
  gu_parent_id :: "string sent"

definition validate_group_update :: "group_update \<Rightarrow> (string, group_update) result" where
  "validate_group_update p = bindR (all_hold
     [(sent_ok (max_length 128) (gu_name p), ''name''),
      (sent_ok (\<lambda>n. 60 \<le> n) (gu_session_lifetime_seconds p), ''session_lifetime_seconds'')])
     (\<lambda>_. Inr p)"

record route_create =
  rc_cidr :: string
  rc_via_peer_id :: "string option"
  rc_description :: "string option"
  rc_enabled :: bool

definition validate_route_create :: "route_create \<Rightarrow> (string, route_create) result" where
  "validate_route_create p =
     (if \<not> max_length 64 (rc_cidr p) then Inl ''cidr''
      else (case ip_network (rc_cidr p) of None \<Rightarrow> Inl ''not a network''
        | Some n \<Rightarrow> if prefixlen n = 0 then Inl ''a zone route may not be a default route''
            else Inr (p\<lparr>rc_cidr := show_net n\<rparr>)))"

record route_update =
  ru_via_peer_id :: "string sent"
  ru_description :: "string sent"
  ru_enabled :: "bool sent"

record zone_create =
  zc_slug :: string
  zc_name :: string
  zc_description :: "string option"
  zc_internet_exit :: bool
  zc_intra_zone :: bool
  zc_session_lifetime_seconds :: "int option"

definition validate_zone_create :: "zone_create \<Rightarrow> (string, zone_create) result" where
  "validate_zone_create p = bindR (all_hold
     [(SLUG_PATTERN (zc_slug p), ''slug''), (max_length 128 (zc_name p), ''name''),
      (opt_ok (\<lambda>n. 60 \<le> n) (zc_session_lifetime_seconds p), ''session_lifetime_seconds'')])
     (\<lambda>_. Inr p)"

record zone_update =
  zu_name :: "string sent"
  zu_description :: "string sent"
  zu_internet_exit :: "bool sent"
  zu_intra_zone :: "bool sent"
  zu_session_lifetime_seconds :: "int sent"

definition validate_zone_update :: "zone_update \<Rightarrow> (string, zone_update) result" where
  "validate_zone_update p = bindR (all_hold
     [(sent_ok (max_length 128) (zu_name p), ''name''),
      (sent_ok (\<lambda>n. 60 \<le> n) (zu_session_lifetime_seconds p), ''session_lifetime_seconds'')])
     (\<lambda>_. Inr p)"

section \<open>Users\<close>

definition password_length :: "string \<Rightarrow> bool" where
  "password_length s \<longleftrightarrow> 12 \<le> length s \<and> length s \<le> 256"

record user_create =
  uc_username :: string
  uc_email :: "string option"
  uc_display_name :: "string option"
  uc_is_admin :: bool
  uc_is_active :: bool
  uc_password :: "string option"
  uc_idp_issuer :: "string option"
  uc_idp_subject :: "string option"
  uc_group_slugs :: "string list"

definition validate_user_create :: "user_create \<Rightarrow> (string, user_create) result" where
  "validate_user_create p = bindR (all_hold
     [(username_pattern (uc_username p), ''username''),
      (opt_ok (max_length 255) (uc_email p), ''email''),
      (opt_ok (max_length 255) (uc_display_name p), ''display_name''),
      (opt_ok password_length (uc_password p), ''password''),
      (list_all SLUG_PATTERN (uc_group_slugs p), ''group_slugs''),
      (truthy (uc_password p) \<or> truthy (uc_idp_subject p),
       ''a user needs either a password (local auth) or an external_idp_subject (OIDC)''),
      (\<not> truthy (uc_idp_subject p) \<or> truthy (uc_idp_issuer p),
       ''external_idp_subject requires external_idp_issuer'')]) (\<lambda>_. Inr p)"

record user_update =
  uu_email :: "string sent"
  uu_display_name :: "string sent"
  uu_is_admin :: "bool sent"
  uu_is_active :: "bool sent"
  uu_password :: "string sent"
  uu_idp_issuer :: "string sent"
  uu_idp_subject :: "string sent"
  uu_group_slugs :: "string list sent"

definition validate_user_update :: "user_update \<Rightarrow> (string, user_update) result" where
  "validate_user_update p = bindR (all_hold
     [(sent_ok password_length (uu_password p), ''password''),
      (sent_ok (list_all SLUG_PATTERN) (uu_group_slugs p), ''group_slugs'')]) (\<lambda>_. Inr p)"

section \<open>Peers\<close>

record peer_create =
  pc_name :: string
  pc_description :: "string option"
  pc_peer_type :: peer_type
  pc_wg_public_key :: string
  pc_owner_user_id :: "string option"
  pc_group_slugs :: "string list"
  pc_tags :: "string list"
  pc_tunnel_ip :: "string option"
  pc_tunnel_ip6 :: "string option"
  pc_dns_label :: "string option"
  pc_zone_slug :: "string option"

definition validate_peer_create :: "peer_create \<Rightarrow> (string, peer_create) result" where
  "validate_peer_create p = bindR (all_hold
     [(max_length 128 (pc_name p), ''name''), (list_all SLUG_PATTERN (pc_group_slugs p), ''group_slugs''),
      (opt_ok DNS_LABEL_PATTERN (pc_dns_label p), ''dns_label''),
      (opt_ok SLUG_PATTERN (pc_zone_slug p), ''zone_slug'')]) (\<lambda>_.
     bindR (validate_wg_key (pc_wg_public_key p)) (\<lambda>key.
       if pc_peer_type p = USER \<and> pc_owner_user_id p = None
       then Inl ''a user peer must be bound to owner_user_id at creation''
       else Inr (p\<lparr>pc_wg_public_key := key\<rparr>)))"

record peer_update =
  pu_name :: "string sent"
  pu_description :: "string sent"
  pu_state :: "peer_state sent"
  pu_owner_user_id :: "string sent"
  pu_group_slugs :: "string list sent"
  pu_tags :: "string list sent"
  pu_dns_label :: "string sent"
  pu_zone_slug :: "string sent"

text \<open>\<open>rekeys\<close>: the body names \<open>wg_public_key\<close>, which the validator refuses.\<close>

definition validate_peer_update :: "bool \<Rightarrow> peer_update \<Rightarrow> (string, peer_update) result" where
  "validate_peer_update rekeys p =
     (if rekeys then Inl ''a peer's public key cannot be changed''
      else bindR (all_hold
        [(sent_ok (max_length 128) (pu_name p), ''name''),
         (sent_ok (list_all SLUG_PATTERN) (pu_group_slugs p), ''group_slugs''),
         (sent_ok DNS_LABEL_PATTERN (pu_dns_label p), ''dns_label''),
         (sent_ok SLUG_PATTERN (pu_zone_slug p), ''zone_slug'')]) (\<lambda>_. Inr p))"

section \<open>Access rules\<close>

record acl_endpoint =
  ae_kind :: endpoint_kind
  ae_group_slug :: "string option"
  ae_zone_slug :: "string option"
  ae_cidr :: "string option"

definition validate_acl_endpoint :: "acl_endpoint \<Rightarrow> (string, acl_endpoint) result" where
  "validate_acl_endpoint e = bindR (all_hold
     [(opt_ok SLUG_PATTERN (ae_group_slug e), ''group_slug''),
      (opt_ok SLUG_PATTERN (ae_zone_slug e), ''zone_slug'')]) (\<lambda>_.
     bindR (validate_cidr (ae_cidr e)) (\<lambda>c. bindR (all_hold
       [(ae_kind e = KGROUP \<longrightarrow> truthy (ae_group_slug e), ''kind=group requires group_slug''),
        (ae_kind e = KZONE \<longrightarrow> truthy (ae_zone_slug e), ''kind=zone requires zone_slug''),
        (ae_kind e = KCIDR \<longrightarrow> truthy c, ''kind=cidr requires cidr'')]) (\<lambda>_.
       Inr (e\<lparr>ae_cidr := c\<rparr>))))"

record acl_create =
  al_ref :: string
  al_name :: string
  al_description :: "string option"
  al_priority :: int
  al_enabled :: bool
  al_action :: action
  al_src :: acl_endpoint
  al_dst :: acl_endpoint
  al_protocol :: protocol
  al_dst_port_start :: "int option"
  al_dst_port_end :: "int option"

definition check_ports :: "protocol \<Rightarrow> int option \<Rightarrow> int option \<Rightarrow> (string, unit) result" where
  "check_ports proto first_port last_port = all_hold
     [(first_port = None \<longrightarrow> last_port = None, ''dst_port_end requires dst_port_start''),
      (first_port \<noteq> None \<longrightarrow> proto \<in> {TCP, UDP}, ''ports are only valid with protocol tcp or udp''),
      (case (first_port, last_port) of (Some a, Some b) \<Rightarrow> a \<le> b | _ \<Rightarrow> True,
       ''dst_port_end must be >= dst_port_start'')]"

definition validate_acl_create :: "acl_create \<Rightarrow> (string, acl_create) result" where
  "validate_acl_create p = bindR (all_hold
     [(REF_PATTERN (al_ref p), ''ref''), (max_length 128 (al_name p), ''name''),
      (0 \<le> al_priority p \<and> al_priority p \<le> 100000, ''priority''),
      (opt_ok is_port (al_dst_port_start p), ''dst_port_start''),
      (opt_ok is_port (al_dst_port_end p), ''dst_port_end'')]) (\<lambda>_.
     bindR (validate_acl_endpoint (al_src p)) (\<lambda>s.
     bindR (validate_acl_endpoint (al_dst p)) (\<lambda>t.
     bindR (check_ports (al_protocol p) (al_dst_port_start p) (al_dst_port_end p)) (\<lambda>_.
       Inr (p\<lparr>al_src := s, al_dst := t\<rparr>)))))"

record acl_update =
  an_name :: "string sent"
  an_description :: "string sent"
  an_priority :: "int sent"
  an_enabled :: "bool sent"
  an_action :: "action sent"
  an_src :: "acl_endpoint sent"
  an_dst :: "acl_endpoint sent"
  an_protocol :: "protocol sent"
  an_dst_port_start :: "int sent"
  an_dst_port_end :: "int sent"

fun validate_sent_endpoint :: "acl_endpoint sent \<Rightarrow> (string, acl_endpoint sent) result" where
  "validate_sent_endpoint (Some (Some e)) = bindR (validate_acl_endpoint e) (\<lambda>f. Inr (Some (Some f)))"
| "validate_sent_endpoint v = Inr v"

definition validate_acl_update :: "acl_update \<Rightarrow> (string, acl_update) result" where
  "validate_acl_update p = bindR (all_hold
     [(sent_ok (\<lambda>n. 0 \<le> n \<and> n \<le> 100000) (an_priority p), ''priority''),
      (sent_ok is_port (an_dst_port_start p), ''dst_port_start''),
      (sent_ok is_port (an_dst_port_end p), ''dst_port_end'')]) (\<lambda>_.
     bindR (validate_sent_endpoint (an_src p)) (\<lambda>s.
     bindR (validate_sent_endpoint (an_dst p)) (\<lambda>t. Inr (p\<lparr>an_src := s, an_dst := t\<rparr>))))"

section \<open>The kill switch\<close>

definition validate_kill_switch :: "kill_switch_mode \<Rightarrow> string \<Rightarrow> (string, kill_switch_mode) result" where
  "validate_kill_switch mode confirm =
     (if confirm \<noteq> CONFIRMATION mode
      then Inl (''confirm must be exactly '' @ CONFIRMATION mode @ '' to trigger mode '' @ kill_mode_value mode)
      else Inr mode)"

end
