(* ===== verification/PeersApi.thy ===== *)
theory PeersApi
  imports Schemas Ipam
begin

text \<open>
  \<open>api/routes/peers.py\<close>: registering, changing and removing a device, and the enrollment keys
  of server peers. Each handler reads the validated body and the database and ends in an
  exception, after which nothing of it remains, or in an answer and the committed database.
  What the database refuses at a flush is an \<open>IntegrityError\<close> the route answers with a 409;
  text that is not an address, or a tag longer than its column, is a \<open>DataError\<close> nobody catches.
\<close>

text \<open>\<open>repr\<close> of a text without quotes, and \<open>str\<close> of an \<open>IllegalTransition\<close>.\<close>

definition quoted :: "string \<Rightarrow> string" where
  "quoted s = CHR 0x27 # s @ [CHR 0x27]"

fun illegal_text :: "illegal_transition \<Rightarrow> string" where
  "illegal_text (IllegalTransition current target reason) =
     ''cannot move a peer from '' @ quoted (peer_state_value current) @ '' to '' @
     quoted (peer_state_value target) @ '': '' @ reason"

section \<open>Reading\<close>

record peer_read =
  rd_id :: string
  rd_name :: string
  rd_description :: "string option"
  rd_peer_type :: peer_type
  rd_state :: peer_state
  rd_wg_public_key :: string
  rd_wg_interface :: string
  rd_tunnel_ip :: "string option"
  rd_tunnel_ip6 :: "string option"
  rd_owner_user_id :: "string option"
  rd_dns_label :: "string option"
  rd_zone_slug :: "string option"
  rd_group_slugs :: "string list"
  rd_tags :: "string list"
  rd_enrollment_key_expires_at :: "datetime option"
  rd_enrolled_at :: "int option"
  rd_last_authenticated_at :: "datetime option"
  rd_created_at :: int

definition serialise_peer :: "db \<Rightarrow> peer_row \<Rightarrow> peer_read" where
  "serialise_peer d p = \<lparr>rd_id = pe_id p, rd_name = pe_name p, rd_description = pe_description p,
     rd_peer_type = pe_peer_type p, rd_state = pe_state p, rd_wg_public_key = pe_wg_public_key p,
     rd_wg_interface = pe_wg_interface p, rd_tunnel_ip = present_text (pe_tunnel_ip p),
     rd_tunnel_ip6 = present_text (pe_tunnel_ip6 p), rd_owner_user_id = pe_owner_user_id p,
     rd_dns_label = pe_dns_label p, rd_zone_slug = map_option gr_slug (peer_zone d p),
     rd_group_slugs = sort (map gr_slug (peer_groups d p)), rd_tags = sort (pe_tags p),
     rd_enrollment_key_expires_at = pe_enrollment_key_expires_at p,
     rd_enrolled_at = pe_enrolled_at p, rd_last_authenticated_at = pe_last_authenticated_at p,
     rd_created_at = pe_created_at p\<rparr>"

definition peer_or_404 :: "db \<Rightarrow> string \<Rightarrow> (http_exn, peer_row) result" where
  "peer_or_404 d i = (case find (\<lambda>p. pe_id p = i) (peers d) of
     None \<Rightarrow> Inl (HTTPException 404 ''peer not found'') | Some p \<Rightarrow> Inr p)"

definition list_peers ::
  "db \<Rightarrow> peer_type option \<Rightarrow> peer_state option \<Rightarrow> string list \<Rightarrow> string option \<Rightarrow> peer_read list" where
  "list_peers d peer_type state wanted_tags grp =
     map (serialise_peer d) (sort_key pe_name (filter (\<lambda>p.
       (case peer_type of None \<Rightarrow> True | Some t \<Rightarrow> pe_peer_type p = t) \<and>
       (case state of None \<Rightarrow> True | Some s \<Rightarrow> pe_state p = s) \<and>
       (truthy grp \<longrightarrow> list_ex (\<lambda>g. gr_slug g = the grp) (peer_groups d p)) \<and>
       list_all (\<lambda>n. n \<in> set (pe_tags p)) wanted_tags) (peers d)))"

section \<open>Resolving what a body names\<close>

definition ZONE_HINT :: string where
  "ZONE_HINT = ''use zone_slug (a peer belongs to at most one zone)''"

definition resolve_zone :: "db \<Rightarrow> string option \<Rightarrow> (http_exn, group_row option) result" where
  "resolve_zone d slug =
     (if \<not> truthy slug then Inr None
      else (case find (\<lambda>g. gr_slug g = the slug) (groups d) of
          None \<Rightarrow> Inl (HTTPException 422 (''unknown zone '' @ quoted (the slug)))
        | Some g \<Rightarrow> if gr_kind g = ZONE then Inr (Some g)
            else Inl (HTTPException 422 (''unknown zone '' @ quoted (the slug)))))"

definition dns_label_of :: "string option \<Rightarrow> string \<Rightarrow> string \<Rightarrow> string" where
  "dns_label_of payload_label name peer_id =
     (if truthy payload_label then the payload_label
      else (case derive_label name of Some l \<Rightarrow> l | None \<Rightarrow> fallback_label peer_id))"

text \<open>
  The names of the tags, created when missing. Creating one flushes the session; \<open>pending\<close> is
  whether what is already waiting there would be refused.
\<close>

definition resolve_tags :: "bool \<Rightarrow> db \<Rightarrow> string list \<Rightarrow> (http_exn, string list \<times> db) result" where
  "resolve_tags pending d names =
     (let fresh = filter (\<lambda>n. n \<notin> set (tags d)) (dict_keys names) in
      if fresh \<noteq> [] \<and> (pending \<or> list_ex (\<lambda>n. 64 < length n) fresh) then Inl Unhandled
      else Inr (dict_keys names, d\<lparr>tags := tags d @ fresh\<rparr>))"

section \<open>What the table refuses\<close>

text \<open>
  \<open>rq_inet\<close> is the text PostgreSQL keeps for an address literal, \<open>None\<close> when it refuses it. Two
  labels are the same when their lower case is.
\<close>

definition stored_inet :: "request \<Rightarrow> string option \<Rightarrow> (http_exn, string option) result" where
  "stored_inet rq v = (case v of None \<Rightarrow> Inr None
     | Some s \<Rightarrow> (case rq_inet rq s of None \<Rightarrow> Inl Unhandled | Some t \<Rightarrow> Inr (Some t)))"

definition taken_by :: "'a option \<Rightarrow> 'a option \<Rightarrow> bool" where
  "taken_by v w \<longleftrightarrow> v \<noteq> None \<and> v = w"

definition clashes :: "request \<Rightarrow> peer_row \<Rightarrow> peer_row \<Rightarrow> bool" where
  "clashes rq p q \<longleftrightarrow> pe_wg_public_key p = pe_wg_public_key q \<or>
     taken_by (Option.bind (pe_tunnel_ip p) (rq_inet rq)) (pe_tunnel_ip q) \<or>
     taken_by (Option.bind (pe_tunnel_ip6 p) (rq_inet rq)) (pe_tunnel_ip6 q) \<or>
     taken_by (map_option py_lower (pe_dns_label p)) (map_option py_lower (pe_dns_label q))"

definition owner_missing :: "db \<Rightarrow> string option \<Rightarrow> bool" where
  "owner_missing d k \<longleftrightarrow> k \<noteq> None \<and> user_by_id d k = None"

definition refused_insert :: "request \<Rightarrow> db \<Rightarrow> peer_row \<Rightarrow> bool" where
  "refused_insert rq d p \<longleftrightarrow> (pe_tunnel_ip p = None \<and> pe_tunnel_ip6 p = None) \<or>
     owner_missing d (pe_owner_user_id p) \<or> list_ex (clashes rq p) (peers d)"

section \<open>Registering\<close>

definition addresses_for ::
  "settings \<Rightarrow> peer_create \<Rightarrow> db \<Rightarrow> (http_exn, string option \<times> string option) result" where
  "addresses_for st p d =
     (if pc_tunnel_ip p = None \<and> pc_tunnel_ip6 p = None then
        (case allocate_addresses d
             (if truthy (st_wg_staging_pool_v4 st) then st_wg_staging_pool_v4 st else Some (st_wg_pool_v4 st))
             (if truthy (st_wg_staging_pool_v6 st) then st_wg_staging_pool_v6 st else st_wg_pool_v6 st)
             (gateway_ip st # portal_addresses st) of
           Inl e \<Rightarrow> Inl Unhandled | Inr a \<Rightarrow> Inr a)
      else Inr (pc_tunnel_ip p, pc_tunnel_ip6 p))"

definition new_peer ::
  "request \<Rightarrow> settings \<Rightarrow> peer_create \<Rightarrow> string option \<Rightarrow> string option \<Rightarrow> string list
     \<Rightarrow> string option \<Rightarrow> peer_row" where
  "new_peer rq st p ip ip6 gids zid =
     \<lparr>pe_id = rq_id rq, pe_name = pc_name p, pe_description = pc_description p,
      pe_peer_type = pc_peer_type p, pe_state = STAGING, pe_wg_public_key = pc_wg_public_key p,
      pe_wg_interface = st_wg_interface st, pe_tunnel_ip = ip, pe_tunnel_ip6 = ip6,
      pe_dns_label = Some (dns_label_of (pc_dns_label p) (pc_name p) (rq_id rq)),
      pe_owner_user_id = pc_owner_user_id p, pe_zone_id = zid, pe_enrollment_key_hash = None,
      pe_enrollment_key_expires_at = None, pe_enrolled_at = None, pe_last_authenticated_at = None,
      pe_created_at = rq_now rq, pe_group_ids = gids, pe_tags = []\<rparr>"

definition peer_created_detail :: "peer_create \<Rightarrow> string option \<Rightarrow> json" where
  "peer_created_detail p ip = JObj [(''name'', JStr (pc_name p)),
     (''type'', JStr (peer_type_value (pc_peer_type p))),
     (''ip'', JStr (case ip of None \<Rightarrow> ''None'' | Some a \<Rightarrow> a))]"

definition CREATE_CONFLICT :: string where
  "CREATE_CONFLICT = ''a peer with this public key, tunnel address or DNS label already exists (pass dns_label to choose a different name)''"

text \<open>
  From the insert to the commit. The row is rendered with the addresses as they were sent; a
  later transaction reads them as the column spells them.
\<close>

definition store_peer ::
  "request \<Rightarrow> settings \<Rightarrow> peer_create \<Rightarrow> peer_row \<Rightarrow> db \<Rightarrow> (http_exn, peer_read \<times> db) result" where
  "store_peer rq st p row d =
     bindR (stored_inet rq (pe_tunnel_ip row)) (\<lambda>kept. bindR (stored_inet rq (pe_tunnel_ip6 row)) (\<lambda>kept6.
       if refused_insert rq d row then Inl (HTTPException 409 CREATE_CONFLICT)
       else bindR (regenerate_or_422 rq st ''peer.create''
           (audit_as rq ''peer.create'' ''peer'' (Some (pe_id row)) (peer_created_detail p (pe_tunnel_ip row))
             (d\<lparr>peers := peers d @ [row]\<rparr>))) (\<lambda>d1.
         Inr (serialise_peer d1 row, update_peer (pe_id row)
           (\<lambda>q. q\<lparr>pe_tunnel_ip := kept, pe_tunnel_ip6 := kept6\<rparr>) d1))))"

definition create_peer ::
  "request \<Rightarrow> settings \<Rightarrow> peer_create \<Rightarrow> db \<Rightarrow> (http_exn, peer_read \<times> db) result" where
  "create_peer rq st p d =
     bindR (addresses_for st p d) (\<lambda>(ip, ip6).
     bindR (resolve_groups d (pc_group_slugs p) ZONE_HINT) (\<lambda>gs.
     bindR (resolve_zone d (pc_zone_slug p)) (\<lambda>z.
      (let row = new_peer rq st p ip ip6 (map gr_id gs) (map_option gr_id z)
       in bindR (resolve_tags (refused_insert rq d row) d (pc_tags p)) (\<lambda>(names, d1).
          store_peer rq st p (row\<lparr>pe_tags := names\<rparr>) d1)))))"

section \<open>Changing\<close>

definition USER_ACTIVE_REFUSED :: string where
  "USER_ACTIVE_REFUSED = ''a user peer becomes active by authenticating on the portal; an administrator can only quarantine, disable or revoke it''"

text \<open>The guard on the state, and whether the move is an administrator's override.\<close>

definition check_state :: "peer_row \<Rightarrow> peer_state sent \<Rightarrow> (http_exn, bool) result" where
  "check_state p change = (case change of Some (Some target) \<Rightarrow>
       (case assert_admin_transition (pe_state p) target of
          Inl e \<Rightarrow> Inl (HTTPException 409 (illegal_text e))
        | Inr _ \<Rightarrow>
            if target = ACTIVE \<and> pe_state p \<noteq> ACTIVE then
              (if pe_peer_type p = USER then Inl (HTTPException 409 USER_ACTIVE_REFUSED) else Inr True)
            else Inr False)
     | _ \<Rightarrow> Inr False)"

definition peer_changes :: "peer_update \<Rightarrow> string list" where
  "peer_changes u = sent_keys [(pu_name u \<noteq> None, ''name''), (pu_description u \<noteq> None, ''description''),
     (pu_state u \<noteq> None, ''state''), (pu_owner_user_id u \<noteq> None, ''owner_user_id''),
     (pu_group_slugs u \<noteq> None, ''group_slugs''), (pu_tags u \<noteq> None, ''tags''),
     (pu_dns_label u \<noteq> None, ''dns_label''), (pu_zone_slug u \<noteq> None, ''zone_slug'')]"

definition list_of_sent :: "'a list option \<Rightarrow> 'a list" where
  "list_of_sent v = (case v of None \<Rightarrow> [] | Some xs \<Rightarrow> xs)"

definition sent_groups :: "db \<Rightarrow> peer_row \<Rightarrow> string list sent \<Rightarrow> (http_exn, string list) result" where
  "sent_groups d p change = (case change of None \<Rightarrow> Inr (pe_group_ids p)
     | Some v \<Rightarrow> bindR (resolve_groups d (list_of_sent v) ZONE_HINT) (\<lambda>gs. Inr (map gr_id gs)))"

definition sent_zone :: "db \<Rightarrow> peer_row \<Rightarrow> string sent \<Rightarrow> (http_exn, string option) result" where
  "sent_zone d p change = (case change of None \<Rightarrow> Inr (pe_zone_id p)
     | Some v \<Rightarrow> bindR (resolve_zone d v) (\<lambda>z. Inr (map_option gr_id z)))"

definition sent_tags :: "db \<Rightarrow> peer_row \<Rightarrow> string list sent \<Rightarrow> (http_exn, string list \<times> db) result" where
  "sent_tags d p change = (case change of None \<Rightarrow> Inr (pe_tags p, d)
     | Some v \<Rightarrow> resolve_tags False d (list_of_sent v))"

definition changed_peer ::
  "peer_update \<Rightarrow> string list \<Rightarrow> string option \<Rightarrow> string list \<Rightarrow> peer_row \<Rightarrow> peer_row" where
  "changed_peer u gids zid names p = p\<lparr>pe_name := set_req (pu_name u) (pe_name p),
     pe_description := set_opt (pu_description u) (pe_description p),
     pe_state := set_req (pu_state u) (pe_state p),
     pe_owner_user_id := set_opt (pu_owner_user_id u) (pe_owner_user_id p),
     pe_dns_label := set_opt (pu_dns_label u) (pe_dns_label p),
     pe_group_ids := gids, pe_zone_id := zid, pe_tags := names\<rparr>"

text \<open>A null name or state, a label somebody else holds, an owner that does not exist.\<close>

definition refused_update :: "peer_update \<Rightarrow> db \<Rightarrow> peer_row \<Rightarrow> bool" where
  "refused_update u d p \<longleftrightarrow> is_null (pu_name u) \<or> is_null (pu_state u) \<or>
     owner_missing d (pe_owner_user_id p) \<or>
     list_ex (\<lambda>q. pe_id q \<noteq> pe_id p \<and>
       taken_by (map_option py_lower (pe_dns_label p)) (map_option py_lower (pe_dns_label q))) (peers d)"

definition override_detail :: "peer_state \<Rightarrow> peer_state \<Rightarrow> json" where
  "override_detail s t = JObj [(''from'', JStr (peer_state_value s)), (''to'', JStr (peer_state_value t))]"

definition note_override :: "request \<Rightarrow> peer_row \<Rightarrow> bool \<Rightarrow> db \<Rightarrow> db" where
  "note_override rq p override d = (if override then audit_as rq ''peer.state.override'' ''peer''
     (Some (pe_id p)) (override_detail (pe_state p) ACTIVE) d else d)"

text \<open>From the assignments to the commit: \<open>q\<close> is the row as changed.\<close>

definition store_change ::
  "request \<Rightarrow> settings \<Rightarrow> peer_update \<Rightarrow> peer_row \<Rightarrow> peer_row \<Rightarrow> db \<Rightarrow> (http_exn, peer_read \<times> db) result" where
  "store_change rq st u p q d =
     (let d1 = (if pe_state p = ACTIVE \<and> pe_state q \<noteq> ACTIVE
            then revoke_sessions (pe_id p) (rq_now rq) d else d)
      in if refused_update u d1 q
         then Inl (HTTPException 409 ''another peer already has that DNS label'')
         else bindR (regenerate_or_422 rq st ''peer.update''
             (audit_as rq ''peer.update'' ''peer'' (Some (pe_id p))
               (JObj [(''changes'', JList (map JStr (peer_changes u)))])
               (update_peer (pe_id p) (\<lambda>_. q) d1))) (\<lambda>d2. Inr (serialise_peer d2 q, d2)))"

definition change_peer ::
  "request \<Rightarrow> settings \<Rightarrow> peer_update \<Rightarrow> peer_row \<Rightarrow> db \<Rightarrow> (http_exn, peer_read \<times> db) result" where
  "change_peer rq st u p d =
     bindR (sent_groups d p (pu_group_slugs u)) (\<lambda>gids.
     bindR (sent_zone d p (pu_zone_slug u)) (\<lambda>zid.
     bindR (sent_tags d p (pu_tags u)) (\<lambda>(names, d1).
       store_change rq st u p (changed_peer u gids zid names p) d1)))"

definition patch_peer ::
  "request \<Rightarrow> settings \<Rightarrow> string \<Rightarrow> peer_update \<Rightarrow> db \<Rightarrow> (http_exn, peer_read \<times> db) result" where
  "patch_peer rq st i u d =
     bindR (peer_or_404 d i) (\<lambda>p.
     bindR (check_state p (pu_state u)) (\<lambda>override.
       change_peer rq st u p (note_override rq p override d)))"

section \<open>Removing\<close>

text \<open>The rows that go with a peer: its sessions, the routes through it, the services behind it.\<close>

definition remove_peer :: "string \<Rightarrow> db \<Rightarrow> db" where
  "remove_peer i d = d\<lparr>peers := filter (\<lambda>p. pe_id p \<noteq> i) (peers d),
     sessions := filter (\<lambda>s. se_peer_id s \<noteq> i) (sessions d),
     groups := map (\<lambda>g. g\<lparr>gr_routes := filter (\<lambda>r. zr_via_peer_id r \<noteq> Some i) (gr_routes g)\<rparr>) (groups d),
     services := filter (\<lambda>s. sv_upstream_peer_id s \<noteq> Some i) (services d)\<rparr>"

definition delete_peer ::
  "request \<Rightarrow> settings \<Rightarrow> string \<Rightarrow> db \<Rightarrow> (http_exn, db) result" where
  "delete_peer rq st i d =
     bindR (peer_or_404 d i) (\<lambda>p. regenerate_or_422 rq st ''peer.delete''
       (audit_as rq ''peer.delete'' ''peer'' (Some i) (JObj [(''name'', JStr (pe_name p))])
         (remove_peer i d)))"

section \<open>Enrollment keys\<close>

definition create_enrollment_key ::
  "request \<Rightarrow> settings \<Rightarrow> string \<Rightarrow> datetime option \<Rightarrow> db
     \<Rightarrow> (http_exn, (string \<times> datetime option) \<times> db) result" where
  "create_enrollment_key rq st i expires_at d =
     bindR (peer_or_404 d i) (\<lambda>p.
       if pe_peer_type p \<noteq> SERVER then Inl (HTTPException 409
         ''enrollment keys are for server peers; user peers authenticate on the portal'')
       else if (case expires_at of None \<Rightarrow> False | Some t \<Rightarrow> instant t \<le> rq_now rq)
       then Inl (HTTPException 422 ''expires_at is in the past'')
       else (let key = generate_key (rq_random rq); expiry = map_option (\<lambda>t. Aware (instant t)) expires_at;
                 d1 = update_peer i (\<lambda>q. q\<lparr>pe_enrollment_key_hash :=
                     Some (hash_key (rq_crypto rq) key (rq_salt rq)), pe_enrollment_key_expires_at := expiry\<rparr>) d
             in Inr ((key, expiry), audit_as rq ''peer.enrollment_key.create'' ''peer'' (Some i)
                  (JObj [(''expires_at'', (case expiry of None \<Rightarrow> JNull | Some t \<Rightarrow> JInt (instant t)))]) d1)))"

definition revoke_enrollment_key ::
  "request \<Rightarrow> settings \<Rightarrow> string \<Rightarrow> bool \<Rightarrow> db \<Rightarrow> (http_exn, db) result" where
  "revoke_enrollment_key rq st i quarantine d =
     bindR (peer_or_404 d i) (\<lambda>p. regenerate_or_422 rq st ''peer.enrollment_key.revoke''
       (audit_as rq ''peer.enrollment_key.revoke'' ''peer'' (Some i)
         (JObj [(''quarantined'', JBool quarantine)])
         (update_peer i (\<lambda>q. q\<lparr>pe_enrollment_key_hash := None, pe_enrollment_key_expires_at := None,
            pe_state := (if quarantine \<and> pe_state q \<noteq> REVOKED then QUARANTINED else pe_state q)\<rparr>) d)))"

end
