(* ===== verification/GroupsApi.thy ===== *)
theory GroupsApi
  imports PeersApi
begin

text \<open>
  \<open>api/routes/groups.py\<close> and \<open>api/routes/zones.py\<close>: two views of one table. A group names
  who, a zone is a network segment with its own routes; neither router reaches the rows of
  the other. Every change regenerates the ruleset before it commits.
\<close>

fun group_kind_value :: "group_kind \<Rightarrow> string" where
  "group_kind_value GROUP = ''group''"
| "group_kind_value ZONE = ''zone''"

definition update_group_row :: "string \<Rightarrow> (group_row \<Rightarrow> group_row) \<Rightarrow> db \<Rightarrow> db" where
  "update_group_row i f d = d\<lparr>groups := map (\<lambda>g. if gr_id g = i then f g else g) (groups d)\<rparr>"

definition slug_taken :: "db \<Rightarrow> string \<Rightarrow> bool" where
  "slug_taken d slug \<longleftrightarrow> list_ex (\<lambda>g. gr_slug g = slug) (groups d)"

definition parent_missing :: "db \<Rightarrow> string option \<Rightarrow> bool" where
  "parent_missing d k \<longleftrightarrow> k \<noteq> None \<and> group_by_id d k = None"

definition slug_entry :: "request \<Rightarrow> string \<Rightarrow> string \<Rightarrow> group_row \<Rightarrow> (string \<times> json) list \<Rightarrow> db \<Rightarrow> db" where
  "slug_entry rq act object_type g extra d =
     audit_as rq act object_type (Some (gr_id g)) (JObj ((''slug'', JStr (gr_slug g)) # extra)) d"

text \<open>
  What goes with a row of this table: memberships, rules that name it, what services demand of
  it; peers that sat in it are left without a zone, children without a parent.
\<close>

definition remove_group :: "string \<Rightarrow> db \<Rightarrow> db" where
  "remove_group i d = d\<lparr>
     groups := map (\<lambda>g. if gr_parent_id g = Some i then g\<lparr>gr_parent_id := None\<rparr> else g)
       (filter (\<lambda>g. gr_id g \<noteq> i) (groups d)),
     peers := map (\<lambda>p. p\<lparr>pe_group_ids := filter (\<lambda>k. k \<noteq> i) (pe_group_ids p),
       pe_zone_id := (if pe_zone_id p = Some i then None else pe_zone_id p)\<rparr>) (peers d),
     users := map (\<lambda>u. u\<lparr>us_group_ids := filter (\<lambda>k. k \<noteq> i) (us_group_ids u)\<rparr>) (users d),
     acl_rules := filter (\<lambda>r. ac_src_group_id r \<noteq> Some i \<and> ac_dst_group_id r \<noteq> Some i) (acl_rules d),
     services := map (\<lambda>s. s\<lparr>sv_access := filter (\<lambda>x. sx_group_id x \<noteq> Some i) (sv_access s),
       sv_authenticators := map (\<lambda>a. a\<lparr>sa_group_ids := filter (\<lambda>k. k \<noteq> i) (sa_group_ids a)\<rparr>)
         (sv_authenticators s)\<rparr>) (services d)\<rparr>"

section \<open>Groups\<close>

definition plain_group_or_404 :: "db \<Rightarrow> string \<Rightarrow> (http_exn, group_row) result" where
  "plain_group_or_404 d i = (case group_by_id d (Some i) of
     None \<Rightarrow> Inl (HTTPException 404 ''group not found'')
   | Some g \<Rightarrow> if gr_kind g = ZONE then Inl (HTTPException 404 ''group not found'') else Inr g)"

definition list_groups :: "db \<Rightarrow> group_row list" where
  "list_groups d = sort_key gr_slug (filter (\<lambda>g. gr_kind g \<noteq> ZONE) (groups d))"

definition create_group ::
  "request \<Rightarrow> settings \<Rightarrow> group_create \<Rightarrow> db \<Rightarrow> (http_exn, group_row \<times> db) result" where
  "create_group rq st p d =
     (if gc_kind p = ZONE then Inl (HTTPException 422 ''create zones through POST /api/v1/zones'')
      else (let g = \<lparr>gr_id = rq_id rq, gr_slug = gc_slug p, gr_name = gc_name p,
                 gr_description = gc_description p, gr_kind = gc_kind p, gr_parent_id = gc_parent_id p,
                 gr_internet_exit = gc_internet_exit p, gr_intra_zone = False,
                 gr_session_lifetime_seconds = gc_session_lifetime_seconds p, gr_routes = []\<rparr>
            in if slug_taken d (gc_slug p) \<or> parent_missing d (gc_parent_id p)
               then Inl (HTTPException 409 (''group slug '' @ quoted (gc_slug p) @ '' already exists''))
               else bindR (regenerate_or_422 rq st ''group.create''
                   (slug_entry rq ''group.create'' ''group'' g [] (d\<lparr>groups := groups d @ [g]\<rparr>)))
                 (\<lambda>d'. Inr (g, d'))))"

definition group_changes :: "group_update \<Rightarrow> string list" where
  "group_changes p = sent_keys [(gu_name p \<noteq> None, ''name''), (gu_description p \<noteq> None, ''description''),
     (gu_internet_exit p \<noteq> None, ''internet_exit''),
     (gu_session_lifetime_seconds p \<noteq> None, ''session_lifetime_seconds''),
     (gu_parent_id p \<noteq> None, ''parent_id'')]"

definition changed_group :: "group_update \<Rightarrow> group_row \<Rightarrow> group_row" where
  "changed_group p g = g\<lparr>gr_name := set_req (gu_name p) (gr_name g),
     gr_description := set_opt (gu_description p) (gr_description g),
     gr_internet_exit := set_req (gu_internet_exit p) (gr_internet_exit g),
     gr_session_lifetime_seconds := set_opt (gu_session_lifetime_seconds p) (gr_session_lifetime_seconds g),
     gr_parent_id := set_opt (gu_parent_id p) (gr_parent_id g)\<rparr>"

text \<open>Nothing catches what the flush of an update raises.\<close>

definition patch_group ::
  "request \<Rightarrow> settings \<Rightarrow> string \<Rightarrow> group_update \<Rightarrow> db \<Rightarrow> (http_exn, group_row \<times> db) result" where
  "patch_group rq st i p d =
     bindR (plain_group_or_404 d i) (\<lambda>g.
      (let h = changed_group p g in
       if is_null (gu_name p) \<or> is_null (gu_internet_exit p) \<or> parent_missing d (gr_parent_id h) \<or>
          gr_parent_id h = Some i then Inl Unhandled
       else bindR (regenerate_or_422 rq st ''group.update''
           (slug_entry rq ''group.update'' ''group'' h
             [(''changes'', JList (map JStr (group_changes p)))] (update_group_row i (\<lambda>_. h) d)))
         (\<lambda>d'. Inr (h, d'))))"

definition delete_group :: "request \<Rightarrow> settings \<Rightarrow> string \<Rightarrow> db \<Rightarrow> (http_exn, db) result" where
  "delete_group rq st i d =
     bindR (plain_group_or_404 d i) (\<lambda>g. regenerate_or_422 rq st ''group.delete''
       (slug_entry rq ''group.delete'' ''group'' g [] (remove_group i d)))"

section \<open>Zones\<close>

definition zone_or_404 :: "db \<Rightarrow> string \<Rightarrow> (http_exn, group_row) result" where
  "zone_or_404 d i = (case group_by_id d (Some i) of
     None \<Rightarrow> Inl (HTTPException 404 ''zone not found'')
   | Some g \<Rightarrow> if gr_kind g \<noteq> ZONE then Inl (HTTPException 404 ''zone not found'') else Inr g)"

record zone_read =
  zn_row :: group_row
  zn_routes :: "route_row list"
  zn_peer_count :: nat

definition serialise_zone :: "db \<Rightarrow> group_row \<Rightarrow> zone_read" where
  "serialise_zone d z = \<lparr>zn_row = z, zn_routes = sort_key zr_cidr (gr_routes z),
     zn_peer_count = length (filter (\<lambda>p. pe_zone_id p = Some (gr_id z)) (peers d))\<rparr>"

definition list_zones :: "db \<Rightarrow> zone_read list" where
  "list_zones d = map (serialise_zone d) (sort_key gr_slug (filter (\<lambda>g. gr_kind g = ZONE) (groups d)))"

definition create_zone ::
  "request \<Rightarrow> settings \<Rightarrow> zone_create \<Rightarrow> db \<Rightarrow> (http_exn, zone_read \<times> db) result" where
  "create_zone rq st p d =
     (let z = \<lparr>gr_id = rq_id rq, gr_slug = zc_slug p, gr_name = zc_name p,
           gr_description = zc_description p, gr_kind = ZONE, gr_parent_id = None,
           gr_internet_exit = zc_internet_exit p, gr_intra_zone = zc_intra_zone p,
           gr_session_lifetime_seconds = zc_session_lifetime_seconds p, gr_routes = []\<rparr>
      in if slug_taken d (zc_slug p)
         then Inl (HTTPException 409 (''slug '' @ quoted (zc_slug p) @ '' is already taken (groups and zones share one namespace, so an ACL rule naming it is never ambiguous)''))
         else bindR (regenerate_or_422 rq st ''zone.create''
             (slug_entry rq ''zone.create'' ''zone'' z [] (d\<lparr>groups := groups d @ [z]\<rparr>)))
           (\<lambda>d'. Inr (serialise_zone d' z, d')))"

definition zone_changes :: "zone_update \<Rightarrow> string list" where
  "zone_changes p = sent_keys [(zu_name p \<noteq> None, ''name''), (zu_description p \<noteq> None, ''description''),
     (zu_internet_exit p \<noteq> None, ''internet_exit''), (zu_intra_zone p \<noteq> None, ''intra_zone''),
     (zu_session_lifetime_seconds p \<noteq> None, ''session_lifetime_seconds'')]"

definition changed_zone :: "zone_update \<Rightarrow> group_row \<Rightarrow> group_row" where
  "changed_zone p z = z\<lparr>gr_name := set_req (zu_name p) (gr_name z),
     gr_description := set_opt (zu_description p) (gr_description z),
     gr_internet_exit := set_req (zu_internet_exit p) (gr_internet_exit z),
     gr_intra_zone := set_req (zu_intra_zone p) (gr_intra_zone z),
     gr_session_lifetime_seconds := set_opt (zu_session_lifetime_seconds p) (gr_session_lifetime_seconds z)\<rparr>"

definition patch_zone ::
  "request \<Rightarrow> settings \<Rightarrow> string \<Rightarrow> zone_update \<Rightarrow> db \<Rightarrow> (http_exn, zone_read \<times> db) result" where
  "patch_zone rq st i p d =
     bindR (zone_or_404 d i) (\<lambda>z.
      (let y = changed_zone p z in
       if is_null (zu_name p) \<or> is_null (zu_internet_exit p) \<or> is_null (zu_intra_zone p)
       then Inl Unhandled
       else bindR (regenerate_or_422 rq st ''zone.update''
           (slug_entry rq ''zone.update'' ''zone'' y
             [(''changes'', JList (map JStr (zone_changes p)))] (update_group_row i (\<lambda>_. y) d)))
         (\<lambda>d'. Inr (serialise_zone d' y, d'))))"

definition delete_zone :: "request \<Rightarrow> settings \<Rightarrow> string \<Rightarrow> db \<Rightarrow> (http_exn, db) result" where
  "delete_zone rq st i d =
     bindR (zone_or_404 d i) (\<lambda>z. regenerate_or_422 rq st ''zone.delete''
       (slug_entry rq ''zone.delete'' ''zone'' z [] (remove_group i d)))"

section \<open>Routes\<close>

definition list_routes :: "db \<Rightarrow> string \<Rightarrow> (http_exn, route_row list) result" where
  "list_routes d i = bindR (zone_or_404 d i) (\<lambda>z. Inr (sort_key zr_cidr (gr_routes z)))"

definition unknown_peer :: "db \<Rightarrow> string option \<Rightarrow> bool" where
  "unknown_peer d via \<longleftrightarrow> (case via of None \<Rightarrow> False | Some i \<Rightarrow> \<not> list_ex (\<lambda>p. pe_id p = i) (peers d))"

definition route_entry :: "request \<Rightarrow> string \<Rightarrow> group_row \<Rightarrow> (string \<times> json) list \<Rightarrow> db \<Rightarrow> db" where
  "route_entry rq act z detail d = audit_as rq act ''zone'' (Some (gr_id z)) (JObj detail) d"

definition create_route ::
  "request \<Rightarrow> settings \<Rightarrow> string \<Rightarrow> route_create \<Rightarrow> db \<Rightarrow> (http_exn, route_row \<times> db) result" where
  "create_route rq st i p d =
     bindR (zone_or_404 d i) (\<lambda>z.
       if unknown_peer d (rc_via_peer_id p) then Inl (HTTPException 422 ''unknown via_peer_id'')
       else if list_ex (\<lambda>r. zr_cidr r = rc_cidr p) (gr_routes z)
       then Inl (HTTPException 409 (rc_cidr p @ '' is already routed in zone '' @ quoted (gr_slug z)))
       else (let r = \<lparr>zr_id = rq_id rq, zr_cidr = rc_cidr p, zr_via_peer_id = rc_via_peer_id p,
                  zr_description = rc_description p, zr_enabled = rc_enabled p\<rparr>
             in bindR (regenerate_or_422 rq st ''zone.route.create''
                 (route_entry rq ''zone.route.create'' z [(''cidr'', JStr (zr_cidr r)),
                    (''via_peer_id'', JStr (or_else (zr_via_peer_id r) []))]
                   (update_group_row i (\<lambda>g. g\<lparr>gr_routes := gr_routes g @ [r]\<rparr>) d)))
               (\<lambda>d'. Inr (r, d'))))"

definition route_changes :: "route_update \<Rightarrow> string list" where
  "route_changes p = sent_keys [(ru_via_peer_id p \<noteq> None, ''via_peer_id''),
     (ru_description p \<noteq> None, ''description''), (ru_enabled p \<noteq> None, ''enabled'')]"

definition changed_route :: "route_update \<Rightarrow> route_row \<Rightarrow> route_row" where
  "changed_route p r = r\<lparr>zr_via_peer_id := set_opt (ru_via_peer_id p) (zr_via_peer_id r),
     zr_description := set_opt (ru_description p) (zr_description r),
     zr_enabled := set_req (ru_enabled p) (zr_enabled r)\<rparr>"

definition route_or_404 :: "group_row \<Rightarrow> string \<Rightarrow> (http_exn, route_row) result" where
  "route_or_404 z k = (case find (\<lambda>r. zr_id r = k) (gr_routes z) of
     None \<Rightarrow> Inl (HTTPException 404 ''route not found in this zone'') | Some r \<Rightarrow> Inr r)"

definition update_route ::
  "request \<Rightarrow> settings \<Rightarrow> string \<Rightarrow> string \<Rightarrow> route_update \<Rightarrow> db \<Rightarrow> (http_exn, route_row \<times> db) result" where
  "update_route rq st i k p d =
     bindR (zone_or_404 d i) (\<lambda>z. bindR (route_or_404 z k) (\<lambda>r.
       if (case ru_via_peer_id p of Some v \<Rightarrow> unknown_peer d v | None \<Rightarrow> False)
       then Inl (HTTPException 422 ''unknown via_peer_id'')
       else if is_null (ru_enabled p) then Inl Unhandled
       else bindR (regenerate_or_422 rq st ''zone.route.update''
           (route_entry rq ''zone.route.update'' z [(''cidr'', JStr (zr_cidr r)),
              (''changes'', JList (map JStr (route_changes p)))]
             (update_group_row i (\<lambda>g. g\<lparr>gr_routes := map (\<lambda>s. if zr_id s = k
               then changed_route p s else s) (gr_routes g)\<rparr>) d)))
         (\<lambda>d'. Inr (changed_route p r, d'))))"

definition delete_route ::
  "request \<Rightarrow> settings \<Rightarrow> string \<Rightarrow> string \<Rightarrow> db \<Rightarrow> (http_exn, db) result" where
  "delete_route rq st i k d =
     bindR (zone_or_404 d i) (\<lambda>z. bindR (route_or_404 z k) (\<lambda>r.
       regenerate_or_422 rq st ''zone.route.delete''
         (route_entry rq ''zone.route.delete'' z [(''cidr'', JStr (zr_cidr r))]
           (update_group_row i (\<lambda>g. g\<lparr>gr_routes := filter (\<lambda>s. zr_id s \<noteq> k) (gr_routes g)\<rparr>) d))))"

end
