(* ===== verification/AclApi.thy ===== *)
theory AclApi
  imports GroupsApi
begin

text \<open>
  \<open>api/routes/acl.py\<close>: the rules of access. An endpoint that names a group or a zone is kept as
  the key of its row; its kind must be that row's.
\<close>

record endpoint_read =
  ed_kind :: endpoint_kind
  ed_group_slug :: "string option"
  ed_zone_slug :: "string option"
  ed_cidr :: "string option"

definition serialise_endpoint :: "endpoint_kind \<Rightarrow> group_row option \<Rightarrow> string option \<Rightarrow> endpoint_read" where
  "serialise_endpoint kind g cidr = \<lparr>ed_kind = kind,
     ed_group_slug = (if kind \<noteq> KZONE then map_option gr_slug g else None),
     ed_zone_slug = (if kind = KZONE then map_option gr_slug g else None), ed_cidr = cidr\<rparr>"

record acl_read =
  ar_row :: acl_row
  ar_src :: endpoint_read
  ar_dst :: endpoint_read

definition serialise_rule :: "db \<Rightarrow> acl_row \<Rightarrow> acl_read" where
  "serialise_rule d r = \<lparr>ar_row = r,
     ar_src = serialise_endpoint (ac_src_kind r) (group_by_id d (ac_src_group_id r)) (ac_src_cidr r),
     ar_dst = serialise_endpoint (ac_dst_kind r) (group_by_id d (ac_dst_group_id r)) (ac_dst_cidr r)\<rparr>"

definition find_named ::
  "db \<Rightarrow> string option \<Rightarrow> group_kind \<Rightarrow> string \<Rightarrow> (http_exn, string option) result" where
  "find_named d slug expected label =
     (case find (\<lambda>g. Some (gr_slug g) = slug) (groups d) of
        None \<Rightarrow> Inl (HTTPException 422 (''unknown '' @ label @ '' '' @ quoted (or_else slug [])))
      | Some g \<Rightarrow> if gr_kind g \<noteq> expected
          then Inl (HTTPException 422 (quoted (gr_slug g) @ '' is a '' @ group_kind_value (gr_kind g) @
            '', not a '' @ label))
          else Inr (Some (gr_id g)))"

definition endpoint_group_id :: "db \<Rightarrow> acl_endpoint \<Rightarrow> (http_exn, string option) result" where
  "endpoint_group_id d e =
     (if ae_kind e = KGROUP then find_named d (ae_group_slug e) GROUP ''group''
      else if ae_kind e = KZONE then find_named d (ae_zone_slug e) ZONE ''zone''
      else Inr None)"

definition endpoint_columns ::
  "db \<Rightarrow> acl_endpoint \<Rightarrow> (http_exn, endpoint_kind \<times> string option \<times> string option) result" where
  "endpoint_columns d e = bindR (endpoint_group_id d e) (\<lambda>g.
     Inr (ae_kind e, g, if ae_kind e = KCIDR then ae_cidr e else None))"

definition list_rules :: "db \<Rightarrow> acl_read list" where
  "list_rules d = map (serialise_rule d) (sort_key (\<lambda>r. (ac_priority r, ac_ref r)) (acl_rules d))"

definition create_rule ::
  "request \<Rightarrow> settings \<Rightarrow> acl_create \<Rightarrow> db \<Rightarrow> (http_exn, acl_read \<times> db) result" where
  "create_rule rq st p d =
     bindR (endpoint_columns d (al_src p)) (\<lambda>(sk, sg, sc).
     bindR (endpoint_columns d (al_dst p)) (\<lambda>(dk, dg, dc).
      (let r = \<lparr>ac_id = rq_id rq, ac_ref = al_ref p, ac_name = al_name p, ac_description = al_description p,
           ac_priority = al_priority p, ac_enabled = al_enabled p, ac_action = al_action p,
           ac_src_kind = sk, ac_src_group_id = sg, ac_src_cidr = sc, ac_dst_kind = dk,
           ac_dst_group_id = dg, ac_dst_cidr = dc, ac_protocol = al_protocol p,
           ac_dst_port_start = al_dst_port_start p, ac_dst_port_end = al_dst_port_end p\<rparr>
       in if list_ex (\<lambda>q. ac_ref q = al_ref p) (acl_rules d)
          then Inl (HTTPException 409 (''rule ref '' @ quoted (al_ref p) @ '' already exists''))
          else bindR (regenerate_or_422 rq st ''acl.create''
              (audit_as rq ''acl.create'' ''acl_rule'' (Some (ac_id r)) (JObj [(''ref'', JStr (ac_ref r))])
                (d\<lparr>acl_rules := acl_rules d @ [r]\<rparr>)))
            (\<lambda>d'. Inr (serialise_rule d' r, d')))))"

definition rule_or_404 :: "db \<Rightarrow> string \<Rightarrow> (http_exn, acl_row) result" where
  "rule_or_404 d i = (case find (\<lambda>r. ac_id r = i) (acl_rules d) of
     None \<Rightarrow> Inl (HTTPException 404 ''acl rule not found'') | Some r \<Rightarrow> Inr r)"

definition rule_changes :: "acl_update \<Rightarrow> string list" where
  "rule_changes p = sent_keys [(an_name p \<noteq> None, ''name''), (an_description p \<noteq> None, ''description''),
     (an_priority p \<noteq> None, ''priority''), (an_enabled p \<noteq> None, ''enabled''),
     (an_action p \<noteq> None, ''action''), (an_src p \<noteq> None, ''src''), (an_dst p \<noteq> None, ''dst''),
     (an_protocol p \<noteq> None, ''protocol''), (an_dst_port_start p \<noteq> None, ''dst_port_start''),
     (an_dst_port_end p \<noteq> None, ''dst_port_end'')]"

definition sent_columns ::
  "db \<Rightarrow> acl_endpoint sent \<Rightarrow> endpoint_kind \<times> string option \<times> string option
     \<Rightarrow> (http_exn, endpoint_kind \<times> string option \<times> string option) result" where
  "sent_columns d e old = (case e of Some (Some f) \<Rightarrow> endpoint_columns d f | _ \<Rightarrow> Inr old)"

definition changed_rule ::
  "acl_update \<Rightarrow> endpoint_kind \<times> string option \<times> string option
     \<Rightarrow> endpoint_kind \<times> string option \<times> string option \<Rightarrow> acl_row \<Rightarrow> acl_row" where
  "changed_rule p s t r = r\<lparr>ac_name := set_req (an_name p) (ac_name r),
     ac_description := set_opt (an_description p) (ac_description r),
     ac_priority := set_req (an_priority p) (ac_priority r),
     ac_enabled := set_req (an_enabled p) (ac_enabled r),
     ac_action := set_req (an_action p) (ac_action r),
     ac_src_kind := fst s, ac_src_group_id := fst (snd s), ac_src_cidr := snd (snd s),
     ac_dst_kind := fst t, ac_dst_group_id := fst (snd t), ac_dst_cidr := snd (snd t),
     ac_protocol := set_req (an_protocol p) (ac_protocol r),
     ac_dst_port_start := set_opt (an_dst_port_start p) (ac_dst_port_start r),
     ac_dst_port_end := set_opt (an_dst_port_end p) (ac_dst_port_end r)\<rparr>"

text \<open>
  What the table refuses of an update, which nothing catches: a null, a name too long, ports
  without a protocol that has them, a range without a start or in the wrong order.
\<close>

definition refused_rule :: "acl_update \<Rightarrow> acl_row \<Rightarrow> bool" where
  "refused_rule p r \<longleftrightarrow> is_null (an_name p) \<or> is_null (an_priority p) \<or> is_null (an_enabled p) \<or>
     is_null (an_action p) \<or> is_null (an_protocol p) \<or> \<not> max_length 128 (ac_name r) \<or>
     check_ports (ac_protocol r) (ac_dst_port_start r) (ac_dst_port_end r) \<noteq> Inr ()"

definition patch_rule ::
  "request \<Rightarrow> settings \<Rightarrow> string \<Rightarrow> acl_update \<Rightarrow> db \<Rightarrow> (http_exn, acl_read \<times> db) result" where
  "patch_rule rq st i p d =
     bindR (rule_or_404 d i) (\<lambda>r.
     bindR (sent_columns d (an_src p) (ac_src_kind r, ac_src_group_id r, ac_src_cidr r)) (\<lambda>s.
     bindR (sent_columns d (an_dst p) (ac_dst_kind r, ac_dst_group_id r, ac_dst_cidr r)) (\<lambda>t.
      (let q = changed_rule p s t r in
       if refused_rule p q then Inl Unhandled
       else bindR (regenerate_or_422 rq st ''acl.update''
           (audit_as rq ''acl.update'' ''acl_rule'' (Some i)
             (JObj [(''ref'', JStr (ac_ref q)), (''changes'', JList (map JStr (rule_changes p)))])
             (d\<lparr>acl_rules := map (\<lambda>x. if ac_id x = i then q else x) (acl_rules d)\<rparr>)))
         (\<lambda>d'. Inr (serialise_rule d' q, d'))))))"

definition delete_rule :: "request \<Rightarrow> settings \<Rightarrow> string \<Rightarrow> db \<Rightarrow> (http_exn, db) result" where
  "delete_rule rq st i d =
     bindR (rule_or_404 d i) (\<lambda>r. regenerate_or_422 rq st ''acl.delete''
       (audit_as rq ''acl.delete'' ''acl_rule'' (Some i) (JObj [(''ref'', JStr (ac_ref r))])
         (d\<lparr>acl_rules := filter (\<lambda>x. ac_id x \<noteq> i) (acl_rules d)\<rparr>)))"

end
