(* ===== verification/AdminApi.thy ===== *)
theory AdminApi
  imports ApiDeps
begin

text \<open>
  \<open>api/routes/admin.py\<close> without its OIDC half: how an administrator signs in with a password,
  and what can be done to the sessions that come of it.
\<close>

definition admin_key :: "request \<Rightarrow> string" where
  "admin_key rq = ''admin:'' @ or_else (rq_client rq) ''unknown''"

record who_am_i =
  wh_user_id :: "string option"
  wh_username :: string
  wh_display_name :: "string option"
  wh_totp_enabled :: bool
  wh_via :: string

record admin_login_response =
  lr_token :: string
  lr_expires_at :: int
  lr_user :: who_am_i

definition signed_in_as :: "user_row \<Rightarrow> who_am_i" where
  "signed_in_as u = \<lparr>wh_user_id = Some (us_id u), wh_username = us_username u,
     wh_display_name = us_display_name u, wh_totp_enabled = us_totp_enabled u, wh_via = ''session''\<rparr>"

definition admin_denied_entry :: "request \<Rightarrow> string \<Rightarrow> string \<Rightarrow> audit_row" where
  "admin_denied_entry rq username reason =
     audit_entry ''admin.login.denied'' SYSTEM_ACTOR None (Some username) None None (rq_client rq)
       (JObj [(''reason'', JStr reason)])"

definition admin_login ::
  "request \<Rightarrow> settings \<Rightarrow> string \<Rightarrow> string \<Rightarrow> string option \<Rightarrow> string option \<Rightarrow> world
     \<Rightarrow> (http_exn, admin_login_response) result \<times> world" where
  "admin_login rq st username password totp_code user_agent w =
     (case guarded (wo_admin_login w) (admin_key rq) (rq_clock rq) of
        (Inl e, l) \<Rightarrow> (Inl e, w\<lparr>wo_admin_login := l\<rparr>)
      | (Inr _, l) \<Rightarrow>
        (case authenticate (rq_crypto rq) username password totp_code True (rq_now rq) (wo_db w) of
           Inl e \<Rightarrow> (Inl Unhandled, w\<lparr>wo_admin_login := l\<rparr>)
         | Inr (outcome, d) \<Rightarrow>
           (case ao_user outcome of
              None \<Rightarrow> (Inl (HTTPException 401 ''invalid credentials''),
                w\<lparr>wo_admin_login := record_failure l (admin_key rq) (rq_clock_late rq),
                  wo_db := audit_record (admin_denied_entry rq username (ao_reason outcome)) d\<rparr>)
            | Some u \<Rightarrow>
                (let ((row, token), d1) = issue (rq_crypto rq) (rq_id rq) (rq_random rq) (rq_salt rq) u
                       (st_admin_session_lifetime_seconds st) (rq_client rq) user_agent (rq_now rq) d;
                     d2 = audit_record (audit_entry ''admin.login'' ADMIN_ACTOR (Some (us_id u))
                       (Some (us_username u)) None None (rq_client rq)
                       (JObj [(''session'', JStr (as_id row))])) d1
                 in (Inr \<lparr>lr_token = token, lr_expires_at = as_expires_at row, lr_user = signed_in_as u\<rparr>,
                     w\<lparr>wo_admin_login := reset l (admin_key rq), wo_db := d2\<rparr>)))))"

text \<open>The entry of an identified administrator that names no object.\<close>

definition admin_entry :: "request \<Rightarrow> string \<Rightarrow> string option \<Rightarrow> string option \<Rightarrow> json \<Rightarrow> db \<Rightarrow> db" where
  "admin_entry rq act object_type object_id detail d =
     audit_record (case rq_admin rq of
         None \<Rightarrow> audit_entry act ADMIN_ACTOR None None object_type object_id (rq_client rq) detail
       | Some i \<Rightarrow> audit_entry act (ai_actor_type i) (ai_user_id i) (Some (ai_label i))
           object_type object_id (rq_client rq) detail) d"

definition presented_session ::
  "request \<Rightarrow> string option \<Rightarrow> db \<Rightarrow> (http_exn, admin_session_row option \<times> db) result" where
  "presented_session rq authorization d =
     (case bearer_token authorization of None \<Rightarrow> Inr (None, d)
      | Some t \<Rightarrow> (case resolve (rq_crypto rq) t (rq_now rq) d of
          Inl e \<Rightarrow> Inl Unhandled | Inr r \<Rightarrow> Inr r))"

definition admin_logout :: "request \<Rightarrow> string option \<Rightarrow> db \<Rightarrow> (http_exn, db) result" where
  "admin_logout rq authorization d =
     bindR (presented_session rq authorization d) (\<lambda>(row, d1). Inr (case row of None \<Rightarrow> d1
       | Some r \<Rightarrow> admin_entry rq ''admin.logout'' None None (JObj [(''session'', JStr (as_id r))])
           (revoke r (rq_now rq) d1)))"

record admin_session_read =
  ax_row :: admin_session_row
  ax_username :: string
  ax_current :: bool

definition list_admin_sessions ::
  "request \<Rightarrow> string option \<Rightarrow> db \<Rightarrow> (http_exn, admin_session_read list) result" where
  "list_admin_sessions rq authorization d =
     bindR (presented_session rq authorization d) (\<lambda>(current, d1).
       Inr (concat (map (\<lambda>r. case user_by_id d1 (Some (as_user_id r)) of None \<Rightarrow> []
          | Some u \<Rightarrow> [\<lparr>ax_row = r, ax_username = us_username u,
              ax_current = (map_option as_id current = Some (as_id r))\<rparr>])
         (sort_key (\<lambda>r. - as_last_seen_at r) (filter (usable (rq_now rq)) (admin_sessions d1))))))"

definition revoke_session :: "request \<Rightarrow> string \<Rightarrow> db \<Rightarrow> (http_exn, db) result" where
  "revoke_session rq i d =
     (case find (\<lambda>r. as_id r = i) (admin_sessions d) of
        None \<Rightarrow> Inl (HTTPException 404 ''session not found'')
      | Some r \<Rightarrow> if as_revoked_at r \<noteq> None then Inl (HTTPException 404 ''session not found'')
          else Inr (admin_entry rq ''admin.session.revoke'' (Some ''admin_session'') (Some i)
            (JObj [(''user_id'', JStr (as_user_id r))]) (revoke r (rq_now rq) d)))"

definition whoami :: "admin_identity \<Rightarrow> db \<Rightarrow> who_am_i" where
  "whoami i d =
     (if \<not> is_person i then \<lparr>wh_user_id = None, wh_username = ai_label i, wh_display_name = None,
        wh_totp_enabled = False, wh_via = ''token''\<rparr>
      else (let u = user_by_id d (ai_user_id i) in
        \<lparr>wh_user_id = ai_user_id i, wh_username = ai_label i,
         wh_display_name = Option.bind u us_display_name,
         wh_totp_enabled = (case u of None \<Rightarrow> False | Some v \<Rightarrow> us_totp_enabled v), wh_via = ''session''\<rparr>))"

end
