(* ===== verification/SsoService.thy ===== *)
theory SsoService
  imports PeersApi
begin

text \<open>
  \<open>services/sso.py\<close>: the browser session of a person on the published services. The proxy
  checks the signed cookie by itself, so what is modelled is what goes into the cookie, the
  rows behind it, and the list of the sessions the proxy is told to refuse. Signing is a
  parameter.
\<close>

definition MIN_SECRET_LENGTH :: nat where "MIN_SECRET_LENGTH = 32"

definition GROUP_DELIMITER :: string where "GROUP_DELIMITER = '',''"

definition group_claim :: "string list \<Rightarrow> string" where
  "group_claim slugs = (if slugs = [] then GROUP_DELIMITER
     else GROUP_DELIMITER @ join GROUP_DELIMITER slugs @ GROUP_DELIMITER)"

definition user_groups :: "db \<Rightarrow> user_row \<Rightarrow> group_row list" where
  "user_groups d u = filter (\<lambda>g. gr_id g \<in> set (us_group_ids u)) (groups d)"

definition member_slugs :: "db \<Rightarrow> user_row \<Rightarrow> string list" where
  "member_slugs d u = sort (map gr_slug (filter (\<lambda>g. gr_kind g = GROUP) (user_groups d u)))"

definition sso_secret :: "settings \<Rightarrow> string" where
  "sso_secret st = or_else (px_sso_secret (st_proxy st)) []"

definition secret_problem :: "settings \<Rightarrow> string option" where
  "secret_problem st =
     (let secret = sso_secret st in
      if secret = [] then Some ''FOXGUARD_PROXY_SSO_SECRET is unset''
      else if length secret < MIN_SECRET_LENGTH
      then Some (''FOXGUARD_PROXY_SSO_SECRET is '' @ show_int (int (length secret)) @ '' characters'')
      else None)"

text \<open>The claims of the cookie; the two instants are whole seconds.\<close>

record sso_claims =
  cl_sub :: string
  cl_jti :: string
  cl_iat :: int
  cl_exp :: int
  cl_admin :: int
  cl_groups :: string

definition sso_issue ::
  "(string \<Rightarrow> sso_claims \<Rightarrow> string) \<Rightarrow> string \<Rightarrow> int \<Rightarrow> settings \<Rightarrow> user_row \<Rightarrow> string option \<Rightarrow> string option
     \<Rightarrow> db \<Rightarrow> (string, (string \<times> sso_row) \<times> db) result" where
  "sso_issue sign fresh now st u source_ip user_agent d =
     (case secret_problem st of Some problem \<Rightarrow> Inl problem
      | None \<Rightarrow>
          (let expires = add_seconds now (px_sso_lifetime_seconds (st_proxy st));
               agent = take 255 (or_else user_agent []);
               row = \<lparr>ss_id = fresh, ss_user_id = us_id u, ss_source_ip = source_ip,
                 ss_user_agent = (if agent = [] then None else Some agent), ss_expires_at = expires,
                 ss_revoked_at = None\<rparr>;
               claims = \<lparr>cl_sub = us_username u, cl_jti = fresh, cl_iat = now div 1000000,
                 cl_exp = expires div 1000000, cl_admin = (if us_is_admin u then 1 else 0),
                 cl_groups = group_claim (member_slugs d u)\<rparr>
           in Inr ((sign (sso_secret st) claims, row), d\<lparr>sso_sessions := sso_sessions d @ [row]\<rparr>)))"

definition end_sso :: "(sso_row \<Rightarrow> bool) \<Rightarrow> int \<Rightarrow> db \<Rightarrow> nat \<times> db" where
  "end_sso which now d =
     (length (filter (\<lambda>s. which s \<and> ss_revoked_at s = None) (sso_sessions d)),
      d\<lparr>sso_sessions := map (\<lambda>s. if which s \<and> ss_revoked_at s = None
         then s\<lparr>ss_revoked_at := Some now\<rparr> else s) (sso_sessions d)\<rparr>)"

definition sso_revoke :: "string \<Rightarrow> int \<Rightarrow> db \<Rightarrow> bool \<times> db" where
  "sso_revoke i now d = (let (n, d') = end_sso (\<lambda>s. ss_id s = i) now d in (0 < n, d'))"

definition revoke_for_user :: "string \<Rightarrow> int \<Rightarrow> db \<Rightarrow> nat \<times> db" where
  "revoke_for_user i now d = end_sso (\<lambda>s. ss_user_id s = i) now d"

definition revoked_jtis :: "int \<Rightarrow> db \<Rightarrow> string list" where
  "revoked_jtis now d = sort (map ss_id
     (filter (\<lambda>s. ss_revoked_at s \<noteq> None \<and> now < ss_expires_at s) (sso_sessions d)))"

definition sweep_expired :: "int \<Rightarrow> db \<Rightarrow> nat \<times> db" where
  "sweep_expired now d =
     (length (filter (\<lambda>s. ss_expires_at s < now) (sso_sessions d)),
      d\<lparr>sso_sessions := filter (\<lambda>s. \<not> ss_expires_at s < now) (sso_sessions d)\<rparr>)"

section \<open>Membership in the claim\<close>

lemma contains_str_iff: "contains_str p s \<longleftrightarrow> (\<exists>a b. s = a @ p @ b)"
proof (induction s)
  case (Cons x xs)
  have st: "starts_with p y \<longleftrightarrow> (\<exists>b. y = p @ b)" for y
    by (auto simp: starts_with_def) (metis append_take_drop_id)
  have "(\<exists>a b. x # xs = a @ p @ b) \<longleftrightarrow> (\<exists>b. x # xs = p @ b) \<or> (\<exists>a b. xs = a @ p @ b)"
    by (metis append_Cons append_Nil neq_Nil_conv list.inject)
  then show ?case using Cons st by simp
qed simp

text \<open>Cutting a claim at its delimiters gives an empty text, the slugs, and an empty text.\<close>

lemma split_claim:
  assumes "\<And>s. s \<in> set slugs \<Longrightarrow> CHR '','' \<notin> set s" and "slugs \<noteq> []"
  shows "split_on (CHR '','') (group_claim slugs) = [] # slugs @ [[]]"
proof -
  have "group_claim slugs = join '','' ([] # slugs @ [[]])"
    using assms(2) by (cases slugs) (simp_all add: group_claim_def GROUP_DELIMITER_def
      join_append_single flip: append_Cons)
  moreover have "split_on (CHR '','') (join '','' ([] # slugs @ [[]])) = [] # slugs @ [[]]"
    using assms(1) by (intro split_on_join) auto
  ultimately show ?thesis by simp
qed

lemma split_on_middle:
  assumes "c \<notin> set s"
  shows "split_on c (a @ c # s @ c # b) = split_on c a @ s # split_on c b"
proof (induction a)
  case Nil
  then show ?case using split_on_append [OF assms] by simp
next
  case (Cons x a)
  have "split_on c a \<noteq> []" by simp
  with Cons show ?case by (cases "split_on c a") auto
qed

lemma claim_matches:
  assumes "\<And>s. s \<in> set slugs \<Longrightarrow> CHR '','' \<notin> set s" and "CHR '','' \<notin> set s" and "s \<noteq> []"
  shows "contains_str ('','' @ s @ '','') (group_claim slugs) \<longleftrightarrow> s \<in> set slugs"
proof (cases "slugs = []")
  case True
  then show ?thesis using assms(3)
    by (auto simp: contains_str_iff group_claim_def GROUP_DELIMITER_def Cons_eq_append_conv)
next
  case False
  note sp = split_claim [OF assms(1) False]
  show ?thesis
  proof
    assume "contains_str ('','' @ s @ '','') (group_claim slugs)"
    then obtain a b where "group_claim slugs = a @ CHR '','' # s @ CHR '','' # b"
      by (auto simp: contains_str_iff)
    then have "[] # slugs @ [[]] = split_on (CHR '','') a @ s # split_on (CHR '','') b"
      using sp split_on_middle [OF assms(2)] by metis
    then have "s \<in> set ([] # slugs @ [[]])" by (metis in_set_conv_decomp)
    then show "s \<in> set slugs" using assms(3) by auto
  next
    assume "s \<in> set slugs"
    then obtain xs ys where x: "slugs = xs @ s # ys" by (meson split_list)
    have k: "\<exists>b. join '','' (t # zs) @ '','' = t @ '','' @ b" for zs t
      by (cases zs) auto
    have l: "zs \<noteq> [] \<Longrightarrow> ws \<noteq> [] \<Longrightarrow> join '','' (zs @ ws) = join '','' zs @ '','' @ join '','' ws" for zs ws
      by (induction "'',''" zs rule: join.induct) (auto simp: neq_Nil_conv)
    show "contains_str ('','' @ s @ '','') (group_claim slugs)"
    proof (cases "xs = []")
      case True
      then show ?thesis using x k [of s ys]
        by (auto simp: contains_str_iff group_claim_def GROUP_DELIMITER_def) (metis append_Nil)
    next
      case False
      then have "group_claim slugs = ('','' @ join '','' xs) @ '','' @ (join '','' (s # ys) @ '','')"
        using x l [of xs "s # ys"] by (simp add: group_claim_def GROUP_DELIMITER_def)
      moreover obtain b where "join '','' (s # ys) @ '','' = s @ '','' @ b" using k by blast
      ultimately show ?thesis by (auto simp: contains_str_iff) (metis append_Cons append.assoc)
    qed
  qed
qed

end
