(* ===== verification/UsersApi.thy ===== *)
theory UsersApi
  imports SsoService
begin

text \<open>
  \<open>api/routes/users.py\<close>: accounts, their groups and their second factor.
\<close>

definition USER_ZONE_HINT :: string where
  "USER_ZONE_HINT = ''a zone is a routed network segment and a person does not sit in one; put their devices in it instead''"

definition user_or_404 :: "db \<Rightarrow> string \<Rightarrow> (http_exn, user_row) result" where
  "user_or_404 d i = (case user_by_id d (Some i) of
     None \<Rightarrow> Inl (HTTPException 404 ''user not found'') | Some u \<Rightarrow> Inr u)"

record user_read =
  ur_id :: string
  ur_username :: string
  ur_email :: "string option"
  ur_display_name :: "string option"
  ur_is_admin :: bool
  ur_is_active :: bool
  ur_totp_enabled :: bool
  ur_last_login_at :: "int option"
  ur_auth_methods :: "auth_method list"
  ur_group_slugs :: "string list"

definition serialise_user :: "db \<Rightarrow> user_row \<Rightarrow> user_read" where
  "serialise_user d u = \<lparr>ur_id = us_id u, ur_username = us_username u, ur_email = us_email u,
     ur_display_name = us_display_name u, ur_is_admin = us_is_admin u, ur_is_active = us_is_active u,
     ur_totp_enabled = us_totp_enabled u, ur_last_login_at = us_last_login_at u,
     ur_auth_methods = available_auth_methods u,
     ur_group_slugs = sort (map gr_slug (user_groups d u))\<rparr>"

definition list_users :: "db \<Rightarrow> user_read list" where
  "list_users d = map (serialise_user d) (sort_key us_username (users d))"

text \<open>
  What the table refuses of a row: no credential, or an identity of the provider that another
  account is bound to. Two rows with an absent half of that pair never clash.
\<close>

definition idp_clash :: "user_row \<Rightarrow> user_row \<Rightarrow> bool" where
  "idp_clash u v \<longleftrightarrow> us_idp_issuer u \<noteq> None \<and> us_idp_subject u \<noteq> None \<and>
     us_idp_issuer u = us_idp_issuer v \<and> us_idp_subject u = us_idp_subject v"

definition refused_user :: "db \<Rightarrow> user_row \<Rightarrow> bool" where
  "refused_user d u \<longleftrightarrow> (us_password_hash u = None \<and> us_idp_subject u = None) \<or>
     list_ex (\<lambda>v. us_id v \<noteq> us_id u \<and> (us_username v = us_username u \<or> idp_clash u v)) (users d)"

definition too_long :: "nat \<Rightarrow> string option \<Rightarrow> bool" where
  "too_long n v \<longleftrightarrow> \<not> opt_ok (max_length n) v"

definition new_user :: "request \<Rightarrow> user_create \<Rightarrow> string list \<Rightarrow> user_row" where
  "new_user rq p gids = \<lparr>us_id = rq_id rq, us_username = uc_username p, us_email = uc_email p,
     us_display_name = uc_display_name p, us_idp_issuer = uc_idp_issuer p,
     us_password_hash = (if truthy (uc_password p)
       then Some (cr_argon_hash (rq_crypto rq) (the (uc_password p))) else None),
     us_idp_subject = uc_idp_subject p, us_totp_secret = None, us_totp_enabled = False,
     us_totp_last_used_step = None, us_is_admin = uc_is_admin p,
     us_is_active = uc_is_active p, us_last_login_at = None, us_group_ids = gids\<rparr>"

definition created_user :: "request \<Rightarrow> user_row \<Rightarrow> db \<Rightarrow> db" where
  "created_user rq u d = audit_as rq ''user.create'' ''user'' (Some (us_id u))
     (JObj [(''username'', JStr (us_username u)), (''admin'', JBool (us_is_admin u))])
     (d\<lparr>users := users d @ [u]\<rparr>)"

definition create_user ::
  "request \<Rightarrow> user_create \<Rightarrow> db \<Rightarrow> (http_exn, user_read \<times> db) result" where
  "create_user rq p d =
     bindR (resolve_groups d (uc_group_slugs p) USER_ZONE_HINT) (\<lambda>gs.
      (let u = new_user rq p (map gr_id gs)
       in if too_long 255 (us_idp_issuer u) \<or> too_long 255 (us_idp_subject u) then Inl Unhandled
          else if refused_user d u then Inl (HTTPException 409 ''username or IdP subject already exists'')
          else Inr (serialise_user (created_user rq u d) u, created_user rq u d)))"

definition user_changes :: "user_update \<Rightarrow> string list" where
  "user_changes p = sent_keys [(uu_email p \<noteq> None, ''email''),
     (uu_display_name p \<noteq> None, ''display_name''), (uu_is_admin p \<noteq> None, ''is_admin''),
     (uu_is_active p \<noteq> None, ''is_active''), (uu_idp_issuer p \<noteq> None, ''external_idp_issuer''),
     (uu_idp_subject p \<noteq> None, ''external_idp_subject'')]"

definition changed_user ::
  "request \<Rightarrow> user_update \<Rightarrow> string list \<Rightarrow> user_row \<Rightarrow> user_row" where
  "changed_user rq p gids u = u\<lparr>us_email := set_opt (uu_email p) (us_email u),
     us_display_name := set_opt (uu_display_name p) (us_display_name u),
     us_is_admin := set_req (uu_is_admin p) (us_is_admin u),
     us_is_active := set_req (uu_is_active p) (us_is_active u),
     us_idp_issuer := set_opt (uu_idp_issuer p) (us_idp_issuer u),
     us_idp_subject := set_opt (uu_idp_subject p) (us_idp_subject u), us_group_ids := gids,
     us_password_hash := (case uu_password p of
         Some (Some pw) \<Rightarrow> if pw = [] then us_password_hash u else Some (cr_argon_hash (rq_crypto rq) pw)
       | _ \<Rightarrow> us_password_hash u)\<rparr>"

definition sent_password :: "user_update \<Rightarrow> bool" where
  "sent_password p \<longleftrightarrow> (case uu_password p of Some v \<Rightarrow> truthy v | None \<Rightarrow> False)"

text \<open>Nothing catches what the flush of an update raises.\<close>

definition refused_user_update :: "user_update \<Rightarrow> db \<Rightarrow> user_row \<Rightarrow> bool" where
  "refused_user_update p d u \<longleftrightarrow> is_null (uu_is_admin p) \<or> is_null (uu_is_active p) \<or>
     too_long 255 (us_email u) \<or> too_long 255 (us_display_name u) \<or>
     too_long 255 (us_idp_issuer u) \<or> too_long 255 (us_idp_subject u) \<or> refused_user d u"

definition taken_away :: "user_update \<Rightarrow> bool" where
  "taken_away p \<longleftrightarrow> uu_is_active p = Some (Some False) \<or> uu_is_admin p = Some (Some False)"

text \<open>
  The sessions an update ends: the administrator's when the account or its rights are taken
  away, again when the password changes, and the browser's when rights or groups change.
\<close>

definition end_user_sessions ::
  "request \<Rightarrow> string \<Rightarrow> user_update \<Rightarrow> bool \<Rightarrow> db \<Rightarrow> nat \<times> nat \<times> db" where
  "end_user_sessions rq i p membership_changed d =
     (let (n1, d1) = (if taken_away p then revoke_all_for_user i (rq_now rq) d else (0, d));
          (n2, d2) = (if sent_password p then revoke_all_for_user i (rq_now rq) d1 else (0, d1));
          (n3, d3) = (if membership_changed \<or> taken_away p then revoke_for_user i (rq_now rq) d2 else (0, d2))
      in (n1 + n2, n3, d3))"

definition user_update_detail :: "user_update \<Rightarrow> bool \<Rightarrow> nat \<Rightarrow> nat \<Rightarrow> json" where
  "user_update_detail p membership_changed revoked sso_revoked =
     JObj [(''changes'', JList (map JStr (user_changes p @
          (if sent_password p then [''password''] else []) @
          (if membership_changed then [''group_slugs''] else [])))),
        (''admin_sessions_revoked'', JInt (int revoked)),
        (''sso_sessions_revoked'', JInt (int sso_revoked))]"

definition store_user ::
  "request \<Rightarrow> settings \<Rightarrow> string \<Rightarrow> user_update \<Rightarrow> bool \<Rightarrow> user_row \<Rightarrow> db \<Rightarrow> (http_exn, user_read \<times> db) result" where
  "store_user rq st i p membership_changed v d =
     (let (revoked, sso_revoked, d1) = end_user_sessions rq i p membership_changed (update_user i (\<lambda>_. v) d)
      in if refused_user_update p d v then Inl Unhandled
         else bindR (if sso_revoked \<noteq> 0 then regenerate_or_422 rq st ''admin-api'' d1 else Inr d1) (\<lambda>d2.
           (let d3 = audit_as rq ''user.update'' ''user'' (Some i)
               (user_update_detail p membership_changed revoked sso_revoked) d2
            in Inr (serialise_user d3 v, d3))))"

definition sent_membership ::
  "db \<Rightarrow> user_row \<Rightarrow> user_update \<Rightarrow> (http_exn, string list \<times> bool) result" where
  "sent_membership d u p = (case uu_group_slugs p of None \<Rightarrow> Inr (us_group_ids u, False)
     | Some v \<Rightarrow> bindR (resolve_groups d (list_of_sent v) USER_ZONE_HINT) (\<lambda>gs.
         Inr (map gr_id gs, set (map gr_slug (user_groups d u)) \<noteq> set (list_of_sent v))))"

definition update_user_account ::
  "request \<Rightarrow> settings \<Rightarrow> string \<Rightarrow> user_update \<Rightarrow> db \<Rightarrow> (http_exn, user_read \<times> db) result" where
  "update_user_account rq st i p d =
     bindR (user_or_404 d i) (\<lambda>u. bindR (sent_membership d u p) (\<lambda>(gids, membership_changed).
       store_user rq st i p membership_changed (changed_user rq p gids u) d))"

section \<open>The second factor\<close>

definition user_entry :: "request \<Rightarrow> string \<Rightarrow> user_row \<Rightarrow> db \<Rightarrow> db" where
  "user_entry rq act u d =
     audit_as rq act ''user'' (Some (us_id u)) (JObj [(''username'', JStr (us_username u))]) d"

definition provision_totp ::
  "request \<Rightarrow> string \<Rightarrow> string \<Rightarrow> db \<Rightarrow> (http_exn, string \<times> db) result" where
  "provision_totp rq secret i d =
     bindR (user_or_404 d i) (\<lambda>u.
       if \<not> truthy (us_password_hash u)
       then Inl (HTTPException 409 ''TOTP protects a local password; this account has none'')
       else Inr (secret, user_entry rq ''user.totp.provision'' u (update_user i
         (\<lambda>v. v\<lparr>us_totp_secret := Some secret, us_totp_enabled := False,
            us_totp_last_used_step := None\<rparr>) d)))"

definition confirm_totp ::
  "request \<Rightarrow> string \<Rightarrow> string \<Rightarrow> db \<Rightarrow> (http_exn, db) result" where
  "confirm_totp rq i code d =
     bindR (user_or_404 d i) (\<lambda>u.
       if \<not> truthy (us_totp_secret u) then Inl (HTTPException 409 ''no TOTP secret provisioned'')
       else (case totp_verify (rq_crypto rq) (us_totp_secret u) (Some code) (us_totp_last_used_step u) (rq_now rq) of
           Inl e \<Rightarrow> Inl Unhandled
         | Inr None \<Rightarrow> Inl (HTTPException 400 ''invalid TOTP code'')
         | Inr (Some step) \<Rightarrow> Inr (user_entry rq ''user.totp.enable'' u (update_user i
             (\<lambda>v. v\<lparr>us_totp_enabled := True, us_totp_last_used_step := Some step\<rparr>) d))))"

definition disable_totp :: "request \<Rightarrow> string \<Rightarrow> db \<Rightarrow> (http_exn, db) result" where
  "disable_totp rq i d =
     bindR (user_or_404 d i) (\<lambda>u. Inr (user_entry rq ''user.totp.disable'' u (update_user i
       (\<lambda>v. v\<lparr>us_totp_enabled := False, us_totp_secret := None, us_totp_last_used_step := None\<rparr>) d)))"

section \<open>Removing an account\<close>

text \<open>
  Its sessions of all three kinds go with it; its devices and the trail lose their owner. The
  entry of an administrator who removes their own account names a row that is gone, which the
  commit refuses.
\<close>

definition remove_user :: "string \<Rightarrow> db \<Rightarrow> db" where
  "remove_user i d = d\<lparr>users := filter (\<lambda>u. us_id u \<noteq> i) (users d),
     peers := map (\<lambda>p. if pe_owner_user_id p = Some i then p\<lparr>pe_owner_user_id := None\<rparr> else p) (peers d),
     sessions := filter (\<lambda>s. se_user_id s \<noteq> i) (sessions d),
     admin_sessions := filter (\<lambda>s. as_user_id s \<noteq> i) (admin_sessions d),
     sso_sessions := filter (\<lambda>s. ss_user_id s \<noteq> i) (sso_sessions d),
     audit_log := map (\<lambda>a. if au_actor_user_id a = Some i then a\<lparr>au_actor_user_id := None\<rparr> else a) (audit_log d),
     services := map (\<lambda>s. s\<lparr>sv_tokens := map (\<lambda>t. if tk_created_by_user_id t = Some i
       then t\<lparr>tk_created_by_user_id := None\<rparr> else t) (sv_tokens s)\<rparr>) (services d)\<rparr>"

definition delete_user :: "request \<Rightarrow> string \<Rightarrow> db \<Rightarrow> (http_exn, db) result" where
  "delete_user rq i d =
     bindR (user_or_404 d i) (\<lambda>u.
       if (case rq_admin rq of None \<Rightarrow> False | Some a \<Rightarrow> ai_user_id a = Some i) then Inl Unhandled
       else Inr (audit_as rq ''user.delete'' ''user'' (Some i)
         (JObj [(''username'', JStr (us_username u))]) (remove_user i d)))"

end
