(* ===== verification/FleetApi.thy ===== *)
theory FleetApi
  imports Schemas AdminApi
begin

text \<open>
  The routes that act on the fleet as a whole: \<open>api/routes/killswitch.py\<close>, \<open>sessions.py\<close>,
  \<open>ruleset.py\<close>, \<open>audit.py\<close>, and \<open>agent.py\<close>, the interface of the gateway.
\<close>

section \<open>Kill switch and sweep\<close>

definition trigger_kill_switch ::
  "request \<Rightarrow> settings \<Rightarrow> kill_switch_mode \<Rightarrow> db \<Rightarrow> (http_exn, kill_result \<times> db) result" where
  "trigger_kill_switch rq st mode d =
     (case trigger (cr_sha256 (rq_crypto rq)) (rq_version_id rq) st mode
        (map_option ai_actor_type (rq_admin rq)) (Option.bind (rq_admin rq) ai_user_id)
        (map_option ai_label (rq_admin rq)) (rq_client rq) (rq_now rq) d of
        Inl e \<Rightarrow> Inl Unhandled | Inr r \<Rightarrow> Inr r)"

text \<open>\<open>acquired\<close>: whether the advisory lock of the sweep was free.\<close>

definition run_sweep ::
  "request \<Rightarrow> settings \<Rightarrow> bool \<Rightarrow> db \<Rightarrow> (http_exn, (expired_peer list \<times> bool \<times> bool) \<times> db) result" where
  "run_sweep rq st acquired d =
     (if \<not> acquired then Inr (([], False, False), d)
      else (case sweep (cr_sha256 (rq_crypto rq)) (rq_version_id rq) st (rq_now rq) d of
          Inl e \<Rightarrow> Inl Unhandled
        | Inr ((expired, regenerated), d1) \<Rightarrow>
            Inr ((expired, regenerated, True),
              if expired = [] then d1 else admin_entry rq ''session.sweep'' None None
                (JObj [(''expired'', JList (map (JStr \<circ> ex_peer_id) expired))]) d1)))"

record session_read =
  sr_row :: session_row
  sr_peer_name :: string
  sr_username :: string
  sr_expires_at :: "int option"
  sr_seconds_remaining :: "int option"

definition list_sessions ::
  "db \<Rightarrow> settings \<Rightarrow> int \<Rightarrow> session_status option \<Rightarrow> nat \<Rightarrow> session_read list" where
  "list_sessions d st now status limit =
     concat (map (\<lambda>r. case (find (\<lambda>p. pe_id p = se_peer_id r) (peers d), user_by_id d (Some (se_user_id r))) of
         (Some p, Some u) \<Rightarrow>
           (let deadline = effective_deadline d p (Some r) st in
            [\<lparr>sr_row = r, sr_peer_name = pe_name p, sr_username = us_username u, sr_expires_at = deadline,
              sr_seconds_remaining = map_option (\<lambda>t. max 0 ((t - now) div 1000000)) deadline\<rparr>])
       | _ \<Rightarrow> [])
      (take limit (sort_key (\<lambda>r. - instant (se_last_authenticated_at r))
        (filter (\<lambda>r. case status of None \<Rightarrow> True | Some s \<Rightarrow> se_status r = s) (sessions d)))))"

section \<open>Ruleset and audit trail\<close>

definition preview_ruleset :: "request \<Rightarrow> settings \<Rightarrow> db \<Rightarrow> (http_exn, string \<times> string) result" where
  "preview_ruleset rq st d = (case render d st of
     Inl e \<Rightarrow> Inl (HTTPException 500 ''current database state renders an invalid ruleset'')
   | Inr content \<Rightarrow> Inr (cr_sha256 (rq_crypto rq) content, content))"

definition regenerate_ruleset ::
  "request \<Rightarrow> settings \<Rightarrow> db \<Rightarrow> (http_exn, version_row \<times> db) result" where
  "regenerate_ruleset rq st d =
     (case regenerate (cr_sha256 (rq_crypto rq)) (rq_version_id rq) (rq_now rq) st ''manual'' d of
        Inl e \<Rightarrow> Inl Unhandled
      | Inr (v, d1) \<Rightarrow> Inr (v, audit_as rq ''ruleset.regenerate'' ''ruleset_version'' (Some (ve_id v))
          (JObj [(''digest'', JStr (ve_digest v))]) d1))"

definition list_versions :: "db \<Rightarrow> nat \<Rightarrow> version_row list" where
  "list_versions d limit = take limit (sort_key (\<lambda>v. - ve_created_at v) (versions d))"

text \<open>The trail, newest first: it is kept in the order of insertion.\<close>

definition list_entries ::
  "db \<Rightarrow> string option \<Rightarrow> string option \<Rightarrow> string option \<Rightarrow> nat \<Rightarrow> nat \<Rightarrow> audit_row list" where
  "list_entries d act object_type object_id limit offset =
     take limit (drop offset (filter (\<lambda>a.
       (truthy act \<longrightarrow> Some (au_action a) = act) \<and>
       (truthy object_type \<longrightarrow> au_object_type a = object_type) \<and>
       (truthy object_id \<longrightarrow> au_object_id a = object_id)) (rev (audit_log d))))"

section \<open>The agent\<close>

definition WG_PRESENT_STATES :: "peer_state set" where
  "WG_PRESENT_STATES = {STAGING, QUARANTINED, ACTIVE}"

record wireguard_peer =
  wp_public_key :: string
  wp_allowed_ips :: "string list"

record agent_route =
  gt_cidr :: string
  gt_via_peer_id :: string

text \<open>
  The rendered resolver zone and reverse proxy travel in the same answer; what renders them is
  a parameter here, and yields nothing rather than fail.
\<close>

record ('dns, 'proxy) agent_state =
  gs_digest :: string
  gs_ruleset :: string
  gs_wg_interface :: string
  gs_wg_peers :: "wireguard_peer list"
  gs_agent_routes :: "agent_route list"
  gs_dns :: "'dns option"
  gs_proxy :: "'proxy option"

definition present_peers :: "db \<Rightarrow> peer_row list" where
  "present_peers d = sort_key pe_wg_public_key (filter (\<lambda>p. pe_state p \<in> WG_PRESENT_STATES) (peers d))"

text \<open>The enabled routes that some peer carries, in the order of their network.\<close>

definition carried_routes :: "db \<Rightarrow> (string \<times> string) list" where
  "carried_routes d = sort_key fst (concat (map (\<lambda>g. concat (map (\<lambda>r.
     case zr_via_peer_id r of None \<Rightarrow> [] | Some i \<Rightarrow> if zr_enabled r then [(zr_cidr r, i)] else [])
     (gr_routes g))) (groups d)))"

definition allowed_ips_of :: "(string \<times> string) list \<Rightarrow> peer_row \<Rightarrow> string list" where
  "allowed_ips_of routed p =
     (if truthy (pe_tunnel_ip p) then [the (pe_tunnel_ip p) @ ''/32''] else []) @
     (if truthy (pe_tunnel_ip6 p) then [the (pe_tunnel_ip6 p) @ ''/128''] else []) @
     sort (map fst (filter (\<lambda>r. snd r = pe_id p) routed))"

definition wireguard_peers :: "db \<Rightarrow> wireguard_peer list" where
  "wireguard_peers d = concat (map (\<lambda>p.
     (let allowed = allowed_ips_of (carried_routes d) p
      in if allowed = [] then [] else [\<lparr>wp_public_key = pe_wg_public_key p, wp_allowed_ips = allowed\<rparr>]))
     (present_peers d))"

definition agent_routes :: "db \<Rightarrow> agent_route list" where
  "agent_routes d = map (\<lambda>(c, i). \<lparr>gt_cidr = c, gt_via_peer_id = i\<rparr>)
     (filter (\<lambda>(c, i). i \<in> set (map pe_id (present_peers d))) (carried_routes d))"

definition get_state ::
  "(string \<Rightarrow> string) \<Rightarrow> (db \<Rightarrow> 'dns option) \<Rightarrow> (db \<Rightarrow> 'proxy option) \<Rightarrow> settings \<Rightarrow> db
     \<Rightarrow> (http_exn, ('dns, 'proxy) agent_state) result" where
  "get_state sha dns_or_none proxy_or_none st d =
     (case render d st of Inl e \<Rightarrow> Inl Unhandled
      | Inr content \<Rightarrow> Inr \<lparr>gs_digest = sha content, gs_ruleset = content,
          gs_wg_interface = st_wg_interface st, gs_wg_peers = wireguard_peers d,
          gs_agent_routes = agent_routes d, gs_dns = dns_or_none d, gs_proxy = proxy_or_none d\<rparr>)"

record agent_report =
  ag_digest :: string
  ag_success :: bool
  ag_error :: "string option"
  ag_dns_digest :: "string option"
  ag_dns_error :: "string option"
  ag_proxy_digest :: "string option"
  ag_proxy_error :: "string option"

definition agent_entry :: "request \<Rightarrow> string \<Rightarrow> string \<Rightarrow> string option \<Rightarrow> json \<Rightarrow> db \<Rightarrow> db" where
  "agent_entry rq act object_type object_id detail d =
     audit_record (audit_entry act AGENT_ACTOR None (Some ''gateway-agent'') (Some object_type) object_id
       (rq_client rq) detail) d"

text \<open>
  The outcome of an apply. A version stored for an unknown digest has no key yet when the entry
  is written.
\<close>

definition report :: "request \<Rightarrow> agent_report \<Rightarrow> db \<Rightarrow> db" where
  "report rq p d =
     (let known = find (\<lambda>v. ve_digest v = ag_digest p) (versions d);
          d1 = (case known of
              Some v \<Rightarrow> if ag_success p then mark_applied (rq_now rq) (ve_id v) d
                else mark_failed (or_else (ag_error p) ''unknown error'') (ve_id v) d
            | None \<Rightarrow> if ag_success p then d\<lparr>versions := versions d @
                [\<lparr>ve_id = rq_version_id rq, ve_created_at = rq_now rq, ve_digest = ag_digest p, ve_content = [],
                  ve_status = APPLIED, ve_applied_at = None, ve_error = None, ve_generated_by = Some ''agent''\<rparr>]\<rparr>
                else d);
          d2 = agent_entry rq (if ag_success p then ''ruleset.apply'' else ''ruleset.apply_failed'')
            ''ruleset_version'' (map_option ve_id known)
            (JObj [(''digest'', JStr (ag_digest p)), (''error'', json_opt_str (ag_error p))]) d1
      in if truthy (ag_dns_error p)
         then agent_entry rq ''dns.apply_failed'' ''dns_zone'' None
           (JObj [(''digest'', json_opt_str (ag_dns_digest p)), (''error'', json_opt_str (ag_dns_error p))]) d2
         else d2)"

end
