(* ===== verification/FleetCalm.thy ===== *)
theory FleetCalm
  imports PortalProperties UsersApi AclApi FleetApi
begin

text \<open>
  What every operation of the API other than a registration and a login has in common: it is
  calm. A calm change registers no peer, keeps the identity, the type and the last
  authentication of those it keeps, brings no revoked peer back and activates no user peer,
  makes no session live, invents no account and forgets no entry of the trail.
\<close>

definition quiet :: "peer_row \<Rightarrow> peer_row \<Rightarrow> bool" where
  "quiet p q \<longleftrightarrow> pe_id q = pe_id p \<and> pe_peer_type q = pe_peer_type p \<and>
     pe_last_authenticated_at q = pe_last_authenticated_at p \<and>
     (pe_state q = pe_state p \<or>
      (pe_state p \<noteq> REVOKED \<and> (pe_peer_type p = USER \<longrightarrow> pe_state q \<noteq> ACTIVE)))"

definition trail_ids :: "db \<Rightarrow> string option set" where
  "trail_ids d = au_object_id ` set (audit_log d)"

definition user_keys :: "db \<Rightarrow> bool" where
  "user_keys d \<longleftrightarrow> distinct (map us_id (users d))"

definition calm :: "db \<Rightarrow> db \<Rightarrow> bool" where
  "calm d d' \<longleftrightarrow> (keyed d \<longrightarrow> keyed d') \<and> (\<forall>q\<in>set (peers d'). \<exists>p\<in>set (peers d). quiet p q) \<and>
     (\<forall>k. length (live_sessions_of d' k) \<le> length (live_sessions_of d k)) \<and>
     (user_keys d \<longrightarrow> user_keys d') \<and> trail_ids d \<subseteq> trail_ids d'"

section \<open>Rows\<close>

lemma quiet_refl [simp]: "quiet p p" by (simp add: quiet_def)

lemma quiet_trans: "quiet p q \<Longrightarrow> quiet q r \<Longrightarrow> quiet p r"
  by (auto simp: quiet_def)

lemma quiet_rows [simp]: "\<forall>q\<in>set ps. \<exists>p\<in>set ps. quiet p q" using quiet_refl by blast

lemma calm_refl [simp]: "calm d d" by (simp add: calm_def)

lemma calm_trans [trans]: "calm d e \<Longrightarrow> calm e f \<Longrightarrow> calm d f"
  unfolding calm_def using quiet_trans by (meson order_trans subset_trans)

section \<open>Tables\<close>

text \<open>A change of the peers row by row.\<close>

lemma calm_peers:
  assumes "peers d' = map f (peers d)" and "\<And>p. p \<in> set (peers d) \<Longrightarrow> quiet p (f p)"
    and "sessions d' = sessions d" and "user_keys d \<Longrightarrow> user_keys d'" and "audit_log d' = audit_log d"
  shows "calm d d'"
proof -
  have "map pe_id (peers d') = map pe_id (peers d)" using assms(1, 2) by (simp add: quiet_def)
  then have "keyed d \<longrightarrow> keyed d'" by (simp only: keyed_def simp_thms)
  moreover have "\<forall>q\<in>set (peers d'). \<exists>p\<in>set (peers d). quiet p q" using assms(1, 2) by auto
  ultimately show ?thesis using assms(3-5) by (simp add: calm_def live_sessions_of_def trail_ids_def)
qed

lemma calm_other:
  assumes "peers d' = peers d" and "sessions d' = sessions d" and "user_keys d \<Longrightarrow> user_keys d'"
    and "trail_ids d \<subseteq> trail_ids d'"
  shows "calm d d'"
  using assms by (simp add: calm_def keyed_def live_sessions_of_def)

lemma calm_users:
  assumes "peers d' = peers d" and "sessions d' = sessions d" and "users d' = users d"
    and "audit_log d' = audit_log d"
  shows "calm d d'"
  using assms by (intro calm_other) (simp_all add: user_keys_def trail_ids_def)

lemma calm_update_peer:
  assumes "\<And>p. p \<in> set (peers d) \<Longrightarrow> pe_id p = i \<Longrightarrow> quiet p (f p)"
  shows "calm d (update_peer i f d)"
  using assms by (intro calm_peers [where f = "\<lambda>p. if pe_id p = i then f p else p"])
    (auto simp: user_keys_def)

lemma calm_update_user: "(\<And>u. us_id u = i \<Longrightarrow> us_id (f u) = i) \<Longrightarrow> calm d (update_user i f d)"
proof (rule calm_other)
  assume "\<And>u. us_id u = i \<Longrightarrow> us_id (f u) = i"
  then have "map us_id (users (update_user i f d)) = map us_id (users d)" by simp
  then show "user_keys d \<Longrightarrow> user_keys (update_user i f d)" by (simp only: user_keys_def)
qed (simp_all add: trail_ids_def)

lemma calm_audit_record [simp]: "calm d (audit_record e d)"
  by (rule calm_other) (auto simp: user_keys_def trail_ids_def)

lemma calm_audit_as [simp]: "calm d (audit_as rq a t i j d)"
  by (simp add: audit_as_def)

lemma calm_admin_entry [simp]: "calm d (admin_entry rq a t i j d)"
  by (simp add: admin_entry_def)

lemma calm_agent_entry [simp]: "calm d (agent_entry rq a t i j d)"
  by (simp add: agent_entry_def)

lemma calm_entries [intro]:
  "calm d e \<Longrightarrow> calm d (audit_record x e)" "calm d e \<Longrightarrow> calm d (audit_as rq a t i j e)"
  "calm d e \<Longrightarrow> calm d (admin_entry rq a ot oi j e)" "calm d e \<Longrightarrow> calm d (agent_entry rq a t oi j e)"
  by (rule calm_trans, assumption, simp)+

section \<open>Sessions\<close>

lemma live_map_le:
  assumes "\<And>s. se_peer_id (f s) = se_peer_id s"
    and "\<And>s. se_status (f s) = SESSION_ACTIVE \<Longrightarrow> se_status s = SESSION_ACTIVE"
  shows "length (filter (\<lambda>s. se_peer_id s = k \<and> se_status s = SESSION_ACTIVE) (map f xs)) \<le>
    length (filter (\<lambda>s. se_peer_id s = k \<and> se_status s = SESSION_ACTIVE) xs)"
  by (induction xs) (auto simp: assms(1) dest: assms(2))

lemma calm_sessions:
  assumes "sessions d' = map f (sessions d)" and "\<And>s. se_peer_id (f s) = se_peer_id s"
    and "\<And>s. se_status (f s) = SESSION_ACTIVE \<Longrightarrow> se_status s = SESSION_ACTIVE"
    and "peers d' = peers d" and "users d' = users d" and "audit_log d' = audit_log d"
  shows "calm d d'"
  unfolding calm_def live_sessions_of_def assms(1) keyed_def user_keys_def trail_ids_def assms(4-6)
  using live_map_le [of f, OF assms(2, 3)] by simp

lemma calm_revoke_sessions [simp]: "calm d (revoke_sessions i now d)"
  by (rule calm_sessions [where f = "\<lambda>s. if se_peer_id s = i \<and> se_status s = SESSION_ACTIVE
      then s\<lparr>se_status := SESSION_REVOKED, se_revoked_at := Some now\<rparr> else s"])
    (auto simp: revoke_sessions_def split: if_splits)

lemma calm_update_session:
  assumes "\<And>s. se_peer_id (f s) = se_peer_id s" and "\<And>s. se_status (f s) \<noteq> SESSION_ACTIVE"
  shows "calm d (update_session i f d)"
  by (rule calm_sessions [where f = "\<lambda>s. if se_id s = i then f s else s"])
    (use assms in \<open>auto split: if_splits\<close>)

section \<open>Endings\<close>

lemma regenerate_or_422_rest:
  assumes "regenerate_or_422 rq st g d = Inr d'"
  shows "peers d' = peers d \<and> groups d' = groups d \<and> users d' = users d \<and> sessions d' = sessions d \<and>
    audit_log d' = audit_log d \<and> admin_sessions d' = admin_sessions d \<and> services d' = services d"
  using assms regenerate_peers unfolding regenerate_or_422_def
  by (fastforce split: sum.splits prod.splits render_error.splits gen_exn.splits if_splits option.splits)

lemma calm_regenerate: "regenerate_or_422 rq st g d = Inr d' \<Longrightarrow> calm d d'"
  using regenerate_or_422_rest by (intro calm_users) blast+

lemma calm_regenerate_500: "regenerate_or_500 rq st g d = Inr d' \<Longrightarrow> calm d d'"
  using regenerate_or_500_rest by (intro calm_users) blast+

section \<open>Peers\<close>

lemma find_row: "find P xs = Some x \<Longrightarrow> x \<in> set xs \<and> P x"
  by (auto simp: find_Some_iff)

lemma peer_or_404_some: "peer_or_404 d i = Inr p \<Longrightarrow> p \<in> set (peers d) \<and> pe_id p = i"
  by (auto simp: peer_or_404_def dest: find_row split: option.splits)

lemma check_state_quiet:
  assumes "check_state p (pu_state u) = Inr b"
  shows "quiet p (changed_peer u gids zid names p)"
proof (cases "\<exists>t. pu_state u = Some (Some t)")
  case True
  then obtain t where t: "pu_state u = Some (Some t)" by blast
  have "t = pe_state p \<or> pe_state p \<noteq> REVOKED"
    using assms unfolding t check_state_def
    by (cases "assert_admin_transition (pe_state p) t") (auto simp: admin_transition_iff)
  moreover have "pe_peer_type p = USER \<Longrightarrow> t = ACTIVE \<Longrightarrow> pe_state p = ACTIVE"
    using assms unfolding t check_state_def by (auto split: sum.splits if_splits)
  ultimately show ?thesis using t by (auto simp: quiet_def changed_peer_def)
next
  case False
  then have "set_req (pu_state u) (pe_state p) = pe_state p" by (cases "pu_state u" rule: is_null.cases) auto
  then show ?thesis by (simp add: quiet_def changed_peer_def)
qed

lemma calm_resolve_tags: "resolve_tags b d ns = Inr (names, d') \<Longrightarrow> calm d d'"
  by (rule calm_users) (auto simp: resolve_tags_def Let_def split: if_splits)

lemma calm_sent_tags: "sent_tags d p v = Inr (names, d') \<Longrightarrow> calm d d'"
  by (auto simp: sent_tags_def calm_resolve_tags split: option.splits)

lemma sent_tags_peers: "sent_tags d p v = Inr (names, d') \<Longrightarrow> peers d' = peers d"
  by (auto simp: sent_tags_def resolve_tags_def Let_def split: option.splits if_splits)

lemma calm_ending:
  "regenerate_or_422 rq st g (audit_as rq a t k j e) = Inr d' \<Longrightarrow> calm d e \<Longrightarrow> calm d d'"
  by (meson calm_regenerate calm_audit_as calm_trans)

lemma calm_patch_peer:
  assumes "patch_peer rq st i u d = Inr (x, d')" and "keyed d"
  shows "calm d d'"
proof -
  obtain p b where p: "peer_or_404 d i = Inr p" and b: "check_state p (pu_state u) = Inr b"
      and c: "change_peer rq st u p (note_override rq p b d) = Inr (x, d')"
    using assms(1) by (auto simp: patch_peer_def)
  obtain gids zid names d1 where d1: "sent_tags (note_override rq p b d) p (pu_tags u) = Inr (names, d1)"
      and s: "store_change rq st u p (changed_peer u gids zid names p) d1 = Inr (x, d')"
    using c by (auto simp: change_peer_def)
  let ?q = "changed_peer u gids zid names p"
  define d2 where "d2 = (if pe_state p = ACTIVE \<and> pe_state ?q \<noteq> ACTIVE
    then revoke_sessions (pe_id p) (rq_now rq) d1 else d1)"
  have r: "regenerate_or_422 rq st ''peer.update'' (audit_as rq ''peer.update'' ''peer'' (Some (pe_id p))
      (JObj [(''changes'', JList (map JStr (peer_changes u)))]) (update_peer (pe_id p) (\<lambda>_. ?q) d2)) = Inr d'"
    using s unfolding store_change_def Let_def d2_def [symmetric] by (simp split: if_splits)
  have "peers d2 = peers d" using sent_tags_peers [OF d1]
    by (simp add: d2_def note_override_def audit_as_def revoke_sessions_def)
  then have "\<And>q. q \<in> set (peers d2) \<Longrightarrow> pe_id q = pe_id p \<Longrightarrow> q = p"
    using peer_or_404_some [OF p] keyed_inj [OF assms(2)] by metis
  then have u: "calm d2 (update_peer (pe_id p) (\<lambda>_. ?q) d2)"
    using check_state_quiet [OF b] by (intro calm_update_peer) blast
  have "calm d (note_override rq p b d)" by (simp add: note_override_def)
  also have "calm \<dots> d1" by (rule calm_sent_tags [OF d1])
  also have "calm d1 d2" by (simp add: d2_def)
  also note u
  finally show ?thesis by (rule calm_ending [OF r])
qed

lemma calm_remove_peer: "calm d (remove_peer i d)"
proof -
  have "length (live_sessions_of (remove_peer i d) k) \<le> length (live_sessions_of d k)" for k
  proof -
    have "live_sessions_of (remove_peer i d) k = filter (\<lambda>s. se_peer_id s \<noteq> i) (live_sessions_of d k)"
      by (auto simp: live_sessions_of_def remove_peer_def intro: filter_cong)
    then show ?thesis by simp
  qed
  moreover have "keyed d \<longrightarrow> keyed (remove_peer i d)"
    by (auto simp: keyed_def remove_peer_def distinct_map_filter)
  ultimately show ?thesis
    by (auto simp: calm_def user_keys_def trail_ids_def remove_peer_def intro: quiet_refl)
qed

lemma calm_delete_peer: "delete_peer rq st i d = Inr d' \<Longrightarrow> calm d d'"
  unfolding delete_peer_def using calm_ending calm_remove_peer by fastforce

lemma calm_create_enrollment_key:
  assumes "create_enrollment_key rq st i e d = Inr (x, d')" shows "calm d d'"
proof -
  obtain k h t j where d': "d' = audit_as rq ''peer.enrollment_key.create'' ''peer'' (Some i) j
      (update_peer i (\<lambda>q. q\<lparr>pe_enrollment_key_hash := h, pe_enrollment_key_expires_at := t\<rparr>) d)"
    using assms unfolding create_enrollment_key_def Let_def by (auto split: if_splits)
  have "calm d (update_peer i (\<lambda>q. q\<lparr>pe_enrollment_key_hash := h, pe_enrollment_key_expires_at := t\<rparr>) d)"
    by (rule calm_update_peer) (simp add: quiet_def)
  then show ?thesis unfolding d' by (meson calm_audit_as calm_trans)
qed

lemma calm_revoke_enrollment_key:
  assumes "revoke_enrollment_key rq st i b d = Inr d'" shows "calm d d'"
proof -
  have "regenerate_or_422 rq st ''peer.enrollment_key.revoke''
       (audit_as rq ''peer.enrollment_key.revoke'' ''peer'' (Some i) (JObj [(''quarantined'', JBool b)])
         (update_peer i (\<lambda>q. q\<lparr>pe_enrollment_key_hash := None, pe_enrollment_key_expires_at := None,
            pe_state := (if b \<and> pe_state q \<noteq> REVOKED then QUARANTINED else pe_state q)\<rparr>) d)) = Inr d'"
    using assms by (auto simp: revoke_enrollment_key_def)
  then show ?thesis by (rule calm_ending) (rule calm_update_peer, simp add: quiet_def)
qed

section \<open>Accounts\<close>

lemma user_or_404_some: "user_or_404 d i = Inr u \<Longrightarrow> us_id u = i"
  using user_by_id_some by (auto simp: user_or_404_def split: option.splits)

lemma end_user_sessions_rest:
  assumes "end_user_sessions rq i p m d = (a, b, d')"
  shows "peers d' = peers d \<and> sessions d' = sessions d \<and> users d' = users d \<and> audit_log d' = audit_log d"
  using assms unfolding end_user_sessions_def revoke_all_for_user_def revoke_for_user_def end_sso_def Let_def
  by (auto split: if_splits)

lemma calm_update_user_account:
  assumes "update_user_account rq st i p d = Inr (x, d')" shows "calm d d'"
proof -
  obtain u gids m where u: "user_or_404 d i = Inr u"
      and s: "store_user rq st i p m (changed_user rq p gids u) d = Inr (x, d')"
    using assms by (auto simp: update_user_account_def)
  obtain a b d1 where e: "end_user_sessions rq i p m (update_user i (\<lambda>_. changed_user rq p gids u) d) = (a, b, d1)"
    by (metis prod_cases3)
  obtain d2 where d2: "calm d1 d2"
      and d': "d' = audit_as rq ''user.update'' ''user'' (Some i) (user_update_detail p m a b) d2"
  proof -
    have "\<exists>d2. (if b \<noteq> 0 then regenerate_or_422 rq st ''admin-api'' d1 else Inr d1) = Inr d2 \<and>
        d' = audit_as rq ''user.update'' ''user'' (Some i) (user_update_detail p m a b) d2"
      using s unfolding store_user_def e by (auto simp: Let_def split: if_split_asm)
    then obtain d2 where r: "(if b \<noteq> 0 then regenerate_or_422 rq st ''admin-api'' d1 else Inr d1) = Inr d2"
        and d': "d' = audit_as rq ''user.update'' ''user'' (Some i) (user_update_detail p m a b) d2" by blast
    from r have "calm d1 d2" using calm_regenerate by (cases "b = 0") auto
    then show ?thesis using d' by (rule that)
  qed
  have "calm d (update_user i (\<lambda>_. changed_user rq p gids u) d)"
    using user_or_404_some [OF u] by (intro calm_update_user) (simp add: changed_user_def)
  also have "calm \<dots> d1" using end_user_sessions_rest [OF e] by (intro calm_users) auto
  also note d2
  also have "calm d2 d'" by (simp add: d')
  finally show ?thesis .
qed

lemma calm_user_entry [simp]: "calm d (user_entry rq a u d)" by (simp add: user_entry_def)

lemma calm_provision_totp: "provision_totp rq s i d = Inr (x, d') \<Longrightarrow> calm d d'"
  by (auto simp: provision_totp_def split: if_splits intro!: calm_trans [OF calm_update_user calm_user_entry])

lemma calm_confirm_totp: "confirm_totp rq i c d = Inr d' \<Longrightarrow> calm d d'"
  by (auto simp: confirm_totp_def split: if_splits sum.splits option.splits
      intro!: calm_trans [OF calm_update_user calm_user_entry])

lemma calm_disable_totp: "disable_totp rq i d = Inr d' \<Longrightarrow> calm d d'"
  by (auto simp: disable_totp_def intro!: calm_trans [OF calm_update_user calm_user_entry])

lemma calm_remove_user: "calm d (remove_user i d)"
proof -
  have "live_sessions_of (remove_user i d) k = filter (\<lambda>s. se_user_id s \<noteq> i) (live_sessions_of d k)" for k
    by (auto simp: live_sessions_of_def remove_user_def intro: filter_cong)
  moreover have "map pe_id (peers (remove_user i d)) = map pe_id (peers d)"
    by (simp add: remove_user_def)
  then have "keyed d \<longrightarrow> keyed (remove_user i d)" by (simp only: keyed_def simp_thms)
  moreover have "user_keys d \<longrightarrow> user_keys (remove_user i d)"
    by (simp add: user_keys_def remove_user_def distinct_map_filter)
  moreover have "map au_object_id (audit_log (remove_user i d)) = map au_object_id (audit_log d)"
    by (simp add: remove_user_def)
  then have "trail_ids d \<subseteq> trail_ids (remove_user i d)"
    unfolding trail_ids_def set_map [symmetric] by simp
  moreover have "\<forall>q\<in>set (peers (remove_user i d)). \<exists>p\<in>set (peers d). quiet p q"
    by (auto simp: remove_user_def quiet_def)
  ultimately show ?thesis by (simp add: calm_def)
qed

lemma calm_delete_user: "delete_user rq i d = Inr d' \<Longrightarrow> calm d d'"
  using calm_trans [OF calm_remove_user calm_audit_as]
  by (auto simp: delete_user_def split: if_splits)

section \<open>Groups, zones, rules\<close>

lemma calm_slug_entry [simp]: "calm d (slug_entry rq a t g js d)" by (simp add: slug_entry_def)

lemma calm_route_entry [simp]: "calm d (route_entry rq a z j d)" by (simp add: route_entry_def)

lemma calm_update_group_row: "calm d (update_group_row i f d)"
  by (rule calm_users) (simp_all add: update_group_row_def)

lemma calm_remove_group: "calm d (remove_group i d)"
proof (rule calm_peers)
  show "peers (remove_group i d) = map (\<lambda>p. p\<lparr>pe_group_ids := filter (\<lambda>k. k \<noteq> i) (pe_group_ids p),
      pe_zone_id := (if pe_zone_id p = Some i then None else pe_zone_id p)\<rparr>) (peers d)"
    by (simp add: remove_group_def)
  have "map us_id (users (remove_group i d)) = map us_id (users d)" by (simp add: remove_group_def)
  then show "user_keys d \<Longrightarrow> user_keys (remove_group i d)" by (simp only: user_keys_def)
qed (auto simp: remove_group_def quiet_def)

lemma calm_slug_ending:
  "regenerate_or_422 rq st g (slug_entry rq a t x js e) = Inr d' \<Longrightarrow> calm d e \<Longrightarrow> calm d d'"
  unfolding slug_entry_def by (rule calm_ending)

lemma calm_route_ending:
  "regenerate_or_422 rq st g (route_entry rq a z j e) = Inr d' \<Longrightarrow> calm d e \<Longrightarrow> calm d d'"
  unfolding route_entry_def by (rule calm_ending)

lemma calm_add_group: "calm d (d\<lparr>groups := x\<rparr>)"
  by (rule calm_users) simp_all

lemma calm_set_rules: "calm d (d\<lparr>acl_rules := x\<rparr>)"
  by (rule calm_users) simp_all

lemma calm_create_group: "create_group rq st p d = Inr (x, d') \<Longrightarrow> calm d d'"
  by (auto simp: create_group_def Let_def split: if_splits intro: calm_slug_ending calm_add_group)

lemma calm_patch_group: "patch_group rq st i p d = Inr (x, d') \<Longrightarrow> calm d d'"
  by (auto simp: patch_group_def Let_def split: if_splits intro: calm_slug_ending calm_update_group_row)

lemma calm_delete_group: "delete_group rq st i d = Inr d' \<Longrightarrow> calm d d'"
  by (auto simp: delete_group_def intro: calm_slug_ending calm_remove_group)

lemma calm_create_zone: "create_zone rq st p d = Inr (x, d') \<Longrightarrow> calm d d'"
  by (auto simp: create_zone_def Let_def split: if_splits intro: calm_slug_ending calm_add_group)

lemma calm_patch_zone: "patch_zone rq st i p d = Inr (x, d') \<Longrightarrow> calm d d'"
  by (auto simp: patch_zone_def Let_def split: if_splits intro: calm_slug_ending calm_update_group_row)

lemma calm_delete_zone: "delete_zone rq st i d = Inr d' \<Longrightarrow> calm d d'"
  by (auto simp: delete_zone_def intro: calm_slug_ending calm_remove_group)

lemma calm_create_route: "create_route rq st i p d = Inr (x, d') \<Longrightarrow> calm d d'"
  by (auto simp: create_route_def Let_def split: if_splits intro: calm_route_ending calm_update_group_row)

lemma calm_update_route: "update_route rq st i k p d = Inr (x, d') \<Longrightarrow> calm d d'"
  by (auto simp: update_route_def split: if_splits intro: calm_route_ending calm_update_group_row)

lemma calm_delete_route: "delete_route rq st i k d = Inr d' \<Longrightarrow> calm d d'"
  by (auto simp: delete_route_def intro: calm_route_ending calm_update_group_row)

lemma calm_create_rule: "create_rule rq st p d = Inr (x, d') \<Longrightarrow> calm d d'"
  by (auto simp: create_rule_def Let_def split: if_splits intro: calm_ending calm_set_rules)

lemma calm_patch_rule: "patch_rule rq st i p d = Inr (x, d') \<Longrightarrow> calm d d'"
  by (auto simp: patch_rule_def Let_def split: if_splits intro: calm_ending calm_set_rules)

lemma calm_delete_rule: "delete_rule rq st i d = Inr d' \<Longrightarrow> calm d d'"
  by (auto simp: delete_rule_def intro: calm_ending calm_set_rules)

section \<open>The fleet\<close>

lemma fold_update_users: "users (fold (\<lambda>p. update_peer (k p) f) ps d) = users d"
  by (induction ps arbitrary: d) simp_all

lemma calm_trigger_kill_switch:
  assumes "trigger_kill_switch rq st mode d = Inr (r, d')" and "keyed d"
  shows "calm d d'"
proof -
  have t: "trigger (cr_sha256 (rq_crypto rq)) (rq_version_id rq) st mode
        (map_option ai_actor_type (rq_admin rq)) (Option.bind (rq_admin rq) ai_user_id)
        (map_option ai_label (rq_admin rq)) (rq_client rq) (rq_now rq) d = Inr (r, d')"
    using assms(1) by (auto simp: trigger_kill_switch_def split: sum.splits)
  have q: "quiet p (killed mode p)" for p
    by (cases mode; cases "pe_state p") (auto simp: quiet_def killed_def)
  have m: "map pe_id (map (killed mode) (peers d)) = map pe_id (peers d)"
    by (simp add: killed_def)
  have u: "users d' = users d"
    using t unfolding trigger_eq Let_def
    by (auto simp: cut_def revoke_all_sessions_def moved_def fold_update_users
        dest: regenerate_peers split: if_splits sum.splits)
  have live: "live_sessions_of d' k = []" for k
    using trigger_cases [OF assms(2) t] by (auto simp: live_sessions_of_def filter_empty_conv)
  have p: "peers d' = map (killed mode) (peers d)" and l: "\<exists>e. audit_log d' = audit_log d @ [e]"
    using trigger_cases [OF assms(2) t] by auto
  have "keyed d'" using assms(2) unfolding keyed_def p m .
  moreover have "\<forall>x\<in>set (peers d'). \<exists>p\<in>set (peers d). quiet p x" using q p by auto
  moreover have "trail_ids d \<subseteq> trail_ids d'" using l by (auto simp: trail_ids_def)
  ultimately show ?thesis using live u by (simp add: calm_def user_keys_def)
qed

text \<open>The sweep: its peers are known; its sessions end one by one.\<close>

lemma expire_one_sessions:
  "length (live_sessions_of (expire_one now f d) k) \<le> length (live_sessions_of d k) \<and>
   users (expire_one now f d) = users d \<and> trail_ids d \<subseteq> trail_ids (expire_one now f d)"
proof -
  obtain p row e where f: "f = (p, row, e)" by (metis prod_cases3)
  define d1 where "d1 = update_peer (pe_id p) (\<lambda>q. q\<lparr>pe_state := QUARANTINED\<rparr>) d"
  define d2 where "d2 = (case row of None \<Rightarrow> d1 | Some r \<Rightarrow> update_session (se_id r)
    (\<lambda>s. s\<lparr>se_status := SESSION_EXPIRED, se_revoked_at := Some now\<rparr>) d1)"
  have "calm d1 d2" by (auto simp: d2_def intro!: calm_update_session split: option.splits)
  then have "length (live_sessions_of d2 k) \<le> length (live_sessions_of d1 k)" by (simp add: calm_def)
  moreover have "live_sessions_of d1 k = live_sessions_of d k" by (simp add: d1_def live_sessions_of_def)
  moreover have "users d2 = users d" "audit_log d2 = audit_log d"
    by (simp_all add: d2_def d1_def split: option.splits)
  moreover have "\<exists>x. expire_one now f d = audit_record x d2"
    unfolding f expire_one_def d2_def d1_def Let_def by auto
  ultimately show ?thesis by (auto simp: live_sessions_of_def trail_ids_def)
qed

lemma expire_all_sessions:
  "length (live_sessions_of (fold (expire_one now) fs d) k) \<le> length (live_sessions_of d k) \<and>
   users (fold (expire_one now) fs d) = users d \<and> trail_ids d \<subseteq> trail_ids (fold (expire_one now) fs d)"
proof (induction fs arbitrary: d)
  case (Cons f fs)
  then show ?case using Cons [of "expire_one now f d"] expire_one_sessions [of now f d k]
    by (auto intro: order_trans)
qed simp

lemma calm_sweep:
  assumes "sweep sha fresh st now d = Inr (r, d')" and "keyed d"
  shows "calm d d'"
proof -
  let ?f = "\<lambda>p. if user_active p \<and> overdue d st now p then p\<lparr>pe_state := QUARANTINED\<rparr> else p"
  let ?d1 = "fold (expire_one now) (find_expired d st now) d"
  have p: "peers d' = map ?f (peers d)" by (rule sweep_peers [OF assms(2, 1)])
  have "sessions d' = sessions ?d1 \<and> users d' = users ?d1 \<and> audit_log d' = audit_log ?d1"
    using assms(1) regenerate_peers by (auto simp: sweep_def Let_def split: if_splits)
  then have "live_sessions_of d' k = live_sessions_of ?d1 k" "users d' = users ?d1"
      "trail_ids d' = trail_ids ?d1" for k by (simp_all add: live_sessions_of_def trail_ids_def)
  then have "length (live_sessions_of d' k) \<le> length (live_sessions_of d k)" "users d' = users d"
      "trail_ids d \<subseteq> trail_ids d'" for k
    using expire_all_sessions [where fs = "find_expired d st now" and d = d and now = now] by metis+
  moreover have q: "quiet p (?f p)" for p by (auto simp: quiet_def user_active_def)
  moreover have "map pe_id (map ?f (peers d)) = map pe_id (peers d)" by simp
  then have "keyed d'" using assms(2) unfolding keyed_def p by (simp only:)
  moreover have "\<forall>x\<in>set (peers d'). \<exists>p\<in>set (peers d). quiet p x"
  proof
    fix x assume "x \<in> set (peers d')"
    then obtain y where "y \<in> set (peers d)" "x = ?f y" unfolding p by auto
    then show "\<exists>p\<in>set (peers d). quiet p x" using q by blast
  qed
  ultimately show ?thesis by (simp add: calm_def user_keys_def)
qed

lemma calm_run_sweep: "run_sweep rq st a d = Inr (r, d') \<Longrightarrow> keyed d \<Longrightarrow> calm d d'"
  using calm_trans [OF calm_sweep calm_admin_entry] calm_sweep
  by (fastforce simp: run_sweep_def split: if_splits sum.splits prod.splits)

lemma calm_regenerate_ruleset: "regenerate_ruleset rq st d = Inr (v, d') \<Longrightarrow> calm d d'"
proof -
  assume "regenerate_ruleset rq st d = Inr (v, d')"
  then obtain d1 where r: "regenerate (cr_sha256 (rq_crypto rq)) (rq_version_id rq) (rq_now rq) st ''manual'' d = Inr (v, d1)"
      and d': "d' = audit_as rq ''ruleset.regenerate'' ''ruleset_version'' (Some (ve_id v))
        (JObj [(''digest'', JStr (ve_digest v))]) d1"
    by (auto simp: regenerate_ruleset_def split: sum.splits prod.splits)
  have "calm d d1" using regenerate_peers [OF r] by (intro calm_users) simp_all
  also have "calm d1 d'" by (simp add: d')
  finally show ?thesis .
qed

lemma calm_update_version: "calm d (update_version i f d)"
  by (rule calm_users) (simp_all add: update_version_def)

lemma calm_report: "calm d (report rq p d)"
proof -
  define d1 where "d1 = (case find (\<lambda>v. ve_digest v = ag_digest p) (versions d) of
              Some v \<Rightarrow> if ag_success p then mark_applied (rq_now rq) (ve_id v) d
                else mark_failed (or_else (ag_error p) ''unknown error'') (ve_id v) d
            | None \<Rightarrow> if ag_success p then d\<lparr>versions := versions d @
                [\<lparr>ve_id = rq_version_id rq, ve_created_at = rq_now rq, ve_digest = ag_digest p, ve_content = [],
                  ve_status = APPLIED, ve_applied_at = None, ve_error = None, ve_generated_by = Some ''agent''\<rparr>]\<rparr>
                else d)"
  have "calm d d1" by (auto simp: d1_def mark_applied_def mark_failed_def calm_update_version
      split: option.splits intro: calm_users)
  moreover have "calm d1 (report rq p d)"
    unfolding report_def d1_def [symmetric] Let_def by auto
  ultimately show ?thesis by (rule calm_trans)
qed

section \<open>Sessions of administrators and of the portal\<close>

lemma calm_update_admin_session: "calm d (update_admin_session i f d)"
  by (rule calm_users) (simp_all add: update_admin_session_def)

lemma resolve_db:
  assumes "resolve cr tk now d = Inr (r, d')"
  shows "d' = d \<or> (\<exists>i f. d' = update_admin_session i f d)"
proof (cases "tk = [] \<or> \<not> starts_with ADMIN_PREFIX tk")
  case True
  then show ?thesis using assms by (auto simp: resolve_def)
next
  case False
  then obtain found where "(case found of None \<Rightarrow> (None, d)
      | Some r \<Rightarrow> (case user_by_id d (Some (as_user_id r)) of None \<Rightarrow> (None, d)
          | Some u \<Rightarrow> if \<not> us_is_active u \<or> \<not> us_is_admin u then (None, d)
              else (Some (r\<lparr>as_last_seen_at := now\<rparr>),
                update_admin_session (as_id r) (\<lambda>s. s\<lparr>as_last_seen_at := now\<rparr>) d))) = (r, d')"
    using assms by (auto simp: resolve_def)
  then show ?thesis by (cases found) (auto split: option.split_asm if_split_asm)
qed

lemma calm_resolve: "resolve cr tk now d = Inr (r, d') \<Longrightarrow> calm d d'"
  using resolve_db calm_update_admin_session by fastforce

lemma calm_presented_session: "presented_session rq a d = Inr (r, d') \<Longrightarrow> calm d d'"
  by (auto simp: presented_session_def calm_resolve split: option.splits sum.splits)

lemma calm_revoke: "calm d e \<Longrightarrow> calm d (revoke r now e)"
  unfolding revoke_def using calm_trans calm_update_admin_session by blast

lemma calm_admin_logout: "admin_logout rq a d = Inr d' \<Longrightarrow> calm d d'"
  by (auto simp: admin_logout_def dest!: calm_presented_session split: option.splits
      intro!: calm_revoke)

lemma calm_revoke_session: "revoke_session rq i d = Inr d' \<Longrightarrow> calm d d'"
  by (auto simp: revoke_session_def split: option.splits if_splits intro!: calm_revoke)

lemma authenticate_db:
  assumes "authenticate cr n pw code adm now d = Inr (out, d')"
  shows "d' = d \<or> (\<exists>i w. us_id w = i \<and> d' = update_user i (\<lambda>_. w) d)"
proof (cases "user_named d n")
  case None
  then show ?thesis using assms by (simp add: authenticate_def)
next
  case (Some u)
  let ?code = "if us_totp_enabled u
    then bindR (totp_verify cr (us_totp_secret u) code (us_totp_last_used_step u) now)
      (\<lambda>s. Inr (case s of None \<Rightarrow> None | Some t \<Rightarrow> Some (u\<lparr>us_totp_last_used_step := Some t\<rparr>)))
    else Inr (Some u)"
  have "d' = d \<or> (\<exists>v. ?code = Inr (Some v) \<and> d' = update_user (us_id u) (\<lambda>_. rehashed cr pw v) d)"
    using assms Some unfolding authenticate_def
    by (auto simp: Let_def split: if_split_asm option.split_asm)
  moreover have "us_id v = us_id u" if "?code = Inr (Some v)" for v
    using that by (auto split: if_split_asm option.split_asm)
  ultimately show ?thesis by (metis rehashed_ids(1))
qed

lemma calm_authenticate: "authenticate cr u pw code adm now d = Inr (out, d') \<Longrightarrow> calm d d'"
  using authenticate_db [of cr u pw code adm now d out d'] calm_update_user by fastforce

end
