(* ===== verification/FleetMachine.thy ===== *)
theory FleetMachine
  imports FleetCalm
begin

text \<open>
  The control plane as a state machine: the world moves by one request at a time, whoever
  sends it. A run starts from an empty database and the limiters of the settings. What holds
  of every state of every run, whatever the order of the requests, is proved by induction on
  the run.
\<close>

section \<open>Steps\<close>

text \<open>A new identifier: never used before, as the audit trail and the accounts show.\<close>

definition fresh_id :: "request \<Rightarrow> db \<Rightarrow> bool" where
  "fresh_id rq d \<longleftrightarrow> Some (rq_id rq) \<notin> trail_ids d \<and> rq_id rq \<notin> us_id ` set (users d)"

text \<open>A request of an administrator or of the agent that commits.\<close>

inductive edits :: "settings \<Rightarrow> db \<Rightarrow> db \<Rightarrow> bool" for st where
  edit_peer: "patch_peer rq st i u d = Inr (x, d') \<Longrightarrow> edits st d d'"
| edit_peer_gone: "delete_peer rq st i d = Inr d' \<Longrightarrow> edits st d d'"
| edit_key: "create_enrollment_key rq st i e d = Inr (k, d') \<Longrightarrow> edits st d d'"
| edit_key_gone: "revoke_enrollment_key rq st i b d = Inr d' \<Longrightarrow> edits st d d'"
| edit_user_new: "create_user rq uc d = Inr (ur, d') \<Longrightarrow> fresh_id rq d \<Longrightarrow> edits st d d'"
| edit_user: "update_user_account rq st i uu d = Inr (ur, d') \<Longrightarrow> edits st d d'"
| edit_user_gone: "delete_user rq i d = Inr d' \<Longrightarrow> edits st d d'"
| edit_totp_new: "provision_totp rq s i d = Inr (s', d') \<Longrightarrow> edits st d d'"
| edit_totp: "confirm_totp rq i c d = Inr d' \<Longrightarrow> edits st d d'"
| edit_totp_gone: "disable_totp rq i d = Inr d' \<Longrightarrow> edits st d d'"
| edit_group_new: "create_group rq st gc d = Inr (g, d') \<Longrightarrow> edits st d d'"
| edit_group: "patch_group rq st i gu d = Inr (g, d') \<Longrightarrow> edits st d d'"
| edit_group_gone: "delete_group rq st i d = Inr d' \<Longrightarrow> edits st d d'"
| edit_zone_new: "create_zone rq st zc d = Inr (z, d') \<Longrightarrow> edits st d d'"
| edit_zone: "patch_zone rq st i zu d = Inr (z, d') \<Longrightarrow> edits st d d'"
| edit_zone_gone: "delete_zone rq st i d = Inr d' \<Longrightarrow> edits st d d'"
| edit_route_new: "create_route rq st i rc d = Inr (r, d') \<Longrightarrow> edits st d d'"
| edit_route: "update_route rq st i k ru d = Inr (r, d') \<Longrightarrow> edits st d d'"
| edit_route_gone: "delete_route rq st i k d = Inr d' \<Longrightarrow> edits st d d'"
| edit_rule_new: "create_rule rq st ac d = Inr (a, d') \<Longrightarrow> edits st d d'"
| edit_rule: "patch_rule rq st i au d = Inr (a, d') \<Longrightarrow> edits st d d'"
| edit_rule_gone: "delete_rule rq st i d = Inr d' \<Longrightarrow> edits st d d'"
| edit_kill: "trigger_kill_switch rq st mode d = Inr (kr, d') \<Longrightarrow> edits st d d'"
| edit_sweep: "run_sweep rq st acquired d = Inr (sr, d') \<Longrightarrow> edits st d d'"
| edit_regenerate: "regenerate_ruleset rq st d = Inr (v, d') \<Longrightarrow> edits st d d'"
| edit_report: "edits st d (report rq p d)"
| edit_logout: "admin_logout rq auth d = Inr d' \<Longrightarrow> edits st d d'"
| edit_revoke: "revoke_session rq i d = Inr d' \<Longrightarrow> edits st d d'"

inductive api_step :: "settings \<Rightarrow> world \<Rightarrow> world \<Rightarrow> bool" for st where
  portal_login: "login rq st username password code w = (r, w') \<Longrightarrow> api_step st w w'"
| portal_logout: "logout rq st (wo_db w) = (r, d) \<Longrightarrow> api_step st w (w\<lparr>wo_db := d\<rparr>)"
| enrolling: "enroll rq st key wg w = (r, w') \<Longrightarrow> api_step st w w'"
| signing_in: "admin_login rq st username password code agent w = (r, w') \<Longrightarrow> api_step st w w'"
| registering: "create_peer rq st p (wo_db w) = Inr (x, d) \<Longrightarrow> fresh_id rq (wo_db w) \<Longrightarrow>
    api_step st w (w\<lparr>wo_db := d\<rparr>)"
| editing: "edits st (wo_db w) d \<Longrightarrow> api_step st w (w\<lparr>wo_db := d\<rparr>)"

inductive_cases api_stepE: "api_step st w w'"

definition empty_db :: db where
  "empty_db = \<lparr>users = [], groups = [], peers = [], acl_rules = [], sessions = [], admin_sessions = [],
     audit_log = [], versions = [], services = [], dns_records = [], sso_sessions = [], tags = []\<rparr>"

definition starts :: "settings \<Rightarrow> world \<Rightarrow> bool" where
  "starts st w \<longleftrightarrow> start_world st empty_db = Inr w"

definition runs_to :: "settings \<Rightarrow> world \<Rightarrow> bool" where
  "runs_to st w \<longleftrightarrow> (\<exists>w0. starts st w0 \<and> (api_step st)\<^sup>*\<^sup>* w0 w)"

section \<open>Invariants of a machine\<close>

locale machine =
  fixes initial :: "'s \<Rightarrow> bool" and step :: "'s \<Rightarrow> 's \<Rightarrow> bool" and inv :: "'s \<Rightarrow> bool"
  assumes initial_inv: "initial s \<Longrightarrow> inv s"
    and step_inv: "inv s \<Longrightarrow> step s s' \<Longrightarrow> inv s'"
begin

lemma run_inv: "step\<^sup>*\<^sup>* s s' \<Longrightarrow> inv s \<Longrightarrow> inv s'"
  by (induction rule: rtranclp_induct) (auto intro: step_inv)

lemma always: "initial s \<Longrightarrow> step\<^sup>*\<^sup>* s s' \<Longrightarrow> inv s'"
  using run_inv initial_inv by blast

end

text \<open>A fact that no step undoes while the invariant holds.\<close>

locale stable_fact = machine initial step inv
  for initial :: "'s \<Rightarrow> bool" and step :: "'s \<Rightarrow> 's \<Rightarrow> bool" and inv :: "'s \<Rightarrow> bool" +
  fixes fact :: "'s \<Rightarrow> bool"
  assumes kept: "inv s \<Longrightarrow> fact s \<Longrightarrow> step s s' \<Longrightarrow> fact s'"
begin

lemma kept_on_runs: "step\<^sup>*\<^sup>* s s' \<Longrightarrow> inv s \<Longrightarrow> fact s \<Longrightarrow> fact s'"
proof (induction rule: rtranclp_induct)
  case (step y z)
  then show ?case using kept run_inv by blast
qed

end

section \<open>The invariant of the fleet\<close>

definition authenticated :: "peer_row \<Rightarrow> bool" where
  "authenticated p \<longleftrightarrow> (pe_peer_type p = USER \<and> pe_state p = ACTIVE \<longrightarrow> pe_last_authenticated_at p \<noteq> None)"

definition fleet_ok :: "db \<Rightarrow> bool" where
  "fleet_ok d \<longleftrightarrow> keyed d \<and> user_keys d \<and> single_sessions d \<and>
     (\<forall>p\<in>set (peers d). authenticated p \<and> Some (pe_id p) \<in> trail_ids d)"

lemma single_live: "single_sessions d \<longleftrightarrow> (\<forall>k. length (live_sessions_of d k) \<le> 1)"
  by (simp add: single_sessions_def live_sessions_of_def)

lemma calm_fleet_ok:
  assumes "calm d d'" and "fleet_ok d"
  shows "fleet_ok d'"
proof -
  have c: "trail_ids d \<subseteq> trail_ids d'" "\<forall>q\<in>set (peers d'). \<exists>p\<in>set (peers d). quiet p q"
    "\<And>k. length (live_sessions_of d' k) \<le> length (live_sessions_of d k)"
    "keyed d \<Longrightarrow> keyed d'" "user_keys d \<Longrightarrow> user_keys d'"
    using assms(1) by (simp_all add: calm_def)
  have "authenticated q \<and> Some (pe_id q) \<in> trail_ids d'" if m: "q \<in> set (peers d')" for q
  proof -
    obtain p where p: "p \<in> set (peers d)" "quiet p q" using bspec [OF c(2) m] by (elim bexE)
    then have "authenticated p" "Some (pe_id p) \<in> trail_ids d" using assms(2) by (simp_all add: fleet_ok_def)
    then show ?thesis using c(1) p(2) by (auto simp: quiet_def authenticated_def)
  qed
  moreover have "single_sessions d'"
    using assms(2) c(3) order_trans unfolding single_live fleet_ok_def by blast
  ultimately show ?thesis using assms(2) c(4, 5) by (simp add: fleet_ok_def)
qed

section \<open>Each step\<close>

lemma calm_create_user:
  assumes "create_user rq p d = Inr (x, d')" and "fresh_id rq d"
  shows "calm d d'"
proof -
  obtain gids where d': "d' = created_user rq (new_user rq p gids) d"
    using assms(1) unfolding create_user_def Let_def
    by (auto split: if_split_asm)
  have "us_id (new_user rq p gids) = rq_id rq" by (simp add: new_user_def)
  then have "calm d (d\<lparr>users := users d @ [new_user rq p gids]\<rparr>)"
    using assms(2) by (intro calm_other) (auto simp: user_keys_def fresh_id_def trail_ids_def)
  then show ?thesis unfolding d' created_user_def by (rule calm_entries)
qed

lemma edits_calm: "edits st d d' \<Longrightarrow> keyed d \<Longrightarrow> calm d d'"
  by (induction rule: edits.induct)
    (blast intro: calm_patch_peer calm_delete_peer calm_create_enrollment_key calm_revoke_enrollment_key
      calm_create_user calm_update_user_account calm_delete_user calm_provision_totp calm_confirm_totp
      calm_disable_totp calm_create_group calm_patch_group calm_delete_group calm_create_zone
      calm_patch_zone calm_delete_zone calm_create_route calm_update_route calm_delete_route
      calm_create_rule calm_patch_rule calm_delete_rule calm_trigger_kill_switch calm_run_sweep
      calm_regenerate_ruleset calm_report calm_admin_logout calm_revoke_session)+

lemma calling_peer_some: "calling_peer rq st d = Inr p \<Longrightarrow> p \<in> set (peers d)"
  by (auto simp: calling_peer_def dest: find_row split: if_splits option.splits)

lemma calm_logout:
  assumes "logout rq st d = (r, d')" and "keyed d"
  shows "calm d d'"
proof (cases "\<exists>p e. calling_peer rq st d = Inr p \<and> r = Inr e")
  case False
  then have "d' = d" using assms(1) unfolding logout_def Let_def
    by (auto split: sum.splits if_splits)
  then show ?thesis by simp
next
  case True
  then obtain p where c: "calling_peer rq st d = Inr p" by blast
  define s where "s = (if pe_state p = ACTIVE then QUARANTINED else pe_state p)"
  define d1 where "d1 = revoke_sessions (pe_id p) (rq_now rq) d"
  from True c have "\<exists>x. regenerate_or_500 rq st ''portal.logout'' (audit_record x
      (update_peer (pe_id p) (\<lambda>q. q\<lparr>pe_state := s\<rparr>) d1)) = Inr d'"
    using assms(1) unfolding logout_def Let_def s_def d1_def by (auto split: sum.splits if_splits)
  then obtain x where r: "regenerate_or_500 rq st ''portal.logout'' (audit_record x
      (update_peer (pe_id p) (\<lambda>q. q\<lparr>pe_state := s\<rparr>) d1)) = Inr d'" ..
  have "q = p" if "q \<in> set (peers d1)" "pe_id q = pe_id p" for q
    using that calling_peer_some [OF c] keyed_inj [OF assms(2)] by (simp add: d1_def revoke_sessions_def)
  moreover have "quiet p (p\<lparr>pe_state := s\<rparr>)" by (simp add: quiet_def s_def)
  ultimately have "calm d1 (update_peer (pe_id p) (\<lambda>q. q\<lparr>pe_state := s\<rparr>) d1)"
    by (intro calm_update_peer) blast
  then have "calm d (audit_record x (update_peer (pe_id p) (\<lambda>q. q\<lparr>pe_state := s\<rparr>) d1))"
    using calm_trans [OF calm_revoke_sessions] by (auto simp: d1_def)
  then show ?thesis using calm_trans calm_regenerate_500 [OF r] by blast
qed

section \<open>Steps that are not calm\<close>

text \<open>
  A peer that proved itself became active. What a step leaves behind was there before, quiet or
  admitted, or has just been registered under an identifier nobody used.
\<close>

definition admitted :: "peer_row \<Rightarrow> peer_row \<Rightarrow> bool" where
  "admitted p q \<longleftrightarrow> pe_id q = pe_id p \<and> pe_peer_type q = pe_peer_type p \<and> pe_state p \<noteq> REVOKED \<and>
     pe_state q = ACTIVE \<and> (pe_peer_type p = USER \<longrightarrow> pe_last_authenticated_at q \<noteq> None)"

definition origin :: "db \<Rightarrow> peer_row \<Rightarrow> bool" where
  "origin d q \<longleftrightarrow> (\<exists>p\<in>set (peers d). quiet p q \<or> admitted p q) \<or>
     (pe_state q = STAGING \<and> Some (pe_id q) \<notin> trail_ids d)"

definition lawful :: "db \<Rightarrow> db \<Rightarrow> bool" where
  "lawful d d' \<longleftrightarrow> (fleet_ok d \<longrightarrow> fleet_ok d' \<and> (\<forall>q\<in>set (peers d'). origin d q) \<and> trail_ids d \<subseteq> trail_ids d')"

lemma calm_lawful: "calm d d' \<Longrightarrow> lawful d d'"
  using calm_fleet_ok unfolding lawful_def origin_def calm_def by meson

lemma admits_lawful:
  assumes "peers d' = map (\<lambda>q. if pe_id q = i then f q else q) (peers d)"
    and "\<And>q. fleet_ok d \<Longrightarrow> q \<in> set (peers d) \<Longrightarrow> pe_id q = i \<Longrightarrow> admitted q (f q)"
    and "single_sessions d \<Longrightarrow> single_sessions d'" and "user_keys d \<Longrightarrow> user_keys d'"
    and "trail_ids d \<subseteq> trail_ids d'"
  shows "lawful d d'"
  unfolding lawful_def
proof (intro impI conjI)
  assume ok: "fleet_ok d"
  have f: "admitted q (f q)" if "q \<in> set (peers d)" "pe_id q = i" for q using assms(2) ok that by blast
  have "map pe_id (peers d') = map pe_id (peers d)" using f by (simp add: assms(1) admitted_def)
  then have "keyed d'" using ok unfolding fleet_ok_def keyed_def by argo
  moreover have "authenticated q \<and> Some (pe_id q) \<in> trail_ids d'" if "q \<in> set (peers d')" for q
  proof -
    from that obtain p where p: "p \<in> set (peers d)" "q = (if pe_id p = i then f p else p)"
      by (auto simp: assms(1))
    then have "authenticated p" "Some (pe_id p) \<in> trail_ids d'" using ok assms(5) by (auto simp: fleet_ok_def)
    then show ?thesis using p f [OF p(1)] by (auto simp: admitted_def authenticated_def)
  qed
  ultimately show "fleet_ok d'" using ok assms(3, 4) by (simp add: fleet_ok_def)
  show "\<forall>q\<in>set (peers d'). origin d q" using f quiet_refl by (fastforce simp: assms(1) origin_def)
qed (rule assms(5))

subsection \<open>Login\<close>

lemma calm_spend_code: "spend_code rq code u d = Inr (v, d') \<Longrightarrow> calm d d' \<and> us_id v = us_id u"
  unfolding spend_code_def Let_def
  by (auto split: if_splits sum.splits option.splits intro!: calm_update_user)

lemma calm_login_checks:
  assumes "login_checks rq p n pw code d = Inr (v, d')"
  shows "calm d d'"
proof -
  obtain u u1 d1 where s: "spend_code rq code u d = Inr (u1, d1)"
      and v: "v = rehashed (rq_crypto rq) pw u1" "d' = update_user (us_id u1) (\<lambda>_. v) d1"
    using assms unfolding login_checks_def
    by (auto split: if_splits option.splits sum.splits simp: Let_def dest!: unit_result)
  have "calm d1 d'" unfolding v(2) by (rule calm_update_user) (simp add: v(1))
  then show ?thesis using calm_spend_code [OF s] calm_trans by blast
qed

lemma calm_login_denied:
  assumes "login_checks rq p n pw code d = Inl (Denied r d')"
  shows "calm d d'"
proof -
  have "d' = d \<or> (\<exists>u v. spend_code rq code u d = Inr (v, d')) \<or>
      (\<exists>u s. spend_code rq code u d = Inl (Denied s d'))"
    using assms unfolding login_checks_def
    by (auto simp: Let_def bindR_Inl_iff dest: unit_result split: if_splits option.splits sum.splits)
  then show ?thesis using calm_spend_code spend_code_denied by fastforce
qed

lemma calm_failed_login:
  assumes "login rq st n pw code w = (Inl e, w')"
  shows "calm (wo_db w) (wo_db w')"
  using assms unfolding login_def Let_def
  by (auto split: sum.splits prod.splits refusal.splits dest!: calm_login_denied
      intro: calm_trans [OF _ calm_audit_record])

lemma activate_rest:
  assumes "activate rq st p u meth detail d = (row, d')"
  shows "trail_ids d \<subseteq> trail_ids d' \<and> (user_keys d \<longrightarrow> user_keys d') \<and> (single_sessions d \<longrightarrow> single_sessions d')"
proof -
  let ?o = "open_session (rq_id rq) (rq_now rq) p u meth st (rq_client rq) d"
  have "audit_log (snd ?o) = audit_log d" "map us_id (users (snd ?o)) = map us_id (users d)"
    by (auto simp: open_session_def Let_def revoke_sessions_def)
  then have "audit_log d \<in> {xs. set xs \<subseteq> set (audit_log d')}" "map us_id (users d') = map us_id (users d)"
    using assms by (auto simp: activate_def Let_def split: prod.splits)
  moreover have "single_sessions d' = single_sessions (snd ?o)"
    using activate_sessions [OF assms] by (simp add: single_sessions_def)
  moreover have "single_sessions d \<Longrightarrow> single_sessions (snd ?o)" by (rule open_session_single)
  ultimately show ?thesis by (auto simp: trail_ids_def user_keys_def)
qed

lemma login_lawful: "login rq st n pw code w = (r, w') \<Longrightarrow> lawful (wo_db w) (wo_db w')"
proof (cases r)
  case (Inl e)
  then show "login rq st n pw code w = (r, w') \<Longrightarrow> ?thesis"
    using calm_failed_login calm_lawful by blast
next
  case (Inr x)
  assume "login rq st n pw code w = (r, w')"
  then obtain p u d row d1 where p: "calling_peer rq st (wo_db w) = Inr p"
      and c: "login_checks rq p n pw code (wo_db w) = Inr (u, d)"
      and a: "activate rq st p u LOCAL local_detail d = (row, d1)"
      and g: "regenerate_or_500 rq st ''portal.login'' d1 = Inr (wo_db w')"
    using login_ok Inr by blast
  let ?f = "\<lambda>q. q\<lparr>pe_last_authenticated_at := Some (Aware (rq_now rq)), pe_state := ACTIVE\<rparr>"
  have k: "same_access (wo_db w) d" "pe_state p \<noteq> REVOKED" if "user_keys (wo_db w)"
    using login_checks_ok [OF c] that by (auto simp: user_keys_def)
  show ?thesis
  proof (cases "fleet_ok (wo_db w)")
    case True
    then have u: "user_keys (wo_db w)" by (simp add: fleet_ok_def)
    note rest = regenerate_or_500_rest [OF g]
    have "peers (wo_db w') = map (\<lambda>q. if pe_id q = pe_id p then ?f q else q) (peers (wo_db w))"
      using activate_sessions [OF a] rest k(1) [OF u] by (simp add: same_access_def)
    then show ?thesis
    proof (rule admits_lawful)
      fix q assume "fleet_ok (wo_db w)" "q \<in> set (peers (wo_db w))" "pe_id q = pe_id p"
      then have "q = p" using keyed_inj calling_peer_some [OF p] by (auto simp: fleet_ok_def)
      then show "admitted q (?f q)" using k(2) [OF u] by (simp add: admitted_def)
    next
      assume s: "single_sessions (wo_db w)"
      then have "single_sessions d" using k(1) [OF u] by (simp add: same_access_def single_sessions_def)
      then show "single_sessions (wo_db w')"
        using activate_rest [OF a] rest by (simp add: single_sessions_def)
    next
      have "user_keys d" "trail_ids (wo_db w) \<subseteq> trail_ids d"
        using calm_login_checks [OF c] u by (simp_all add: calm_def)
      moreover have "user_keys (wo_db w') = user_keys d1" "trail_ids (wo_db w') = trail_ids d1"
        using rest by (simp_all add: user_keys_def trail_ids_def)
      ultimately show "user_keys (wo_db w')" "trail_ids (wo_db w) \<subseteq> trail_ids (wo_db w')"
        using activate_rest [OF a] by auto
    qed
  qed (simp add: lawful_def)
qed

subsection \<open>Enrollment\<close>

lemma enroll_checks_ok:
  assumes "enroll_checks rq p key wg d = Inr ()"
  shows "pe_peer_type p = SERVER \<and> pe_state p \<in> {STAGING, QUARANTINED, ACTIVE}"
proof -
  have "pe_peer_type p = SERVER" "assert_self_service_transition (pe_state p) ACTIVE = Inr ()"
    using assms unfolding enroll_checks_def by (auto split: if_splits sum.splits)
  then show ?thesis by (cases "pe_state p") (simp_all add: self_service_transition_iff)
qed

lemma enroll_checks_denied: "enroll_checks rq p key wg d = Inl (Denied r d') \<Longrightarrow> d' = d"
  unfolding enroll_checks_def by (auto split: if_splits sum.splits)

lemma enroll_cases:
  assumes "enroll rq st key wg w = (r, w')"
  shows "wo_db w' = wo_db w \<or> (\<exists>x. wo_db w' = audit_record x (wo_db w)) \<or>
    (\<exists>p x. calling_peer rq st (wo_db w) = Inr p \<and> enroll_checks rq p key wg (wo_db w) = Inr () \<and>
      regenerate_or_500 rq st ''peer.enroll'' (audit_record x (update_peer (pe_id p)
        (\<lambda>q. q\<lparr>pe_state := ACTIVE, pe_enrolled_at := Some (rq_now rq)\<rparr>) (wo_db w))) = Inr (wo_db w'))"
  using assms unfolding enroll_def Let_def
  by (fastforce split: sum.splits prod.splits refusal.splits dest: enroll_checks_denied unit_result)

lemma enroll_lawful: "enroll rq st key wg w = (r, w') \<Longrightarrow> lawful (wo_db w) (wo_db w')"
proof (drule enroll_cases, elim disjE exE conjE)
  fix p x
  assume p: "calling_peer rq st (wo_db w) = Inr p" and c: "enroll_checks rq p key wg (wo_db w) = Inr ()"
    and g: "regenerate_or_500 rq st ''peer.enroll'' (audit_record x (update_peer (pe_id p)
        (\<lambda>q. q\<lparr>pe_state := ACTIVE, pe_enrolled_at := Some (rq_now rq)\<rparr>) (wo_db w))) = Inr (wo_db w')"
  let ?f = "\<lambda>q. q\<lparr>pe_state := ACTIVE, pe_enrolled_at := Some (rq_now rq)\<rparr>"
  note rest = regenerate_or_500_rest [OF g]
  have "peers (wo_db w') = map (\<lambda>q. if pe_id q = pe_id p then ?f q else q) (peers (wo_db w))"
    using rest by simp
  then show ?thesis
  proof (rule admits_lawful)
    fix q assume "fleet_ok (wo_db w)" "q \<in> set (peers (wo_db w))" "pe_id q = pe_id p"
    then have "q = p" using keyed_inj calling_peer_some [OF p] by (auto simp: fleet_ok_def)
    then show "admitted q (?f q)" using enroll_checks_ok [OF c] by (auto simp: admitted_def)
  qed (use rest in \<open>auto simp: single_sessions_def user_keys_def trail_ids_def\<close>)
qed (auto intro: calm_lawful)

subsection \<open>An administrator signs in\<close>

lemma calm_issue:
  assumes "issue cr i r s u n ip ag now d = (x, d')"
  shows "calm d d'"
proof -
  define row where "row = fst x"
  define e where "e = d\<lparr>admin_sessions := admin_sessions d @ [row]\<rparr>"
  have "calm d e" unfolding e_def by (rule calm_users) simp_all
  moreover have "calm e (update_user (us_id u) (\<lambda>v. v\<lparr>us_last_login_at := Some now\<rparr>) e)"
    by (rule calm_update_user) simp
  moreover have "d' = update_user (us_id u) (\<lambda>v. v\<lparr>us_last_login_at := Some now\<rparr>) e"
    using assms by (auto simp: issue_def Let_def e_def row_def)
  ultimately show ?thesis using calm_trans by metis
qed

lemma calm_admin_login:
  assumes "admin_login rq st n pw code ag w = (r, w')"
  shows "calm (wo_db w) (wo_db w')"
  using assms unfolding admin_login_def Let_def
  by (auto split: sum.splits prod.splits option.splits dest!: calm_authenticate calm_issue
      intro: calm_trans [OF _ calm_audit_record] calm_trans)

subsection \<open>A device is registered\<close>

lemma resolve_tags_rest:
  "resolve_tags b d ns = Inr (names, d') \<Longrightarrow> \<exists>ts. d' = d\<lparr>tags := ts\<rparr>"
  by (auto simp: resolve_tags_def Let_def split: if_splits)

lemma trail_audit_as: "trail_ids (audit_as rq a t i j d) = insert i (trail_ids d)"
  by (simp add: audit_as_def audit_entry_def trail_ids_def split: option.split)

lemma store_peer_rest:
  assumes "store_peer rq st p row d = Inr (x, d')"
  shows "\<exists>a b d1. peers d1 = peers d @ [row] \<and> sessions d1 = sessions d \<and> users d1 = users d \<and>
    trail_ids d1 = insert (Some (pe_id row)) (trail_ids d) \<and>
    d' = update_peer (pe_id row) (\<lambda>q. q\<lparr>pe_tunnel_ip := a, pe_tunnel_ip6 := b\<rparr>) d1"
proof -
  obtain a b d1 where g: "regenerate_or_422 rq st ''peer.create''
           (audit_as rq ''peer.create'' ''peer'' (Some (pe_id row)) (peer_created_detail p (pe_tunnel_ip row))
             (d\<lparr>peers := peers d @ [row]\<rparr>)) = Inr d1"
      and d': "d' = update_peer (pe_id row) (\<lambda>q. q\<lparr>pe_tunnel_ip := a, pe_tunnel_ip6 := b\<rparr>) d1"
    using assms unfolding store_peer_def by (auto split: if_splits)
  note rest = regenerate_or_422_rest [OF g]
  have "trail_ids d1 = insert (Some (pe_id row)) (trail_ids d)"
    using rest by (simp add: trail_ids_def trail_audit_as [unfolded trail_ids_def])
  moreover have "peers d1 = peers d @ [row] \<and> sessions d1 = sessions d \<and> users d1 = users d"
    using rest by (simp add: audit_as_def)
  ultimately show ?thesis using d' by blast
qed

lemma new_peer_row: "pe_id (new_peer rq st p ip ip6 gids zid) = rq_id rq"
  "pe_state (new_peer rq st p ip ip6 gids zid) = STAGING"
  by (simp_all add: new_peer_def)

lemma create_peer_row:
  assumes "create_peer rq st p d = Inr (x, d')"
  shows "\<exists>row ts. pe_id row = rq_id rq \<and> pe_state row = STAGING \<and>
    store_peer rq st p row (d\<lparr>tags := ts\<rparr>) = Inr (x, d')"
proof -
  obtain row names d1 where row: "pe_id row = rq_id rq" "pe_state row = STAGING"
      and t: "resolve_tags (refused_insert rq d row) d (pc_tags p) = Inr (names, d1)"
      and s: "store_peer rq st p (row\<lparr>pe_tags := names\<rparr>) d1 = Inr (x, d')"
    using assms unfolding create_peer_def Let_def by auto (meson new_peer_row)
  show ?thesis using row s resolve_tags_rest [OF t]
    by (intro exI [of _ "row\<lparr>pe_tags := names\<rparr>"]) auto
qed

lemma create_peer_lawful:
  assumes "create_peer rq st p d = Inr (x, d')" and "fresh_id rq d"
  shows "lawful d d'"
  unfolding lawful_def
proof (intro impI)
  assume ok: "fleet_ok d"
  obtain row ts where row: "pe_id row = rq_id rq" "pe_state row = STAGING"
      and s: "store_peer rq st p row (d\<lparr>tags := ts\<rparr>) = Inr (x, d')"
    using create_peer_row [OF assms(1)] by blast
  obtain a b d1 where d1: "peers d1 = peers d @ [row]" "sessions d1 = sessions d" "users d1 = users d"
      "trail_ids d1 = insert (Some (pe_id row)) (trail_ids d)"
      and d': "d' = update_peer (pe_id row) (\<lambda>q. q\<lparr>pe_tunnel_ip := a, pe_tunnel_ip6 := b\<rparr>) d1"
    using store_peer_rest [OF s] by (auto simp: trail_ids_def)
  have new: "Some (pe_id row) \<notin> trail_ids d" using assms(2) row by (simp add: fresh_id_def)
  have "rq_id rq \<notin> pe_id ` set (peers d)" using new row ok by (auto simp: fleet_ok_def)
  then have "keyed d1" using ok d1(1) row(1) by (simp add: fleet_ok_def keyed_def)
  moreover have "authenticated row" using row by (simp add: authenticated_def)
  ultimately have "fleet_ok d1" using ok d1
    by (auto simp: fleet_ok_def user_keys_def single_sessions_def)
  moreover have c: "calm d1 d'" unfolding d' by (rule calm_update_peer) (simp add: quiet_def)
  ultimately have "fleet_ok d'" by (rule calm_fleet_ok [rotated])
  moreover have "origin d q" if in_d': "q \<in> set (peers d')" for q
  proof -
    obtain r where r: "r \<in> set (peers d1)" "quiet r q" "pe_state q = pe_state r"
      using in_d' by (auto simp: d' quiet_def)
    then show ?thesis using new d1(1) row(2) unfolding origin_def quiet_def by auto
  qed
  moreover have "trail_ids d \<subseteq> trail_ids d'" using c d1(4) by (auto simp: calm_def)
  ultimately show "fleet_ok d' \<and> (\<forall>q\<in>set (peers d'). origin d q) \<and> trail_ids d \<subseteq> trail_ids d'" by blast
qed

section \<open>The machine\<close>

lemma api_step_lawful:
  assumes "api_step st w w'" and "fleet_ok (wo_db w)"
  shows "fleet_ok (wo_db w') \<and> (\<forall>q\<in>set (peers (wo_db w')). origin (wo_db w) q) \<and>
    trail_ids (wo_db w) \<subseteq> trail_ids (wo_db w')"
proof -
  have k: "keyed (wo_db w)" using assms(2) by (simp add: fleet_ok_def)
  have "lawful (wo_db w) (wo_db w')"
    using assms(1)
  proof (cases rule: api_step.cases)
    case (portal_login rq n pw code r)
    then show ?thesis using login_lawful by blast
  next
    case (portal_logout rq r d)
    then show ?thesis using calm_logout k calm_lawful by simp
  next
    case (enrolling rq key wg r)
    then show ?thesis using enroll_lawful by blast
  next
    case (signing_in rq n pw code ag r)
    then show ?thesis using calm_admin_login calm_lawful by blast
  next
    case (registering rq p x d)
    then show ?thesis using create_peer_lawful by simp
  next
    case (editing d)
    then show ?thesis using edits_calm k calm_lawful by simp
  qed
  then show ?thesis using assms(2) by (simp add: lawful_def)
qed

lemma starts_ok: "starts st w \<Longrightarrow> fleet_ok (wo_db w)"
  by (auto simp: starts_def start_world_def empty_db_def fleet_ok_def keyed_def user_keys_def
      single_sessions_def)

interpretation fleet: machine "starts st" "api_step st" "\<lambda>w. fleet_ok (wo_db w)" for st
  by unfold_locales (use starts_ok api_step_lawful in blast)+

text \<open>Every peer under this identifier is revoked, and the identifier is used up.\<close>

definition revoked_id :: "string \<Rightarrow> db \<Rightarrow> bool" where
  "revoked_id i d \<longleftrightarrow> Some i \<in> trail_ids d \<and> (\<forall>p\<in>set (peers d). pe_id p = i \<longrightarrow> pe_state p = REVOKED)"

lemma origin_revoked:
  assumes "revoked_id i d" and "origin d q" and "pe_id q = i"
  shows "pe_state q = REVOKED"
  using assms by (fastforce simp: revoked_id_def origin_def quiet_def admitted_def)

interpretation revoked: stable_fact "starts st" "api_step st" "\<lambda>w. fleet_ok (wo_db w)"
    "\<lambda>w. revoked_id i (wo_db w)" for st i
proof unfold_locales
  fix w w'
  assume "fleet_ok (wo_db w)" "revoked_id i (wo_db w)" "api_step st w w'"
  then show "revoked_id i (wo_db w')"
    using api_step_lawful origin_revoked unfolding revoked_id_def by (metis subsetD)
qed

end
