(* ===== verification/MachineProperties.thy ===== *)
theory MachineProperties
  imports FleetMachine
begin

text \<open>
  What the machine guarantees of every run, and the run of a small deployment the properties
  are applied on: an account and its device are
  created, the person logs in, the device is revoked, and the agent reports.
\<close>

section \<open>Every run\<close>



lemma calm_activates_nobody:
  assumes "calm d d'" and "keyed d" and "p \<in> set (peers d)" and "q \<in> set (peers d')" and "pe_id q = pe_id p"
    and "pe_peer_type p = USER" and "pe_state p \<noteq> ACTIVE"
  shows "pe_state q \<noteq> ACTIVE"
proof -
  obtain p' where p': "p' \<in> set (peers d)" "quiet p' q" using assms(1, 4) unfolding calm_def by meson
  then have "p' = p" using keyed_inj assms(2, 3, 5) by (simp add: quiet_def)
  then show ?thesis using p'(2) assms(6, 7) by (auto simp: quiet_def)
qed

lemma enroll_activates_servers:
  assumes "enroll rq st key wg w = (r, w')" and "keyed (wo_db w)" and "p \<in> set (peers (wo_db w))"
    and "q \<in> set (peers (wo_db w'))" and "pe_id q = pe_id p" and "pe_peer_type p = USER"
  shows "q = p"
  using enroll_cases [OF assms(1)]
proof (elim disjE exE conjE)
  fix c x
  assume c: "calling_peer rq st (wo_db w) = Inr c" and k: "enroll_checks rq c key wg (wo_db w) = Inr ()"
    and g: "regenerate_or_500 rq st ''peer.enroll'' (audit_record x (update_peer (pe_id c)
        (\<lambda>q. q\<lparr>pe_state := ACTIVE, pe_enrolled_at := Some (rq_now rq)\<rparr>) (wo_db w))) = Inr (wo_db w')"
  have "pe_id p \<noteq> pe_id c"
    using keyed_inj [OF assms(2) assms(3) calling_peer_some [OF c]] enroll_checks_ok [OF k] assms(6) by auto
  then obtain q' where "q' \<in> set (peers (wo_db w))" "q = q'"
    using regenerate_or_500_rest [OF g] assms(4, 5) by (auto split: if_splits)
  then show ?thesis using keyed_inj [OF assms(2)] assms(3, 5) by simp
qed (use keyed_inj [OF assms(2)] assms(3-5) in auto)

lemma registering_changes_nobody:
  assumes "store_peer rq st b row d = Inr (x, d')" and "keyed d" and "Some (pe_id row) \<notin> trail_ids d"
    and "\<forall>p\<in>set (peers d). Some (pe_id p) \<in> trail_ids d"
    and "p \<in> set (peers d)" and "q \<in> set (peers d')" and "pe_id q = pe_id p"
  shows "q = p"
proof -
  have n: "pe_id p \<noteq> pe_id row" using assms(3-5) by auto
  have "\<exists>q'\<in>set (peers d). q = q'"
    using store_peer_rest [OF assms(1)] assms(6, 7) n by (auto split: if_splits)
  then show ?thesis using keyed_inj [OF assms(2)] assms(5, 7) by auto
qed


section \<open>A run\<close>

lemma regenerate_422_valid:
  assumes "case build_spec d st of Inl e \<Rightarrow> False | Inr s \<Rightarrow> validate_spec s = []" and "\<not> st_proxy_enabled st"
  shows "\<exists>vs. regenerate_or_422 rq st g d = Inr (d\<lparr>versions := vs\<rparr>)"
proof -
  obtain c where c: "render d st = Inr c"
    using assms(1) by (auto simp: render_def validate_spec_iff generate_ok split: sum.splits)
  have "\<exists>vs. snd (store_version sha i now g' c d) = d\<lparr>versions := vs\<rparr>" for sha i now g'
    by (cases "find (\<lambda>v. ve_digest v = sha c) (versions d)") (auto simp: store_version_def Let_def intro: exI [of _ "versions d"])
  then have "\<exists>v vs. regenerate (cr_sha256 (rq_crypto rq)) (rq_version_id rq) (rq_now rq) st g d =
      Inr (v, d\<lparr>versions := vs\<rparr>)"
    using c by (simp add: regenerate_def) (metis prod.collapse)
  then show ?thesis using assms(2) by (auto simp: regenerate_or_422_def)
qed

definition at_u :: request where "at_u = demo_request\<lparr>rq_id := ''u''\<rparr>"
definition at_b :: request where "at_b = from_b\<lparr>rq_id := ''b''\<rparr>"

definition run_user :: user_create where
  "run_user = \<lparr>uc_username = ''ada'', uc_email = None, uc_display_name = None, uc_is_admin = False,
     uc_is_active = True, uc_password = Some ''correct horse'', uc_idp_issuer = None, uc_idp_subject = None,
     uc_group_slugs = []\<rparr>"

definition run_peer :: peer_create where
  "run_peer = \<lparr>pc_name = ''laptop'', pc_description = None, pc_peer_type = USER, pc_wg_public_key = ''key'',
     pc_owner_user_id = Some ''u'', pc_group_slugs = [], pc_tags = [], pc_tunnel_ip = Some ''10.66.0.3'',
     pc_tunnel_ip6 = None, pc_dns_label = Some ''laptop'', pc_zone_slug = None\<rparr>"

definition run_row :: peer_row where
  "run_row = new_peer at_b demo_settings run_peer (Some ''10.66.0.3'') None [] None"

definition run_db1 :: db where "run_db1 = created_user at_u (new_user at_u run_user []) empty_db"

definition run_db2 :: db where
  "run_db2 = audit_as at_b ''peer.create'' ''peer'' (Some ''b'') (peer_created_detail run_peer (Some ''10.66.0.3''))
     (run_db1\<lparr>peers := [run_row]\<rparr>)"

lemma run_created: "\<exists>x. create_user at_u run_user empty_db = Inr (x, run_db1)"
  by (simp add: create_user_def run_db1_def run_user_def resolve_groups_def refused_user_def empty_db_def
      new_user_def too_long_def Let_def)

text \<open>A database that holds this one device and nothing else the ruleset depends on renders.\<close>

definition run_state :: "peer_state \<Rightarrow> datetime option \<Rightarrow> peer_row" where
  "run_state s t = run_row\<lparr>pe_state := s, pe_last_authenticated_at := t\<rparr>"

definition lone :: "peer_row \<Rightarrow> db \<Rightarrow> bool" where
  "lone p d \<longleftrightarrow> groups d = [] \<and> acl_rules d = [] \<and> services d = [] \<and> peers d = [p]"

lemma run_valid:
  assumes "lone (run_state s t) d"
  shows "case build_spec d demo_settings of Inl e \<Rightarrow> False | Inr sp \<Rightarrow> validate_spec sp = []"
proof -
  have "build_spec d demo_settings = build_spec (empty_db\<lparr>peers := [run_state s t]\<rparr>) demo_settings"
    using assms by (intro build_spec_cong) (simp_all add: lone_def empty_db_def)
  moreover have "case build_spec (empty_db\<lparr>peers := [run_state STAGING t]\<rparr>) demo_settings of
      Inl e \<Rightarrow> False | Inr sp \<Rightarrow> validate_spec sp = []" by code_simp
  moreover have "case build_spec (empty_db\<lparr>peers := [run_state ACTIVE t]\<rparr>) demo_settings of
      Inl e \<Rightarrow> False | Inr sp \<Rightarrow> validate_spec sp = []" by code_simp
  moreover have "case build_spec (empty_db\<lparr>peers := [run_state QUARANTINED t]\<rparr>) demo_settings of
      Inl e \<Rightarrow> False | Inr sp \<Rightarrow> validate_spec sp = []" by code_simp
  moreover have "case build_spec (empty_db\<lparr>peers := [run_state DISABLED t]\<rparr>) demo_settings of
      Inl e \<Rightarrow> False | Inr sp \<Rightarrow> validate_spec sp = []" by code_simp
  moreover have "case build_spec (empty_db\<lparr>peers := [run_state REVOKED t]\<rparr>) demo_settings of
      Inl e \<Rightarrow> False | Inr sp \<Rightarrow> validate_spec sp = []" by code_simp
  ultimately show ?thesis by (cases s) simp_all
qed

lemma demo_no_proxy: "\<not> st_proxy_enabled demo_settings" by code_simp

lemma run_regenerates:
  assumes "lone (run_state s t) d"
  shows "\<exists>d'. regenerate_or_422 rq demo_settings g d = Inr d' \<and> (\<exists>vs. d' = d\<lparr>versions := vs\<rparr>)"
    "\<exists>d'. regenerate_or_500 rq demo_settings g d = Inr d'"
  using regenerate_422_valid [OF run_valid [OF assms] demo_no_proxy]
    regenerate_or_500_valid [OF run_valid [OF assms]] by blast+

abbreviation run_account :: user_row where "run_account \<equiv> new_user at_u run_user []"

lemma run_registered:
  "\<exists>x d. create_peer at_b demo_settings run_peer run_db1 = Inr (x, d) \<and> lone (run_state STAGING None) d \<and>
     users d = [run_account]"
proof -
  have l: "lone (run_state STAGING None) run_db2"
    by (simp add: lone_def run_db2_def run_db1_def audit_as_def created_user_def empty_db_def run_state_def
        run_row_def new_peer_def)
  obtain vs where vs: "regenerate_or_422 at_b demo_settings ''peer.create'' run_db2 = Inr (run_db2\<lparr>versions := vs\<rparr>)"
    using run_regenerates(1) [OF l] by blast
  have a: "addresses_for demo_settings run_peer run_db1 = Inr (Some ''10.66.0.3'', None)"
    "resolve_groups run_db1 (pc_group_slugs run_peer) ZONE_HINT = Inr []"
    "resolve_zone run_db1 (pc_zone_slug run_peer) = Inr None" by code_simp+
  have b: "stored_inet at_b (pe_tunnel_ip run_row) = Inr (Some ''10.66.0.3'')"
    "stored_inet at_b (pe_tunnel_ip6 run_row) = Inr None" "refused_insert at_b run_db1 run_row = False"
    "pe_tags run_row = []" "pc_tags run_peer = []" "pe_id run_row = ''b''" "pe_tunnel_ip run_row = Some ''10.66.0.3''"
    by code_simp+
  have c: "stored_inet at_b (Some ''10.66.0.3'') = Inr (Some ''10.66.0.3'')"
    "resolve_tags False run_db1 [] = Inr ([], run_db1)" by code_simp+
  have e: "run_row\<lparr>pe_tags := []\<rparr> = run_row" by (simp add: run_row_def new_peer_def)
  have f: "run_db1\<lparr>peers := peers run_db1 @ [run_row]\<rparr> = run_db1\<lparr>peers := [run_row]\<rparr>"
    by (simp add: run_db1_def created_user_def audit_as_def empty_db_def)
  have "create_peer at_b demo_settings run_peer run_db1 = Inr (serialise_peer (run_db2\<lparr>versions := vs\<rparr>) run_row,
      update_peer ''b'' (\<lambda>q. q\<lparr>pe_tunnel_ip := Some ''10.66.0.3'', pe_tunnel_ip6 := None\<rparr>) (run_db2\<lparr>versions := vs\<rparr>))"
    using vs unfolding create_peer_def
    by (simp add: a b c e f Let_def run_row_def [symmetric] store_peer_def run_db2_def)
  moreover have "lone (run_state STAGING None) (update_peer ''b'' (\<lambda>q. q\<lparr>pe_tunnel_ip := Some ''10.66.0.3'',
      pe_tunnel_ip6 := None\<rparr>) (run_db2\<lparr>versions := vs\<rparr>))"
    using l by (auto simp: lone_def run_state_def run_row_def new_peer_def run_peer_def)
  ultimately show ?thesis
    by (intro exI conjI) (auto simp: run_db2_def run_db1_def audit_as_def created_user_def empty_db_def)
qed

lemma run_login:
  assumes "lone (run_state STAGING None) (wo_db w)" and "users (wo_db w) = [run_account]" and "wo_login w = demo_limiter"
  shows "\<exists>r w' t. login at_b demo_settings ''ada'' ''correct horse'' None w = (Inr r, w') \<and>
    calling_peer at_b demo_settings (wo_db w) = Inr (run_state STAGING None) \<and> lone (run_state ACTIVE t) (wo_db w') \<and>
    map us_id (users (wo_db w')) = [''u'']"
proof -
  let ?p = "run_state STAGING None"
  have p: "peers (wo_db w) = [?p]" using assms(1) by (simp add: lone_def)
  have "calling_peer at_b demo_settings (wo_db w) = calling_peer at_b demo_settings (empty_db\<lparr>peers := [?p]\<rparr>)"
    unfolding calling_peer_def by (simp add: p)
  also have "\<dots> = Inr ?p" by code_simp
  finally have c: "calling_peer at_b demo_settings (wo_db w) = Inr ?p" .
  have k: "portal_key ?p = portal_key demo_b" "rq_clock at_b = rq_clock from_b" by code_simp+
  obtain l where g: "guarded (wo_login w) (portal_key ?p) (rq_clock at_b) = (Inr (), l)"
    using demo_guard assms(3) unfolding k by auto
  have a: "pe_peer_type ?p = USER" "pe_owner_user_id ?p = Some ''u''" "us_id run_account = ''u''" "us_username run_account = ''ada''"
    "us_is_active run_account" "us_totp_enabled run_account = False" "rehashed (rq_crypto at_b) ''correct horse'' run_account = run_account"
    "verify_password (rq_crypto at_b) ''correct horse'' (us_password_hash run_account)"
    "assert_self_service_transition (pe_state ?p) ACTIVE = Inr ()" by code_simp+
  have l: "login_checks at_b ?p ''ada'' ''correct horse'' None (wo_db w) =
      Inr (run_account, update_user ''u'' (\<lambda>_. run_account) (wo_db w))"
    unfolding login_checks_def
    by (simp add: a owner_of_def user_named_def user_by_id_def assms(2) spend_code_def Let_def)
  define d where "d = update_user ''u'' (\<lambda>_. run_account) (wo_db w)"
  obtain row d1 where act: "activate at_b demo_settings ?p run_account LOCAL local_detail d = (row, d1)" by fastforce
  have d: "lone ?p d" using assms(1) by (simp add: d_def lone_def)
  have l1: "lone (run_state ACTIVE (Some (Aware (rq_now at_b)))) d1"
    using activate_sessions [OF act] act d
    by (auto simp: lone_def run_state_def activate_def open_session_def Let_def revoke_sessions_def)
  obtain d2 where r: "regenerate_or_500 at_b demo_settings ''portal.login'' d1 = Inr d2"
    using run_regenerates(2) [OF l1] by blast
  have "lone (run_state ACTIVE (Some (Aware (rq_now at_b)))) d2"
    using l1 regenerate_or_500_rest [OF r] r regenerate_peers
    by (auto simp: lone_def regenerate_or_500_def split: sum.splits prod.splits)
  moreover have "map us_id (users d2) = [''u'']"
    using regenerate_or_500_rest [OF r] act assms(2) a(3)
    by (auto simp: d_def activate_def open_session_def Let_def revoke_sessions_def)
  ultimately show ?thesis using c by (auto simp: login_def g l act r d_def [symmetric] Let_def)
qed

definition run_revocation :: peer_update where
  "run_revocation = \<lparr>pu_name = None, pu_description = None, pu_state = Some (Some REVOKED),
     pu_owner_user_id = None, pu_group_slugs = None, pu_tags = None, pu_dns_label = None, pu_zone_slug = None\<rparr>"

lemma run_revoked:
  assumes "lone (run_state ACTIVE t) d" and "map us_id (users d) = [''u'']"
  shows "\<exists>x d'. patch_peer at_u demo_settings ''b'' run_revocation d = Inr (x, d') \<and> lone (run_state REVOKED t) d'"
proof -
  let ?p = "run_state ACTIVE t" and ?q = "run_state REVOKED t"
  have s: "pe_id ?p = ''b''" "pe_state ?p = ACTIVE" "pe_state ?q = REVOKED" "pe_group_ids ?p = []" "pe_zone_id ?p = None"
    "pe_tags ?p = []" "pe_owner_user_id ?q = Some ''u''" "pe_id ?q = ''b''" "us_id run_account = ''u''"
    "changed_peer run_revocation [] None [] ?p = ?q" "check_state ?p (pu_state run_revocation) = Inr False"
    "pu_group_slugs run_revocation = None" "pu_zone_slug run_revocation = None" "pu_tags run_revocation = None"
    "is_null (pu_name run_revocation) = False" "is_null (pu_state run_revocation) = False" by code_simp+
  define e where "e = audit_as at_u ''peer.update'' ''peer'' (Some ''b'')
    (JObj [(''changes'', JList (map JStr (peer_changes run_revocation)))])
    (update_peer ''b'' (\<lambda>_. ?q) (revoke_sessions ''b'' (rq_now at_u) d))"
  have e: "lone ?q e" using assms(1) s(1) by (simp add: lone_def e_def audit_as_def revoke_sessions_def)
  obtain vs where r: "regenerate_or_422 at_u demo_settings ''peer.update'' e = Inr (e\<lparr>versions := vs\<rparr>)"
    using run_regenerates(1) [OF e] by blast
  have p: "peers d = [?p]" using assms(1) by (simp add: lone_def)
  have u: "user_by_id x (Some ''u'') \<noteq> None" if "users x = users d" for x
    using assms(2) that by (auto simp: user_by_id_def find_None_iff)
  have "patch_peer at_u demo_settings ''b'' run_revocation d =
      Inr (serialise_peer (e\<lparr>versions := vs\<rparr>) ?q, e\<lparr>versions := vs\<rparr>)"
    using r u unfolding patch_peer_def change_peer_def store_change_def
    by (simp add: peer_or_404_def p s sent_groups_def sent_zone_def sent_tags_def note_override_def Let_def
        refused_update_def owner_missing_def revoke_sessions_def e_def [symmetric])
      (simp add: e_def revoke_sessions_def)
  then show ?thesis using e by (auto simp: lone_def)
qed

lemma the_run:
  "\<exists>w2 w3 w4 t. runs_to demo_settings w2 \<and> lone (run_state STAGING None) (wo_db w2) \<and>
     api_step demo_settings w2 w3 \<and> lone (run_state ACTIVE t) (wo_db w3) \<and>
     api_step demo_settings w3 w4 \<and> lone (run_state REVOKED t) (wo_db w4)"
proof -
  let ?w0 = "demo_world empty_db"
  obtain x1 where x1: "create_user at_u run_user empty_db = Inr (x1, run_db1)" using run_created by blast
  have "edits demo_settings (wo_db ?w0) run_db1"
    using edit_user_new [OF x1] by (simp add: fresh_id_def empty_db_def trail_ids_def)
  then have s1: "api_step demo_settings ?w0 (?w0\<lparr>wo_db := run_db1\<rparr>)" by (rule editing)
  obtain x2 d2 where c: "create_peer at_b demo_settings run_peer run_db1 = Inr (x2, d2)"
      and d2: "lone (run_state STAGING None) d2" "users d2 = [run_account]" using run_registered by blast
  let ?w1 = "?w0\<lparr>wo_db := run_db1\<rparr>" and ?w2 = "?w0\<lparr>wo_db := d2\<rparr>"
  have "fresh_id at_b run_db1" by code_simp
  then have "api_step demo_settings ?w1 (?w1\<lparr>wo_db := d2\<rparr>)" using c by (intro registering) simp_all
  then have s2: "api_step demo_settings ?w1 ?w2" by simp
  obtain r w3 t where l: "login at_b demo_settings ''ada'' ''correct horse'' None ?w2 = (Inr r, w3)"
      and d3: "lone (run_state ACTIVE t) (wo_db w3)" "map us_id (users (wo_db w3)) = [''u'']"
    using run_login [of ?w2] d2 by auto
  have s3: "api_step demo_settings ?w2 w3" using l by (rule portal_login)
  obtain x4 d4 where p: "patch_peer at_u demo_settings ''b'' run_revocation (wo_db w3) = Inr (x4, d4)"
      and d4: "lone (run_state REVOKED t) d4" using run_revoked [OF d3] by blast
  have s4: "api_step demo_settings w3 (w3\<lparr>wo_db := d4\<rparr>)" by (rule editing) (rule edit_peer [OF p])
  have "starts demo_settings ?w0" by (simp add: starts_def demo_world_starts)
  then have "runs_to demo_settings ?w2" unfolding runs_to_def using s1 s2 by (meson converse_rtranclp_into_rtranclp r_into_rtranclp)
  then show ?thesis using s3 s4 d2(1) d3(1) d4 by (intro exI [of _ ?w2] exI [of _ w3] exI [of _ "w3\<lparr>wo_db := d4\<rparr>"] exI [of _ t]) simp
qed

definition run_report :: agent_report where
  "run_report = \<lparr>ag_digest = ''d'', ag_success = False, ag_error = None, ag_dns_digest = None, ag_dns_error = None,
     ag_proxy_digest = None, ag_proxy_error = None\<rparr>"

lemma report_peers: "peers (report rq p d) = peers d"
  by (auto simp: report_def Let_def agent_entry_def mark_applied_def mark_failed_def update_version_def
      split: option.splits)




end
