(* ===== verification/ProfileApi.thy ===== *)
theory ProfileApi
  imports FleetApi PeersApi
begin

text \<open>
  \<open>services/clientconfig.py\<close> and the route that serves it: everything a device's WireGuard
  configuration needs except its private key. A profile is incomplete by design while the
  deployment has not been told its own key or address; the warnings say what is missing. A
  stored network that does not parse is a \<open>ValueError\<close> nobody catches.
\<close>

record client_profile =
  cp_peer_id :: string
  cp_peer_name :: string
  cp_peer_state :: peer_state
  cp_fqdn :: "string option"
  cp_addresses :: "string list"
  cp_dns :: "string list"
  cp_mtu :: "int option"
  cp_server_public_key :: "string option"
  cp_endpoint :: "string option"
  cp_allowed_ips :: "string list"
  cp_persistent_keepalive :: int
  cp_allowed_ips_mode :: allowed_ips_mode
  cp_excluded_routes :: "string list"
  cp_warnings :: "string list"

definition profile_complete :: "client_profile \<Rightarrow> bool" where
  "profile_complete p \<longleftrightarrow> truthy (cp_server_public_key p) \<and> truthy (cp_endpoint p) \<and> cp_addresses p \<noteq> []"

definition CONNECTABLE :: "peer_state set" where
  "CONNECTABLE = {STAGING, QUARANTINED, ACTIVE}"

text \<open>The enabled routes with the key of their zone, in the order of their network.\<close>

definition enabled_routes :: "db \<Rightarrow> (string \<times> route_row) list" where
  "enabled_routes d = sort_key (\<lambda>(z, r). zr_cidr r) (concat (map (\<lambda>g.
     map (\<lambda>r. (gr_id g, r)) (filter zr_enabled (gr_routes g))) (groups d)))"

definition has_internet_exit :: "db \<Rightarrow> peer_row \<Rightarrow> bool" where
  "has_internet_exit d p \<longleftrightarrow> list_ex (\<lambda>g. gr_internet_exit g \<and>
     (gr_id g \<in> set (pe_group_ids p) \<or> Some (gr_id g) = pe_zone_id p)) (groups d)"

definition profile_addresses :: "peer_row \<Rightarrow> string list" where
  "profile_addresses p =
     (if truthy (pe_tunnel_ip p) then [the (pe_tunnel_ip p) @ ''/32''] else []) @
     (if truthy (pe_tunnel_ip6 p) then [the (pe_tunnel_ip6 p) @ ''/128''] else [])"

definition carried_by :: "db \<Rightarrow> peer_row \<Rightarrow> string list" where
  "carried_by d p = map (zr_cidr \<circ> snd) (filter (\<lambda>(z, r). zr_via_peer_id r = Some (pe_id p)) (enabled_routes d))"

definition own_zone_routes :: "db \<Rightarrow> peer_row \<Rightarrow> string list" where
  "own_zone_routes d p = map (zr_cidr \<circ> snd) (filter (\<lambda>(z, r). Some z = pe_zone_id p) (enabled_routes d))"

definition profile_networks ::
  "settings \<Rightarrow> db \<Rightarrow> peer_row \<Rightarrow> allowed_ips_mode \<Rightarrow> (value_error, string list \<times> string list) result" where
  "profile_networks st d p mode = compute_allowed_ips mode (tunnel_pools st) (own_zone_routes d p)
     (map (zr_cidr \<circ> snd) (enabled_routes d)) (carried_by d p) (cc_extra_allowed_ips (st_client st))"

definition state_warnings :: "peer_row \<Rightarrow> string list" where
  "state_warnings p =
     (if pe_state p \<notin> CONNECTABLE then [''this peer is '' @ peer_state_value (pe_state p) @
        '': the gateway will not accept its handshake until that changes'']
      else if pe_state p \<noteq> ACTIVE then [''this peer is '' @ peer_state_value (pe_state p) @
        '': the tunnel will come up, but it reaches only the portal until it authenticates'']
      else [])"

definition profile_warnings ::
  "settings \<Rightarrow> db \<Rightarrow> peer_row \<Rightarrow> allowed_ips_mode \<Rightarrow> string list \<Rightarrow> string list \<Rightarrow> string list" where
  "profile_warnings st d p mode excluded dns =
     (if profile_addresses p = [] then [''this peer has no tunnel address, so there is nothing to put on the Address line -- re-register it''] else []) @
     (if \<not> truthy (st_wg_public_key st) then [''the gateway'' @ CHR 0x27 # ''s own public key is not configured, so this config cannot connect -- set FOXGUARD_WG_PUBLIC_KEY to the output of `wg show '' @ st_wg_interface st @ '' public-key`''] else []) @
     (if \<not> truthy (client_endpoint st) then [''no public endpoint is configured, so this config cannot connect -- set FOXGUARD_WG_ENDPOINT_HOST to the address your router forwards udp/'' @ show_int (st_wg_listen_port st) @ '' to''] else []) @
     (if excluded \<noteq> [] then [join '', '' excluded @ '' left out of AllowedIPs: this device carries those networks for a zone, and routing them into the tunnel would cut it off from the very networks it serves''] else []) @
     state_warnings p @
     (if mode = FULL \<and> \<not> has_internet_exit d p then [''full tunnel selected, but no group this peer belongs to has internet exit -- the device will send everything to the gateway and the gateway will drop it, leaving it with no internet at all''] else []) @
     (if dns \<noteq> [] \<and> ds_mode (st_dns st) = SPLIT then [''the resolver runs in split mode, which REFUSES anything outside '' @ ds_zone (st_dns st) @ '': this device needs a second resolver of its own, or it will resolve nothing else''] else [])"

definition build_profile ::
  "db \<Rightarrow> settings \<Rightarrow> peer_row \<Rightarrow> allowed_ips_mode option \<Rightarrow> int option \<Rightarrow> int option \<Rightarrow> bool option
     \<Rightarrow> (value_error, client_profile) result" where
  "build_profile d st p mode keepalive mtu include_dns =
     (let m = (case mode of None \<Rightarrow> cc_allowed_ips (st_client st) | Some x \<Rightarrow> x) in
      bindR (profile_networks st d p m) (\<lambda>(allowed_ips, excluded).
       (let dns = (if include_dns \<noteq> Some False then client_dns st else []) in
        Inr \<lparr>cp_peer_id = pe_id p, cp_peer_name = pe_name p, cp_peer_state = pe_state p,
          cp_fqdn = (if ds_enabled (st_dns st) \<and> truthy (pe_dns_label p)
            then Some (the (pe_dns_label p) @ CHR ''.'' # ds_zone (st_dns st)) else None),
          cp_addresses = profile_addresses p, cp_dns = dns,
          cp_mtu = (case mtu of None \<Rightarrow> cc_mtu (st_client st) | Some x \<Rightarrow> Some x),
          cp_server_public_key = st_wg_public_key st, cp_endpoint = client_endpoint st,
          cp_allowed_ips = allowed_ips,
          cp_persistent_keepalive = (case keepalive of None \<Rightarrow> cc_keepalive (st_client st) | Some x \<Rightarrow> x),
          cp_allowed_ips_mode = m, cp_excluded_routes = excluded,
          cp_warnings = profile_warnings st d p m excluded dns\<rparr>)))"

fun allowed_ips_mode_value :: "allowed_ips_mode \<Rightarrow> string" where
  "allowed_ips_mode_value TUNNEL = ''tunnel''"
| "allowed_ips_mode_value ZONE_ONLY = ''zone''"
| "allowed_ips_mode_value ROUTED = ''routed''"
| "allowed_ips_mode_value FULL = ''full''"

definition get_config_profile ::
  "request \<Rightarrow> settings \<Rightarrow> string \<Rightarrow> allowed_ips_mode option \<Rightarrow> int option \<Rightarrow> int option \<Rightarrow> bool option \<Rightarrow> db
     \<Rightarrow> (http_exn, (client_profile \<times> bool) \<times> db) result" where
  "get_config_profile rq st i mode keepalive mtu dns d =
     bindR (peer_or_404 d i) (\<lambda>p.
       case build_profile d st p mode keepalive mtu dns of
         Inl e \<Rightarrow> Inl Unhandled
       | Inr c \<Rightarrow> Inr ((c, profile_complete c), audit_as rq ''peer.config_profile.read'' ''peer'' (Some i)
           (JObj [(''allowed_ips_mode'', JStr (allowed_ips_mode_value (cp_allowed_ips_mode c)))]) d))"

section \<open>The profile and the gateway\<close>

lemma filter_concat_map: "filter P (concat (map f xs)) = concat (map (\<lambda>x. filter P (f x)) xs)"
  by (induction xs) auto

lemma enabled_routes_set:
  "set (enabled_routes d) = {(gr_id g, r) |g r. g \<in> set (groups d) \<and> r \<in> set (gr_routes g) \<and> zr_enabled r}"
  by (auto simp: enabled_routes_def)

lemma carried_routes_set:
  "set (carried_routes d) = {(zr_cidr r, i) |g r i. g \<in> set (groups d) \<and> r \<in> set (gr_routes g) \<and>
     zr_enabled r \<and> zr_via_peer_id r = Some i}"
  by (auto simp: carried_routes_def split: option.splits if_splits; metis)

lemma carried_same: "(c, pe_id p) \<in> set (carried_routes d) \<Longrightarrow> c \<in> set (carried_by d p)"
  unfolding carried_by_def carried_routes_set
  by (auto simp: enabled_routes_set image_iff)

lemma parsed_member: "mapR py_network xs = Inr ns \<Longrightarrow> x \<in> set xs \<Longrightarrow> \<exists>n\<in>set ns. ip_network x = Some n"
  by (induction xs arbitrary: ns) auto

lemma kept_networks:
  assumes "compute_allowed_ips m pools own routed mine extra = Inr (keep, ex)"
  shows "\<exists>cs ns. mapR py_network mine = Inr cs \<and> set keep = show_net ` {n \<in> set ns. \<not> is_carried cs n} \<and>
    (\<forall>n\<in>set ns. wf_net n)"
proof -
  obtain cs ch ns where "mapR py_network mine = Inr cs" and ns: "mapR py_network ch = Inr ns"
      and "keep = sort_key cidr_sort_key (dict_keys (map show_net (filter (\<lambda>n. \<not> is_carried cs n) ns)))"
    using assms by (auto simp: compute_allowed_ips_def Let_def)
  moreover have "\<forall>n\<in>set ns. wf_net n" using networks_set [OF ns] ip_network_wf by blast
  ultimately show ?thesis by (intro exI [of _ cs] exI [of _ ns]) auto
qed

text \<open>
  C37: a device and the gateway agree on who carries what. Whatever the mode and the overrides, the addresses
  on the device's own line are exactly those the gateway accepts from its key, and no network
  that the gateway encrypts to this device, because the device carries it for a zone, is ever
  among those the device sends into the tunnel: it is reported as left out, or was not asked
  for. A default route is the one exception.
\<close>

theorem no_network_goes_both_ways:
  assumes "build_profile d st p mode keepalive mtu dns = Inr c"
  shows "allowed_ips_of (carried_routes d) p = cp_addresses c @ sort (map fst (filter (\<lambda>r. snd r = pe_id p) (carried_routes d)))
    \<and> (\<forall>r\<in>set (carried_routes d). snd r = pe_id p \<longrightarrow>
         (\<exists>n. ip_network (fst r) = Some n \<and> (0 < prefixlen n \<longrightarrow> show_net n \<notin> set (cp_allowed_ips c))))"
proof (intro conjI)
  show "allowed_ips_of (carried_routes d) p =
      cp_addresses c @ sort (map fst (filter (\<lambda>r. snd r = pe_id p) (carried_routes d)))"
    using assms by (auto simp: build_profile_def Let_def allowed_ips_of_def profile_addresses_def)
  obtain m ex where n: "compute_allowed_ips m (tunnel_pools st) (own_zone_routes d p) (map (zr_cidr \<circ> snd) (enabled_routes d))
      (carried_by d p) (cc_extra_allowed_ips (st_client st)) = Inr (cp_allowed_ips c, ex)"
    using assms by (auto simp: build_profile_def Let_def profile_networks_def)
  obtain cs ns where cs: "mapR py_network (carried_by d p) = Inr cs"
      and k: "set (cp_allowed_ips c) = show_net ` {n \<in> set ns. \<not> is_carried cs n}" and w: "\<forall>n\<in>set ns. wf_net n"
    using kept_networks [OF n] by blast
  show "\<forall>r\<in>set (carried_routes d). snd r = pe_id p \<longrightarrow>
      (\<exists>n. ip_network (fst r) = Some n \<and> (0 < prefixlen n \<longrightarrow> show_net n \<notin> set (cp_allowed_ips c)))"
  proof (intro ballI impI)
    fix r assume r: "r \<in> set (carried_routes d)" "snd r = pe_id p"
    then have "fst r \<in> set (carried_by d p)" using carried_same [of "fst r" p d] by (metis prod.collapse)
    then obtain n where n: "ip_network (fst r) = Some n" "n \<in> set cs"
      using parsed_member [OF cs] by blast
    moreover have "show_net n \<notin> set (cp_allowed_ips c)" if "0 < prefixlen n"
    proof
      assume "show_net n \<in> set (cp_allowed_ips c)"
      then obtain m where m: "m \<in> set ns" "\<not> is_carried cs m" "show_net n = show_net m" using k by auto
      then have "ip_network (show_net m) = Some m" "ip_network (show_net n) = Some n"
        using w ip_network_wf [OF n(1)] ip_network_show_net by blast+
      then have "m = n" using m(3) by simp
      then show False using m(2) n(2) that by (simp add: is_carried_def)
    qed
    ultimately show "\<exists>n. ip_network (fst r) = Some n \<and> (0 < prefixlen n \<longrightarrow> show_net n \<notin> set (cp_allowed_ips c))"
      by (intro exI [of _ n]) simp
  qed
qed

text \<open>The demo's first device, which carries the site's network, in the routed mode.\<close>

theorem no_network_goes_both_ways_witness:
  "\<exists>c. build_profile demo_db demo_settings (demo_row ''a'' ACTIVE ''10.66.0.2'') None None None None = Inr c \<and>
     carried_routes demo_db = [(''192.168.7.0/24'', ''a'')] \<and> ''192.168.7.0/24'' \<notin> set (cp_allowed_ips c)"
proof -
  have n: "profile_networks demo_settings demo_db (demo_row ''a'' ACTIVE ''10.66.0.2'') ROUTED =
      Inr ([''10.66.0.0/24''], [''192.168.7.0/24''])" by code_simp
  have m: "cc_allowed_ips (st_client demo_settings) = ROUTED" by code_simp
  obtain c where c: "build_profile demo_db demo_settings (demo_row ''a'' ACTIVE ''10.66.0.2'') None None None None = Inr c"
    by (simp add: build_profile_def Let_def m n)
  have r: "carried_routes demo_db = [(''192.168.7.0/24'', ''a'')]" by code_simp
  have "ip_network ''192.168.7.0/24'' = Some (IPNet (IP4 3232237312) 24)"
    "show_net (IPNet (IP4 3232237312) 24) = ''192.168.7.0/24''" by code_simp+
  then have "''192.168.7.0/24'' \<notin> set (cp_allowed_ips c)"
    using no_network_goes_both_ways [OF c] unfolding r by simp
  then show ?thesis using c r by blast
qed

end
