(* ===== verification/ProxySpec.thy ===== *)
theory ProxySpec
  imports Config NftGenerator
begin

text \<open>
  The data of \<open>backend/foxguard/proxy/model.py\<close>: a frozen description of everything the reverse
  proxy does, with the questions its methods answer. No secret is in it in the clear: a token
  is its digest and a password its hash.
\<close>

datatype access_action = ALLOW | DENY

text \<open>What needs the request, what is only accepted by the schema, what names countries.\<close>

definition HTTP_ONLY_AUTH :: "auth_kind set" where
  "HTTP_ONLY_AUTH = {BEARER, BASIC, FOXGUARD_SSO}"

definition HTTP_ONLY_FILTERS :: "filter_kind set" where
  "HTTP_ONLY_FILTERS = {WAF}"

definition UNIMPLEMENTED_FILTERS :: "filter_kind set" where
  "UNIMPLEMENTED_FILTERS = {WAF, CROWDSEC}"

definition GEO_FILTERS :: "filter_kind set" where
  "GEO_FILTERS = {GEO_ALLOW, GEO_DENY}"

record source_set =
  so_name :: string
  so_members :: "string list"
  so_comment :: "string option"

record peer_identity =
  pi_address :: string
  pi_label :: string
  pi_groups :: "string list"

record access_rule =
  xr_action :: access_action
  xr_source :: "string option"
  xr_is_set :: bool

record authenticator =
  xn_kind :: auth_kind
  xn_scope :: scope
  xn_realm :: "string option"
  xn_groups :: "string list"
  xn_require_admin :: bool

record proxy_filter =
  fi_kind :: filter_kind
  fi_scope :: scope
  fi_values :: "string list"
  fi_rate :: "int option"
  fi_period_seconds :: "int option"

record account =
  xc_username :: string
  xc_password_hash :: string

record backend =
  bk_address :: string
  bk_port :: int
  bk_tls :: bool
  bk_tls_verify :: bool
  bk_check :: bool
  bk_check_interval_seconds :: int
  bk_peer_label :: "string option"

record service =
  pv_slug :: string
  pv_kind :: service_kind
  pv_exposure :: exposure
  pv_backend :: backend
  pv_internal_hostname :: "string option"
  pv_external_hostname :: "string option"
  pv_listen_port :: "int option"
  pv_sni_hostname :: "string option"
  pv_authenticators :: "authenticator list"
  pv_filters :: "proxy_filter list"
  pv_access :: "access_rule list"
  pv_token_hashes :: "string list"
  pv_accounts :: "account list"
  pv_description :: "string option"

definition auth_for :: "service \<Rightarrow> exposure \<Rightarrow> authenticator list" where
  "auth_for s e = filter (\<lambda>a. covers (xn_scope a) e) (pv_authenticators s)"

definition filters_for :: "service \<Rightarrow> exposure \<Rightarrow> proxy_filter list" where
  "filters_for s e = filter (\<lambda>f. covers (fi_scope f) e) (pv_filters s)"

text \<open>A rule that names a set says nothing about a caller from outside the tunnel.\<close>

definition access_for :: "service \<Rightarrow> exposure \<Rightarrow> access_rule list" where
  "access_for s e = (if e = EXTERNAL then filter (\<lambda>r. \<not> xr_is_set r) (pv_access s) else pv_access s)"

definition rate_limit :: "service \<Rightarrow> proxy_filter option" where
  "rate_limit s = find (\<lambda>f. fi_kind f = RATE_LIMIT) (pv_filters s)"

record proxy_spec =
  pp_domain :: string
  pp_internal_binds :: "string list"
  pp_external_binds :: "string list"
  pp_internal_https_port :: int
  pp_external_http_port :: int
  pp_external_https_port :: int
  pp_certs_dir :: string
  pp_maps_dir :: string
  pp_runtime_socket :: string
  pp_hsts_max_age :: int
  pp_send_group_header :: bool
  pp_sso_secret :: string
  pp_sso_cookie :: string
  pp_sso_hostname :: "string option"
  pp_sso_cookie_domain :: string
  pp_sso_api_port :: int
  pp_sso_api_address :: string
  pp_sso_api_tls :: bool
  pp_sso_revoked :: "string list"
  pp_dashboard_hostname :: "string option"
  pp_dashboard_address :: string
  pp_dashboard_port :: int
  pp_geo_map :: string
  pp_services :: "service list"
  pp_source_sets :: "source_set list"
  pp_peers :: "peer_identity list"
  pp_connect_timeout_seconds :: int
  pp_client_timeout_seconds :: int
  pp_server_timeout_seconds :: int
  pp_tunnel_timeout_seconds :: int
  pp_extra_options :: "string list"

text \<open>\<open>ProxySpec()\<close>, the defaults of the class.\<close>

definition empty_spec :: proxy_spec where
  "empty_spec = \<lparr>pp_domain = [], pp_internal_binds = [], pp_external_binds = [],
     pp_internal_https_port = 443, pp_external_http_port = 80, pp_external_https_port = 443,
     pp_certs_dir = ''/etc/foxguard/proxy/certs'', pp_maps_dir = ''/etc/foxguard/proxy/maps'',
     pp_runtime_socket = ''/run/foxguard/haproxy.sock'', pp_hsts_max_age = 31536000,
     pp_send_group_header = False, pp_sso_secret = [], pp_sso_cookie = ''fg_sso'',
     pp_sso_hostname = None, pp_sso_cookie_domain = [], pp_sso_api_port = 8080,
     pp_sso_api_address = [], pp_sso_api_tls = False, pp_sso_revoked = [],
     pp_dashboard_hostname = None, pp_dashboard_address = [], pp_dashboard_port = 3000,
     pp_geo_map = ''geo.map'', pp_services = [], pp_source_sets = [], pp_peers = [],
     pp_connect_timeout_seconds = 5, pp_client_timeout_seconds = 60, pp_server_timeout_seconds = 60,
     pp_tunnel_timeout_seconds = 3600, pp_extra_options = []\<rparr>"

definition uses_sso :: "proxy_spec \<Rightarrow> bool" where
  "uses_sso p \<longleftrightarrow> list_ex (\<lambda>s. list_ex (\<lambda>a. xn_kind a = FOXGUARD_SSO) (pv_authenticators s)) (pp_services p)"

definition publishes_dashboard :: "proxy_spec \<Rightarrow> bool" where
  "publishes_dashboard p \<longleftrightarrow> truthy (pp_dashboard_hostname p)"

definition spec_has_internal :: "proxy_spec \<Rightarrow> bool" where
  "spec_has_internal p \<longleftrightarrow> publishes_dashboard p \<or> list_ex (\<lambda>s. has_internal (pv_exposure s)) (pp_services p)"

definition spec_has_external :: "proxy_spec \<Rightarrow> bool" where
  "spec_has_external p \<longleftrightarrow> list_ex (\<lambda>s. has_external (pv_exposure s)) (pp_services p)"

definition set_names :: "proxy_spec \<Rightarrow> string set" where
  "set_names p = so_name ` set (pp_source_sets p)"

definition geo_countries :: "proxy_spec \<Rightarrow> string list" where
  "geo_countries p = sort (remdups (concat (map (\<lambda>s. concat (map fi_values
     (filter (\<lambda>f. fi_kind f \<in> GEO_FILTERS) (pv_filters s)))) (pp_services p))))"

definition uses_geo :: "proxy_spec \<Rightarrow> bool" where
  "uses_geo p \<longleftrightarrow> geo_countries p \<noteq> []"

definition is_address_or_cidr :: "string \<Rightarrow> bool" where
  "is_address_or_cidr v \<longleftrightarrow> ip_network v \<noteq> None"

definition is_hostname :: "string \<Rightarrow> bool" where
  "is_hostname v \<longleftrightarrow> v \<noteq> [] \<and> length v \<le> 253 \<and> NAME_RE v"

text \<open>\<open>^\$[56]\$[./A-Za-z0-9]{1,16}\$[./A-Za-z0-9]{20,}$\<close>: the parts between the dollar signs.\<close>

definition crypt_char :: "char \<Rightarrow> bool" where
  "crypt_char c \<longleftrightarrow> is_lower c \<or> is_upper c \<or> is_digit c \<or> c = CHR ''.'' \<or> c = CHR ''/''"

definition is_crypt_hash :: "string \<Rightarrow> bool" where
  "is_crypt_hash = re_dollar (\<lambda>s. case split_on (CHR ''$'') s of
      [before, algorithm, salt, digest] \<Rightarrow> before = [] \<and> (algorithm = ''5'' \<or> algorithm = ''6'') \<and>
        re_class crypt_char 1 16 salt \<and> list_all crypt_char digest \<and> 20 \<le> length digest
    | _ \<Rightarrow> False)"

definition is_sha256_hex :: "string \<Rightarrow> bool" where
  "is_sha256_hex = re_dollar (re_class (\<lambda>c. is_digit c \<or> (CHR ''a'' \<le> c \<and> c \<le> CHR ''f'')) 64 64)"

end
