(* ===== verification/ProxyValidate.thy ===== *)
theory ProxyValidate
  imports ProxySpec
begin

text \<open>
  The validation half of \<open>backend/foxguard/proxy/haproxy.py\<close>. Unlike the ruleset's, it raises at
  the first problem. A \<open>ProxyValidationError\<close> is a value of \<open>proxy_error\<close> that keeps what the
  message names and drops the wording.
\<close>

datatype proxy_error =
    SocketTooLong nat
  | SocketNotAbsolute
  | DirNotAbsolute string
  | BadBindAddress string
  | BadProxyDomain string
  | BadDashboardHost string
  | DashboardIsSignIn string
  | NoDashboardAddress
  | BadDashboardAddress string
  | DashboardPortRange int
  | DashboardIsListener string int
  | BadSetName string
  | SetTwice string
  | BadSetMember string string
  | BadServiceSlug string
  | ServiceSlugTwice string
  | UpstreamNotAddress string string
  | UpstreamPortRange string int
  | NoHostname string exposure
  | BadHostname string string
  | HostnameClaimed string string string exposure
  | NothingToRouteOn string
  | ListenPortRange string int
  | PortClaimed int string string
  | BadSniName string string
  | PeerIdentityOutside string
  | AuthNeedsRequest string auth_kind
  | AuthNotImplemented string auth_kind
  | NoSsoSecret string
  | NoSsoHostname string
  | RequirementWithoutPerson string auth_kind
  | BadRequiredGroup string string
  | NoServiceAccount string
  | NoServiceToken string
  | FilterNotImplemented string filter_kind
  | FilterNeedsRequest string filter_kind
  | NoCountries string filter_kind
  | BadCountry string string
  | NoAddresses string filter_kind
  | BadFilterAddress string string
  | RateLimitIncomplete string
  | UnknownSourceSet string "string option"
  | BadAccessSource string string
  | BadAccountName string string
  | BadAccountHash string string
  | BadTokenDigest string string
  | DoorWithoutGuard string exposure
  | PublicAndGuarded string exposure
  | NoInternalBind
  | NoExternalBind
  | BadExtraOption string
  | NoFreePort int int

section \<open>Checks that stop at the first problem\<close>

definition require :: "bool \<Rightarrow> 'e \<Rightarrow> ('e, unit) result" where
  "require ok e = (if ok then Inr () else Inl e)"

fun all_checks :: "('e, unit) result list \<Rightarrow> ('e, unit) result" where
  "all_checks [] = Inr ()"
| "all_checks (c # cs) = bindR c (\<lambda>_. all_checks cs)"

fun foldR :: "('s \<Rightarrow> 'a \<Rightarrow> ('e, 's) result) \<Rightarrow> 's \<Rightarrow> 'a list \<Rightarrow> ('e, 's) result" where
  "foldR f s [] = Inr s"
| "foldR f s (x # xs) = bindR (f s x) (\<lambda>t. foldR f t xs)"

lemma require_ok [simp]: "require ok e = Inr () \<longleftrightarrow> ok"
  by (simp add: require_def)

lemma all_checks_ok: "all_checks cs = Inr () \<longleftrightarrow> (\<forall>c\<in>set cs. c = Inr ())"
  by (induction cs) auto

lemma all_checks_append [simp]: "all_checks (cs @ ds) = bindR (all_checks cs) (\<lambda>_. all_checks ds)"
  by (induction cs) (auto simp: bindR_assoc)

section \<open>Names\<close>

definition MAX_SOCKET_PATH :: nat where "MAX_SOCKET_PATH = 97"

text \<open>\<open>fullmatch\<close> leaves no room for a newline at the end, \<open>match\<close> does.\<close>

definition GROUP_SLUG :: "string \<Rightarrow> bool" where
  "GROUP_SLUG = re_head_tail (\<lambda>c. is_lower c \<or> is_digit c) slug_tail 23"

definition COUNTRY_CODE :: "string \<Rightarrow> bool" where
  "COUNTRY_CODE = re_class is_upper 2 2"

definition SET_NAME_RE :: "string \<Rightarrow> bool" where
  "SET_NAME_RE = re_dollar (re_head_tail (\<lambda>c. is_lower c \<or> is_digit c) slug_tail 47)"

definition USERNAME_RE :: "string \<Rightarrow> bool" where
  "USERNAME_RE = re_dollar (re_head_tail (\<lambda>c. is_lower c \<or> is_upper c \<or> is_digit c)
     (\<lambda>c. is_lower c \<or> is_upper c \<or> is_digit c \<or> c \<in> set ''._-'') 63)"

fun option_text :: "string \<Rightarrow> bool" where
  "option_text [] = False"
| "option_text (c # cs) = ((is_lower c \<or> is_digit c) \<and> list_all (\<lambda>x. x \<noteq> nl \<and> x \<noteq> CHR 0x0D) cs)"

definition OPTION_RE :: "string \<Rightarrow> bool" where "OPTION_RE = re_dollar option_text"

definition PEER_SET :: string where "PEER_SET = ''fg_peers''"

section \<open>The specification around the services\<close>

definition validate_dashboard :: "proxy_spec \<Rightarrow> (proxy_error, unit) result" where
  "validate_dashboard p =
     (let host = or_else (pp_dashboard_hostname p) [] in all_checks [
        require (is_hostname host) (BadDashboardHost host),
        require (\<not> (truthy (pp_sso_hostname p) \<and> pp_dashboard_hostname p = pp_sso_hostname p)) (DashboardIsSignIn host),
        require (pp_dashboard_address p \<noteq> []) NoDashboardAddress,
        require (ip_address (pp_dashboard_address p) \<noteq> None) (BadDashboardAddress (pp_dashboard_address p)),
        require (1 \<le> pp_dashboard_port p \<and> pp_dashboard_port p \<le> 65535) (DashboardPortRange (pp_dashboard_port p)),
        require (\<not> (pp_dashboard_address p \<in> set (pp_internal_binds p) \<and>
            pp_dashboard_port p \<in> {pp_internal_https_port p, pp_external_https_port p, pp_external_http_port p}))
          (DashboardIsListener (pp_dashboard_address p) (pp_dashboard_port p))])"

definition validate_source_set :: "string set \<Rightarrow> source_set \<Rightarrow> (proxy_error, string set) result" where
  "validate_source_set seen s = bindR (all_checks (
     [require (SET_NAME_RE (so_name s)) (BadSetName (so_name s)),
      require (so_name s \<notin> seen) (SetTwice (so_name s))] @
     map (\<lambda>x. require (is_address_or_cidr x) (BadSetMember (so_name s) x)) (so_members s)))
     (\<lambda>_. Inr (insert (so_name s) seen))"

definition validate_source_sets :: "proxy_spec \<Rightarrow> (proxy_error, unit) result" where
  "validate_source_sets p = bindR (foldR validate_source_set {} (pp_source_sets p)) (\<lambda>_. Inr ())"

section \<open>One service\<close>

text \<open>What earlier services have claimed: slugs, names per door, ports.\<close>

record claimed =
  cm_slugs :: "string set"
  cm_hostnames :: "((exposure \<times> string) \<times> string) list"
  cm_ports :: "(int \<times> string) list"

definition needs_hostname :: "service \<Rightarrow> exposure \<Rightarrow> bool" where
  "needs_hostname s e = (if e = INTERNAL then has_internal (pv_exposure s) else has_external (pv_exposure s))"

definition hostname_at :: "service \<Rightarrow> exposure \<Rightarrow> string option" where
  "hostname_at s e = (if e = INTERNAL then pv_internal_hostname s else pv_external_hostname s)"

definition check_hostname :: "service \<Rightarrow> exposure \<Rightarrow> (proxy_error, unit) result" where
  "check_hostname s e = all_checks [
     require (needs_hostname s e \<longrightarrow> truthy (hostname_at s e)) (NoHostname (pv_slug s) e),
     require (truthy (hostname_at s e) \<longrightarrow> is_hostname (the (hostname_at s e)))
       (BadHostname (pv_slug s) (or_else (hostname_at s e) []))]"

text \<open>A name routes to one service per door; the same name on both doors is meant.\<close>

definition claim_hostname :: "service \<Rightarrow> claimed \<Rightarrow> exposure \<Rightarrow> (proxy_error, claimed) result" where
  "claim_hostname s sn e =
     (if \<not> truthy (hostname_at s e) then Inr sn
      else (let key = (e, the (hostname_at s e)) in
        (case map_of (cm_hostnames sn) key of
           Some owner \<Rightarrow> if owner \<noteq> pv_slug s
             then Inl (HostnameClaimed (the (hostname_at s e)) owner (pv_slug s) e)
             else Inr (sn\<lparr>cm_hostnames := AList.update key (pv_slug s) (cm_hostnames sn)\<rparr>)
         | None \<Rightarrow> Inr (sn\<lparr>cm_hostnames := AList.update key (pv_slug s) (cm_hostnames sn)\<rparr>))))"

definition validate_http_service :: "service \<Rightarrow> claimed \<Rightarrow> (proxy_error, claimed) result" where
  "validate_http_service s sn = bindR (all_checks [check_hostname s INTERNAL, check_hostname s EXTERNAL])
     (\<lambda>_. foldR (claim_hostname s) sn [INTERNAL, EXTERNAL])"

definition claim_port :: "service \<Rightarrow> int \<Rightarrow> claimed \<Rightarrow> (proxy_error, claimed) result" where
  "claim_port s port sn =
     (if \<not> (1 \<le> port \<and> port \<le> 65535) then Inl (ListenPortRange (pv_slug s) port)
      else (case map_of (cm_ports sn) port of
          Some owner \<Rightarrow> if owner \<noteq> [] \<and> owner \<noteq> pv_slug s then Inl (PortClaimed port owner (pv_slug s))
            else Inr (sn\<lparr>cm_ports := AList.update port (pv_slug s) (cm_ports sn)\<rparr>)
        | None \<Rightarrow> Inr (sn\<lparr>cm_ports := AList.update port (pv_slug s) (cm_ports sn)\<rparr>)))"

definition validate_tcp_service :: "service \<Rightarrow> claimed \<Rightarrow> (proxy_error, claimed) result" where
  "validate_tcp_service s sn =
     bindR (require (\<not> (pv_listen_port s \<in> {None, Some 0} \<and> \<not> truthy (pv_sni_hostname s))) (NothingToRouteOn (pv_slug s))) (\<lambda>_.
     bindR (case pv_listen_port s of None \<Rightarrow> Inr sn | Some port \<Rightarrow> claim_port s port sn) (\<lambda>sn1.
     bindR (require (truthy (pv_sni_hostname s) \<longrightarrow> is_hostname (the (pv_sni_hostname s)))
         (BadSniName (pv_slug s) (or_else (pv_sni_hostname s) []))) (\<lambda>_.
     Inr sn1)))"

section \<open>Policy\<close>

definition validate_authenticator :: "proxy_spec \<Rightarrow> service \<Rightarrow> authenticator \<Rightarrow> (proxy_error, unit) result" where
  "validate_authenticator p s a = all_checks (
     [require (\<not> (xn_kind a = PEER_IDENTITY \<and> xn_scope a \<noteq> SCOPE_INTERNAL)) (PeerIdentityOutside (pv_slug s)),
      require (\<not> (pv_kind s = TCP_PASS \<and> xn_kind a \<in> HTTP_ONLY_AUTH)) (AuthNeedsRequest (pv_slug s) (xn_kind a)),
      require (xn_kind a \<noteq> MTLS) (AuthNotImplemented (pv_slug s) MTLS),
      require (\<not> (xn_kind a = FOXGUARD_SSO \<and> pp_sso_secret p = [])) (NoSsoSecret (pv_slug s)),
      require (\<not> (xn_kind a = FOXGUARD_SSO \<and> \<not> truthy (pp_sso_hostname p))) (NoSsoHostname (pv_slug s)),
      require (\<not> (xn_kind a \<noteq> FOXGUARD_SSO \<and> (xn_groups a \<noteq> [] \<or> xn_require_admin a)))
        (RequirementWithoutPerson (pv_slug s) (xn_kind a))] @
     map (\<lambda>g. require (GROUP_SLUG g) (BadRequiredGroup (pv_slug s) g)) (xn_groups a) @
     [require (\<not> (xn_kind a = BASIC \<and> pv_accounts s = [])) (NoServiceAccount (pv_slug s)),
      require (\<not> (xn_kind a = BEARER \<and> pv_token_hashes s = [])) (NoServiceToken (pv_slug s))])"

definition validate_filter :: "service \<Rightarrow> proxy_filter \<Rightarrow> (proxy_error, unit) result" where
  "validate_filter s f = all_checks (
     [require (fi_kind f \<notin> UNIMPLEMENTED_FILTERS) (FilterNotImplemented (pv_slug s) (fi_kind f)),
      require (\<not> (pv_kind s = TCP_PASS \<and> fi_kind f \<in> HTTP_ONLY_FILTERS)) (FilterNeedsRequest (pv_slug s) (fi_kind f))] @
     (if fi_kind f \<in> GEO_FILTERS
      then require (fi_values f \<noteq> []) (NoCountries (pv_slug s) (fi_kind f)) #
        map (\<lambda>v. require (COUNTRY_CODE v) (BadCountry (pv_slug s) v)) (fi_values f)
      else []) @
     (if fi_kind f \<in> {IP_ALLOW, IP_DENY}
      then require (fi_values f \<noteq> []) (NoAddresses (pv_slug s) (fi_kind f)) #
        map (\<lambda>v. require (is_address_or_cidr v) (BadFilterAddress (pv_slug s) v)) (fi_values f)
      else []) @
     [require (\<not> (fi_kind f = RATE_LIMIT \<and> (fi_rate f \<in> {None, Some 0} \<or> fi_period_seconds f \<in> {None, Some 0})))
        (RateLimitIncomplete (pv_slug s))])"

definition validate_access :: "proxy_spec \<Rightarrow> service \<Rightarrow> access_rule \<Rightarrow> (proxy_error, unit) result" where
  "validate_access p s r =
     (if xr_is_set r
      then require (xr_source r \<in> Some ` (insert PEER_SET (set_names p))) (UnknownSourceSet (pv_slug s) (xr_source r))
      else (case xr_source r of None \<Rightarrow> Inr ()
        | Some x \<Rightarrow> require (is_address_or_cidr x) (BadAccessSource (pv_slug s) x)))"

definition validate_account :: "service \<Rightarrow> account \<Rightarrow> (proxy_error, unit) result" where
  "validate_account s a = all_checks
     [require (USERNAME_RE (xc_username a)) (BadAccountName (pv_slug s) (xc_username a)),
      require (is_crypt_hash (xc_password_hash a)) (BadAccountHash (pv_slug s) (xc_username a))]"

text \<open>A door is guarded by something, and an open door by nothing else.\<close>

definition validate_door :: "service \<Rightarrow> exposure \<Rightarrow> (proxy_error, unit) result" where
  "validate_door s e =
     (if \<not> needs_hostname s e then Inr ()
      else all_checks
        [require (auth_for s e \<noteq> []) (DoorWithoutGuard (pv_slug s) e),
         require (\<not> (list_ex (\<lambda>a. xn_kind a = PUBLIC) (auth_for s e) \<and> 1 < length (auth_for s e)))
           (PublicAndGuarded (pv_slug s) e)])"

definition validate_policy :: "proxy_spec \<Rightarrow> service \<Rightarrow> (proxy_error, unit) result" where
  "validate_policy p s = all_checks (
     map (validate_authenticator p s) (pv_authenticators s) @
     map (validate_filter s) (pv_filters s) @
     map (validate_access p s) (pv_access s) @
     map (validate_account s) (pv_accounts s) @
     map (\<lambda>h. require (is_sha256_hex h) (BadTokenDigest (pv_slug s) h)) (pv_token_hashes s) @
     [validate_door s INTERNAL, validate_door s EXTERNAL])"

definition validate_service :: "proxy_spec \<Rightarrow> claimed \<Rightarrow> service \<Rightarrow> (proxy_error, claimed) result" where
  "validate_service p sn s =
     bindR (all_checks
       [require (SLUG_RE (pv_slug s)) (BadServiceSlug (pv_slug s)),
        require (pv_slug s \<notin> cm_slugs sn) (ServiceSlugTwice (pv_slug s)),
        require (is_address_or_cidr (bk_address (pv_backend s)) \<and> CHR ''/'' \<notin> set (bk_address (pv_backend s)))
          (UpstreamNotAddress (pv_slug s) (bk_address (pv_backend s))),
        require (1 \<le> bk_port (pv_backend s) \<and> bk_port (pv_backend s) \<le> 65535)
          (UpstreamPortRange (pv_slug s) (bk_port (pv_backend s)))]) (\<lambda>_.
     bindR ((if pv_kind s = HTTP then validate_http_service s else validate_tcp_service s)
         (sn\<lparr>cm_slugs := insert (pv_slug s) (cm_slugs sn)\<rparr>)) (\<lambda>sn1.
     bindR (validate_policy p s) (\<lambda>_. Inr sn1)))"

section \<open>The whole specification\<close>

definition DASHBOARD_OWNER :: string where "DASHBOARD_OWNER = ''the admin dashboard''"

definition first_claims :: "proxy_spec \<Rightarrow> claimed" where
  "first_claims p = \<lparr>cm_slugs = {}, cm_hostnames =
     (if publishes_dashboard p then [((INTERNAL, the (pp_dashboard_hostname p)), DASHBOARD_OWNER)] else []),
     cm_ports = []\<rparr>"

definition validate_proxy_spec :: "proxy_spec \<Rightarrow> (proxy_error, unit) result" where
  "validate_proxy_spec p =
     bindR (all_checks (
       [require (length (pp_runtime_socket p) \<le> MAX_SOCKET_PATH) (SocketTooLong (length (pp_runtime_socket p))),
        require (starts_with ''/'' (pp_runtime_socket p)) SocketNotAbsolute,
        require (starts_with ''/'' (pp_certs_dir p)) (DirNotAbsolute ''certs_dir''),
        require (starts_with ''/'' (pp_maps_dir p)) (DirNotAbsolute ''maps_dir'')] @
       map (\<lambda>a. require (ip_address a \<noteq> None) (BadBindAddress a)) (pp_internal_binds p @ pp_external_binds p) @
       [require (pp_domain p = [] \<or> is_hostname (pp_domain p)) (BadProxyDomain (pp_domain p)),
        validate_source_sets p,
        if publishes_dashboard p then validate_dashboard p else Inr ()])) (\<lambda>_.
     bindR (foldR (validate_service p) (first_claims p) (pp_services p)) (\<lambda>_.
     all_checks (
       [require (\<not> (spec_has_internal p \<and> pp_internal_binds p = [])) NoInternalBind,
        require (\<not> (spec_has_external p \<and> pp_external_binds p = [])) NoExternalBind] @
       map (\<lambda>x. require (nl \<notin> set x \<and> CHR 0x0D \<notin> set x \<and> OPTION_RE x) (BadExtraOption x)) (pp_extra_options p))))"

end
