(* ===== verification/ServiceSchemas.thy ===== *)
theory ServiceSchemas
  imports Schemas ProxyValidate PeersApi
begin

text \<open>
  The request bodies of \<open>schemas.py\<close> for published services: authenticators, filters, access rules, the service
  with all three, its partial update, tokens and accounts, each with the function that accepts
  it or says why it is a 422. \<open>quoted\<close> stands for Python's \<open>repr\<close> of a text without quotes.
\<close>

fun auth_kind_value :: "auth_kind \<Rightarrow> string" where
  "auth_kind_value PEER_IDENTITY = ''peer_identity''"
| "auth_kind_value BEARER = ''bearer''"
| "auth_kind_value BASIC = ''basic''"
| "auth_kind_value FOXGUARD_SSO = ''foxguard_sso''"
| "auth_kind_value MTLS = ''mtls''"
| "auth_kind_value PUBLIC = ''public''"

fun filter_kind_value :: "filter_kind \<Rightarrow> string" where
  "filter_kind_value IP_ALLOW = ''ip_allow''"
| "filter_kind_value IP_DENY = ''ip_deny''"
| "filter_kind_value GEO_ALLOW = ''geo_allow''"
| "filter_kind_value GEO_DENY = ''geo_deny''"
| "filter_kind_value RATE_LIMIT = ''rate_limit''"
| "filter_kind_value WAF = ''waf''"
| "filter_kind_value CROWDSEC = ''crowdsec''"

fun endpoint_kind_value :: "endpoint_kind \<Rightarrow> string" where
  "endpoint_kind_value KGROUP = ''group''"
| "endpoint_kind_value KZONE = ''zone''"
| "endpoint_kind_value KCIDR = ''cidr''"
| "endpoint_kind_value KANY = ''any''"

text \<open>The checks of a list, in order.\<close>

fun check_each :: "('a \<Rightarrow> (string, 'a) result) \<Rightarrow> 'a list \<Rightarrow> (string, 'a list) result" where
  "check_each f [] = Inr []"
| "check_each f (x # xs) = bindR (f x) (\<lambda>y. bindR (check_each f xs) (\<lambda>ys. Inr (y # ys)))"

section \<open>Authenticators\<close>

record auth_create =
  ab_kind :: auth_kind
  ab_scope :: scope
  ab_enabled :: bool
  ab_priority :: int
  ab_realm :: "string option"
  ab_group_slugs :: "string list"
  ab_require_admin :: bool

definition validate_auth_create :: "auth_create \<Rightarrow> (string, auth_create) result" where
  "validate_auth_create p = bindR (all_hold
     [(opt_ok (max_length 64) (ab_realm p), ''realm''), (list_all SLUG_PATTERN (ab_group_slugs p), ''group_slugs''),
      (ab_kind p = FOXGUARD_SSO \<or> (ab_group_slugs p = [] \<and> \<not> ab_require_admin p),
       ((auth_kind_value (ab_kind p)) @ '' cannot carry a group or admin requirement: '') @
         (if ab_kind p = PUBLIC then ''it asks the caller for nothing at all''
          else ''it proves the caller holds a credential, not which person they are'') @
         ''. Only foxguard_sso names an account'')]) (\<lambda>_. Inr p)"

section \<open>Filters\<close>

record filter_create =
  fb_kind :: filter_kind
  fb_scope :: scope
  fb_enabled :: bool
  fb_priority :: int
  fb_values :: "string list"
  fb_rate :: "int option"
  fb_period_seconds :: "int option"

definition validate_filter_create :: "filter_create \<Rightarrow> (string, filter_create) result" where
  "validate_filter_create p = bindR (all_hold (
     [(opt_ok (\<lambda>n. 1 \<le> n) (fb_rate p), ''rate''), (opt_ok (\<lambda>n. 1 \<le> n) (fb_period_seconds p), ''period_seconds''),
      (fb_kind p = RATE_LIMIT \<longrightarrow> fb_rate p \<noteq> None \<and> fb_period_seconds p \<noteq> None,
       ''a rate limit needs both a rate and a period'')] @
     (if fb_kind p \<in> {IP_ALLOW, IP_DENY}
      then (fb_values p \<noteq> [], (''an '' @ (filter_kind_value (fb_kind p)) @ '' filter needs at least one address'')) #
        map (\<lambda>v. (ip_network v \<noteq> None, ((quoted v) @ '' is not an address or prefix''))) (fb_values p)
      else []) @
     (if fb_kind p \<in> GEO_FILTERS
      then (fb_values p \<noteq> [], (''a '' @ (filter_kind_value (fb_kind p)) @ '' filter needs at least one country'')) #
        map (\<lambda>v. (COUNTRY_CODE v, ((quoted v) @ '' is not an ISO 3166-1 alpha-2 country code '') @
          (''(two upper-case letters, e.g. '' @ [CHR 0x27] @ ''FR'' @ [CHR 0x27] @ '')''))) (fb_values p)
      else []))) (\<lambda>_. Inr p)"

section \<open>Access rules\<close>

record access_create =
  xb_action :: action
  xb_kind :: endpoint_kind
  xb_group_id :: "string option"
  xb_cidr :: "string option"
  xb_priority :: int

definition validate_access_create :: "access_create \<Rightarrow> (string, access_create) result" where
  "validate_access_create p = bindR (all_hold
     [(xb_kind p \<in> {KGROUP, KZONE} \<longrightarrow> xb_group_id p \<noteq> None, (''a '' @ (endpoint_kind_value (xb_kind p)) @ '' endpoint needs group_id'')),
      (xb_kind p = KCIDR \<longrightarrow> truthy (xb_cidr p), ''a cidr endpoint needs cidr''),
      (truthy (xb_cidr p) \<longrightarrow> ip_network (the (xb_cidr p)) \<noteq> None, ((quoted (or_else (xb_cidr p) [])) @ '' is not a prefix''))])
     (\<lambda>_. Inr p)"

section \<open>The service\<close>

record service_create =
  vb_slug :: string
  vb_name :: string
  vb_description :: "string option"
  vb_enabled :: bool
  vb_kind :: service_kind
  vb_exposure :: exposure
  vb_upstream_peer_id :: "string option"
  vb_upstream_host :: string
  vb_upstream_port :: int
  vb_upstream_tls :: bool
  vb_upstream_tls_verify :: bool
  vb_internal_hostname :: "string option"
  vb_external_hostname :: "string option"
  vb_listen_port :: "int option"
  vb_sni_hostname :: "string option"
  vb_health_check :: bool
  vb_health_check_interval :: int
  vb_authenticators :: "auth_create list"
  vb_filters :: "filter_create list"
  vb_access :: "access_create list"

definition validate_service_create :: "service_create \<Rightarrow> (string, service_create) result" where
  "validate_service_create p = bindR (all_hold
     [(SLUG_PATTERN (vb_slug p), ''slug''), (max_length 128 (vb_name p), ''name''),
      (ip_address (vb_upstream_host p) \<noteq> None,
       ((quoted (vb_upstream_host p)) @ '' is not an IP address. The upstream must be an address '') @
       ''inside the tunnel or behind a peer's routes, not a name -- the control plane checks reachability against AllowedIPs''),
      (is_port (vb_upstream_port p), ''upstream_port''),
      (opt_ok (max_length 255) (vb_internal_hostname p), ''internal_hostname''),
      (opt_ok (max_length 255) (vb_external_hostname p), ''external_hostname''),
      (opt_ok is_port (vb_listen_port p), ''listen_port''),
      (opt_ok (max_length 255) (vb_sni_hostname p), ''sni_hostname''),
      (1 \<le> vb_health_check_interval p, ''health_check_interval'')]) (\<lambda>_.
     bindR (check_each validate_auth_create (vb_authenticators p)) (\<lambda>_.
     bindR (check_each validate_filter_create (vb_filters p)) (\<lambda>_.
     bindR (check_each validate_access_create (vb_access p)) (\<lambda>_. Inr p))))"

record service_update =
  vu_name :: "string sent"
  vu_description :: "string sent"
  vu_enabled :: "bool sent"
  vu_exposure :: "exposure sent"
  vu_upstream_peer_id :: "string sent"
  vu_upstream_host :: "string sent"
  vu_upstream_port :: "int sent"
  vu_upstream_tls :: "bool sent"
  vu_upstream_tls_verify :: "bool sent"
  vu_internal_hostname :: "string sent"
  vu_external_hostname :: "string sent"
  vu_listen_port :: "int sent"
  vu_sni_hostname :: "string sent"
  vu_health_check :: "bool sent"
  vu_health_check_interval :: "int sent"

text \<open>The upstream address of an update is not looked at here.\<close>

definition validate_service_update :: "service_update \<Rightarrow> (string, service_update) result" where
  "validate_service_update p = bindR (all_hold
     [(sent_ok (max_length 128) (vu_name p), ''name''), (sent_ok is_port (vu_upstream_port p), ''upstream_port''),
      (sent_ok (max_length 255) (vu_internal_hostname p), ''internal_hostname''),
      (sent_ok (max_length 255) (vu_external_hostname p), ''external_hostname''),
      (sent_ok is_port (vu_listen_port p), ''listen_port''),
      (sent_ok (max_length 255) (vu_sni_hostname p), ''sni_hostname''),
      (sent_ok (\<lambda>n. 1 \<le> n) (vu_health_check_interval p), ''health_check_interval'')]) (\<lambda>_. Inr p)"

section \<open>Credentials\<close>

record token_create =
  tb_name :: string
  tb_expires_at :: "int option"

definition validate_token_create :: "token_create \<Rightarrow> (string, token_create) result" where
  "validate_token_create p = bindR (all_hold [(max_length 128 (tb_name p), ''name'')]) (\<lambda>_. Inr p)"

definition validate_account_create :: "string \<Rightarrow> (string, string) result" where
  "validate_account_create username = bindR (all_hold
     [(re_head_tail (\<lambda>c. is_lower c \<or> is_upper c \<or> is_digit c)
         (\<lambda>c. is_lower c \<or> is_upper c \<or> is_digit c \<or> c \<in> set ''._-'') 63 username, ''username'')]) (\<lambda>_. Inr username)"

end
