(* ===== verification/ProxyFiles.thy ===== *)
theory ProxyFiles
  imports ProxyValidate
begin

text \<open>
  The pattern files of \<open>backend/foxguard/proxy/haproxy.py\<close>, \<open>render_files\<close>, character by
  character, and the digest over the configuration and all of them. The files are a Python
  dict: an association list in the order of first insertion, where a later write replaces the
  text. An address that does not parse makes the sort raise \<open>ValueError\<close>, which is not a
  \<open>ProxyValidationError\<close>.
\<close>

datatype render_exn = ProxyInvalidSpec proxy_error | NotAnAddress string

section \<open>Names\<close>

definition backend_name :: "string \<Rightarrow> string" where "backend_name slug = (''be_'' @ slug)"
definition table_name :: "string \<Rightarrow> string" where "table_name slug = (''st_'' @ slug)"
definition userlist_name :: "string \<Rightarrow> string" where "userlist_name slug = (''ul_'' @ slug)"
definition tcp_frontend_name :: "string \<Rightarrow> string" where "tcp_frontend_name slug = (''fg_tcp_'' @ slug)"
definition set_file :: "string \<Rightarrow> string" where "set_file name = (''set_'' @ name @ ''.lst'')"
definition token_file :: "string \<Rightarrow> string" where "token_file slug = (''tok_'' @ slug @ ''.map'')"
definition ipfilter_file :: "string \<Rightarrow> nat \<Rightarrow> string" where "ipfilter_file slug i = (''ipf_'' @ slug @ ''_'' @ (show_nat i) @ ''.lst'')"
definition error_file :: "string \<Rightarrow> string" where "error_file slug = (''err_'' @ slug @ ''_503.http'')"

definition DEFAULT_ERROR_FILE :: string where "DEFAULT_ERROR_FILE = ''err_default_503.http''"
definition PEERS_MAP_FILE :: string where "PEERS_MAP_FILE = ''peers.map''"
definition GROUPS_MAP_FILE :: string where "GROUPS_MAP_FILE = ''groups.map''"
definition SSO_REVOKED_FILE :: string where "SSO_REVOKED_FILE = ''sso_revoked.map''"

definition FILE_BANNER :: string where
  "FILE_BANNER = (''# Foxguard generated -- DO NOT EDIT BY HAND. Rewritten on every reconciliation.'' @ [nl])"

section \<open>Bodies\<close>

text \<open>\<open>_addr_key\<close>, and \<open>sorted(values, key=_addr_key)\<close>.\<close>

definition addr_key :: "string \<Rightarrow> (render_exn, nat \<times> int \<times> nat) result" where
  "addr_key v = (case ip_network v of None \<Rightarrow> Inl (NotAnAddress v) | Some n \<Rightarrow> Inr (net_key n))"

definition sorted_by_addr :: "('a \<Rightarrow> string) \<Rightarrow> 'a list \<Rightarrow> (render_exn, 'a list) result" where
  "sorted_by_addr f xs = bindR (mapR (addr_key \<circ> f) xs) (\<lambda>ks. Inr (map snd (sort_key fst (zip ks xs))))"

text \<open>One line each.\<close>

definition text_lines :: "string list \<Rightarrow> string" where
  "text_lines ls = concat (map (\<lambda>l. l @ [nl]) ls)"

definition render_set_file :: "source_set \<Rightarrow> (render_exn, string) result" where
  "render_set_file s = bindR (sorted_by_addr id (so_members s)) (\<lambda>ms. Inr (FILE_BANNER @
     (if truthy (so_comment s) then (''# '' @ (the (so_comment s)) @ [nl]) else []) @ text_lines ms))"

definition render_token_file :: "service \<Rightarrow> string" where
  "render_token_file s = FILE_BANNER @ text_lines (map (\<lambda>h. (h @ '' 1'')) (sort (pv_token_hashes s)))"

definition render_ipfilter_file :: "proxy_filter \<Rightarrow> (render_exn, string) result" where
  "render_ipfilter_file f = bindR (sorted_by_addr id (fi_values f)) (\<lambda>vs. Inr (FILE_BANNER @ text_lines vs))"

text \<open>A complete raw answer, with the line ends of HTTP; the only status asked for is 503.\<close>

definition http_error :: "string \<Rightarrow> string" where
  "http_error body = (''HTTP/1.1 503 Service Unavailable'' @ [CHR 0x0D] @ [nl] @ ''Cache-Control: no-cache'' @ [CHR 0x0D] @ [nl] @ ''Connection: close'' @ [CHR 0x0D] @ [nl] @ ''Content-Type: text/html; charset=utf-8'' @ [CHR 0x0D] @ [nl] @ [CHR 0x0D] @ [nl]) @ body"

definition render_error_page :: "service \<Rightarrow> string" where
  "render_error_page s =
     (let wher = (if truthy (bk_peer_label (pv_backend s))
         then (''the device hosting it ('' @ (the (bk_peer_label (pv_backend s))) @ '') is not reachable'')
         else ''it is not responding'')
      in http_error ((''<!doctype html><html><head><meta charset=utf-8><title>'' @ (pv_slug s) @ '' unavailable</title></head><body>'') @
        (''<h1>'' @ (pv_slug s) @ '' is unavailable</h1><p>Foxguard reached the proxy, but '' @ wher @ ''.</p>'') @
        ''<p>This is not a proxy fault: the service itself did not answer.</p></body></html>''))"

definition render_default_error_page :: string where
  "render_default_error_page = http_error (
     ''<!doctype html><html><head><meta charset=utf-8><title>No such service</title></head><body>'' @
     ''<h1>No such service</h1><p>No Foxguard service is published under this name.</p></body></html>'')"

definition render_peers_map :: "proxy_spec \<Rightarrow> (render_exn, string) result" where
  "render_peers_map p = bindR (sorted_by_addr pi_address (pp_peers p)) (\<lambda>ps.
     Inr (FILE_BANNER @ text_lines (map (\<lambda>i. ((pi_address i) @ '' '' @ (pi_label i))) ps)))"

definition render_groups_map :: "proxy_spec \<Rightarrow> (render_exn, string) result" where
  "render_groups_map p = bindR (sorted_by_addr pi_address (pp_peers p)) (\<lambda>ps.
     Inr (FILE_BANNER @ text_lines (map (\<lambda>i. ((pi_address i) @ '' '' @ (join '','' (sort (pi_groups i)))))
       (filter (\<lambda>i. pi_groups i \<noteq> []) ps))))"

definition render_revoked :: "proxy_spec \<Rightarrow> string" where
  "render_revoked p = FILE_BANNER @ text_lines (map (\<lambda>j. (j @ '' 1'')) (sort (pp_sso_revoked p)))"

section \<open>All of them\<close>

text \<open>The files of a service, in the order they are written: tokens, filters by their index, error page.\<close>

definition filter_files :: "service \<Rightarrow> (render_exn, (string \<times> string) list) result" where
  "filter_files s = concatR (\<lambda>(i, f).
     if fi_kind f \<in> {IP_ALLOW, IP_DENY}
     then bindR (render_ipfilter_file f) (\<lambda>t. Inr [(ipfilter_file (pv_slug s) i, t)])
     else Inr []) (enumerate 0 (pv_filters s))"

definition service_files :: "service \<Rightarrow> (render_exn, (string \<times> string) list) result" where
  "service_files s = bindR (filter_files s) (\<lambda>fs. Inr (
     (if pv_token_hashes s \<noteq> [] then [(token_file (pv_slug s), render_token_file s)] else []) @ fs @
     [(error_file (pv_slug s), render_error_page s)]))"

definition dict_of :: "('k \<times> 'v) list \<Rightarrow> ('k \<times> 'v) list" where
  "dict_of ws = foldl (\<lambda>d w. AList.update (fst w) (snd w) d) [] ws"

definition render_files :: "proxy_spec \<Rightarrow> (render_exn, (string \<times> string) list) result" where
  "render_files p =
     bindR (mapR (\<lambda>s. bindR (render_set_file s) (\<lambda>t. Inr (set_file (so_name s), t))) (pp_source_sets p)) (\<lambda>sets.
     bindR (concatR service_files (pp_services p)) (\<lambda>served.
     bindR (render_peers_map p) (\<lambda>pm.
     bindR (render_groups_map p) (\<lambda>gm.
       Inr (dict_of (sets @ served @ [(SSO_REVOKED_FILE, render_revoked p),
         (DEFAULT_ERROR_FILE, render_default_error_page), (PEERS_MAP_FILE, pm), (GROUPS_MAP_FILE, gm)]))))))"

text \<open>What is hashed; the hash function is a parameter.\<close>

definition proxy_digest :: "(string \<Rightarrow> string) \<Rightarrow> string \<Rightarrow> (string \<times> string) list \<Rightarrow> string" where
  "proxy_digest sha conf files = sha (''conf'' @ [CHR 0x00] @ conf @ concat (map (\<lambda>name.
     [CHR 0x00] @ ''file'' @ [CHR 0x00] @ name @ [CHR 0x00] @ the (map_of files name)) (sort (map fst files))))"

end
