(* ===== verification/ProxyConf.thy ===== *)
theory ProxyConf
  imports ProxyFiles
begin

text \<open>
  The configuration itself: \<open>render_conf\<close> of \<open>backend/foxguard/proxy/haproxy.py\<close>, character by
  character. A generator of the source, which yields lines, is a list of lines. An option that
  validation has shown to be set is read with \<open>the\<close>; a listen port that is missing is printed
  as Python prints \<open>None\<close>.
\<close>

definition ALGORITHM :: string where "ALGORITHM = ''HS256''"

definition CONF_BANNER :: string where
  "CONF_BANNER = (''# Foxguard generated HAProxy configuration -- DO NOT EDIT BY HAND.'' @ [nl] @ ''#'' @ [nl]) @
     (''# Written by foxguard-agent on every reconciliation; the source of truth is'' @ [nl]) @
     (''# the control plane'' @ [CHR 0x27] @ ''s database, so an edit here survives until the next poll.'' @ [nl]) @
     (''# Pattern files referenced below live in the same directory tree and are'' @ [nl]) @
     (''# rewritten with this file -- they are one artefact, with one digest.'' @ [nl] @ ''#'' @ [nl])"

definition show_opt_int :: "int option \<Rightarrow> string" where
  "show_opt_int v = (case v of None \<Rightarrow> ''None'' | Some i \<Rightarrow> show_int i)"

definition show_hostname :: "string option \<Rightarrow> string" where
  "show_hostname h = (case h of None \<Rightarrow> ''None'' | Some x \<Rightarrow> x)"

definition bind_text :: "string \<Rightarrow> string" where
  "bind_text address = (if CHR '':'' \<in> set address then (''['' @ address @ '']'') else address)"

definition ordered :: "proxy_spec \<Rightarrow> service list" where
  "ordered p = sort_key pv_slug (pp_services p)"

text \<open>A slug as part of a variable name.\<close>

definition var_tag :: "string \<Rightarrow> string" where
  "var_tag slug = replace_char (CHR ''-'') (CHR ''_'') slug"

section \<open>Conditions\<close>

text \<open>The closure \<open>cond\<close>: the guard and the conditions, as an \<open>if\<close> clause.\<close>

definition if_clause :: "string option \<Rightarrow> string list \<Rightarrow> string" where
  "if_clause guard parts =
     (let terms = filter (\<lambda>t. t \<noteq> []) (or_else guard [] # parts)
      in if terms = [] then [] else '' if '' @ join '' '' terms)"

definition source_cond :: "proxy_spec \<Rightarrow> access_rule \<Rightarrow> string" where
  "source_cond p r = (case xr_source r of None \<Rightarrow> []
     | Some x \<Rightarrow> if xr_is_set r then (''{ src -f '' @ (pp_maps_dir p) @ ''/'' @ (set_file x) @ '' }'') else (''{ src '' @ x @ '' }''))"

definition sso_condition :: "service \<Rightarrow> string" where
  "sso_condition s = (let tag = var_tag (pv_slug s) in
     (''{ var(txn.fg_ok_'' @ tag @ '') -m int eq 1 } { var(txn.fg_left_'' @ tag @ '') -m int gt 0 } !{ var(txn.fg_rev_'' @ tag @ '') -m found }''))"

definition needs_more :: "authenticator \<Rightarrow> bool" where
  "needs_more a \<longleftrightarrow> xn_groups a \<noteq> [] \<or> xn_require_admin a"

definition sso_authorized :: "service \<Rightarrow> authenticator \<Rightarrow> bool \<Rightarrow> string" where
  "sso_authorized s a negated = (if \<not> needs_more a then []
     else (''{ var(txn.fg_az_'' @ (var_tag (pv_slug s)) @ '') -m int eq '' @ (if negated then ''0'' else ''1'') @ '' }''))"

section \<open>Single sign-on\<close>

definition sso_authz :: "service \<Rightarrow> authenticator \<Rightarrow> (string list \<Rightarrow> string) \<Rightarrow> string list" where
  "sso_authz s a cond = (if \<not> needs_more a then [] else (let tag = var_tag (pv_slug s) in
     [(INDENT @ ''# authorisation: signed in is not the same as allowed in'')] @
     (if xn_groups a \<noteq> []
      then [(INDENT @ ''http-request set-var(txn.fg_grp_'' @ tag @ '') var(txn.fg_jwt_'' @ tag @ ''),jwt_payload_query('' @ [CHR 0x27] @ ''$.groups'' @ [CHR 0x27] @ '')'' @ (cond []))]
      else []) @
     (if xn_require_admin a
      then [(INDENT @ ''http-request set-var(txn.fg_adm_'' @ tag @ '') var(txn.fg_jwt_'' @ tag @ ''),jwt_payload_query('' @ [CHR 0x27] @ ''$.admin'' @ [CHR 0x27] @ '','' @ [CHR 0x27] @ ''int'' @ [CHR 0x27] @ '')'' @ (cond []))]
      else []) @
     [(INDENT @ ''http-request set-var(txn.fg_az_'' @ tag @ '') int(0)'' @ (cond [])),
      (INDENT @ ''http-request set-var(txn.fg_az_'' @ tag @ '') int(1)'') @ cond (
        (if xn_groups a \<noteq> []
         then [(''{ var(txn.fg_grp_'' @ tag @ '') -m sub '' @ (join '' '' (map (\<lambda>g. ('','' @ g @ '','')) (xn_groups a))) @ '' }'')] else []) @
        (if xn_require_admin a then [(''{ var(txn.fg_adm_'' @ tag @ '') -m int eq 1 }'')] else []))]))"

definition sso_setup :: "proxy_spec \<Rightarrow> service \<Rightarrow> authenticator \<Rightarrow> (string list \<Rightarrow> string) \<Rightarrow> string list" where
  "sso_setup p s a cond = (let tag = var_tag (pv_slug s); c = cond [] in
     [(INDENT @ ''# --- single sign-on: pinned algorithm, explicit expiry ---''),
      (INDENT @ ''http-request set-var(txn.fg_alg_'' @ tag @ '') str('' @ ALGORITHM @ '')'' @ c),
      (INDENT @ ''http-request set-var(txn.fg_jwt_'' @ tag @ '') req.cook('' @ (pp_sso_cookie p) @ '')'' @ c),
      (INDENT @ ''http-request set-var(txn.fg_ok_'' @ tag @ '') var(txn.fg_jwt_'' @ tag @ ''),jwt_verify(txn.fg_alg_'' @ tag @ '','' @ [dq] @ (pp_sso_secret p) @ [dq] @ '')'' @ c),
      (INDENT @ ''http-request set-var(txn.fg_exp_'' @ tag @ '') var(txn.fg_jwt_'' @ tag @ ''),jwt_payload_query('' @ [CHR 0x27] @ ''$.exp'' @ [CHR 0x27] @ '','' @ [CHR 0x27] @ ''int'' @ [CHR 0x27] @ '')'' @ c),
      (INDENT @ ''http-request set-var(txn.fg_now_'' @ tag @ '') date()'' @ c),
      (INDENT @ ''http-request set-var(txn.fg_left_'' @ tag @ '') var(txn.fg_exp_'' @ tag @ ''),sub(txn.fg_now_'' @ tag @ '')'' @ c),
      (INDENT @ ''http-request set-var(txn.fg_sub_'' @ tag @ '') var(txn.fg_jwt_'' @ tag @ ''),jwt_payload_query('' @ [CHR 0x27] @ ''$.sub'' @ [CHR 0x27] @ '')'' @ c),
      (INDENT @ ''http-request set-var(txn.fg_jti_'' @ tag @ '') var(txn.fg_jwt_'' @ tag @ ''),jwt_payload_query('' @ [CHR 0x27] @ ''$.jti'' @ [CHR 0x27] @ '')'' @ c),
      (INDENT @ ''http-request set-var(txn.fg_rev_'' @ tag @ '') var(txn.fg_jti_'' @ tag @ ''),map_str('' @ (pp_maps_dir p) @ ''/'' @ SSO_REVOKED_FILE @ '')'' @ c)] @
     sso_authz s a cond)"

section \<open>The rules of a service\<close>

definition deny_text :: "service \<Rightarrow> string" where
  "deny_text s = (if pv_kind s = HTTP then ''http-request deny'' else ''tcp-request content reject'')"

definition filter_rules :: "proxy_spec \<Rightarrow> service \<Rightarrow> (string list \<Rightarrow> string) \<Rightarrow> nat \<times> proxy_filter \<Rightarrow> string list" where
  "filter_rules p s cond it = (case it of (i, f) \<Rightarrow>
     (let path = ((pp_maps_dir p) @ ''/'' @ (ipfilter_file (pv_slug s) i)) in
      case fi_kind f of
        IP_DENY \<Rightarrow> [(INDENT @ (deny_text s)) @ cond [(''{ src -f '' @ path @ '' }'')]]
      | IP_ALLOW \<Rightarrow> [(INDENT @ (deny_text s)) @ cond [(''!{ src -f '' @ path @ '' }'')]]
      | GEO_DENY \<Rightarrow> [(INDENT @ (deny_text s)) @ cond
          [(''{ src,map_ip('' @ (pp_maps_dir p) @ ''/'' @ (pp_geo_map p) @ '') -m str '' @ (join '' '' (fi_values f)) @ '' }'')]]
      | GEO_ALLOW \<Rightarrow> [(INDENT @ (deny_text s)) @ cond
          [(''!{ src,map_ip('' @ (pp_maps_dir p) @ ''/'' @ (pp_geo_map p) @ '') -m str '' @ (join '' '' (fi_values f)) @ '' }'')]]
      | RATE_LIMIT \<Rightarrow> (if pv_kind s \<noteq> HTTP then [] else
          [(INDENT @ ''http-request track-sc0 src table '' @ (table_name (pv_slug s))) @ cond [],
           (INDENT @ ''http-request return status 429 content-type text/plain '') @
           (''hdr retry-after '' @ [dq] @ (show_opt_int (fi_period_seconds f)) @ [dq] @ '' lf-string '' @ [dq] @ ''too many requests -- retry in '' @ (show_opt_int (fi_period_seconds f)) @ ''s'' @ [dq]) @
           cond [(''{ sc_http_req_rate(0) gt '' @ (show_opt_int (fi_rate f)) @ '' }'')]])
      | _ \<Rightarrow> []))"

definition access_rules :: "proxy_spec \<Rightarrow> service \<Rightarrow> exposure \<Rightarrow> (string list \<Rightarrow> string) \<Rightarrow> string list" where
  "access_rules p s e cond =
     (let allows = filter (\<lambda>r. xr_action r = ALLOW) (access_for s e) in
      map (\<lambda>r. (INDENT @ (deny_text s)) @ cond [source_cond p r]) (filter (\<lambda>r. xr_action r = DENY) (access_for s e)) @
      (if allows \<noteq> [] \<and> list_all (\<lambda>r. source_cond p r \<noteq> []) allows
       then [(INDENT @ (deny_text s)) @ cond (map (\<lambda>r. (''!'' @ (source_cond p r))) allows)] else []))"

definition auth_condition :: "proxy_spec \<Rightarrow> service \<Rightarrow> authenticator \<Rightarrow> string list" where
  "auth_condition p s a =
     (case xn_kind a of
        PEER_IDENTITY \<Rightarrow> [(''{ src -f '' @ (pp_maps_dir p) @ ''/'' @ (set_file PEER_SET) @ '' }'')]
      | FOXGUARD_SSO \<Rightarrow> (if pv_kind s \<noteq> HTTP then []
          else [if needs_more a then ((sso_condition s) @ '' '' @ (sso_authorized s a False)) else sso_condition s])
      | BEARER \<Rightarrow> (if pv_kind s \<noteq> HTTP then [] else [(''{ var(txn.fg_tok_'' @ (var_tag (pv_slug s)) @ '') -m found }'')])
      | BASIC \<Rightarrow> (if pv_kind s \<noteq> HTTP then [] else [(''{ http_auth('' @ (userlist_name (pv_slug s)) @ '') }'')])
      | _ \<Rightarrow> [])"

definition FAILED :: string where "FAILED = ''{ var(txn.fg_auth) -m int eq 0 }''"

definition sso_need :: "authenticator \<Rightarrow> string" where
  "sso_need a = join '' and '' ((if xn_require_admin a then [''an administrator account''] else []) @
     (if join '', '' (xn_groups a) \<noteq> [] then [(''membership of: '' @ (join '', '' (xn_groups a)))] else []))"

text \<open>What a caller is told who has shown nothing that is accepted.\<close>

definition challenge :: "proxy_spec \<Rightarrow> service \<Rightarrow> authenticator list \<Rightarrow> (string list \<Rightarrow> string) \<Rightarrow> string list" where
  "challenge p s auths cond =
     (let sso = find (\<lambda>a. xn_kind a = FOXGUARD_SSO) auths; basic = find (\<lambda>a. xn_kind a = BASIC) auths in
      (case sso of
         Some a \<Rightarrow>
           (if needs_more a
            then [(INDENT @ ''http-request return status 403 content-type text/plain '') @
              (''lf-string '' @ [dq] @ ''signed in as %[var(txn.fg_sub_'' @ (var_tag (pv_slug s)) @ '')], but '' @ (pv_slug s) @ '' needs '' @ (sso_need a) @ [dq]) @
              cond [FAILED, sso_condition s, sso_authorized s a True]] else []) @
           [(INDENT @ ''http-request redirect location https://'' @ (show_hostname (pp_sso_hostname p)) @ ''/api/v1/sso/login'') @
            ''?h=%[req.hdr(host),host_only,url_enc]&p=%[pathq,url_enc] code 302'' @ cond [FAILED]]
       | None \<Rightarrow>
           (case basic of
              Some b \<Rightarrow> [(INDENT @ ''http-request auth realm '' @ [dq] @ (or_else (xn_realm b) (pv_slug s)) @ [dq]) @ cond [FAILED]]
            | None \<Rightarrow>
                (if list_ex (\<lambda>a. xn_kind a = BEARER) auths
                 then [(INDENT @ ''http-request return status 401 content-type text/plain '') @
                   (''hdr www-authenticate '' @ [CHR 0x27] @ ''Bearer realm='' @ [dq] @ (pv_slug s) @ [dq] @ [CHR 0x27] @ '' lf-string '' @ [dq] @ ''authentication required'' @ [dq]) @ cond [FAILED]]
                 else [(INDENT @ ''http-request deny deny_status 403'') @ cond [FAILED]]))))"

definition identity_headers ::
  "proxy_spec \<Rightarrow> service \<Rightarrow> exposure \<Rightarrow> authenticator list \<Rightarrow> (string list \<Rightarrow> string) \<Rightarrow> string list" where
  "identity_headers p s e auths cond =
     (if list_ex (\<lambda>a. xn_kind a = FOXGUARD_SSO) auths
      then [(INDENT @ ''http-request set-header X-Foxguard-User %[var(txn.fg_sub_'' @ (var_tag (pv_slug s)) @ '')]'') @
        cond [(''{ var(txn.fg_sub_'' @ (var_tag (pv_slug s)) @ '') -m found }'')]] else []) @
     (if e = INTERNAL
      then [(INDENT @ ''http-request set-header X-Foxguard-Peer %[var(txn.fg_peer)]'') @ cond [''{ var(txn.fg_peer) -m found }'']] @
        (if pp_send_group_header p
         then [(INDENT @ ''http-request set-header X-Foxguard-Groups %[src,map_str('' @ (pp_maps_dir p) @ ''/'' @ GROUPS_MAP_FILE @ '')]'') @
           cond [(''{ src,map_str('' @ (pp_maps_dir p) @ ''/'' @ GROUPS_MAP_FILE @ '') -m found }'')]] else [])
      else [])"

definition auth_rules :: "proxy_spec \<Rightarrow> service \<Rightarrow> exposure \<Rightarrow> (string list \<Rightarrow> string) \<Rightarrow> string list" where
  "auth_rules p s e cond =
     (let auths = auth_for s e; http = (pv_kind s = HTTP);
          conditions = concat (map (auth_condition p s) auths);
          setup = (case find (\<lambda>a. xn_kind a = FOXGUARD_SSO) auths of
              Some a \<Rightarrow> if http then sso_setup p s a cond else [] | None \<Rightarrow> []);
          token = (if http \<and> list_ex (\<lambda>a. xn_kind a = BEARER) auths
            then [(INDENT @ ''http-request set-var(txn.fg_tok_'' @ (var_tag (pv_slug s)) @ '') '') @
              (''req.hdr(authorization),regsub(^Bearer'' @ [CHR 0x5C] @ '' ,),sha2(256),hex,lower,'') @
              (''map_str('' @ (pp_maps_dir p) @ ''/'' @ (token_file (pv_slug s)) @ '')'') @ cond []] else [])
      in if auths = [] \<or> list_ex (\<lambda>a. xn_kind a = PUBLIC) auths then []
         else if conditions = [] then setup
         else setup @ token @
           (if http
            then [(INDENT @ ''http-request set-var(txn.fg_auth) int(0)'') @ cond []] @
              map (\<lambda>c. (INDENT @ ''http-request set-var(txn.fg_auth) int(1)'') @ cond [c]) conditions @
              challenge p s auths cond @ identity_headers p s e auths cond
            else [(INDENT @ (deny_text s)) @ cond (map (\<lambda>c. (''!'' @ c)) conditions)]))"

definition service_rules :: "proxy_spec \<Rightarrow> service \<Rightarrow> exposure \<Rightarrow> string option \<Rightarrow> string list" where
  "service_rules p s e guard =
     (let cond = if_clause guard in
      concat (map (filter_rules p s cond) (filter (\<lambda>(i, f). covers (fi_scope f) e) (enumerate 0 (pv_filters s)))) @
      access_rules p s e cond @ auth_rules p s e cond)"

section \<open>The frontends\<close>

definition global_section :: "proxy_spec \<Rightarrow> string list" where
  "global_section p =
     [''global'', (INDENT @ ''log stdout format raw local0 info''),
      (INDENT @ ''stats socket '' @ (pp_runtime_socket p) @ '' mode 660 level admin expose-fd listeners''),
      (INDENT @ ''stats timeout 30s''), (INDENT @ ''ssl-default-bind-options ssl-min-ver TLSv1.2 no-tls-tickets''),
      (INDENT @ ''ssl-default-server-options ssl-min-ver TLSv1.2''), (INDENT @ ''tune.ssl.default-dh-param 2048'')]"

definition defaults_section :: "proxy_spec \<Rightarrow> string list" where
  "defaults_section p =
     [''defaults'', (INDENT @ ''mode http''), (INDENT @ ''log global''), (INDENT @ ''option httplog''), (INDENT @ ''option dontlognull''),
      (INDENT @ ''option http-server-close''),
      (INDENT @ ''timeout connect '' @ (show_int (pp_connect_timeout_seconds p)) @ ''s''),
      (INDENT @ ''timeout client '' @ (show_int (pp_client_timeout_seconds p)) @ ''s''),
      (INDENT @ ''timeout server '' @ (show_int (pp_server_timeout_seconds p)) @ ''s''),
      (INDENT @ ''timeout tunnel '' @ (show_int (pp_tunnel_timeout_seconds p)) @ ''s''),
      (INDENT @ ''timeout http-request 10s''), (INDENT @ ''timeout http-keep-alive 10s''),
      (INDENT @ ''errorfile 503 '' @ (pp_maps_dir p) @ ''/'' @ DEFAULT_ERROR_FILE)]"

definition external_http_frontend :: "proxy_spec \<Rightarrow> string list" where
  "external_http_frontend p =
     [''# Plain HTTP on the WAN exists only to send callers to HTTPS. ACME uses'',
      ''# DNS-01, so nothing is ever served here.'', ''frontend fg_ext_http''] @
     map (\<lambda>a. (INDENT @ ''bind '' @ (bind_text a) @ '':'' @ (show_int (pp_external_http_port p)))) (pp_external_binds p) @
     [(INDENT @ ''mode http''), (INDENT @ ''http-request redirect scheme https code 301'')]"

definition dashboard_vhost :: "proxy_spec \<Rightarrow> string list" where
  "dashboard_vhost p = (let host = or_else (pp_dashboard_hostname p) [] in
     [(INDENT @ ''# --- '' @ host @ '': the admin dashboard ---''), (INDENT @ ''acl h_fg_dashboard req.hdr(host),host_only -i '' @ host)])"

definition sso_vhost :: "proxy_spec \<Rightarrow> string list" where
  "sso_vhost p = (let host = or_else (pp_sso_hostname p) [] in
     [(INDENT @ ''# --- '' @ host @ '': the login page only ---''), (INDENT @ ''acl h_fg_sso req.hdr(host),host_only -i '' @ host),
      (INDENT @ ''acl p_fg_sso path_beg /api/v1/sso/''), (INDENT @ ''http-request deny deny_status 404 if h_fg_sso !p_fg_sso''),
      (INDENT @ ''http-request set-header X-Foxguard-Client-IP %[src] if h_fg_sso'')])"

text \<open>Whether the login page is served at all.\<close>

definition serves_login :: "proxy_spec \<Rightarrow> bool" where
  "serves_login p \<longleftrightarrow> uses_sso p \<and> truthy (pp_sso_hostname p)"

definition services_at :: "proxy_spec \<Rightarrow> exposure \<Rightarrow> service list" where
  "services_at p e = filter (\<lambda>s. pv_kind s = HTTP \<and> needs_hostname s e) (ordered p)"

definition service_vhost :: "proxy_spec \<Rightarrow> exposure \<Rightarrow> service \<Rightarrow> string list" where
  "service_vhost p e s = (let host = show_hostname (hostname_at s e) in
     [[], (INDENT @ ''# --- '' @ (pv_slug s) @ '' ('' @ host @ '') ---''), (INDENT @ ''acl h_'' @ (pv_slug s) @ '' req.hdr(host),host_only -i '' @ host)] @
     service_rules p s e (Some (''h_'' @ (pv_slug s))))"

definition https_frontend :: "proxy_spec \<Rightarrow> exposure \<Rightarrow> string list" where
  "https_frontend p e =
     (let internal = (e = INTERNAL);
          binds = (if internal then pp_internal_binds p else pp_external_binds p);
          port = (if internal then pp_internal_https_port p else pp_external_https_port p)
      in (if internal
          then [''# The tunnel-facing door. This is the only listener on which a source'',
                ''# address is an identity: cryptokey routing binds it to a public key.'']
          else [''# The WAN door. No source address here proves anything.'']) @
        [(''frontend '' @ (if internal then ''fg_int_https'' else ''fg_ext_https''))] @
        map (\<lambda>a. (INDENT @ ''bind '' @ (bind_text a) @ '':'' @ (show_int port) @ '' ssl crt '' @ (pp_certs_dir p) @ '' alpn h2,http/1.1'')) binds @
        [(INDENT @ ''mode http''),
         (INDENT @ ''http-response set-header Strict-Transport-Security '' @ [dq] @ ''max-age='' @ (show_int (pp_hsts_max_age p)) @ [dq]), [],
         (INDENT @ ''# Identity headers are ours alone. Deleting before any rule can''),
         (INDENT @ ''# set them means a caller cannot forge one.''),
         (INDENT @ ''http-request del-header X-Foxguard-Peer''), (INDENT @ ''http-request del-header X-Foxguard-User''),
         (INDENT @ ''http-request del-header X-Foxguard-Groups'')] @
        (if internal then [(INDENT @ ''http-request set-var(txn.fg_peer) src,map_str('' @ (pp_maps_dir p) @ ''/'' @ PEERS_MAP_FILE @ '')'')] else []) @
        (if serves_login p then [] # sso_vhost p else []) @
        (if internal \<and> publishes_dashboard p then [] # dashboard_vhost p else []) @
        concat (map (service_vhost p e) (services_at p e)) @ [[]] @
        (if serves_login p then [(INDENT @ ''use_backend be_fg_sso if h_fg_sso'')] else []) @
        (if internal \<and> publishes_dashboard p then [(INDENT @ ''use_backend be_fg_dashboard if h_fg_dashboard'')] else []) @
        map (\<lambda>s. (INDENT @ ''use_backend '' @ (backend_name (pv_slug s)) @ '' if h_'' @ (pv_slug s))) (services_at p e) @
        [(INDENT @ ''default_backend be_fg_no_service'')])"

text \<open>A passthrough service has a frontend of its own, with the rules of one of the two doors.\<close>

definition tcp_exposure :: "service \<Rightarrow> exposure" where
  "tcp_exposure s = (if has_internal (pv_exposure s) \<and> \<not> has_external (pv_exposure s) then INTERNAL else EXTERNAL)"

definition tcp_frontend :: "proxy_spec \<Rightarrow> service \<Rightarrow> string list" where
  "tcp_frontend p s =
     (let binds = (if has_internal (pv_exposure s) then pp_internal_binds p else []) @
        (if has_external (pv_exposure s) then pp_external_binds p else []) in
      [(''# '' @ (pv_slug s) @ '': passthrough, so nothing above layer 4 is visible.''), (''frontend '' @ (tcp_frontend_name (pv_slug s))),
       (INDENT @ ''mode tcp''), (INDENT @ ''option tcplog'')] @
      map (\<lambda>a. (INDENT @ ''bind '' @ (bind_text a) @ '':'' @ (show_opt_int (pv_listen_port s)))) binds @
      [(INDENT @ ''tcp-request inspect-delay 5s'')] @ service_rules p s (tcp_exposure s) None @
      [(INDENT @ ''default_backend '' @ (backend_name (pv_slug s)))])"

section \<open>The backends and the whole\<close>

definition backend_section :: "proxy_spec \<Rightarrow> service \<Rightarrow> string list" where
  "backend_section p s =
     (let b = pv_backend s;
          options = (if bk_tls b then [''ssl'', if bk_tls_verify b then ''verify required'' else ''verify none''] @
              (if bk_tls_verify b then [''ca-file @system-ca''] else []) else []) @
            (if bk_check b then [(''check inter '' @ (show_int (bk_check_interval_seconds b)) @ ''s'')] else []);
          suffix = (if options = [] then [] else '' '' @ join '' '' options)
      in [(''backend '' @ (backend_name (pv_slug s))), (INDENT @ ''mode '' @ (if pv_kind s = HTTP then ''http'' else ''tcp'')),
          (INDENT @ ''errorfile 503 '' @ (pp_maps_dir p) @ ''/'' @ (error_file (pv_slug s))),
          (INDENT @ ''server s1 '' @ (bind_text (bk_address b)) @ '':'' @ (show_int (bk_port b)) @ suffix)])"

definition no_service_backend :: "proxy_spec \<Rightarrow> string list" where
  "no_service_backend p =
     [''# Anything whose Host matches no published service.'', ''backend be_fg_no_service'', (INDENT @ ''mode http''),
      (INDENT @ ''errorfile 503 '' @ (pp_maps_dir p) @ ''/'' @ DEFAULT_ERROR_FILE), (INDENT @ ''http-request deny deny_status 503'')]"

definition userlists :: "proxy_spec \<Rightarrow> string list" where
  "userlists p = concat (map (\<lambda>s. if pv_accounts s = [] then []
     else [[], (''userlist '' @ (userlist_name (pv_slug s)))] @
       map (\<lambda>a. (INDENT @ ''user '' @ (xc_username a) @ '' password '' @ (xc_password_hash a))) (sort_key xc_username (pv_accounts s))) (ordered p))"

definition rate_tables :: "proxy_spec \<Rightarrow> string list" where
  "rate_tables p = concat (map (\<lambda>s. case rate_limit s of None \<Rightarrow> [] | Some l \<Rightarrow>
     (let period = the (fi_period_seconds l) in
      [[], (''# Rate limit for '' @ (pv_slug s) @ '': '' @ (show_opt_int (fi_rate l)) @ ''/'' @ (show_int period) @ ''s''), (''backend '' @ (table_name (pv_slug s))),
       (INDENT @ ''stick-table type ip size 100k expire '' @ (show_int (period * 2)) @ ''s store http_req_rate('' @ (show_int period) @ ''s)'')]))
     (ordered p))"

definition sso_backend :: "proxy_spec \<Rightarrow> string list" where
  "sso_backend p =
     (let address = (if pp_sso_api_address p \<noteq> [] then pp_sso_api_address p
        else (case pp_internal_binds p of [] \<Rightarrow> ''127.0.0.1'' | a # _ \<Rightarrow> a)) in
      [[], ''# The login page, and nothing else on the API. See _sso_vhost.'', ''backend be_fg_sso'', (INDENT @ ''mode http''),
       (INDENT @ ''server s1 '' @ (bind_text address) @ '':'' @ (show_int (pp_sso_api_port p)) @ (if pp_sso_api_tls p then '' ssl verify none'' else []))])"

definition dashboard_backend :: "proxy_spec \<Rightarrow> string list" where
  "dashboard_backend p =
     [[], ''# The admin dashboard. A plain HTTP upstream on the gateway; it'',
      ''# authenticates its own callers and this vhost adds nothing to that.'', ''backend be_fg_dashboard'', (INDENT @ ''mode http''),
      (INDENT @ ''server s1 '' @ (bind_text (pp_dashboard_address p)) @ '':'' @ (show_int (pp_dashboard_port p)))]"

definition conf_lines :: "proxy_spec \<Rightarrow> string list" where
  "conf_lines p =
     global_section p @ [[]] @ defaults_section p @ userlists p @ rate_tables p @
     (if spec_has_external p then [[]] @ external_http_frontend p @ [[]] @ https_frontend p EXTERNAL else []) @
     (if spec_has_internal p then [[]] @ https_frontend p INTERNAL else []) @
     concat (map (\<lambda>s. if pv_kind s = TCP_PASS then [] # tcp_frontend p s else []) (ordered p)) @
     concat (map (\<lambda>s. [] # backend_section p s) (ordered p)) @
     (if serves_login p then sso_backend p else []) @
     (if publishes_dashboard p then dashboard_backend p else []) @
     (if spec_has_external p \<or> spec_has_internal p then [] # no_service_backend p else []) @
     (if pp_extra_options p \<noteq> []
      then [[], ''# Operator-supplied options, appended verbatim.''] @ pp_extra_options p else [])"

definition render_proxy_conf :: "proxy_spec \<Rightarrow> (render_exn, string) result" where
  "render_proxy_conf p = (case validate_proxy_spec p of Inl e \<Rightarrow> Inl (ProxyInvalidSpec e)
     | Inr _ \<Rightarrow> Inr (CONF_BANNER @ join [nl] (conf_lines p) @ [nl]))"

end
