(* ===== verification/ProxyService.thy ===== *)
theory ProxyService
  imports ProxyConf SsoService GroupsApi
begin

text \<open>
  \<open>services/proxy.py\<close>: the projection of the database onto a proxy specification, with the part
  of \<open>config.py\<close> it starts from, and the checks the API makes before a service is written. A
  stored address or network that does not parse is a \<open>ValueError\<close>; only a
  \<open>ProxyValidationError\<close> is caught by \<open>render_or_none\<close>.
\<close>

section \<open>Settings\<close>

definition proxy_sso_host :: "settings \<Rightarrow> string option" where
  "proxy_sso_host st =
     (if truthy (px_sso_hostname (st_proxy st)) then px_sso_hostname (st_proxy st)
      else if truthy (st_proxy_domain st) then Some ((''auth.'' @ (the (st_proxy_domain st)))) else None)"

text \<open>Only addresses of the tunnel: a source address is an identity on no other listener.\<close>

definition proxy_internal_listen :: "settings \<Rightarrow> string list" where
  "proxy_internal_listen st =
     (if px_internal_binds (st_proxy st) \<noteq> []
      then filter (is_tunnel_address st) (px_internal_binds (st_proxy st)) else [gateway_ip st])"

definition proxy_base_spec :: "settings \<Rightarrow> proxy_spec" where
  "proxy_base_spec st = (let px = st_proxy st in empty_spec\<lparr>
     pp_domain := or_else (px_domain px) [], pp_internal_binds := proxy_internal_listen st,
     pp_external_binds := px_external_binds px, pp_internal_https_port := px_internal_https_port px,
     pp_external_http_port := px_external_http_port px, pp_external_https_port := px_external_https_port px,
     pp_certs_dir := px_certs_dir px, pp_maps_dir := px_maps_dir px, pp_runtime_socket := px_runtime_socket px,
     pp_hsts_max_age := px_hsts_max_age px, pp_send_group_header := px_send_group_header px,
     pp_sso_secret := sso_secret st, pp_sso_cookie := px_sso_cookie_name px, pp_sso_hostname := proxy_sso_host st,
     pp_sso_cookie_domain := or_else (px_domain px) [], pp_sso_api_port := portal_listen_port st,
     pp_sso_api_address := portal_listen_host st, pp_sso_api_tls := truthy (st_portal_tls_certfile st),
     pp_dashboard_hostname := proxy_dashboard_host st,
     pp_dashboard_address := or_else (px_dashboard_host px) (gateway_ip st), pp_dashboard_port := px_dashboard_port px,
     pp_connect_timeout_seconds := px_connect_timeout_seconds px, pp_client_timeout_seconds := px_client_timeout_seconds px,
     pp_server_timeout_seconds := px_server_timeout_seconds px, pp_tunnel_timeout_seconds := px_tunnel_timeout_seconds px,
     pp_extra_options := px_extra_options px\<rparr>)"

section \<open>What is served\<close>

definition SERVED_STATES :: "peer_state set" where "SERVED_STATES = {ACTIVE}"

definition upstream_peer :: "db \<Rightarrow> service_row \<Rightarrow> peer_row option" where
  "upstream_peer d v = (case sv_upstream_peer_id v of None \<Rightarrow> None | Some i \<Rightarrow> find (\<lambda>p. pe_id p = i) (peers d))"

text \<open>The listeners a service gets now: those its exposure asks for, less what the settings
  take away while its upstream peer is not active.\<close>

definition doors_for :: "db \<Rightarrow> settings \<Rightarrow> service_row \<Rightarrow> exposure option" where
  "doors_for d st v =
     (if \<not> sv_enabled v then None
      else (case upstream_peer d v of
          None \<Rightarrow> Some (sv_exposure v)
        | Some p \<Rightarrow>
            (if pe_state p \<in> SERVED_STATES then Some (sv_exposure v)
             else (let keep_internal = has_internal (sv_exposure v) \<and> \<not> px_killswitch_stops_internal (st_proxy st);
                       keep_external = has_external (sv_exposure v) \<and> \<not> px_killswitch_stops_external (st_proxy st)
               in if keep_internal \<and> keep_external then Some BOTH_DOORS
                  else if keep_internal then Some INTERNAL
                  else if keep_external then Some EXTERNAL else None))))"

definition tunnel_addresses :: "peer_row \<Rightarrow> string list" where
  "tunnel_addresses p = (if truthy (pe_tunnel_ip p) then [the (pe_tunnel_ip p)] else []) @
     (if truthy (pe_tunnel_ip6 p) then [the (pe_tunnel_ip6 p)] else [])"

definition served_peers :: "db \<Rightarrow> peer_row list" where
  "served_peers d = sort_key (\<lambda>p. (pe_created_at p, pe_id p)) (filter (\<lambda>p. pe_state p \<in> SERVED_STATES) (peers d))"

definition peer_identities :: "db \<Rightarrow> peer_identity list" where
  "peer_identities d = concat (map (\<lambda>p. map (\<lambda>a. \<lparr>pi_address = a,
       pi_label = (if truthy (pe_dns_label p) then the (pe_dns_label p) else take 12 (pe_id p)),
       pi_groups = sort (map gr_slug (peer_groups d p))\<rparr>) (tunnel_addresses p)) (served_peers d))"

definition set_name :: "string \<Rightarrow> string" where "set_name slug = (''grp_'' @ slug)"

text \<open>Who counts as inside a group or a zone; a zone has its routed networks too.\<close>

definition inside_group :: "db \<Rightarrow> group_row \<Rightarrow> string list" where
  "inside_group d g =
     (let routed = (if gr_kind g = ZONE then map zr_cidr (filter zr_enabled (gr_routes g)) else []);
          ps = (if gr_kind g = ZONE
            then filter (\<lambda>p. pe_zone_id p = Some (gr_id g) \<and> pe_state p \<in> SERVED_STATES) (peers d)
            else filter (\<lambda>p. gr_id g \<in> set (pe_group_ids p) \<and> pe_state p \<in> SERVED_STATES) (peers d))
      in sort (remdups (routed @ concat (map tunnel_addresses ps))))"

text \<open>The slugs of the groups and zones some access rule names.\<close>

definition wanted_slugs :: "db \<Rightarrow> string list" where
  "wanted_slugs d = sort (remdups (concat (map (\<lambda>v. concat (map (\<lambda>r.
     if sx_kind r \<in> {KGROUP, KZONE}
     then (case group_by_id d (sx_group_id r) of None \<Rightarrow> [] | Some g \<Rightarrow> [gr_slug g]) else [])
     (sv_access v))) (services d))))"

definition source_sets :: "db \<Rightarrow> source_set list" where
  "source_sets d =
     \<lparr>so_name = PEER_SET, so_members = concat (map tunnel_addresses (served_peers d)),
      so_comment = Some ''every peer that can be on the tunnel''\<rparr> #
     concat (map (\<lambda>slug. case find (\<lambda>g. gr_slug g = slug) (groups d) of None \<Rightarrow> []
       | Some g \<Rightarrow> [\<lparr>so_name = set_name slug, so_members = inside_group d g,
           so_comment = Some ((group_kind_value (gr_kind g)) @ '' '' @ slug)\<rparr>]) (wanted_slugs d))"

section \<open>One service\<close>

definition enabled_auths :: "service_row \<Rightarrow> auth_row list" where
  "enabled_auths v = filter sa_enabled (sort_key (\<lambda>r. (sa_priority r, sa_id r)) (sv_authenticators v))"

definition enabled_filters :: "service_row \<Rightarrow> filter_row list" where
  "enabled_filters v = filter sf_enabled (sort_key (\<lambda>r. (sf_priority r, sf_id r)) (sv_filters v))"

text \<open>A zone in a requirement is left out: nobody is in one.\<close>

definition project_auth :: "db \<Rightarrow> auth_row \<Rightarrow> authenticator" where
  "project_auth d r = \<lparr>xn_kind = sa_kind r, xn_scope = sa_scope r, xn_realm = sa_realm r,
     xn_groups = sort (map gr_slug (filter (\<lambda>g. gr_id g \<in> set (sa_group_ids r) \<and> gr_kind g = GROUP) (groups d))),
     xn_require_admin = sa_require_admin r\<rparr>"

definition project_filter :: "filter_row \<Rightarrow> proxy_filter" where
  "project_filter r = \<lparr>fi_kind = sf_kind r, fi_scope = sf_scope r, fi_values = sf_values r,
     fi_rate = sf_rate r, fi_period_seconds = sf_period_seconds r\<rparr>"

definition project_access :: "db \<Rightarrow> access_row \<Rightarrow> access_rule" where
  "project_access d r =
     (let act = (if sx_action r = ACCEPT then ALLOW else DENY) in
      case sx_kind r of
        KANY \<Rightarrow> \<lparr>xr_action = act, xr_source = None, xr_is_set = False\<rparr>
      | KCIDR \<Rightarrow> \<lparr>xr_action = act, xr_source = sx_cidr r, xr_is_set = False\<rparr>
      | _ \<Rightarrow> (case group_by_id d (sx_group_id r) of
            None \<Rightarrow> \<lparr>xr_action = act, xr_source = None, xr_is_set = False\<rparr>
          | Some g \<Rightarrow> \<lparr>xr_action = act,
              xr_source = (if gr_slug g = [] then None else Some (set_name (gr_slug g))), xr_is_set = (gr_slug g \<noteq> [])\<rparr>))"

definition project_service :: "db \<Rightarrow> service_row \<Rightarrow> exposure \<Rightarrow> service" where
  "project_service d v e =
     \<lparr>pv_slug = sv_slug v, pv_kind = sv_kind v, pv_exposure = e,
      pv_backend = \<lparr>bk_address = sv_upstream_host v, bk_port = sv_upstream_port v, bk_tls = sv_upstream_tls v,
        bk_tls_verify = sv_upstream_tls_verify v, bk_check = sv_health_check v,
        bk_check_interval_seconds = sv_health_check_interval v,
        bk_peer_label = map_option (\<lambda>p. if truthy (pe_dns_label p) then the (pe_dns_label p) else pe_name p) (upstream_peer d v)\<rparr>,
      pv_internal_hostname = (if has_internal e then sv_internal_hostname v else None),
      pv_external_hostname = (if has_external e then sv_external_hostname v else None),
      pv_listen_port = sv_listen_port v, pv_sni_hostname = sv_sni_hostname v,
      pv_authenticators = map (project_auth d) (enabled_auths v),
      pv_filters = map project_filter (enabled_filters v),
      pv_access = map (project_access d) (sort_key (\<lambda>r. (sx_priority r, sx_id r)) (sv_access v)),
      pv_token_hashes = sort (map tk_token_hash (filter (\<lambda>t. tk_revoked_at t = None) (sv_tokens v))),
      pv_accounts = map (\<lambda>a. \<lparr>xc_username = at_username a, xc_password_hash = at_password_hash a\<rparr>)
        (filter (\<lambda>a. at_revoked_at a = None) (sort_key at_username (sv_accounts v))),
      pv_description = sv_description v\<rparr>"

definition by_slug :: "db \<Rightarrow> service_row list" where "by_slug d = sort_key sv_slug (services d)"

text \<open>
  The base specification's fields are copied one by one; those of the dashboard and the name of
  the country map are not among them, so they are the defaults of the class.
\<close>

definition build_proxy_spec :: "int \<Rightarrow> db \<Rightarrow> settings \<Rightarrow> proxy_spec" where
  "build_proxy_spec now d st = (let b = proxy_base_spec st in empty_spec\<lparr>
     pp_domain := pp_domain b, pp_internal_binds := pp_internal_binds b, pp_external_binds := pp_external_binds b,
     pp_internal_https_port := pp_internal_https_port b, pp_external_http_port := pp_external_http_port b,
     pp_external_https_port := pp_external_https_port b, pp_certs_dir := pp_certs_dir b, pp_maps_dir := pp_maps_dir b,
     pp_runtime_socket := pp_runtime_socket b, pp_hsts_max_age := pp_hsts_max_age b,
     pp_send_group_header := pp_send_group_header b, pp_sso_secret := pp_sso_secret b, pp_sso_cookie := pp_sso_cookie b,
     pp_sso_hostname := pp_sso_hostname b, pp_sso_cookie_domain := pp_sso_cookie_domain b,
     pp_sso_api_port := pp_sso_api_port b, pp_sso_api_address := pp_sso_api_address b, pp_sso_api_tls := pp_sso_api_tls b,
     pp_sso_revoked := revoked_jtis now d,
     pp_services := concat (map (\<lambda>v. case doors_for d st v of None \<Rightarrow> [] | Some e \<Rightarrow> [project_service d v e]) (by_slug d)),
     pp_source_sets := source_sets d, pp_peers := peer_identities d,
     pp_connect_timeout_seconds := pp_connect_timeout_seconds b, pp_client_timeout_seconds := pp_client_timeout_seconds b,
     pp_server_timeout_seconds := pp_server_timeout_seconds b, pp_tunnel_timeout_seconds := pp_tunnel_timeout_seconds b,
     pp_extra_options := pp_extra_options b\<rparr>)"

section \<open>Rendering\<close>

record rendered_proxy =
  rn_conf :: string
  rn_files :: "(string \<times> string) list"
  rn_digest :: string
  rn_geo_countries :: "string list"

definition render_proxy :: "int \<Rightarrow> db \<Rightarrow> settings \<Rightarrow> (render_exn, string \<times> (string \<times> string) list) result" where
  "render_proxy now d st = (let p = build_proxy_spec now d st in
     bindR (render_proxy_conf p) (\<lambda>conf. bindR (render_files p) (\<lambda>files. Inr (conf, files))))"

text \<open>An invalid specification is nothing to install; any other failure is raised.\<close>

definition proxy_or_none ::
  "(string \<Rightarrow> string) \<Rightarrow> int \<Rightarrow> db \<Rightarrow> settings \<Rightarrow> (render_exn, rendered_proxy option) result" where
  "proxy_or_none sha now d st =
     (if \<not> px_enabled (st_proxy st) then Inr None
      else (case render_proxy now d st of
          Inl (ProxyInvalidSpec e) \<Rightarrow> Inr None
        | Inl x \<Rightarrow> Inl x
        | Inr (conf, files) \<Rightarrow> Inr (Some \<lparr>rn_conf = conf, rn_files = files, rn_digest = proxy_digest sha conf files,
            rn_geo_countries = geo_countries (build_proxy_spec now d st)\<rparr>)))"

section \<open>Checks before a service is written\<close>

text \<open>Where the login page may send a browser back to.\<close>

definition sso_hostnames :: "db \<Rightarrow> settings \<Rightarrow> string set" where
  "sso_hostnames d st = set (concat (map (\<lambda>v. case doors_for d st v of None \<Rightarrow> []
     | Some _ \<Rightarrow> map (py_lower \<circ> the) (filter truthy [sv_internal_hostname v, sv_external_hostname v])) (services d)))"

definition py_address :: "string \<Rightarrow> (value_error, ip_addr) result" where
  "py_address s = (case ip_address s of None \<Rightarrow> Inl (NotANetwork s) | Some a \<Rightarrow> Inr a)"

fun first_hit :: "('a \<Rightarrow> (value_error, bool) result) \<Rightarrow> 'a list \<Rightarrow> (value_error, bool) result" where
  "first_hit f [] = Inr False"
| "first_hit f (x # xs) = bindR (f x) (\<lambda>ok. if ok then Inr True else first_hit f xs)"

definition routed_by :: "db \<Rightarrow> string \<Rightarrow> string list" where
  "routed_by d i = concat (map (\<lambda>g. map zr_cidr
     (filter (\<lambda>r. zr_via_peer_id r = Some i \<and> zr_enabled r) (gr_routes g))) (groups d))"

text \<open>\<open>None\<close>: reachable. The hosts's text is compared as an address with the peer's own, then
  looked up in the networks it routes for.\<close>

definition upstream_reachable :: "db \<Rightarrow> peer_row option \<Rightarrow> string \<Rightarrow> (value_error, string option) result" where
  "upstream_reachable d peer host =
     (case peer of None \<Rightarrow> Inr None
      | Some p \<Rightarrow> (case ip_address host of
          None \<Rightarrow> Inr (Some (((quoted host) @ '' is not an IP address'')))
        | Some a \<Rightarrow>
            bindR (first_hit (\<lambda>own. bindR (py_address own) (\<lambda>b. Inr (b = a))) (tunnel_addresses p)) (\<lambda>own.
            if own then Inr None
            else bindR (first_hit (\<lambda>cidr. bindR (py_network cidr) (\<lambda>n. Inr (in_net a n))) (routed_by d (pe_id p))) (\<lambda>hit.
              if hit then Inr None
              else (let carried = (if join '', '' (routed_by d (pe_id p)) = [] then ''nothing'' else join '', '' (routed_by d (pe_id p)));
                        own_text = (if truthy (pe_tunnel_ip p) then the (pe_tunnel_ip p) else show_hostname (pe_tunnel_ip6 p))
                in Inr (Some ((host @ '' is not reachable through '' @ (quoted (pe_name p)) @ '': it carries '' @ own_text @ '' and routes for '' @ carried @ ''. '') @
                   ''Add a zone route for the network this address is in, or point the service at a peer that carries it'')))))))"

definition forbidden_upstream :: "settings \<Rightarrow> string \<Rightarrow> int \<Rightarrow> string option" where
  "forbidden_upstream st host port =
     (case ip_address host of None \<Rightarrow> None
      | Some a \<Rightarrow>
          (if show_ip a \<noteq> gateway_ip st then None
           else if port = st_portal_port st
           then Some ((host @ '':'' @ (show_int port) @ '' is Foxguard'' @ [CHR 0x27] @ ''s own listener. The portal and the enrollment API identify their '') @
             ''caller by source address, and a proxy in front of them destroys that identity -- they must be reached directly from the tunnel'')
           else if port \<in> {px_internal_https_port (st_proxy st), px_external_https_port (st_proxy st), px_external_http_port (st_proxy st)}
           then Some ((host @ '':'' @ (show_int port) @ '' is the proxy'' @ [CHR 0x27] @ ''s own listener: this service would forward to itself''))
           else None))"

text \<open>Groups, zones, device names and services share one namespace.\<close>

definition slug_conflict :: "db \<Rightarrow> string \<Rightarrow> string option \<Rightarrow> string option" where
  "slug_conflict d slug exclude =
     (case find (\<lambda>g. gr_slug g = slug) (groups d) of
        Some g \<Rightarrow> Some (((quoted slug) @ '' is already a '' @ (group_kind_value (gr_kind g))))
      | None \<Rightarrow> (case find (\<lambda>p. pe_dns_label p = Some slug) (peers d) of
          Some p \<Rightarrow> Some (((quoted slug) @ '' is already the DNS label of peer '' @ (quoted (pe_name p))))
        | None \<Rightarrow> (case find (\<lambda>v. sv_slug v = slug) (services d) of
            Some v \<Rightarrow> (if Some (sv_id v) \<noteq> exclude then Some (((quoted slug) @ '' is already a service'')) else None)
          | None \<Rightarrow> None)))"

function first_port :: "int list \<Rightarrow> int \<Rightarrow> int \<Rightarrow> int option" where
  "first_port taken lo hi = (if hi < lo then None else if lo \<notin> set taken then Some lo else first_port taken (lo + 1) hi)"
  by pat_completeness auto
termination by (relation "measure (\<lambda>(t, lo, hi). nat (hi - lo + 1))") auto

declare first_port.simps [simp del]

definition allocate_listen_port :: "db \<Rightarrow> settings \<Rightarrow> (proxy_error, int) result" where
  "allocate_listen_port d st =
     (let taken = concat (map (\<lambda>v. case sv_listen_port v of None \<Rightarrow> [] | Some p \<Rightarrow> [p]) (services d));
          lo = px_tcp_port_start (st_proxy st); hi = px_tcp_port_end (st_proxy st)
      in case first_port taken lo hi of None \<Rightarrow> Inl (NoFreePort lo hi) | Some p \<Rightarrow> Inr p)"

text \<open>The paths from the gateway that publishing has opened.\<close>

record implicit_path =
  ip_service :: string
  ip_destination :: string
  ip_peer :: "string option"
  ip_port :: int

definition implicit_paths :: "db \<Rightarrow> settings \<Rightarrow> implicit_path list" where
  "implicit_paths d st = concat (map (\<lambda>v. case doors_for d st v of None \<Rightarrow> []
     | Some _ \<Rightarrow> [\<lparr>ip_service = sv_slug v, ip_destination = sv_upstream_host v,
         ip_peer = map_option pe_name (upstream_peer d v), ip_port = sv_upstream_port v\<rparr>]) (by_slug d))"

end
