(* ===== verification/ServicesApi.thy ===== *)
theory ServicesApi
  imports ServiceSchemas ProxyService
begin

text \<open>
  \<open>api/routes/services.py\<close> and \<open>proxy.py\<close>: publishing a service, its policy, its credentials,
  and what the proxy serves now. Every change renders the proxy before it commits. Fresh identifiers of child rows
  and the \<open>crypt\<close> hash of passlib are arguments; \<open>say\<close> is the wording of a validation error.
\<close>

section \<open>The check that ends a change\<close>

definition proxy_check :: "(proxy_error \<Rightarrow> string) \<Rightarrow> settings \<Rightarrow> int \<Rightarrow> db \<Rightarrow> string option" where
  "proxy_check say st now d = (case render_proxy now d st of Inl (ProxyInvalidSpec e) \<Rightarrow> Some (say e) | _ \<Rightarrow> None)"

section \<open>Rows\<close>

definition service_or_404 :: "db \<Rightarrow> string \<Rightarrow> (http_exn, service_row) result" where
  "service_or_404 d i = (case find (\<lambda>v. sv_id v = i) (services d) of
     None \<Rightarrow> Inl (HTTPException 404 ''service not found'') | Some v \<Rightarrow> Inr v)"

definition put_service :: "service_row \<Rightarrow> db \<Rightarrow> db" where
  "put_service w d = d\<lparr>services := map (\<lambda>v. if sv_id v = sv_id w then w else v) (services d)\<rparr>"

definition SERVICE_ZONE_HINT :: string where
  "SERVICE_ZONE_HINT = ''a person is not in a routed segment, so a zone can never grant access to a published service''"

definition build_authenticator :: "db \<Rightarrow> string \<Rightarrow> auth_create \<Rightarrow> (http_exn, auth_row) result" where
  "build_authenticator d i p = bindR (resolve_groups d (ab_group_slugs p) SERVICE_ZONE_HINT) (\<lambda>gs.
     Inr \<lparr>sa_id = i, sa_kind = ab_kind p, sa_scope = ab_scope p, sa_enabled = ab_enabled p,
       sa_priority = ab_priority p, sa_realm = ab_realm p, sa_require_admin = ab_require_admin p,
       sa_group_ids = map gr_id gs\<rparr>)"

definition filter_of :: "string \<Rightarrow> filter_create \<Rightarrow> filter_row" where
  "filter_of i p = \<lparr>sf_id = i, sf_kind = fb_kind p, sf_scope = fb_scope p, sf_enabled = fb_enabled p,
     sf_priority = fb_priority p, sf_values = fb_values p, sf_rate = fb_rate p, sf_period_seconds = fb_period_seconds p\<rparr>"

definition access_of :: "string \<Rightarrow> access_create \<Rightarrow> access_row" where
  "access_of i p = \<lparr>sx_id = i, sx_action = xb_action p, sx_kind = xb_kind p, sx_group_id = xb_group_id p,
     sx_cidr = xb_cidr p, sx_priority = xb_priority p\<rparr>"

section \<open>What the tables refuse\<close>

definition doubled_auth :: "auth_row list \<Rightarrow> bool" where
  "doubled_auth rows \<longleftrightarrow> \<not> distinct (map (\<lambda>a. (sa_kind a, sa_scope a)) rows)"

definition incomplete_rate :: "filter_row \<Rightarrow> bool" where
  "incomplete_rate f \<longleftrightarrow> sf_kind f = RATE_LIMIT \<and> (sf_rate f = None \<or> sf_period_seconds f = None)"

definition dangling_access :: "db \<Rightarrow> access_row \<Rightarrow> bool" where
  "dangling_access d r \<longleftrightarrow> (sx_group_id r \<noteq> None \<and> group_by_id d (sx_group_id r) = None) \<or>
     (sx_kind r \<in> {KGROUP, KZONE} \<and> sx_group_id r = None) \<or> (sx_kind r = KCIDR \<and> sx_cidr r = None)"

definition refused_service :: "db \<Rightarrow> service_row \<Rightarrow> bool" where
  "refused_service d v \<longleftrightarrow>
     (sv_upstream_peer_id v \<noteq> None \<and> upstream_peer d v = None) \<or>
     (sv_kind v = TCP_PASS \<and> sv_listen_port v = None \<and> sv_sni_hostname v = None) \<or>
     (sv_kind v = HTTP \<and> sv_exposure v \<noteq> EXTERNAL \<and> sv_internal_hostname v = None) \<or>
     (sv_kind v = HTTP \<and> sv_exposure v \<noteq> INTERNAL \<and> sv_external_hostname v = None) \<or>
     \<not> opt_ok (max_length 255) (sv_internal_hostname v) \<or> \<not> opt_ok (max_length 255) (sv_external_hostname v) \<or>
     list_ex (\<lambda>u. sv_id u \<noteq> sv_id v \<and> (sv_slug u = sv_slug v \<or>
       taken_by (sv_internal_hostname v) (sv_internal_hostname u) \<or>
       taken_by (sv_external_hostname v) (sv_external_hostname u) \<or>
       taken_by (sv_listen_port v) (sv_listen_port u))) (services d) \<or>
     doubled_auth (sv_authenticators v) \<or> list_ex incomplete_rate (sv_filters v) \<or>
     list_ex (dangling_access d) (sv_access v)"

text \<open>What a later transaction reads back.\<close>

definition as_stored :: "request \<Rightarrow> service_row \<Rightarrow> service_row" where
  "as_stored rq v = v\<lparr>sv_upstream_host := the (rq_inet rq (sv_upstream_host v))\<rparr>"

section \<open>The answer\<close>

record service_read =
  sy_row :: service_row
  sy_upstream_peer_name :: "string option"
  sy_active_doors :: "exposure option"
  sy_authenticators :: "(auth_row \<times> string list) list"
  sy_filters :: "filter_row list"
  sy_access :: "(access_row \<times> string option) list"
  sy_token_count :: nat
  sy_account_count :: nat

definition serialise_auth :: "db \<Rightarrow> auth_row \<Rightarrow> auth_row \<times> string list" where
  "serialise_auth d a = (a, sort (map gr_slug (filter (\<lambda>g. gr_id g \<in> set (sa_group_ids a)) (groups d))))"

definition serialise_service :: "db \<Rightarrow> settings \<Rightarrow> service_row \<Rightarrow> service_read" where
  "serialise_service d st v = \<lparr>sy_row = v, sy_upstream_peer_name = map_option pe_name (upstream_peer d v),
     sy_active_doors = doors_for d st v,
     sy_authenticators = map (serialise_auth d)
       (sort_key (\<lambda>a. (sa_priority a, auth_kind_value (sa_kind a))) (sv_authenticators v)),
     sy_filters = sort_key (\<lambda>f. (sf_priority f, filter_kind_value (sf_kind f))) (sv_filters v),
     sy_access = map (\<lambda>r. (r, map_option gr_slug (group_by_id d (sx_group_id r))))
       (sort_key (\<lambda>r. (sx_priority r, sx_id r)) (sv_access v)),
     sy_token_count = length (filter (\<lambda>t. tk_revoked_at t = None) (sv_tokens v)),
     sy_account_count = length (filter (\<lambda>a. at_revoked_at a = None) (sv_accounts v))\<rparr>"

definition list_services :: "db \<Rightarrow> settings \<Rightarrow> service_read list" where
  "list_services d st = map (serialise_service d st) (sort_key sv_slug (services d))"

definition get_service :: "db \<Rightarrow> settings \<Rightarrow> string \<Rightarrow> (http_exn, service_read) result" where
  "get_service d st i = bindR (service_or_404 d i) (\<lambda>v. Inr (serialise_service d st v))"

section \<open>Services\<close>

text \<open>An address of the database that does not parse is an error nothing catches.\<close>

definition check_upstream :: "db \<Rightarrow> settings \<Rightarrow> peer_row option \<Rightarrow> service_row \<Rightarrow> (http_exn, unit) result" where
  "check_upstream d st peer v =
     (case forbidden_upstream st (sv_upstream_host v) (sv_upstream_port v) of
        Some why \<Rightarrow> Inl (HTTPException 422 why)
      | None \<Rightarrow> (case upstream_reachable d peer (sv_upstream_host v) of
          Inl e \<Rightarrow> Inl Unhandled
        | Inr (Some why) \<Rightarrow> Inl (HTTPException 422 why)
        | Inr None \<Rightarrow> Inr ()))"

definition default_hostname :: "settings \<Rightarrow> string \<Rightarrow> string option" where
  "default_hostname st slug = (if truthy (st_proxy_domain st) then Some (slug @ ''.'' @ (the (st_proxy_domain st))) else None)"

definition door_name :: "settings \<Rightarrow> string \<Rightarrow> bool \<Rightarrow> string option \<Rightarrow> string option" where
  "door_name st slug has_door given =
     (if has_door then (if truthy given then given else default_hostname st slug) else None)"

definition new_service ::
  "request \<Rightarrow> (nat \<Rightarrow> string) \<Rightarrow> settings \<Rightarrow> service_create \<Rightarrow> int option \<Rightarrow> auth_row list \<Rightarrow> service_row" where
  "new_service rq fresh st p port auths = \<lparr>sv_id = rq_id rq, sv_slug = vb_slug p, sv_name = vb_name p,
     sv_description = vb_description p, sv_enabled = vb_enabled p, sv_kind = vb_kind p, sv_exposure = vb_exposure p,
     sv_upstream_peer_id = vb_upstream_peer_id p, sv_upstream_host = vb_upstream_host p,
     sv_upstream_port = vb_upstream_port p, sv_upstream_tls = vb_upstream_tls p,
     sv_upstream_tls_verify = vb_upstream_tls_verify p,
     sv_internal_hostname = (if vb_kind p = HTTP
       then door_name st (vb_slug p) (has_internal (vb_exposure p)) (vb_internal_hostname p) else vb_internal_hostname p),
     sv_external_hostname = (if vb_kind p = HTTP
       then door_name st (vb_slug p) (has_external (vb_exposure p)) (vb_external_hostname p) else vb_external_hostname p),
     sv_listen_port = port, sv_sni_hostname = vb_sni_hostname p,
     sv_health_check = vb_health_check p, sv_health_check_interval = vb_health_check_interval p,
     sv_authenticators = auths,
     sv_filters = map (\<lambda>(n, f). filter_of (fresh n) f) (enumerate 0 (vb_filters p)),
     sv_access = map (\<lambda>(n, r). access_of (fresh n) r) (enumerate 0 (vb_access p)),
     sv_tokens = [], sv_accounts = []\<rparr>"

text \<open>An exhausted range of ports is a \<open>ProxyValidationError\<close> outside the check that catches one.\<close>

definition port_for :: "db \<Rightarrow> settings \<Rightarrow> service_create \<Rightarrow> (http_exn, int option) result" where
  "port_for d st p =
     (if vb_kind p = TCP_PASS \<and> vb_listen_port p = None \<and> \<not> truthy (vb_sni_hostname p)
      then (case allocate_listen_port d st of Inl e \<Rightarrow> Inl Unhandled | Inr n \<Rightarrow> Inr (Some n))
      else Inr (vb_listen_port p))"

definition service_entry :: "request \<Rightarrow> string \<Rightarrow> string \<Rightarrow> db \<Rightarrow> db" where
  "service_entry rq act object_id d = audit_as rq act ''service'' (Some object_id) (JObj []) d"

text \<open>
  The row as it is flushed is what the check sees; the row the next transaction reads has the
  database's spelling of the address.
\<close>

definition store_new_service ::
  "request \<Rightarrow> settings \<Rightarrow> service_row \<Rightarrow> db \<Rightarrow> (http_exn, service_read \<times> db) result" where
  "store_new_service rq st v d =
     (if rq_inet rq (sv_upstream_host v) = None \<or> refused_service d v then Inl Unhandled
      else bindR (check_upstream d st (upstream_peer d v) v) (\<lambda>_.
        bindR (regenerate_or_422 rq st ''admin-api'' (d\<lparr>services := services d @ [v]\<rparr>)) (\<lambda>d1.
         (let d2 = service_entry rq ''service.create'' (sv_slug v) (d1\<lparr>services := services d @ [as_stored rq v]\<rparr>)
          in Inr (serialise_service d2 st (as_stored rq v), d2)))))"

definition create_service ::
  "request \<Rightarrow> (nat \<Rightarrow> string) \<Rightarrow> settings \<Rightarrow> service_create \<Rightarrow> db \<Rightarrow> (http_exn, service_read \<times> db) result" where
  "create_service rq fresh st p d =
     (if \<not> px_enabled (st_proxy st)
      then Inl (HTTPException 409 ''the reverse proxy is disabled; set FOXGUARD_PROXY_ENABLED=true first'')
      else (case slug_conflict d (vb_slug p) None of
          Some why \<Rightarrow> Inl (HTTPException 409 why)
        | None \<Rightarrow>
            bindR (port_for d st p) (\<lambda>port.
            bindR (mapR (\<lambda>(n, a). build_authenticator d (fresh n) a) (enumerate 0 (vb_authenticators p))) (\<lambda>auths.
              store_new_service rq st (new_service rq fresh st p port auths) d))))"

definition changed_service :: "service_update \<Rightarrow> service_row \<Rightarrow> service_row" where
  "changed_service p v = v\<lparr>sv_name := set_req (vu_name p) (sv_name v),
     sv_description := set_opt (vu_description p) (sv_description v),
     sv_enabled := set_req (vu_enabled p) (sv_enabled v),
     sv_exposure := set_req (vu_exposure p) (sv_exposure v),
     sv_upstream_peer_id := set_opt (vu_upstream_peer_id p) (sv_upstream_peer_id v),
     sv_upstream_host := set_req (vu_upstream_host p) (sv_upstream_host v),
     sv_upstream_port := set_req (vu_upstream_port p) (sv_upstream_port v),
     sv_upstream_tls := set_req (vu_upstream_tls p) (sv_upstream_tls v),
     sv_upstream_tls_verify := set_req (vu_upstream_tls_verify p) (sv_upstream_tls_verify v),
     sv_internal_hostname := set_opt (vu_internal_hostname p) (sv_internal_hostname v),
     sv_external_hostname := set_opt (vu_external_hostname p) (sv_external_hostname v),
     sv_listen_port := set_opt (vu_listen_port p) (sv_listen_port v),
     sv_sni_hostname := set_opt (vu_sni_hostname p) (sv_sni_hostname v),
     sv_health_check := set_req (vu_health_check p) (sv_health_check v),
     sv_health_check_interval := set_req (vu_health_check_interval p) (sv_health_check_interval v)\<rparr>"

definition nulled_service :: "service_update \<Rightarrow> bool" where
  "nulled_service p \<longleftrightarrow> is_null (vu_name p) \<or> is_null (vu_enabled p) \<or> is_null (vu_exposure p) \<or>
     is_null (vu_upstream_host p) \<or> is_null (vu_upstream_port p) \<or> is_null (vu_upstream_tls p) \<or>
     is_null (vu_upstream_tls_verify p) \<or> is_null (vu_health_check p) \<or> is_null (vu_health_check_interval p)"

text \<open>
  The \<open>upstream_peer\<close> of the row was loaded with it, and assigning the key does not load it again
  before the commit: until then the service still hangs on the peer it had. Only where it had none is the
  new one looked up, and by the first check alone.
\<close>

definition store_changed_service ::
  "request \<Rightarrow> settings \<Rightarrow> service_row \<Rightarrow> service_row \<Rightarrow> db \<Rightarrow> (http_exn, service_read \<times> db) result" where
  "store_changed_service rq st v w d =
     (let stored = (if sv_upstream_host w \<noteq> sv_upstream_host v then as_stored rq w else w);
          seen = w\<lparr>sv_upstream_peer_id := sv_upstream_peer_id v\<rparr>;
          peer = (case upstream_peer d v of Some q \<Rightarrow> Some q | None \<Rightarrow> upstream_peer d w)
      in if (sv_upstream_host w \<noteq> sv_upstream_host v \<and> rq_inet rq (sv_upstream_host w) = None) \<or> refused_service d w
         then Inl Unhandled
         else bindR (check_upstream d st peer w) (\<lambda>_.
           bindR (regenerate_or_422 rq st ''admin-api'' (put_service seen d)) (\<lambda>d1.
            (let d2 = service_entry rq ''service.update'' (sv_slug w) (put_service stored d1)
             in Inr (serialise_service d2 st stored, d2)))))"

definition update_service ::
  "request \<Rightarrow> settings \<Rightarrow> string \<Rightarrow> service_update \<Rightarrow> db \<Rightarrow> (http_exn, service_read \<times> db) result" where
  "update_service rq st i p d =
     bindR (service_or_404 d i) (\<lambda>v.
       if nulled_service p then Inl Unhandled else store_changed_service rq st v (changed_service p v) d)"

text \<open>The end of most changes: regenerate, record, commit.\<close>

definition commit_service ::
  "request \<Rightarrow> settings \<Rightarrow> string \<Rightarrow> string \<Rightarrow> db \<Rightarrow> (http_exn, db) result" where
  "commit_service rq st act object_id d =
     bindR (regenerate_or_422 rq st ''admin-api'' d) (\<lambda>d1. Inr (service_entry rq act object_id d1))"

definition delete_service :: "request \<Rightarrow> settings \<Rightarrow> string \<Rightarrow> db \<Rightarrow> (http_exn, db) result" where
  "delete_service rq st i d = bindR (service_or_404 d i) (\<lambda>v.
     commit_service rq st ''service.delete'' (sv_slug v) (d\<lparr>services := filter (\<lambda>u. sv_id u \<noteq> i) (services d)\<rparr>))"

section \<open>Policy\<close>

text \<open>\<open>add_child\<close>: \<open>violated\<close> is the constraint the flush of the new row violates, if any.\<close>

definition add_child ::
  "request \<Rightarrow> settings \<Rightarrow> service_row \<Rightarrow> string option \<Rightarrow> string \<Rightarrow> db \<Rightarrow> (http_exn, service_read \<times> db) result" where
  "add_child rq st w violated act d =
     (case violated of
        Some c \<Rightarrow> Inl (HTTPException 409 (''service policy (violated constraint: '' @ c @ '')''))
      | None \<Rightarrow> bindR (commit_service rq st act (sv_slug w) (put_service w d)) (\<lambda>d1.
          Inr (serialise_service d1 st w, d1)))"

definition add_authenticator ::
  "request \<Rightarrow> settings \<Rightarrow> string \<Rightarrow> auth_create \<Rightarrow> db \<Rightarrow> (http_exn, service_read \<times> db) result" where
  "add_authenticator rq st i p d =
     bindR (service_or_404 d i) (\<lambda>v.
     bindR (build_authenticator d (rq_id rq) p) (\<lambda>a.
      (let w = v\<lparr>sv_authenticators := sv_authenticators v @ [a]\<rparr>
       in add_child rq st w (if doubled_auth (sv_authenticators w) then Some ''uq_service_auth_kind'' else None)
            ''service.auth.add'' d)))"

definition add_filter ::
  "request \<Rightarrow> settings \<Rightarrow> string \<Rightarrow> filter_create \<Rightarrow> db \<Rightarrow> (http_exn, service_read \<times> db) result" where
  "add_filter rq st i p d =
     bindR (service_or_404 d i) (\<lambda>v.
      (let f = filter_of (rq_id rq) p in
       add_child rq st (v\<lparr>sv_filters := sv_filters v @ [f]\<rparr>)
         (if incomplete_rate f then Some ''ck_service_filters_rate_complete'' else None) ''service.filter.add'' d))"

definition add_access_rule ::
  "request \<Rightarrow> settings \<Rightarrow> string \<Rightarrow> access_create \<Rightarrow> db \<Rightarrow> (http_exn, service_read \<times> db) result" where
  "add_access_rule rq st i p d =
     bindR (service_or_404 d i) (\<lambda>v.
      (let r = access_of (rq_id rq) p in
       add_child rq st (v\<lparr>sv_access := sv_access v @ [r]\<rparr>)
         (if dangling_access d r then Some ''service_access_group_id_fkey'' else None) ''service.access.add'' d))"

text \<open>Taking a row away; \<open>has\<close> says whether the service has it, \<open>without\<close> is the service without it.\<close>

definition remove_child ::
  "request \<Rightarrow> settings \<Rightarrow> string \<Rightarrow> (service_row \<Rightarrow> bool) \<Rightarrow> (service_row \<Rightarrow> service_row) \<Rightarrow> string \<Rightarrow> string \<Rightarrow> db
     \<Rightarrow> (http_exn, service_read \<times> db) result" where
  "remove_child rq st i has without missing act d =
     bindR (service_or_404 d i) (\<lambda>v.
       if \<not> has v then Inl (HTTPException 404 missing)
       else bindR (commit_service rq st act (sv_slug v) (put_service (without v) d)) (\<lambda>d1.
         Inr (serialise_service d1 st (without v), d1)))"

definition remove_authenticator ::
  "request \<Rightarrow> settings \<Rightarrow> string \<Rightarrow> string \<Rightarrow> db \<Rightarrow> (http_exn, service_read \<times> db) result" where
  "remove_authenticator rq st i k = remove_child rq st i (\<lambda>v. list_ex (\<lambda>a. sa_id a = k) (sv_authenticators v))
     (\<lambda>v. v\<lparr>sv_authenticators := filter (\<lambda>a. sa_id a \<noteq> k) (sv_authenticators v)\<rparr>)
     ''authenticator not found'' ''service.auth.remove''"

definition remove_filter ::
  "request \<Rightarrow> settings \<Rightarrow> string \<Rightarrow> string \<Rightarrow> db \<Rightarrow> (http_exn, service_read \<times> db) result" where
  "remove_filter rq st i k = remove_child rq st i (\<lambda>v. list_ex (\<lambda>f. sf_id f = k) (sv_filters v))
     (\<lambda>v. v\<lparr>sv_filters := filter (\<lambda>f. sf_id f \<noteq> k) (sv_filters v)\<rparr>)
     ''filter not found'' ''service.filter.remove''"

definition remove_access_rule ::
  "request \<Rightarrow> settings \<Rightarrow> string \<Rightarrow> string \<Rightarrow> db \<Rightarrow> (http_exn, service_read \<times> db) result" where
  "remove_access_rule rq st i k = remove_child rq st i (\<lambda>v. list_ex (\<lambda>r. sx_id r = k) (sv_access v))
     (\<lambda>v. v\<lparr>sv_access := filter (\<lambda>r. sx_id r \<noteq> k) (sv_access v)\<rparr>)
     ''access rule not found'' ''service.access.remove''"

section \<open>Credentials\<close>

text \<open>Rows are kept in the order they were created in.\<close>

definition list_tokens :: "db \<Rightarrow> string \<Rightarrow> (http_exn, token_row list) result" where
  "list_tokens d i = bindR (service_or_404 d i) (\<lambda>v. Inr (sv_tokens v))"

definition token_of :: "request \<Rightarrow> token_create \<Rightarrow> token_row" where
  "token_of rq p = \<lparr>tk_id = rq_id rq, tk_name = tb_name p, tk_token_hash = cr_sha256 (rq_crypto rq) (rq_random rq),
     tk_prefix = take 8 (rq_random rq), tk_created_by_user_id = Option.bind (rq_admin rq) ai_user_id,
     tk_expires_at = tb_expires_at p, tk_revoked_at = None\<rparr>"

definition create_token ::
  "request \<Rightarrow> settings \<Rightarrow> string \<Rightarrow> token_create \<Rightarrow> db \<Rightarrow> (http_exn, (token_row \<times> string) \<times> db) result" where
  "create_token rq st i p d =
     bindR (service_or_404 d i) (\<lambda>v.
      (let t = token_of rq p in
       if list_ex (\<lambda>u. list_ex (\<lambda>s. tk_token_hash s = tk_token_hash t) (sv_tokens u)) (services d) then Inl Unhandled
       else bindR (commit_service rq st ''service.token.create'' ((sv_slug v) @ ''/'' @ (tb_name p))
           (put_service (v\<lparr>sv_tokens := sv_tokens v @ [t]\<rparr>) d)) (\<lambda>d1. Inr ((t, rq_random rq), d1))))"

definition revoke_token :: "request \<Rightarrow> settings \<Rightarrow> string \<Rightarrow> string \<Rightarrow> db \<Rightarrow> (http_exn, db) result" where
  "revoke_token rq st i k d =
     bindR (service_or_404 d i) (\<lambda>v. case find (\<lambda>t. tk_id t = k) (sv_tokens v) of
       None \<Rightarrow> Inl (HTTPException 404 ''token not found'')
     | Some t \<Rightarrow> commit_service rq st ''service.token.revoke'' ((sv_slug v) @ ''/'' @ (tk_name t))
         (put_service (v\<lparr>sv_tokens := filter (\<lambda>t. tk_id t \<noteq> k) (sv_tokens v)\<rparr>) d))"

definition list_accounts :: "db \<Rightarrow> string \<Rightarrow> (http_exn, account_row list) result" where
  "list_accounts d i = bindR (service_or_404 d i) (\<lambda>v. Inr (sort_key at_username (sv_accounts v)))"

text \<open>The flush of a second account of the same name is outside the try that would answer 409.\<close>

definition create_account ::
  "request \<Rightarrow> (string \<Rightarrow> string) \<Rightarrow> settings \<Rightarrow> string \<Rightarrow> string \<Rightarrow> db \<Rightarrow> (http_exn, (account_row \<times> string) \<times> db) result" where
  "create_account rq crypt st i username d =
     bindR (service_or_404 d i) (\<lambda>v.
      (let a = \<lparr>at_id = rq_id rq, at_username = username, at_password_hash = crypt (rq_random rq), at_revoked_at = None\<rparr> in
       if list_ex (\<lambda>b. at_username b = username) (sv_accounts v) then Inl Unhandled
       else bindR (commit_service rq st ''service.account.create'' ((sv_slug v) @ ''/'' @ username)
           (put_service (v\<lparr>sv_accounts := sv_accounts v @ [a]\<rparr>) d)) (\<lambda>d1. Inr ((a, rq_random rq), d1))))"

definition delete_account :: "request \<Rightarrow> settings \<Rightarrow> string \<Rightarrow> string \<Rightarrow> db \<Rightarrow> (http_exn, db) result" where
  "delete_account rq st i k d =
     bindR (service_or_404 d i) (\<lambda>v. case find (\<lambda>a. at_id a = k) (sv_accounts v) of
       None \<Rightarrow> Inl (HTTPException 404 ''account not found'')
     | Some a \<Rightarrow> commit_service rq st ''service.account.delete'' ((sv_slug v) @ ''/'' @ (at_username a))
         (put_service (v\<lparr>sv_accounts := filter (\<lambda>a. at_id a \<noteq> k) (sv_accounts v)\<rparr>) d))"

section \<open>What the proxy serves\<close>

record proxy_status =
  pz_enabled :: bool
  pz_domain :: "string option"
  pz_internal_binds :: "string list"
  pz_external_binds :: "string list"
  pz_service_count :: nat
  pz_digest :: "string option"
  pz_config :: "string option"
  pz_files :: "(string \<times> string) list"
  pz_geo_countries :: "string list"
  pz_implicit_paths :: "implicit_path list"
  pz_warnings :: "string list"

definition geo_warning :: "proxy_spec \<Rightarrow> string" where
  "geo_warning p = ''a service filters by country. The gateway builds its own prefix map '' @
     (''for '' @ (join '', '' (geo_countries p)) @ '' from a dataset refreshed by '') @
     ([CHR 0x27] @ ''foxguard-geo-refresh'' @ [CHR 0x27] @ ''; if that has never run, an allow list '') @
     ''refuses everyone and a deny list blocks nobody. Geo is noise '' @
     ''reduction, not a security control -- any VPN defeats it''"

definition read_proxy ::
  "(proxy_error \<Rightarrow> string) \<Rightarrow> (string \<Rightarrow> string) \<Rightarrow> int \<Rightarrow> db \<Rightarrow> settings \<Rightarrow> (http_exn, proxy_status) result" where
  "read_proxy say sha now d st =
     (let p = build_proxy_spec now d st; on = px_enabled (st_proxy st);
          warn = (if on \<and> \<not> truthy (st_proxy_domain st)
              then [''no proxy domain is set, so services have no default host name and no certificate can cover them''] else []) @
            (if list_ex (\<lambda>s. has_external (pv_exposure s)) (pp_services p) \<and> px_external_binds (st_proxy st) = []
              then [''a service asks for external exposure but no WAN bind address is set''] else []) @
            (if uses_geo p then [geo_warning p] else []);
          status = (\<lambda>digest conf files warnings. \<lparr>pz_enabled = on, pz_domain = st_proxy_domain st,
            pz_internal_binds = pp_internal_binds p, pz_external_binds = pp_external_binds p,
            pz_service_count = length (pp_services p), pz_digest = digest, pz_config = conf, pz_files = files,
            pz_geo_countries = geo_countries p, pz_implicit_paths = implicit_paths d st, pz_warnings = warnings\<rparr>)
      in if \<not> on then Inr (status None None [] (''the reverse proxy is disabled (FOXGUARD_PROXY_ENABLED)'' # warn))
         else (case render_proxy now d st of
             Inl (ProxyInvalidSpec e) \<Rightarrow> Inr (status None None [] (say e # warn))
           | Inl _ \<Rightarrow> Inl Unhandled
           | Inr (conf, files) \<Rightarrow> Inr (status (Some (proxy_digest sha conf files)) (Some conf) files warn)))"

record sso_session_read =
  sq_row :: sso_row
  sq_username :: "string option"

text \<open>Newest first; rows are kept in the order they were created in.\<close>

definition list_sso_sessions :: "db \<Rightarrow> sso_session_read list" where
  "list_sso_sessions d = map (\<lambda>s. \<lparr>sq_row = s, sq_username = map_option us_username (user_by_id d (Some (ss_user_id s)))\<rparr>)
     (rev (filter (\<lambda>s. ss_revoked_at s = None) (sso_sessions d)))"

definition revoke_sso_session :: "request \<Rightarrow> settings \<Rightarrow> string \<Rightarrow> db \<Rightarrow> (http_exn, db) result" where
  "revoke_sso_session rq st i d =
     (let (found, d1) = sso_revoke i (rq_now rq) d in
      if \<not> found then Inl (HTTPException 404 ''no such session'')
      else bindR (regenerate_or_422 rq st ''admin-api'' d1) (\<lambda>d2.
        Inr (audit_as rq ''sso.revoke'' ''sso_session'' (Some i) (JObj []) d2)))"

end
