(* ===== verification/ProxyRules.thy ===== *)
theory ProxyRules
  imports ProxyConf
begin

text \<open>
  The rules of one service without their spelling: what each line of \<open>service_rules\<close> does, under
  which conditions. \<open>service_rules_text\<close> is the refinement: printing these rules gives the lines the
  generator writes, so what is proved about the rules holds of the configuration.
\<close>

datatype condition =
    SrcIn string
  | SrcIs string
  | CountryIn "string list"
  | IntEq string int
  | IntGt string int
  | Found string
  | Contains string "string list"
  | Credentials string
  | RateAbove "int option"
  | GroupsKnown

text \<open>A condition that must hold, or must not.\<close>

type_synonym literal = "bool \<times> condition"

datatype fetch =
    Constant string
  | SessionCookie
  | Verified string string
  | ClaimInt string string
  | ClaimText string string
  | Date
  | Minus string string
  | RevokedEntry string
  | TokenEntry

datatype header_value = FromVar string | FromGroups

datatype statement =
    Note string
  | Refuse
  | Track
  | SlowDown "int option"
  | SetInt string int
  | SetVar string fetch
  | NotAllowed string
  | ToLogin
  | AskPassword string
  | AskToken
  | Forbidden
  | SetHeader string header_value

type_synonym rule = "statement \<times> literal list"

section \<open>The rules\<close>

definition tagged :: "string \<Rightarrow> service \<Rightarrow> string" where
  "tagged name s = name @ CHR ''_'' # var_tag (pv_slug s)"

definition filter_rule :: "service \<Rightarrow> nat \<times> proxy_filter \<Rightarrow> rule list" where
  "filter_rule s it = (case it of (i, f) \<Rightarrow>
     (case fi_kind f of
        IP_DENY \<Rightarrow> [(Refuse, [(True, SrcIn (ipfilter_file (pv_slug s) i))])]
      | IP_ALLOW \<Rightarrow> [(Refuse, [(False, SrcIn (ipfilter_file (pv_slug s) i))])]
      | GEO_DENY \<Rightarrow> [(Refuse, [(True, CountryIn (fi_values f))])]
      | GEO_ALLOW \<Rightarrow> [(Refuse, [(False, CountryIn (fi_values f))])]
      | RATE_LIMIT \<Rightarrow> (if pv_kind s \<noteq> HTTP then [] else
          [(Track, []), (SlowDown (fi_period_seconds f), [(True, RateAbove (fi_rate f))])])
      | _ \<Rightarrow> []))"

definition source_of :: "access_rule \<Rightarrow> condition option" where
  "source_of r = (case xr_source r of None \<Rightarrow> None
     | Some x \<Rightarrow> Some (if xr_is_set r then SrcIn (set_file x) else SrcIs x))"

definition access_rule_list :: "service \<Rightarrow> exposure \<Rightarrow> rule list" where
  "access_rule_list s e =
     (let allows = filter (\<lambda>r. xr_action r = ALLOW) (access_for s e) in
      map (\<lambda>r. (Refuse, case source_of r of None \<Rightarrow> [] | Some c \<Rightarrow> [(True, c)]))
        (filter (\<lambda>r. xr_action r = DENY) (access_for s e)) @
      (if allows \<noteq> [] \<and> list_all (\<lambda>r. source_of r \<noteq> None) allows
       then [(Refuse, map (\<lambda>r. (False, the (source_of r))) allows)] else []))"

definition session_literals :: "service \<Rightarrow> literal list" where
  "session_literals s = [(True, IntEq (tagged ''fg_ok'' s) 1), (True, IntGt (tagged ''fg_left'' s) 0),
     (False, Found (tagged ''fg_rev'' s))]"

definition auth_literals :: "service \<Rightarrow> authenticator \<Rightarrow> literal list list" where
  "auth_literals s a =
     (case xn_kind a of
        PEER_IDENTITY \<Rightarrow> [[(True, SrcIn (set_file PEER_SET))]]
      | FOXGUARD_SSO \<Rightarrow> (if pv_kind s \<noteq> HTTP then []
          else [session_literals s @ (if needs_more a then [(True, IntEq (tagged ''fg_az'' s) 1)] else [])])
      | BEARER \<Rightarrow> (if pv_kind s \<noteq> HTTP then [] else [[(True, Found (tagged ''fg_tok'' s))]])
      | BASIC \<Rightarrow> (if pv_kind s \<noteq> HTTP then [] else [[(True, Credentials (userlist_name (pv_slug s)))]])
      | _ \<Rightarrow> [])"

definition authz_rules :: "service \<Rightarrow> authenticator \<Rightarrow> rule list" where
  "authz_rules s a = (if \<not> needs_more a then [] else
     [(Note ''# authorisation: signed in is not the same as allowed in'', [])] @
     (if xn_groups a \<noteq> [] then [(SetVar (tagged ''fg_grp'' s) (ClaimText (tagged ''fg_jwt'' s) ''$.groups''), [])] else []) @
     (if xn_require_admin a then [(SetVar (tagged ''fg_adm'' s) (ClaimInt (tagged ''fg_jwt'' s) ''$.admin''), [])] else []) @
     [(SetInt (tagged ''fg_az'' s) 0, []),
      (SetInt (tagged ''fg_az'' s) 1,
        (if xn_groups a \<noteq> [] then [(True, Contains (tagged ''fg_grp'' s) (map (\<lambda>g. '','' @ g @ '','') (xn_groups a)))] else []) @
        (if xn_require_admin a then [(True, IntEq (tagged ''fg_adm'' s) 1)] else []))])"

definition session_rules :: "service \<Rightarrow> authenticator \<Rightarrow> rule list" where
  "session_rules s a =
     [(Note ''# --- single sign-on: pinned algorithm, explicit expiry ---'', []),
      (SetVar (tagged ''fg_alg'' s) (Constant ALGORITHM), []),
      (SetVar (tagged ''fg_jwt'' s) SessionCookie, []),
      (SetVar (tagged ''fg_ok'' s) (Verified (tagged ''fg_jwt'' s) (tagged ''fg_alg'' s)), []),
      (SetVar (tagged ''fg_exp'' s) (ClaimInt (tagged ''fg_jwt'' s) ''$.exp''), []),
      (SetVar (tagged ''fg_now'' s) Date, []),
      (SetVar (tagged ''fg_left'' s) (Minus (tagged ''fg_exp'' s) (tagged ''fg_now'' s)), []),
      (SetVar (tagged ''fg_sub'' s) (ClaimText (tagged ''fg_jwt'' s) ''$.sub''), []),
      (SetVar (tagged ''fg_jti'' s) (ClaimText (tagged ''fg_jwt'' s) ''$.jti''), []),
      (SetVar (tagged ''fg_rev'' s) (RevokedEntry (tagged ''fg_jti'' s)), [])] @ authz_rules s a"

definition nobody :: literal where "nobody = (True, IntEq ''fg_auth'' 0)"

definition challenge_rules :: "service \<Rightarrow> authenticator list \<Rightarrow> rule list" where
  "challenge_rules s auths =
     (case find (\<lambda>a. xn_kind a = FOXGUARD_SSO) auths of
        Some a \<Rightarrow>
          (if needs_more a
           then [(NotAllowed (sso_need a), nobody # session_literals s @ [(True, IntEq (tagged ''fg_az'' s) 0)])] else []) @
          [(ToLogin, [nobody])]
      | None \<Rightarrow>
          (case find (\<lambda>a. xn_kind a = BASIC) auths of
             Some b \<Rightarrow> [(AskPassword (or_else (xn_realm b) (pv_slug s)), [nobody])]
           | None \<Rightarrow> (if list_ex (\<lambda>a. xn_kind a = BEARER) auths then [(AskToken, [nobody])] else [(Forbidden, [nobody])])))"

definition header_rules :: "proxy_spec \<Rightarrow> service \<Rightarrow> exposure \<Rightarrow> authenticator list \<Rightarrow> rule list" where
  "header_rules p s e auths =
     (if list_ex (\<lambda>a. xn_kind a = FOXGUARD_SSO) auths
      then [(SetHeader ''X-Foxguard-User'' (FromVar (tagged ''fg_sub'' s)), [(True, Found (tagged ''fg_sub'' s))])] else []) @
     (if e = INTERNAL
      then (SetHeader ''X-Foxguard-Peer'' (FromVar ''fg_peer''), [(True, Found ''fg_peer'')]) #
        (if pp_send_group_header p then [(SetHeader ''X-Foxguard-Groups'' FromGroups, [(True, GroupsKnown)])] else [])
      else [])"

definition auth_rule_list :: "proxy_spec \<Rightarrow> service \<Rightarrow> exposure \<Rightarrow> rule list" where
  "auth_rule_list p s e =
     (let auths = auth_for s e; http = (pv_kind s = HTTP); ways = concat (map (auth_literals s) auths);
          setup = (case find (\<lambda>a. xn_kind a = FOXGUARD_SSO) auths of Some a \<Rightarrow> if http then session_rules s a else [] | None \<Rightarrow> []);
          token = (if http \<and> list_ex (\<lambda>a. xn_kind a = BEARER) auths then [(SetVar (tagged ''fg_tok'' s) TokenEntry, [])] else [])
      in if auths = [] \<or> list_ex (\<lambda>a. xn_kind a = PUBLIC) auths then []
         else if ways = [] then setup
         else setup @ token @
           (if http then [(SetInt ''fg_auth'' 0, [])] @ map (\<lambda>w. (SetInt ''fg_auth'' 1, w)) ways @
              challenge_rules s auths @ header_rules p s e auths
            else [(Refuse, map (\<lambda>l. (\<not> fst l, snd l)) (concat ways))]))"

definition service_rule_list :: "proxy_spec \<Rightarrow> service \<Rightarrow> exposure \<Rightarrow> rule list" where
  "service_rule_list p s e =
     concat (map (filter_rule s) (filter (\<lambda>(i, f). covers (fi_scope f) e) (enumerate 0 (pv_filters s)))) @
     access_rule_list s e @ auth_rule_list p s e"

section \<open>Their spelling\<close>

definition condition_text :: "proxy_spec \<Rightarrow> condition \<Rightarrow> string" where
  "condition_text p c =
     (case c of
        SrcIn file \<Rightarrow> (''{ src -f '' @ (pp_maps_dir p) @ ''/'' @ file @ '' }'')
      | SrcIs x \<Rightarrow> (''{ src '' @ x @ '' }'')
      | CountryIn codes \<Rightarrow> (''{ src,map_ip('' @ (pp_maps_dir p) @ ''/'' @ (pp_geo_map p) @ '') -m str '' @ (join '' '' codes) @ '' }'')
      | IntEq v n \<Rightarrow> (''{ var(txn.'' @ v @ '') -m int eq '' @ (show_int n) @ '' }'')
      | IntGt v n \<Rightarrow> (''{ var(txn.'' @ v @ '') -m int gt '' @ (show_int n) @ '' }'')
      | Found v \<Rightarrow> (''{ var(txn.'' @ v @ '') -m found }'')
      | Contains v ws \<Rightarrow> (''{ var(txn.'' @ v @ '') -m sub '' @ (join '' '' ws) @ '' }'')
      | Credentials ul \<Rightarrow> (''{ http_auth('' @ ul @ '') }'')
      | RateAbove r \<Rightarrow> (''{ sc_http_req_rate(0) gt '' @ (show_opt_int r) @ '' }'')
      | GroupsKnown \<Rightarrow> (''{ src,map_str('' @ (pp_maps_dir p) @ ''/'' @ GROUPS_MAP_FILE @ '') -m found }''))"

fun literal_text :: "proxy_spec \<Rightarrow> literal \<Rightarrow> string" where
  "literal_text p (True, c) = condition_text p c"
| "literal_text p (False, c) = CHR ''!'' # condition_text p c"

definition fetch_text :: "proxy_spec \<Rightarrow> service \<Rightarrow> fetch \<Rightarrow> string" where
  "fetch_text p s x =
     (case x of
        Constant t \<Rightarrow> (''str('' @ t @ '')'')
      | SessionCookie \<Rightarrow> (''req.cook('' @ (pp_sso_cookie p) @ '')'')
      | Verified jwt alg \<Rightarrow> (''var(txn.'' @ jwt @ ''),jwt_verify(txn.'' @ alg @ '','' @ [dq] @ (pp_sso_secret p) @ [dq] @ '')'')
      | ClaimInt jwt path \<Rightarrow> (''var(txn.'' @ jwt @ ''),jwt_payload_query('' @ [CHR 0x27] @ path @ [CHR 0x27] @ '','' @ [CHR 0x27] @ ''int'' @ [CHR 0x27] @ '')'')
      | ClaimText jwt path \<Rightarrow> (''var(txn.'' @ jwt @ ''),jwt_payload_query('' @ [CHR 0x27] @ path @ [CHR 0x27] @ '')'')
      | Date \<Rightarrow> ''date()''
      | Minus a b \<Rightarrow> (''var(txn.'' @ a @ ''),sub(txn.'' @ b @ '')'')
      | RevokedEntry jti \<Rightarrow> (''var(txn.'' @ jti @ ''),map_str('' @ (pp_maps_dir p) @ ''/'' @ SSO_REVOKED_FILE @ '')'')
      | TokenEntry \<Rightarrow> (''req.hdr(authorization),regsub(^Bearer'' @ [CHR 0x5C] @ '' ,),sha2(256),hex,lower,map_str('' @ (pp_maps_dir p) @ ''/'' @ (token_file (pv_slug s)) @ '')''))"

definition header_text :: "proxy_spec \<Rightarrow> header_value \<Rightarrow> string" where
  "header_text p v = (case v of FromVar x \<Rightarrow> (''%[var(txn.'' @ x @ '')]'')
     | FromGroups \<Rightarrow> (''%[src,map_str('' @ (pp_maps_dir p) @ ''/'' @ GROUPS_MAP_FILE @ '')]''))"

definition statement_text :: "proxy_spec \<Rightarrow> service \<Rightarrow> statement \<Rightarrow> string" where
  "statement_text p s st =
     (case st of
        Note t \<Rightarrow> t
      | Refuse \<Rightarrow> deny_text s
      | Track \<Rightarrow> (''http-request track-sc0 src table '' @ (table_name (pv_slug s)))
      | SlowDown period \<Rightarrow> ''http-request return status 429 content-type text/plain '' @
          (''hdr retry-after '' @ [dq] @ (show_opt_int period) @ [dq] @ '' lf-string '' @ [dq] @ ''too many requests -- retry in '' @ (show_opt_int period) @ ''s'' @ [dq])
      | SetInt v n \<Rightarrow> (''http-request set-var(txn.'' @ v @ '') int('' @ (show_int n) @ '')'')
      | SetVar v x \<Rightarrow> (''http-request set-var(txn.'' @ v @ '') '' @ (fetch_text p s x))
      | NotAllowed need \<Rightarrow> ''http-request return status 403 content-type text/plain '' @
          (''lf-string '' @ [dq] @ ''signed in as %[var(txn.'' @ (tagged ''fg_sub'' s) @ '')], but '' @ (pv_slug s) @ '' needs '' @ need @ [dq])
      | ToLogin \<Rightarrow> (''http-request redirect location https://'' @ (show_hostname (pp_sso_hostname p)) @ ''/api/v1/sso/login'') @
          ''?h=%[req.hdr(host),host_only,url_enc]&p=%[pathq,url_enc] code 302''
      | AskPassword realm \<Rightarrow> (''http-request auth realm '' @ [dq] @ realm @ [dq])
      | AskToken \<Rightarrow> ''http-request return status 401 content-type text/plain '' @
          (''hdr www-authenticate '' @ [CHR 0x27] @ ''Bearer realm='' @ [dq] @ (pv_slug s) @ [dq] @ [CHR 0x27] @ '' lf-string '' @ [dq] @ ''authentication required'' @ [dq])
      | Forbidden \<Rightarrow> ''http-request deny deny_status 403''
      | SetHeader h v \<Rightarrow> (''http-request set-header '' @ h @ '' '' @ (header_text p v)))"

fun is_note :: "statement \<Rightarrow> bool" where
  "is_note (Note t) = True"
| "is_note _ = False"

definition rule_text :: "proxy_spec \<Rightarrow> service \<Rightarrow> string option \<Rightarrow> rule \<Rightarrow> string" where
  "rule_text p s guard r = INDENT @ statement_text p s (fst r) @
     (if is_note (fst r) then [] else if_clause guard (map (literal_text p) (snd r)))"

section \<open>The generator prints these rules\<close>

lemmas spelling = rule_text_def statement_text_def fetch_text_def header_text_def condition_text_def tagged_def

lemma condition_text_nonempty [simp]: "condition_text p c \<noteq> []"
  by (simp add: condition_text_def split: condition.split)

lemma literal_text_nonempty [simp]: "literal_text p l \<noteq> []"
  by (cases l; cases "fst l") auto

lemma show_small [simp]: "show_int 0 = ''0''" "show_int 1 = ''1''"
  by code_simp+

lemma join_join:
  assumes "ys \<noteq> []"
  shows "join sep (xs @ join sep ys # zs) = join sep (xs @ ys @ zs)"
proof (induction xs)
  case Nil
  show ?case using assms
  proof (induction sep ys rule: join.induct)
    case (2 sep x)
    then show ?case by simp
  next
    case (3 sep x y ys)
    then show ?case by (cases zs) auto
  qed simp
next
  case (Cons x xs)
  then show ?case using assms by (cases xs; cases ys) auto
qed

lemma if_clause_join:
  assumes "ys \<noteq> []" and "[] \<notin> set ys"
  shows "if_clause g (xs @ join '' '' ys # zs) = if_clause g (xs @ ys @ zs)"
proof -
  have j: "join '' '' ys \<noteq> []" using assms by (cases "('' '', ys)" rule: join.cases) auto
  have f: "filter (\<lambda>t. t \<noteq> []) ys = ys" using assms(2) by (auto simp: filter_id_conv)
  show ?thesis using assms(1) j f
    by (simp add: if_clause_def Let_def join_join flip: append_Cons)
qed

lemma if_clause_skip [simp]: "if_clause g ([] # xs) = if_clause g xs"
  by (simp add: if_clause_def)

lemma filter_rules_text:
  "filter_rules p s (if_clause g) it = map (rule_text p s g) (filter_rule s it)"
  by (cases it) (simp add: filter_rules_def filter_rule_def spelling Let_def split: filter_kind.split)

lemma source_text: "source_cond p r = (case source_of r of None \<Rightarrow> [] | Some c \<Rightarrow> condition_text p c)"
  by (simp add: source_cond_def source_of_def condition_text_def split: option.split)

lemma access_rules_text:
  "access_rules p s e (if_clause g) = map (rule_text p s g) (access_rule_list s e)"
proof -
  have a: "list_all (\<lambda>r. source_cond p r \<noteq> []) rs = list_all (\<lambda>r. source_of r \<noteq> None) rs" for rs
    by (induction rs) (auto simp: source_text split: option.split)
  have b: "list_all (\<lambda>r. source_of r \<noteq> None) rs \<Longrightarrow>
      map (\<lambda>r. CHR ''!'' # source_cond p r) rs = map (\<lambda>r. literal_text p (False, the (source_of r))) rs" for rs
    by (induction rs) (auto simp: source_text)
  have d: "if_clause g [source_cond p r] =
      if_clause g (map (literal_text p) (case source_of r of None \<Rightarrow> [] | Some c \<Rightarrow> [(True, c)]))" for r
    by (simp add: source_text split: option.split)
  show ?thesis
    by (simp add: access_rules_def access_rule_list_def Let_def a b d rule_text_def statement_text_def comp_def
      del: literal_text.simps)
qed

lemma session_text: "sso_condition s = join '' '' (map (literal_text p) (session_literals s))"
  by (simp add: sso_condition_def session_literals_def Let_def condition_text_def tagged_def)

lemma auth_condition_text:
  "auth_condition p s a = map (\<lambda>w. join '' '' (map (literal_text p) w)) (auth_literals s a)"
  by (simp add: auth_condition_def auth_literals_def session_text [of s p] sso_authorized_def
      session_literals_def condition_text_def tagged_def split: auth_kind.split)

lemma auth_literals_nonempty: "w \<in> set (auth_literals s a) \<Longrightarrow> w \<noteq> []"
  by (auto simp: auth_literals_def session_literals_def split: auth_kind.splits if_splits)

lemma authz_text: "sso_authz s a (if_clause g) = map (rule_text p s g) (authz_rules s a)"
  by (simp add: sso_authz_def authz_rules_def Let_def spelling comp_def)

lemma session_rules_text: "sso_setup p s a (if_clause g) = map (rule_text p s g) (session_rules s a)"
  by (simp add: sso_setup_def session_rules_def Let_def spelling authz_text [of s a g p])

lemma nobody_text: "literal_text p nobody = FAILED"
  by (simp add: nobody_def FAILED_def condition_text_def)

lemma if_clause_bundle:
  assumes "w \<noteq> []"
  shows "if_clause g (xs @ join '' '' (map (literal_text p) w) # zs) = if_clause g (xs @ map (literal_text p) w @ zs)"
  using assms by (intro if_clause_join) (simp, metis imageE list.set_map literal_text_nonempty)

lemma challenge_text: "challenge p s as (if_clause g) = map (rule_text p s g) (challenge_rules s as)"
proof -
  have b: "if_clause g [FAILED, sso_condition s, sso_authorized s a True] =
      if_clause g (map (literal_text p) (nobody # session_literals s @ [(True, IntEq (tagged ''fg_az'' s) 0)]))"
    if "needs_more a" for a
  proof -
    have "sso_authorized s a True = literal_text p (True, IntEq (tagged ''fg_az'' s) 0)"
      using that by (simp add: sso_authorized_def condition_text_def tagged_def)
    moreover have "session_literals s \<noteq> []" by (simp add: session_literals_def)
    ultimately show ?thesis
      using if_clause_bundle [of "session_literals s" g "[FAILED]" p "[literal_text p (True, IntEq (tagged ''fg_az'' s) 0)]"]
      by (simp add: nobody_text session_text [of s p] del: literal_text.simps)
  qed
  show ?thesis
    by (auto simp: challenge_def challenge_rules_def Let_def rule_text_def statement_text_def tagged_def b nobody_text
      simp del: literal_text.simps split: option.split)
qed

lemma header_rules_text: "identity_headers p s e as (if_clause g) = map (rule_text p s g) (header_rules p s e as)"
  by (simp add: identity_headers_def header_rules_def spelling)

lemma tcp_ways:
  assumes "pv_kind s \<noteq> HTTP"
  shows "map (\<lambda>c. CHR ''!'' # c) (concat (map (auth_condition p s) as)) =
    map (literal_text p) (map (\<lambda>l. (\<not> fst l, snd l)) (concat (concat (map (auth_literals s) as))))"
  using assms by (induction as)
    (auto simp: auth_condition_def auth_literals_def condition_text_def split: auth_kind.split)

lemma auth_rules_text: "auth_rules p s e (if_clause g) = map (rule_text p s g) (auth_rule_list p s e)"
proof -
  have c: "concat (map (auth_condition p s) as) =
      map (\<lambda>w. join '' '' (map (literal_text p) w)) (concat (map (auth_literals s) as))" for as
    by (induction as) (simp_all add: auth_condition_text)
  have w: "map (\<lambda>w. INDENT @ ''http-request set-var(txn.fg_auth) int(1)'' @ if_clause g [join '' '' (map (literal_text p) w)])
        (concat (map (auth_literals s) as)) =
      map (\<lambda>w. rule_text p s g (SetInt ''fg_auth'' 1, w)) (concat (map (auth_literals s) as))" for as
    using if_clause_bundle [of _ g "[]" p "[]"]
    by (fastforce simp: rule_text_def statement_text_def dest: auth_literals_nonempty simp del: literal_text.simps)
  show ?thesis
  proof (cases "pv_kind s = HTTP")
    case True
    then show ?thesis using w
      by (auto simp: auth_rules_def auth_rule_list_def Let_def c session_rules_text challenge_text header_rules_text
        comp_def rule_text_def [of p s g "(SetVar _ TokenEntry, _)"] rule_text_def [of p s g "(SetInt _ 0, _)"] statement_text_def
        fetch_text_def tagged_def simp del: literal_text.simps split: option.split)
  next
    case False
    have n: "map (\<lambda>c. ''!'' @ c) (concat (map (auth_condition p s) (auth_for s e))) =
        map (literal_text p) (map (\<lambda>l. (\<not> fst l, snd l)) (concat (concat (map (auth_literals s) (auth_for s e)))))"
      using tcp_ways [OF False, of p "auth_for s e"] by simp
    then show ?thesis using False
      by (auto simp: auth_rules_def auth_rule_list_def Let_def c rule_text_def statement_text_def comp_def
        simp del: literal_text.simps split: option.split)
  qed
qed

lemma service_rules_text:
  "service_rules p s e g = map (rule_text p s g) (service_rule_list p s e)"
proof -
  have "filter_rules p s (if_clause g) = (\<lambda>it. map (rule_text p s g) (filter_rule s it))"
    by (rule ext) (rule filter_rules_text)
  then show ?thesis
    by (simp add: service_rules_def service_rule_list_def Let_def access_rules_text auth_rules_text map_concat comp_def)
qed

end
