(* ===== verification/ProxySemantics.thy ===== *)
theory ProxySemantics
  imports ProxyRules SsoService
begin

text \<open>
  What the rules of a service mean for a request, as HAProxy documents it: they run in order, a
  variable that cannot be computed stays unset, the first refusing, answering or redirecting
  statement whose conditions hold ends the request, and a request that reaches the end goes to
  the service. Verifying and reading a token, checking a password hash, counting requests and
  the country of an address are HAProxy's, and parameters.

  Beside it stands the decision the specification asks for, in terms of its filters, access rules and
  authenticators.
\<close>

record tokens =
  jw_verify :: "string \<Rightarrow> string \<Rightarrow> string \<Rightarrow> int"
  jw_int :: "string \<Rightarrow> string \<Rightarrow> int option"
  jw_text :: "string \<Rightarrow> string \<Rightarrow> string option"

text \<open>A request: its source, its cookie, the digest of its bearer token, which stored accounts its
  password opens, the requests counted so far, the time.\<close>

record traffic =
  hq_src :: ip_addr
  hq_country :: "string option"
  hq_cookie :: "string option"
  hq_token :: string
  hq_opens :: "account \<Rightarrow> bool"
  hq_rate :: int
  hq_now :: int

datatype val = IntV int | TextV string

type_synonym vars = "string \<Rightarrow> val option"
type_synonym headers = "(string \<times> string) list"

section \<open>Pattern and map files\<close>

definition pattern_lines :: "string \<Rightarrow> string list" where
  "pattern_lines t = filter (\<lambda>l. l \<noteq> [] \<and> hd l \<noteq> CHR ''#'') (split_on nl t)"

definition in_network_text :: "ip_addr \<Rightarrow> string \<Rightarrow> bool" where
  "in_network_text a l = (case ip_network l of None \<Rightarrow> False | Some n \<Rightarrow> in_net a n)"

definition in_file :: "ip_addr \<Rightarrow> string \<Rightarrow> bool" where
  "in_file a t \<longleftrightarrow> list_ex (in_network_text a) (pattern_lines t)"

definition map_entries :: "string \<Rightarrow> (string \<times> string) list" where
  "map_entries t = map (\<lambda>l. (takeWhile (\<lambda>c. c \<noteq> CHR '' '') l, tl (dropWhile (\<lambda>c. c \<noteq> CHR '' '') l))) (pattern_lines t)"

definition lookup_in :: "(string \<times> string) list \<Rightarrow> string \<Rightarrow> string \<Rightarrow> string option" where
  "lookup_in files name key = Option.bind (map_of files name) (\<lambda>t. map_of (map_entries t) key)"

section \<open>Running the rules\<close>

record proxy_run =
  pr_spec :: proxy_spec
  pr_files :: "(string \<times> string) list"
  pr_tokens :: tokens
  pr_request :: traffic

definition fetch :: "proxy_run \<Rightarrow> service \<Rightarrow> vars \<Rightarrow> fetch \<Rightarrow> val option" where
  "fetch c s vs x =
     (case x of
        Constant t \<Rightarrow> Some (TextV t)
      | SessionCookie \<Rightarrow> map_option TextV (hq_cookie (pr_request c))
      | Verified jwt alg \<Rightarrow> (case (vs jwt, vs alg) of
          (Some (TextV t), Some (TextV a)) \<Rightarrow> Some (IntV (jw_verify (pr_tokens c) a (pp_sso_secret (pr_spec c)) t)) | _ \<Rightarrow> None)
      | ClaimInt jwt path \<Rightarrow> (case vs jwt of Some (TextV t) \<Rightarrow> map_option IntV (jw_int (pr_tokens c) t path) | _ \<Rightarrow> None)
      | ClaimText jwt path \<Rightarrow> (case vs jwt of Some (TextV t) \<Rightarrow> map_option TextV (jw_text (pr_tokens c) t path) | _ \<Rightarrow> None)
      | Date \<Rightarrow> Some (IntV (hq_now (pr_request c)))
      | Minus a b \<Rightarrow> (case (vs a, vs b) of (Some (IntV x), Some (IntV y)) \<Rightarrow> Some (IntV (x - y)) | _ \<Rightarrow> None)
      | RevokedEntry jti \<Rightarrow> (case vs jti of
          Some (TextV j) \<Rightarrow> map_option TextV (lookup_in (pr_files c) SSO_REVOKED_FILE j) | _ \<Rightarrow> None)
      | TokenEntry \<Rightarrow> map_option TextV (lookup_in (pr_files c) (token_file (pv_slug s)) (hq_token (pr_request c))))"

definition userlist :: "proxy_spec \<Rightarrow> string \<Rightarrow> account list" where
  "userlist p ul = (case find (\<lambda>s. userlist_name (pv_slug s) = ul) (pp_services p) of
     None \<Rightarrow> [] | Some s \<Rightarrow> pv_accounts s)"

definition holds :: "proxy_run \<Rightarrow> vars \<Rightarrow> condition \<Rightarrow> bool" where
  "holds c vs q =
     (case q of
        SrcIn file \<Rightarrow> (case map_of (pr_files c) file of None \<Rightarrow> False | Some t \<Rightarrow> in_file (hq_src (pr_request c)) t)
      | SrcIs x \<Rightarrow> in_network_text (hq_src (pr_request c)) x
      | CountryIn codes \<Rightarrow> hq_country (pr_request c) \<in> Some ` set codes
      | IntEq v n \<Rightarrow> vs v = Some (IntV n)
      | IntGt v n \<Rightarrow> (case vs v of Some (IntV i) \<Rightarrow> n < i | _ \<Rightarrow> False)
      | Found v \<Rightarrow> vs v \<noteq> None
      | Contains v ws \<Rightarrow> (case vs v of Some (TextV t) \<Rightarrow> list_ex (\<lambda>w. contains_str w t) ws | _ \<Rightarrow> False)
      | Credentials ul \<Rightarrow> list_ex (hq_opens (pr_request c)) (userlist (pr_spec c) ul)
      | RateAbove r \<Rightarrow> (case r of None \<Rightarrow> False | Some n \<Rightarrow> n < hq_rate (pr_request c))
      | GroupsKnown \<Rightarrow> lookup_in (pr_files c) GROUPS_MAP_FILE (show_ip (hq_src (pr_request c))) \<noteq> None)"

definition all_literals :: "proxy_run \<Rightarrow> vars \<Rightarrow> literal list \<Rightarrow> bool" where
  "all_literals c vs ls \<longleftrightarrow> list_all (\<lambda>(sign, q). holds c vs q = sign) ls"

definition header_value :: "proxy_run \<Rightarrow> vars \<Rightarrow> header_value \<Rightarrow> string" where
  "header_value c vs v = (case v of
     FromVar x \<Rightarrow> (case vs x of Some (TextV t) \<Rightarrow> t | Some (IntV i) \<Rightarrow> show_int i | None \<Rightarrow> [])
   | FromGroups \<Rightarrow> (case lookup_in (pr_files c) GROUPS_MAP_FILE (show_ip (hq_src (pr_request c))) of None \<Rightarrow> [] | Some t \<Rightarrow> t))"

fun ends_request :: "statement \<Rightarrow> bool" where
  "ends_request Refuse = True"
| "ends_request (SlowDown _) = True"
| "ends_request (NotAllowed _) = True"
| "ends_request ToLogin = True"
| "ends_request (AskPassword _) = True"
| "ends_request AskToken = True"
| "ends_request Forbidden = True"
| "ends_request _ = False"

text \<open>\<open>set-var\<close>: a value that cannot be computed leaves the variable alone.\<close>

definition assign :: "vars \<Rightarrow> string \<Rightarrow> val option \<Rightarrow> vars" where
  "assign vs v x = (case x of None \<Rightarrow> vs | Some y \<Rightarrow> vs(v \<mapsto> y))"

definition effect :: "proxy_run \<Rightarrow> service \<Rightarrow> statement \<Rightarrow> vars \<times> headers \<Rightarrow> vars \<times> headers" where
  "effect c s st vh = (case vh of (vs, hs) \<Rightarrow>
     (case st of
        SetInt v n \<Rightarrow> (vs(v \<mapsto> IntV n), hs)
      | SetVar v x \<Rightarrow> (assign vs v (fetch c s vs x), hs)
      | SetHeader h v \<Rightarrow> (vs, AList.update h (header_value c vs v) hs)
      | _ \<Rightarrow> (vs, hs)))"

text \<open>\<open>None\<close>: the proxy answered by itself.\<close>

fun run :: "proxy_run \<Rightarrow> service \<Rightarrow> rule list \<Rightarrow> vars \<times> headers \<Rightarrow> (vars \<times> headers) option" where
  "run c s [] vh = Some vh"
| "run c s ((st, ls) # rs) vh =
     (if \<not> all_literals c (fst vh) ls then run c s rs vh
      else if ends_request st then None
      else run c s rs (effect c s st vh))"

text \<open>A request at a door starts without identity headers and, from inside, with its peer's name.\<close>

definition door_start :: "proxy_run \<Rightarrow> exposure \<Rightarrow> vars \<times> headers" where
  "door_start c e = ((if e = INTERNAL
     then (case lookup_in (pr_files c) PEERS_MAP_FILE (show_ip (hq_src (pr_request c))) of
         None \<Rightarrow> Map.empty | Some l \<Rightarrow> [''fg_peer'' \<mapsto> TextV l])
     else Map.empty), [])"

definition at_door :: "proxy_run \<Rightarrow> service \<Rightarrow> exposure \<Rightarrow> (vars \<times> headers) option" where
  "at_door c s e = run c s (service_rule_list (pr_spec c) s e) (door_start c e)"

definition forwards :: "proxy_run \<Rightarrow> service \<Rightarrow> exposure \<Rightarrow> bool" where
  "forwards c s e \<longleftrightarrow> at_door c s e \<noteq> None"

section \<open>The decision the specification asks for\<close>

definition in_any :: "ip_addr \<Rightarrow> string list \<Rightarrow> bool" where
  "in_any a vs \<longleftrightarrow> list_ex (in_network_text a) vs"

definition filter_passes :: "traffic \<Rightarrow> service \<Rightarrow> proxy_filter \<Rightarrow> bool" where
  "filter_passes q s f =
     (case fi_kind f of
        IP_DENY \<Rightarrow> \<not> in_any (hq_src q) (fi_values f)
      | IP_ALLOW \<Rightarrow> in_any (hq_src q) (fi_values f)
      | GEO_DENY \<Rightarrow> hq_country q \<notin> Some ` set (fi_values f)
      | GEO_ALLOW \<Rightarrow> hq_country q \<in> Some ` set (fi_values f)
      | RATE_LIMIT \<Rightarrow> pv_kind s = HTTP \<longrightarrow> (case fi_rate f of None \<Rightarrow> True | Some r \<Rightarrow> hq_rate q \<le> r)
      | _ \<Rightarrow> True)"

definition in_set :: "proxy_spec \<Rightarrow> string \<Rightarrow> ip_addr \<Rightarrow> bool" where
  "in_set p name a \<longleftrightarrow> list_ex (\<lambda>s. so_name s = name \<and> in_any a (so_members s)) (pp_source_sets p)"

definition source_matches :: "proxy_spec \<Rightarrow> traffic \<Rightarrow> access_rule \<Rightarrow> bool" where
  "source_matches p q r = (case xr_source r of None \<Rightarrow> True
     | Some x \<Rightarrow> if xr_is_set r then in_set p x (hq_src q) else in_network_text (hq_src q) x)"

definition access_permits :: "proxy_spec \<Rightarrow> traffic \<Rightarrow> service \<Rightarrow> exposure \<Rightarrow> bool" where
  "access_permits p q s e \<longleftrightarrow>
     list_all (\<lambda>r. xr_action r = DENY \<longrightarrow> \<not> source_matches p q r) (access_for s e) \<and>
     (list_ex (\<lambda>r. xr_action r = ALLOW) (access_for s e) \<longrightarrow>
       list_ex (\<lambda>r. xr_action r = ALLOW \<and> source_matches p q r) (access_for s e))"

definition valid_session :: "proxy_spec \<Rightarrow> tokens \<Rightarrow> traffic \<Rightarrow> string \<Rightarrow> bool" where
  "valid_session p w q t \<longleftrightarrow> hq_cookie q = Some t \<and> jw_verify w ALGORITHM (pp_sso_secret p) t = 1 \<and>
     (case jw_int w t ''$.exp'' of None \<Rightarrow> False | Some x \<Rightarrow> hq_now q < x) \<and>
     (case jw_text w t ''$.jti'' of None \<Rightarrow> True | Some j \<Rightarrow> j \<notin> set (pp_sso_revoked p))"

definition meets_requirement :: "tokens \<Rightarrow> authenticator \<Rightarrow> string \<Rightarrow> bool" where
  "meets_requirement w a t \<longleftrightarrow>
     (xn_groups a \<noteq> [] \<longrightarrow> (case jw_text w t ''$.groups'' of None \<Rightarrow> False
        | Some g \<Rightarrow> list_ex (\<lambda>x. contains_str ('','' @ x @ '','') g) (xn_groups a))) \<and>
     (xn_require_admin a \<longrightarrow> jw_int w t ''$.admin'' = Some 1)"

definition accepts :: "proxy_spec \<Rightarrow> tokens \<Rightarrow> traffic \<Rightarrow> service \<Rightarrow> authenticator \<Rightarrow> bool" where
  "accepts p w q s a =
     (case xn_kind a of
        PEER_IDENTITY \<Rightarrow> in_set p PEER_SET (hq_src q)
      | FOXGUARD_SSO \<Rightarrow> pv_kind s = HTTP \<and> (case hq_cookie q of None \<Rightarrow> False
          | Some t \<Rightarrow> valid_session p w q t \<and> meets_requirement w a t)
      | BEARER \<Rightarrow> pv_kind s = HTTP \<and> hq_token q \<in> set (pv_token_hashes s)
      | BASIC \<Rightarrow> pv_kind s = HTTP \<and> list_ex (hq_opens q) (pv_accounts s)
      | _ \<Rightarrow> False)"

definition authenticated :: "proxy_spec \<Rightarrow> tokens \<Rightarrow> traffic \<Rightarrow> service \<Rightarrow> exposure \<Rightarrow> bool" where
  "authenticated p w q s e \<longleftrightarrow>
     list_ex (\<lambda>a. xn_kind a = PUBLIC \<or> accepts p w q s a) (auth_for s e)"

definition lets_through :: "proxy_spec \<Rightarrow> tokens \<Rightarrow> traffic \<Rightarrow> service \<Rightarrow> exposure \<Rightarrow> bool" where
  "lets_through p w q s e \<longleftrightarrow> list_all (filter_passes q s) (filters_for s e) \<and>
     access_permits p q s e \<and> authenticated p w q s e"

end
