(* ===== verification/ProxyLookup.thy ===== *)
theory ProxyLookup
  imports ProxySemantics
begin

text \<open>
  What the rendered files hold for HAProxy: a lookup in them answers exactly for the addresses
  and keys that were put in, because every name is written once and no line can be mistaken
  for another.
\<close>

section \<open>Files\<close>

lemma map_of_dict: "map_of (dict_of ws) = map_of (rev ws)"
proof -
  have "map_of (foldl (\<lambda>d w. AList.update (fst w) (snd w) d) d ws) = map_of (rev ws @ d)" for d :: "('a \<times> 'b) list"
    by (induction ws arbitrary: d) (auto simp: update_conv')
  then show ?thesis by (simp add: dict_of_def)
qed

lemma dict_lookup:
  assumes "(k, t) \<in> set ws" and "\<And>t'. (k, t') \<in> set ws \<Longrightarrow> t' = t"
  shows "map_of (dict_of ws) k = Some t"
proof -
  obtain t' where t': "map_of (rev ws) k = Some t'"
    using assms(1) by (metis map_of_eq_None_iff image_eqI fst_conv not_None_eq set_rev)
  then have "(k, t') \<in> set ws" using map_of_SomeD by fastforce
  then show ?thesis using t' assms(2) map_of_dict by metis
qed

lemma mapR_member: "mapR f xs = Inr ys \<Longrightarrow> x \<in> set xs \<Longrightarrow> \<exists>y\<in>set ys. f x = Inr y"
  by (induction xs arbitrary: ys) auto

lemma mapR_origin: "mapR f xs = Inr ys \<Longrightarrow> y \<in> set ys \<Longrightarrow> \<exists>x\<in>set xs. f x = Inr y"
  by (induction xs arbitrary: ys) auto

lemma concatR_set:
  assumes "concatR f xs = Inr ys"
  shows "y \<in> set ys \<longleftrightarrow> (\<exists>x\<in>set xs. \<exists>zs. f x = Inr zs \<and> y \<in> set zs)"
proof -
  obtain yss where "mapR f xs = Inr yss" "ys = concat yss" using assms by (auto simp: concatR_def)
  then show ?thesis using mapR_member [of f xs yss] mapR_origin [of f xs yss]
    by (fastforce simp del: mapR.simps)
qed

lemma concatR_each: "concatR f xs = Inr ys \<Longrightarrow> x \<in> set xs \<Longrightarrow> \<exists>zs. f x = Inr zs"
  by (auto simp: concatR_def dest: mapR_member)

lemma file_names [simp]:
  "set_file n = set_file m \<longleftrightarrow> n = m"
  "token_file a = token_file b \<longleftrightarrow> a = b"
  "error_file a = error_file b \<longleftrightarrow> a = b"
  "set_file n \<noteq> token_file a" "set_file n \<noteq> ipfilter_file a i" "set_file n \<noteq> error_file a"
  "token_file a \<noteq> set_file n" "ipfilter_file a i \<noteq> set_file n" "error_file a \<noteq> set_file n"
  "token_file a \<noteq> ipfilter_file b i" "token_file a \<noteq> error_file b"
  "ipfilter_file b i \<noteq> token_file a" "error_file b \<noteq> token_file a"
  "ipfilter_file b i \<noteq> error_file a" "error_file a \<noteq> ipfilter_file b i"
  by (simp_all add: set_file_def token_file_def error_file_def ipfilter_file_def)

lemma fixed_file_names [simp]:
  "set_file n \<noteq> SSO_REVOKED_FILE" "set_file n \<noteq> DEFAULT_ERROR_FILE" "set_file n \<noteq> PEERS_MAP_FILE" "set_file n \<noteq> GROUPS_MAP_FILE"
  "token_file a \<noteq> SSO_REVOKED_FILE" "token_file a \<noteq> DEFAULT_ERROR_FILE" "token_file a \<noteq> PEERS_MAP_FILE" "token_file a \<noteq> GROUPS_MAP_FILE"
  "ipfilter_file a i \<noteq> SSO_REVOKED_FILE" "ipfilter_file a i \<noteq> DEFAULT_ERROR_FILE" "ipfilter_file a i \<noteq> PEERS_MAP_FILE" "ipfilter_file a i \<noteq> GROUPS_MAP_FILE"
  "error_file a \<noteq> SSO_REVOKED_FILE" "error_file a \<noteq> PEERS_MAP_FILE" "error_file a \<noteq> GROUPS_MAP_FILE"
  by (simp_all add: set_file_def token_file_def error_file_def ipfilter_file_def SSO_REVOKED_FILE_def
    DEFAULT_ERROR_FILE_def PEERS_MAP_FILE_def GROUPS_MAP_FILE_def)

lemmas fixed_file_names_sym [simp] = fixed_file_names [symmetric]

lemma fixed_distinct [simp]:
  "SSO_REVOKED_FILE \<noteq> DEFAULT_ERROR_FILE" "SSO_REVOKED_FILE \<noteq> PEERS_MAP_FILE" "SSO_REVOKED_FILE \<noteq> GROUPS_MAP_FILE"
  by (simp_all add: SSO_REVOKED_FILE_def DEFAULT_ERROR_FILE_def PEERS_MAP_FILE_def GROUPS_MAP_FILE_def)

lemma takeWhile_until: "c \<notin> set s \<Longrightarrow> takeWhile (\<lambda>x. x \<noteq> c) (s @ c # t) = s"
  by (induction s) auto

text \<open>The index after the last underscore is a number, so the name gives back the slug and the index.\<close>

lemma ipfilter_file_inj [simp]: "ipfilter_file a i = ipfilter_file b j \<longleftrightarrow> a = b \<and> i = j"
proof
  assume "ipfilter_file a i = ipfilter_file b j"
  then have "(a @ ''_'' @ show_nat i) @ ''.lst'' = (b @ ''_'' @ show_nat j) @ ''.lst''"
    by (simp add: ipfilter_file_def)
  then have e: "a @ CHR ''_'' # show_nat i = b @ CHR ''_'' # show_nat j"
    unfolding append_same_eq by simp
  have d: "CHR ''_'' \<notin> set (show_nat n)" for n
    using show_nat_digits [of n] by (auto simp: list_all_iff is_digit_def less_eq_char_def)
  have "takeWhile (\<lambda>c. c \<noteq> CHR ''_'') (rev (x @ CHR ''_'' # show_nat n)) = rev (show_nat n)" for x n
    using d [of n] by (simp add: takeWhile_until)
  with e have "show_nat i = show_nat j" by (metis rev_rev_ident)
  then show "a = b \<and> i = j" using e show_nat_inj by auto
qed simp

section \<open>Lines\<close>

lemma split_lines: "nl \<notin> \<Union> (set ` set ls) \<Longrightarrow> split_on nl (text_lines ls) = ls @ [[]]"
  by (induction ls) (auto simp: text_lines_def split_on_append)

lemma split_banner: "split_on nl (FILE_BANNER @ t) =
    ''# Foxguard generated -- DO NOT EDIT BY HAND. Rewritten on every reconciliation.'' # split_on nl t"
proof -
  have g: "split_on nl ((s @ [nl]) @ t) = s # split_on nl t" if "nl \<notin> set s" for s t
    using split_on_append [OF that] by simp
  show ?thesis unfolding FILE_BANNER_def by (rule g) code_simp
qed

lemma pattern_lines_file:
  assumes "nl \<notin> \<Union> (set ` set ls)"
  shows "pattern_lines (FILE_BANNER @ text_lines ls) = filter (\<lambda>l. l \<noteq> [] \<and> hd l \<noteq> CHR ''#'') ls"
  by (simp add: pattern_lines_def split_banner split_lines [OF assms])

lemma pattern_lines_comment:
  assumes "nl \<notin> \<Union> (set ` set ls)" and "nl \<notin> set c"
  shows "pattern_lines (FILE_BANNER @ (CHR ''#'' # CHR '' '' # c @ [nl]) @ text_lines ls) = filter (\<lambda>l. l \<noteq> [] \<and> hd l \<noteq> CHR ''#'') ls"
proof -
  have "split_on nl ((CHR ''#'' # CHR '' '' # c @ [nl]) @ text_lines ls) = (CHR ''#'' # CHR '' '' # c) # split_on nl (text_lines ls)"
    using split_on_append [of nl "CHR ''#'' # CHR '' '' # c" "text_lines ls"] assms(2) by simp
  then show ?thesis by (simp add: pattern_lines_def split_banner split_lines [OF assms(1)])
qed

text \<open>An address or network never starts like a comment.\<close>

lemma split_head: "c \<noteq> d \<Longrightarrow> \<exists>x xs. split_on c (d # t) = (d # x) # xs"
  by (cases "split_on c t") auto

lemma not_v6_comment: "parse_v6_int (CHR ''#'' # t) = None"
proof -
  obtain x xs where p: "split_on (CHR '':'') (CHR ''#'' # t) = (CHR ''#'' # x) # xs"
    using split_head [of "CHR '':''" "CHR ''#''" t] by auto
  have h: "parse_hextet (CHR ''#'' # x) = None"
    by (simp add: parse_hextet_def hex_val_def is_digit_def less_eq_char_def)
  then have n: "parse_hextets a ((CHR ''#'' # x) # ys) = None" for a ys by simp
  show ?thesis
  proof (cases "v6_parts (CHR ''#'' # t)")
    case (Some parts)
    then obtain ys where ys: "parts = (CHR ''#'' # x) # ys"
      by (auto simp: v6_parts_def Let_def p simp del: split_on.simps split: if_splits option.splits)
    have k: "k \<in> set (inner_empty parts) \<Longrightarrow> \<exists>j. k = Suc j" for k
      by (auto simp: inner_empty_def) (metis Suc_le_D One_nat_def)
    show ?thesis
    proof (cases "inner_empty parts")
      case Nil
      then show ?thesis using Some ys n by (simp add: parse_v6_int_def)
    next
      case (Cons m ms)
      then obtain j where "m = Suc j" using k [of m] by auto
      then show ?thesis using Some ys n Cons by (cases ms) (auto simp: parse_v6_int_def Let_def)
    qed
  qed (simp add: parse_v6_int_def)
qed

lemma not_v4_comment: "parse_v4 (CHR ''#'' # t) = None"
  using parse_v4_chars [of "CHR ''#'' # t" _ "CHR ''#''"]
  by (cases "parse_v4 (CHR ''#'' # t)") (auto simp: is_digit_def less_eq_char_def)

lemma not_network_comment: "ip_network (CHR ''#'' # t) = None"
proof -
  have v6: "parse_v6 (CHR ''#'' # u) = None" for u
    using split_head [of "CHR ''%''" "CHR ''#''" u] not_v6_comment
    by (auto simp: parse_v6_def simp del: split_on.simps split: list.splits)
  obtain x xs where "split_on (CHR ''/'') (CHR ''#'' # t) = (CHR ''#'' # x) # xs"
    using split_head [of "CHR ''/''" "CHR ''#''" t] by auto
  then show ?thesis using v6 not_v4_comment
    by (auto simp: ip_network_def parse_network4_def parse_network6_def simp del: split_on.simps split: list.splits option.splits)
qed

lemma not_network_empty: "ip_network [] = None"
  by code_simp

lemma network_lines: "list_ex (in_network_text a) (filter (\<lambda>l. l \<noteq> [] \<and> hd l \<noteq> CHR ''#'') ls) = in_any a ls"
proof -
  have "\<not> in_network_text a l" if "l = [] \<or> hd l = CHR ''#''" for l
    using that not_network_comment not_network_empty by (cases l) (auto simp: in_network_text_def)
  then show ?thesis by (auto simp: in_any_def list_ex_iff)
qed

section \<open>Sorting keeps the lines\<close>

lemma zip_snd: "length ks = length xs \<Longrightarrow> set (map snd (zip ks xs)) = set xs"
  by simp

lemma mapR_length: "mapR f xs = Inr ys \<Longrightarrow> length ys = length xs"
  by (induction xs arbitrary: ys) auto

lemma sorted_by_addr_set: "sorted_by_addr f xs = Inr ys \<Longrightarrow> set ys = set xs"
  by (auto simp: sorted_by_addr_def simp del: mapR.simps dest!: mapR_length) (metis in_set_zip set_zip_rightD image_iff zip_snd set_map snd_conv)+

lemma in_any_set: "set xs = set ys \<Longrightarrow> in_any a xs = in_any a ys"
  by (simp add: in_any_def list_ex_iff)

lemma ipfilter_contents:
  assumes "render_ipfilter_file f = Inr t" and "nl \<notin> \<Union> (set ` set (fi_values f))"
  shows "in_file a t \<longleftrightarrow> in_any a (fi_values f)"
proof -
  obtain vs where "sorted_by_addr id (fi_values f) = Inr vs" and t: "t = FILE_BANNER @ text_lines vs"
    using assms(1) by (auto simp: render_ipfilter_file_def)
  then have s: "set vs = set (fi_values f)" by (intro sorted_by_addr_set)
  show ?thesis using assms(2)
    by (simp add: t in_file_def pattern_lines_file network_lines s in_any_set [OF s])
qed

lemma set_contents:
  assumes "render_set_file s = Inr t" and "nl \<notin> \<Union> (set ` set (so_members s))" and "nl \<notin> set (or_else (so_comment s) [])"
  shows "in_file a t \<longleftrightarrow> in_any a (so_members s)"
proof -
  obtain vs where v: "sorted_by_addr id (so_members s) = Inr vs" and t: "t = FILE_BANNER @
      (if truthy (so_comment s) then ''# '' @ the (so_comment s) @ [nl] else []) @ text_lines vs"
    using assms(1) by (auto simp: render_set_file_def)
  have s: "set vs = set (so_members s)" using v by (rule sorted_by_addr_set)
  have n: "nl \<notin> \<Union> (set ` set vs)" using assms(2) s by simp
  show ?thesis
  proof (cases "truthy (so_comment s)")
    case True
    then have "nl \<notin> set (the (so_comment s))" using assms(3) by (auto simp: truthy_iff or_else_def)
    then show ?thesis using pattern_lines_comment [OF n] True
      by (simp add: t in_file_def network_lines in_any_set [OF s])
  next
    case False
    then show ?thesis using pattern_lines_file [OF n] by (simp add: t in_file_def network_lines in_any_set [OF s])
  qed
qed

text \<open>A map file of keys.\<close>

definition key_text :: "string \<Rightarrow> bool" where
  "key_text k \<longleftrightarrow> k \<noteq> [] \<and> hd k \<noteq> CHR ''#'' \<and> CHR '' '' \<notin> set k \<and> nl \<notin> set k"

lemma key_lookup:
  assumes "\<forall>k\<in>set ks. key_text k"
  shows "map_of (map_entries (FILE_BANNER @ text_lines (map (\<lambda>k. k @ '' 1'') ks))) h \<noteq> None \<longleftrightarrow> h \<in> set ks"
proof -
  have n: "nl \<notin> \<Union> (set ` set (map (\<lambda>k. k @ '' 1'') ks))" using assms by (auto simp: key_text_def)
  have f: "filter (\<lambda>l. l \<noteq> [] \<and> hd l \<noteq> CHR ''#'') (map (\<lambda>k. k @ '' 1'') ks) = map (\<lambda>k. k @ '' 1'') ks"
    using assms by (auto simp: key_text_def filter_id_conv hd_append)
  have "takeWhile (\<lambda>c. c \<noteq> CHR '' '') (k @ '' 1'') = k" if "k \<in> set ks" for k
    using assms that takeWhile_until [of "CHR '' ''" k "''1''"] by (simp add: key_text_def)
  then have "fst ` set (map_entries (FILE_BANNER @ text_lines (map (\<lambda>k. k @ '' 1'') ks))) = set ks"
    unfolding map_entries_def pattern_lines_file [OF n] f by (force simp: image_iff)
  then show ?thesis by (metis map_of_eq_None_iff)
qed

section \<open>A specification that is served\<close>

text \<open>No text that becomes a line of a file contains a newline, and a key is one word.\<close>

definition tidy :: "proxy_spec \<Rightarrow> bool" where
  "tidy p \<longleftrightarrow>
     (\<forall>s\<in>set (pp_source_sets p). nl \<notin> \<Union> (set ` set (so_members s)) \<and> nl \<notin> set (or_else (so_comment s) [])) \<and>
     (\<forall>s\<in>set (pp_services p). (\<forall>f\<in>set (pv_filters s). nl \<notin> \<Union> (set ` set (fi_values f))) \<and>
        (\<forall>h\<in>set (pv_token_hashes s). nl \<notin> set h)) \<and>
     (\<forall>j\<in>set (pp_sso_revoked p). key_text j)"

definition served :: "proxy_run \<Rightarrow> service \<Rightarrow> bool" where
  "served c s \<longleftrightarrow> validate_proxy_spec (pr_spec c) = Inr () \<and> render_files (pr_spec c) = Inr (pr_files c) \<and>
     PEER_SET \<in> set_names (pr_spec c) \<and> s \<in> set (pp_services (pr_spec c)) \<and> tidy (pr_spec c)"

lemma foldR_append_inv:
  assumes "foldR f s xs = Inr t" and "x \<in> set xs"
  shows "\<exists>u v. f u x = Inr v"
  using assms by (induction xs arbitrary: s) auto

lemma claim_slugs_one: "claim_hostname s sn e = Inr m \<Longrightarrow> cm_slugs m = cm_slugs sn"
  by (auto simp: claim_hostname_def Let_def split: if_splits option.splits)

lemma claim_slugs: "foldR (claim_hostname s) sn es = Inr sn' \<Longrightarrow> cm_slugs sn' = cm_slugs sn"
proof (induction es arbitrary: sn)
  case (Cons e es)
  then obtain m where "claim_hostname s sn e = Inr m" "foldR (claim_hostname s) m es = Inr sn'" by auto
  then show ?case using Cons.IH [of m] claim_slugs_one by simp
qed simp

lemma kind_slugs:
  assumes "(if pv_kind s = HTTP then validate_http_service s else validate_tcp_service s) m = Inr m'"
  shows "cm_slugs m' = cm_slugs m"
proof (cases "pv_kind s = HTTP")
  case True
  then obtain "foldR (claim_hostname s) m [INTERNAL, EXTERNAL] = Inr m'"
    using assms by (auto simp: validate_http_service_def simp del: foldR.simps all_checks.simps)
  then show ?thesis by (rule claim_slugs)
next
  case False
  then have "validate_tcp_service s m = Inr m'" using assms by simp
  then have "(case pv_listen_port s of None \<Rightarrow> Inr m | Some port \<Rightarrow> claim_port s port m) = Inr m'"
    by (simp add: validate_tcp_service_def)
  then show ?thesis by (auto simp: claim_port_def split: option.splits if_splits)
qed

lemma validate_service_slugs:
  assumes "validate_service p sn s = Inr sn'"
  shows "cm_slugs sn' = insert (pv_slug s) (cm_slugs sn)" and "pv_slug s \<notin> cm_slugs sn"
    and "validate_policy p s = Inr ()" and "SLUG_RE (pv_slug s)"
proof -
  let ?ok = "all_checks
       [require (SLUG_RE (pv_slug s)) (BadServiceSlug (pv_slug s)),
        require (pv_slug s \<notin> cm_slugs sn) (ServiceSlugTwice (pv_slug s)),
        require (is_address_or_cidr (bk_address (pv_backend s)) \<and> CHR ''/'' \<notin> set (bk_address (pv_backend s)))
          (UpstreamNotAddress (pv_slug s) (bk_address (pv_backend s))),
        require (1 \<le> bk_port (pv_backend s) \<and> bk_port (pv_backend s) \<le> 65535)
          (UpstreamPortRange (pv_slug s) (bk_port (pv_backend s)))]"
  let ?kind = "(if pv_kind s = HTTP then validate_http_service s else validate_tcp_service s)
        (sn\<lparr>cm_slugs := insert (pv_slug s) (cm_slugs sn)\<rparr>)"
  have v: "bindR ?ok (\<lambda>_. bindR ?kind (\<lambda>m. bindR (validate_policy p s) (\<lambda>_. Inr m))) = Inr sn'"
    using assms by (simp only: validate_service_def)
  then obtain x where "?ok = Inr x" by (cases ?ok) simp_all
  then have c: "?ok = Inr ()" by simp
  then show "SLUG_RE (pv_slug s)" "pv_slug s \<notin> cm_slugs sn" by (simp_all add: all_checks_ok)
  obtain m where k: "?kind = Inr m" using v unfolding c bindR.simps(2) by (cases ?kind) simp_all
  then have w: "bindR (validate_policy p s) (\<lambda>_. Inr m) = Inr sn'" using v by (simp only: c k bindR.simps(2))
  then show "validate_policy p s = Inr ()" by (cases "validate_policy p s") simp_all
  show "cm_slugs sn' = insert (pv_slug s) (cm_slugs sn)" using kind_slugs [OF k] w by auto
qed

lemma services_distinct:
  "foldR (validate_service p) sn ss = Inr sn' \<Longrightarrow>
     distinct (map pv_slug ss) \<and> cm_slugs sn \<inter> pv_slug ` set ss = {}"
proof (induction ss arbitrary: sn)
  case (Cons s ss)
  then obtain m where "validate_service p sn s = Inr m" "foldR (validate_service p) m ss = Inr sn'" by auto
  then show ?case using Cons.IH [of m] validate_service_slugs [of p sn s m] by auto
qed simp

lemma sets_distinct:
  "foldR validate_source_set seen ss = Inr seen' \<Longrightarrow>
     distinct (map so_name ss) \<and> seen \<inter> so_name ` set ss = {}"
proof (induction ss arbitrary: seen)
  case (Cons s ss)
  then obtain m where "validate_source_set seen s = Inr m" "foldR validate_source_set m ss = Inr seen'" by auto
  moreover from this have "m = insert (so_name s) seen" "so_name s \<notin> seen"
    by (auto simp: validate_source_set_def)
  ultimately show ?case using Cons.IH [of m] by auto
qed simp

lemma validated_facts:
  assumes v: "validate_proxy_spec p = Inr ()"
  shows validated_distinct: "distinct (map pv_slug (pp_services p))"
    and validated_sets: "distinct (map so_name (pp_source_sets p))"
    and validated_policy: "s \<in> set (pp_services p) \<Longrightarrow> validate_policy p s = Inr ()"
proof -
  obtain sn where f: "foldR (validate_service p) (first_claims p) (pp_services p) = Inr sn"
    and src: "validate_source_sets p = Inr ()"
    using v by (auto simp: validate_proxy_spec_def simp del: foldR.simps)
  show "distinct (map pv_slug (pp_services p))" using services_distinct [OF f] by simp
  show "distinct (map so_name (pp_source_sets p))"
    using src sets_distinct by (auto simp: validate_source_sets_def simp del: foldR.simps)
  show "validate_policy p s = Inr ()" if "s \<in> set (pp_services p)"
    using foldR_append_inv [OF f that] validate_service_slugs by blast
qed

lemma served_facts:
  assumes "served c s"
  shows served_distinct: "distinct (map pv_slug (pp_services (pr_spec c)))"
    and served_sets: "distinct (map so_name (pp_source_sets (pr_spec c)))"
    and served_policy: "validate_policy (pr_spec c) s = Inr ()"
  using assms validated_facts by (auto simp: served_def)

lemma same_service: "served c s \<Longrightarrow> s' \<in> set (pp_services (pr_spec c)) \<Longrightarrow> pv_slug s' = pv_slug s \<Longrightarrow> s' = s"
  using served_distinct by (fastforce simp: served_def distinct_map dest: inj_onD)

text \<open>What was written, by name.\<close>

lemma written:
  assumes "render_files p = Inr files"
  obtains sets served pm gm where
    "mapR (\<lambda>s. bindR (render_set_file s) (\<lambda>t. Inr (set_file (so_name s), t))) (pp_source_sets p) = Inr sets"
    "concatR service_files (pp_services p) = Inr served"
    "render_peers_map p = Inr pm" "render_groups_map p = Inr gm"
    "files = dict_of (sets @ served @ [(SSO_REVOKED_FILE, render_revoked p),
         (DEFAULT_ERROR_FILE, render_default_error_page), (PEERS_MAP_FILE, pm), (GROUPS_MAP_FILE, gm)])"
  using assms by (auto simp: render_files_def simp del: mapR.simps)

lemma set_entries:
  assumes "mapR (\<lambda>s. bindR (render_set_file s) (\<lambda>t. Inr (set_file (so_name s), t))) ss = Inr sets"
  shows "(k, t) \<in> set sets \<longleftrightarrow> (\<exists>s\<in>set ss. k = set_file (so_name s) \<and> render_set_file s = Inr t)"
  using mapR_member [OF assms] mapR_origin [OF assms] by fastforce

lemma service_entries:
  assumes "concatR service_files ss = Inr entries"
  shows "(k, t) \<in> set entries \<longleftrightarrow> (\<exists>s\<in>set ss.
     (k = token_file (pv_slug s) \<and> pv_token_hashes s \<noteq> [] \<and> t = render_token_file s) \<or>
     (\<exists>i f. (i, f) \<in> set (enumerate 0 (pv_filters s)) \<and> fi_kind f \<in> {IP_ALLOW, IP_DENY} \<and>
        k = ipfilter_file (pv_slug s) i \<and> render_ipfilter_file f = Inr t) \<or>
     (k = error_file (pv_slug s) \<and> t = render_error_page s))"
proof -
  have one: "(k, t) \<in> set fs \<longleftrightarrow> (\<exists>i f. (i, f) \<in> set (enumerate 0 (pv_filters s)) \<and> fi_kind f \<in> {IP_ALLOW, IP_DENY} \<and>
        k = ipfilter_file (pv_slug s) i \<and> render_ipfilter_file f = Inr t)" (is "?l = ?r")
    if fs: "filter_files s = Inr fs" for s fs
  proof -
    note each = concatR_each [OF fs [unfolded filter_files_def]]
    have "?l \<longleftrightarrow> (\<exists>i f. (i, f) \<in> set (enumerate 0 (pv_filters s)) \<and> (\<exists>zs. (if fi_kind f \<in> {IP_ALLOW, IP_DENY}
        then bindR (render_ipfilter_file f) (\<lambda>t. Inr [(ipfilter_file (pv_slug s) i, t)]) else Inr []) = Inr zs \<and> (k, t) \<in> set zs))"
      unfolding concatR_set [OF fs [unfolded filter_files_def]] by (simp add: split_paired_Ex Bex_def)
    also have "\<dots> \<longleftrightarrow> ?r"
    proof -
      have "(\<exists>zs. (if b then bindR m (\<lambda>t. Inr [(n, t)]) else Inr []) = Inr zs \<and> (k, t) \<in> set zs) \<longleftrightarrow>
          b \<and> k = n \<and> m = Inr t" for b n and m :: "(render_exn, string) result"
        by (cases b; cases m) auto
      then show ?thesis by simp
    qed
    finally show ?thesis .
  qed
  have each: "\<exists>fs. filter_files s = Inr fs" if "s \<in> set ss" for s
    using concatR_each [OF assms that] by (auto simp: service_files_def)
  let ?of = "\<lambda>s fs. (if pv_token_hashes s \<noteq> [] then [(token_file (pv_slug s), render_token_file s)] else []) @ fs @
        [(error_file (pv_slug s), render_error_page s)]"
  have o: "(\<exists>zs. service_files s = Inr zs \<and> y \<in> set zs) \<longleftrightarrow> (\<exists>fs. filter_files s = Inr fs \<and> y \<in> set (?of s fs))" for s y
    by (cases "filter_files s") (simp_all add: service_files_def)
  show ?thesis unfolding concatR_set [OF assms] o
  proof (intro bex_cong refl)
    fix s assume "s \<in> set ss"
    then obtain fs where fs: "filter_files s = Inr fs" using each by blast
    then show "(\<exists>fs. filter_files s = Inr fs \<and> (k, t) \<in> set (?of s fs)) \<longleftrightarrow>
       (k = token_file (pv_slug s) \<and> pv_token_hashes s \<noteq> [] \<and> t = render_token_file s) \<or>
       (\<exists>i f. (i, f) \<in> set (enumerate 0 (pv_filters s)) \<and> fi_kind f \<in> {IP_ALLOW, IP_DENY} \<and>
          k = ipfilter_file (pv_slug s) i \<and> render_ipfilter_file f = Inr t) \<or>
       (k = error_file (pv_slug s) \<and> t = render_error_page s)"
      unfolding one [OF fs, symmetric] by (simp add: fs) blast
  qed
qed

section \<open>Lookups in the files of a served specification\<close>

lemma lookup_written:
  assumes "render_files p = Inr files"
  shows lookup_set: "\<And>s t. s \<in> set (pp_source_sets p) \<Longrightarrow> distinct (map so_name (pp_source_sets p)) \<Longrightarrow>
      \<exists>t. render_set_file s = Inr t \<and> map_of files (set_file (so_name s)) = Some t"
    and lookup_filter: "\<And>s i f. s \<in> set (pp_services p) \<Longrightarrow> distinct (map pv_slug (pp_services p)) \<Longrightarrow>
      (i, f) \<in> set (enumerate 0 (pv_filters s)) \<Longrightarrow> fi_kind f \<in> {IP_ALLOW, IP_DENY} \<Longrightarrow>
      \<exists>t. render_ipfilter_file f = Inr t \<and> map_of files (ipfilter_file (pv_slug s) i) = Some t"
    and lookup_tokens: "\<And>s. s \<in> set (pp_services p) \<Longrightarrow> distinct (map pv_slug (pp_services p)) \<Longrightarrow>
      pv_token_hashes s \<noteq> [] \<Longrightarrow> map_of files (token_file (pv_slug s)) = Some (render_token_file s)"
    and lookup_revoked: "map_of files SSO_REVOKED_FILE = Some (render_revoked p)"
proof -
  obtain sets entries pm gm where
      se: "mapR (\<lambda>s. bindR (render_set_file s) (\<lambda>t. Inr (set_file (so_name s), t))) (pp_source_sets p) = Inr sets"
    and en: "concatR service_files (pp_services p) = Inr entries"
    and fi: "files = dict_of (sets @ entries @ [(SSO_REVOKED_FILE, render_revoked p),
         (DEFAULT_ERROR_FILE, render_default_error_page), (PEERS_MAP_FILE, pm), (GROUPS_MAP_FILE, gm)])"
    using assms by (rule written)
  note mem = set_entries [OF se] service_entries [OF en]
  show "\<exists>t. render_set_file s = Inr t \<and> map_of files (set_file (so_name s)) = Some t"
    if s: "s \<in> set (pp_source_sets p)" and d: "distinct (map so_name (pp_source_sets p))" for s
  proof -
    obtain t where t: "render_set_file s = Inr t" using mapR_member [OF se s] by auto
    have u: "s' = s" if "s' \<in> set (pp_source_sets p)" "so_name s' = so_name s" for s'
      using that s d by (auto simp: distinct_map dest: inj_onD)
    have "(set_file (so_name s), t') \<in> set sets \<longleftrightarrow> t' = t" for t'
      unfolding mem using s t u by (metis file_names(1) sum.inject(2))
    then have "map_of files (set_file (so_name s)) = Some t"
      unfolding fi by (intro dict_lookup) (auto simp: mem(2))
    then show ?thesis using t by blast
  qed
  have v: "s' = s" if "distinct (map pv_slug (pp_services p))" "s \<in> set (pp_services p)" "s' \<in> set (pp_services p)"
      "pv_slug s' = pv_slug s" for s s'
    using that by (auto simp: distinct_map dest: inj_onD)
  show "\<exists>t. render_ipfilter_file f = Inr t \<and> map_of files (ipfilter_file (pv_slug s) i) = Some t"
    if s: "s \<in> set (pp_services p)" and d: "distinct (map pv_slug (pp_services p))"
      and f: "(i, f) \<in> set (enumerate 0 (pv_filters s))" "fi_kind f \<in> {IP_ALLOW, IP_DENY}" for s i f
  proof -
    obtain fs where "filter_files s = Inr fs" using concatR_each [OF en s] by (auto simp: service_files_def)
    then obtain t where t: "render_ipfilter_file f = Inr t"
      using concatR_each [OF _ f(1)] f(2) unfolding filter_files_def by fastforce
    have u: "t' = t" if en': "(ipfilter_file (pv_slug s) i, t') \<in> set entries" for t'
    proof -
      obtain s' f' where "s' \<in> set (pp_services p)" "pv_slug s' = pv_slug s"
          and f': "(i, f') \<in> set (enumerate 0 (pv_filters s'))" "render_ipfilter_file f' = Inr t'"
        using en' unfolding mem by auto
      then have "s' = s" using v [OF d s] by blast
      then have "f' = f" using f f' by (auto simp: in_set_enumerate_eq)
      then show "t' = t" using f' t by simp
    qed
    have "(ipfilter_file (pv_slug s) i, t) \<in> set entries" unfolding mem using s f t by blast
    then have "map_of files (ipfilter_file (pv_slug s) i) = Some t"
      unfolding fi by (intro dict_lookup) (auto simp: mem(1) dest: u)
    then show ?thesis using t by blast
  qed
  show "map_of files (token_file (pv_slug s)) = Some (render_token_file s)"
    if s: "s \<in> set (pp_services p)" and d: "distinct (map pv_slug (pp_services p))" and h: "pv_token_hashes s \<noteq> []" for s
  proof -
    have u: "t' = render_token_file s" if en': "(token_file (pv_slug s), t') \<in> set entries" for t'
    proof -
      obtain s' where "s' \<in> set (pp_services p)" "pv_slug s' = pv_slug s" "t' = render_token_file s'"
        using en' unfolding mem by auto
      then show ?thesis using v [OF d s] by blast
    qed
    have "(token_file (pv_slug s), render_token_file s) \<in> set entries" unfolding mem using s h by blast
    then show ?thesis unfolding fi by (intro dict_lookup) (auto simp: mem(1) dest: u)
  qed
  show "map_of files SSO_REVOKED_FILE = Some (render_revoked p)"
    unfolding fi by (rule dict_lookup) (auto simp: mem)
qed

lemma served_set:
  assumes "served c s" and "x \<in> set_names (pr_spec c)"
  shows "holds c vs (SrcIn (set_file x)) \<longleftrightarrow> in_set (pr_spec c) x (hq_src (pr_request c))"
proof -
  obtain ss where ss: "ss \<in> set (pp_source_sets (pr_spec c))" "so_name ss = x"
    using assms(2) by (auto simp: set_names_def)
  have u: "s' = ss" if "s' \<in> set (pp_source_sets (pr_spec c))" "so_name s' = x" for s'
    using that ss served_sets [OF assms(1)] by (auto simp: distinct_map dest: inj_onD)
  have r: "render_files (pr_spec c) = Inr (pr_files c)" using assms(1) by (simp add: served_def)
  obtain t where t: "render_set_file ss = Inr t" "map_of (pr_files c) (set_file x) = Some t"
    using lookup_set [OF r ss(1) served_sets [OF assms(1)]] ss(2) by auto
  moreover have "in_file a t \<longleftrightarrow> in_any a (so_members ss)" for a
    using set_contents [OF t(1)] assms(1) ss(1) by (simp add: served_def tidy_def)
  moreover have "in_set (pr_spec c) x a \<longleftrightarrow> in_any a (so_members ss)" for a
    using ss u unfolding in_set_def list_ex_iff by blast
  ultimately show ?thesis by (simp add: holds_def)
qed

lemma served_filter:
  assumes "served c s" and "(i, f) \<in> set (enumerate 0 (pv_filters s))" and "fi_kind f \<in> {IP_ALLOW, IP_DENY}"
  shows "holds c vs (SrcIn (ipfilter_file (pv_slug s) i)) \<longleftrightarrow> in_any (hq_src (pr_request c)) (fi_values f)"
proof -
  have r: "render_files (pr_spec c) = Inr (pr_files c)" and s: "s \<in> set (pp_services (pr_spec c))"
    and ti: "tidy (pr_spec c)" using assms(1) by (simp_all add: served_def)
  obtain t where t: "render_ipfilter_file f = Inr t" "map_of (pr_files c) (ipfilter_file (pv_slug s) i) = Some t"
    using lookup_filter [OF r s served_distinct [OF assms(1)] assms(2, 3)] by auto
  have "f \<in> set (pv_filters s)" using assms(2) by (auto simp: in_set_enumerate_eq)
  then have "nl \<notin> \<Union> (set ` set (fi_values f))" using ti s unfolding tidy_def by blast
  note k = ipfilter_contents [OF t(1) this]
  show ?thesis using t(2) by (simp add: holds_def k)
qed

lemma sha_key: "is_sha256_hex h \<Longrightarrow> nl \<notin> set h \<Longrightarrow> key_text h"
  unfolding is_sha256_hex_def key_text_def
  by (drule (1) re_dollar_exact) (cases h; auto simp: re_class_def is_digit_def less_eq_char_def list_all_iff)

lemma served_token:
  assumes "served c s" and "pv_token_hashes s \<noteq> []"
  shows "fetch c s vs TokenEntry \<noteq> None \<longleftrightarrow> hq_token (pr_request c) \<in> set (pv_token_hashes s)"
proof -
  have r: "render_files (pr_spec c) = Inr (pr_files c)" and s: "s \<in> set (pp_services (pr_spec c))"
    using assms(1) by (simp_all add: served_def)
  have "\<forall>h\<in>set (pv_token_hashes s). is_sha256_hex h"
    using served_policy [OF assms(1)] by (simp add: validate_policy_def all_checks_ok)
  then have "\<forall>h\<in>set (sort (pv_token_hashes s)). key_text h"
    using assms(1) s sha_key by (auto simp: served_def tidy_def)
  from key_lookup [OF this] show ?thesis
    using lookup_tokens [OF r s served_distinct [OF assms(1)] assms(2)]
    by (simp add: fetch_def lookup_in_def render_token_file_def)
qed

lemma served_revoked:
  assumes "served c s"
  shows "lookup_in (pr_files c) SSO_REVOKED_FILE j \<noteq> None \<longleftrightarrow> j \<in> set (pp_sso_revoked (pr_spec c))"
proof -
  have r: "render_files (pr_spec c) = Inr (pr_files c)" using assms(1) by (simp add: served_def)
  have "\<forall>k\<in>set (sort (pp_sso_revoked (pr_spec c))). key_text k" using assms(1) by (simp add: served_def tidy_def)
  from key_lookup [OF this] show ?thesis using lookup_revoked [OF r]
    by (simp add: lookup_in_def render_revoked_def)
qed

lemma find_SomeD: "find P xs = Some x \<Longrightarrow> P x \<and> x \<in> set xs"
  by (induction xs) (auto split: if_splits)

lemma served_accounts:
  assumes "served c s"
  shows "userlist (pr_spec c) (userlist_name (pv_slug s)) = pv_accounts s"
proof -
  have "\<exists>x. find (\<lambda>s'. userlist_name (pv_slug s') = userlist_name (pv_slug s)) (pp_services (pr_spec c)) = Some x"
    using assms by (auto simp: served_def find_None_iff not_None_eq [symmetric] simp del: not_None_eq)
  then obtain x where x: "find (\<lambda>s'. userlist_name (pv_slug s') = userlist_name (pv_slug s)) (pp_services (pr_spec c)) = Some x" ..
  then have "x \<in> set (pp_services (pr_spec c))" "pv_slug x = pv_slug s"
    using find_SomeD [OF x] by (simp_all add: userlist_name_def)
  then have "x = s" by (rule same_service [OF assms])
  then show ?thesis using x by (simp add: userlist_def)
qed

end
