(* ===== verification/ProxyDecision.thy ===== *)
theory ProxyDecision
  imports ProxyLookup
begin

text \<open>
  The rules decide what the specification asks for: the filters and the access rules refuse
  exactly whom they should, and the door's flag is raised exactly by an accepted authenticator.
\<close>

section \<open>Runs\<close>

lemma run_append: "run c s (xs @ ys) vh = Option.bind (run c s xs vh) (run c s ys)"
  by (induction c s xs vh rule: run.induct) auto

lemma run_refusals:
  "run c s (map (\<lambda>ls. (Refuse, ls)) lss) vh = (if list_ex (all_literals c (fst vh)) lss then None else Some vh)"
  by (induction lss) auto

lemma all_literals_simps [simp]:
  "all_literals c vs []"
  "all_literals c vs ((True, q) # ls) \<longleftrightarrow> holds c vs q \<and> all_literals c vs ls"
  "all_literals c vs ((False, q) # ls) \<longleftrightarrow> \<not> holds c vs q \<and> all_literals c vs ls"
  "all_literals c vs (ls @ ms) \<longleftrightarrow> all_literals c vs ls \<and> all_literals c vs ms"
  by (simp_all add: all_literals_def)

section \<open>Filters\<close>

lemma filter_rule_run:
  assumes "served c s" and "(i, f) \<in> set (enumerate 0 (pv_filters s))"
  shows "run c s (filter_rule s (i, f)) vh = (if filter_passes (pr_request c) s f then Some vh else None)"
proof -
  have w: "validate_filter s f = Inr ()"
    using served_policy [OF assms(1)] assms(2) by (auto simp: validate_policy_def all_checks_ok in_set_enumerate_eq)
  have "(fst vh, snd vh) = vh" by simp
  note ip = served_filter [OF assms]
  show ?thesis
  proof (cases "fi_kind f")
    case IP_ALLOW
    then show ?thesis using ip by (simp add: filter_rule_def filter_passes_def)
  next
    case IP_DENY
    then show ?thesis using ip by (simp add: filter_rule_def filter_passes_def)
  next
    case RATE_LIMIT
    then have "fi_rate f \<noteq> None" using w by (auto simp: validate_filter_def)
    then show ?thesis using RATE_LIMIT
      by (cases vh) (auto simp: filter_rule_def filter_passes_def holds_def effect_def)
  qed (simp_all add: filter_rule_def filter_passes_def holds_def)
qed

lemma filters_run:
  assumes "served c s" and "set its \<subseteq> set (enumerate 0 (pv_filters s))"
  shows "run c s (concat (map (filter_rule s) its)) vh =
    (if list_all (\<lambda>(i, f). filter_passes (pr_request c) s f) its then Some vh else None)"
  using assms(2)
proof (induction its)
  case (Cons it its)
  obtain i f where "it = (i, f)" by (cases it)
  then show ?case using Cons filter_rule_run [OF assms(1), of i f vh] by (simp add: run_append)
qed simp

lemma enumerate_filter:
  "list_all (\<lambda>(i, f). P f) (filter (\<lambda>(i, f). Q f) (enumerate n xs)) \<longleftrightarrow> list_all P (filter Q xs)"
  by (induction xs arbitrary: n) auto

section \<open>Access\<close>

lemma source_holds:
  assumes "served c s" and "r \<in> set (pv_access s)" and "source_of r = Some q"
  shows "holds c vs q \<longleftrightarrow> source_matches (pr_spec c) (pr_request c) r"
proof -
  have v: "validate_access (pr_spec c) s r = Inr ()"
    using served_policy [OF assms(1)] assms(2) by (auto simp: validate_policy_def all_checks_ok)
  obtain x where x: "xr_source r = Some x" using assms(3) by (auto simp: source_of_def split: option.splits)
  show ?thesis
  proof (cases "xr_is_set r")
    case True
    have p: "PEER_SET \<in> set_names (pr_spec c)" using assms(1) by (simp add: served_def)
    have "x \<in> set_names (pr_spec c)" using v True x p by (auto simp: validate_access_def)
    with served_set [OF assms(1) this] show ?thesis
      using True x assms(3) by (auto simp: source_of_def source_matches_def)
  next
    case False
    then show ?thesis using x assms(3) by (auto simp: source_of_def source_matches_def holds_def)
  qed
qed

lemma access_run:
  assumes "served c s"
  shows "run c s (access_rule_list s e) vh =
    (if access_permits (pr_spec c) (pr_request c) s e then Some vh else None)"
proof -
  have sub: "set (access_for s e) \<subseteq> set (pv_access s)" by (auto simp: access_for_def)
  let ?m = "source_matches (pr_spec c) (pr_request c)"
  let ?allows = "filter (\<lambda>r. xr_action r = ALLOW) (access_for s e)"
  have any: "source_of r = None \<Longrightarrow> ?m r" for r
    by (auto simp: source_of_def source_matches_def split: option.splits)
  have d: "all_literals c vs (case source_of r of None \<Rightarrow> [] | Some q \<Rightarrow> [(True, q)]) = ?m r"
    if "r \<in> set (access_for s e)" for r vs
    using that sub any source_holds [OF assms, of r _ vs] by (auto split: option.splits)
  have denies: "list_ex (all_literals c vs) (map (\<lambda>r. case source_of r of None \<Rightarrow> [] | Some q \<Rightarrow> [(True, q)])
      (filter (\<lambda>r. xr_action r = DENY) (access_for s e))) \<longleftrightarrow>
      \<not> list_all (\<lambda>r. xr_action r = DENY \<longrightarrow> \<not> ?m r) (access_for s e)" for vs
    using d by (auto simp: list_ex_iff list_all_iff)
  have neg: "all_literals c vs (map (\<lambda>r. (False, the (source_of r))) rs) = (\<forall>r\<in>set rs. \<not> ?m r)"
    if "set rs \<subseteq> set (access_for s e)" and "list_all (\<lambda>r. source_of r \<noteq> None) rs" for rs vs
    using that
  proof (induction rs)
    case (Cons r rs)
    then obtain q where q: "source_of r = Some q" by auto
    moreover have "r \<in> set (pv_access s)" using Cons.prems(1) sub by auto
    ultimately show ?case using Cons source_holds [OF assms, of r q vs] by simp
  qed simp
  have allow: "(if ?allows \<noteq> [] \<and> list_all (\<lambda>r. source_of r \<noteq> None) ?allows
       then all_literals c vs (map (\<lambda>r. (False, the (source_of r))) ?allows) else False) \<longleftrightarrow>
     \<not> (list_ex (\<lambda>r. xr_action r = ALLOW) (access_for s e) \<longrightarrow> list_ex (\<lambda>r. xr_action r = ALLOW \<and> ?m r) (access_for s e))" for vs
  proof (cases "?allows \<noteq> [] \<and> list_all (\<lambda>r. source_of r \<noteq> None) ?allows")
    case True
    moreover have "set ?allows \<subseteq> set (access_for s e)" by auto
    ultimately show ?thesis using neg [of ?allows vs] by (auto simp: list_ex_iff filter_empty_conv)
  next
    case False
    then show ?thesis using any by (auto simp: list_ex_iff list_all_iff filter_empty_conv)
  qed
  have e: "access_rule_list s e = map (\<lambda>ls. (Refuse, ls)) (map (\<lambda>r. case source_of r of None \<Rightarrow> [] | Some q \<Rightarrow> [(True, q)])
      (filter (\<lambda>r. xr_action r = DENY) (access_for s e)) @
      (if ?allows \<noteq> [] \<and> list_all (\<lambda>r. source_of r \<noteq> None) ?allows
       then [map (\<lambda>r. (False, the (source_of r))) ?allows] else []))"
    by (simp add: access_rule_list_def Let_def)
  show ?thesis unfolding e run_refusals list_ex_append denies access_permits_def
    using allow [of "fst vh"] by (auto split: if_splits)
qed

section \<open>Session variables\<close>

lemma tagged_eq [simp]: "tagged a s = tagged b s \<longleftrightarrow> a = b"
  by (simp add: tagged_def)

lemma assign_same: "vs v = None \<Longrightarrow> assign vs v x v = x"
  by (simp add: assign_def split: option.split)

lemma assign_other [simp]: "w \<noteq> v \<Longrightarrow> assign vs v x w = vs w"
  by (simp add: assign_def split: option.split)

text \<open>The names a service's rules may set; none is set when a request arrives.\<close>

definition rule_names :: "string list" where
  "rule_names = [''fg_alg'', ''fg_jwt'', ''fg_ok'', ''fg_exp'', ''fg_now'', ''fg_left'', ''fg_sub'', ''fg_jti'', ''fg_rev'',
     ''fg_grp'', ''fg_adm'', ''fg_az'', ''fg_tok'']"

definition fresh_for :: "service \<Rightarrow> vars \<Rightarrow> bool" where
  "fresh_for s vs \<longleftrightarrow> (\<forall>a\<in>set rule_names. vs (tagged a s) = None) \<and> vs ''fg_auth'' = None"

lemma fresh_names:
  assumes "fresh_for s vs"
  shows "vs (tagged ''fg_alg'' s) = None" "vs (tagged ''fg_jwt'' s) = None" "vs (tagged ''fg_ok'' s) = None"
    "vs (tagged ''fg_exp'' s) = None" "vs (tagged ''fg_now'' s) = None" "vs (tagged ''fg_left'' s) = None"
    "vs (tagged ''fg_sub'' s) = None" "vs (tagged ''fg_jti'' s) = None" "vs (tagged ''fg_rev'' s) = None"
    "vs (tagged ''fg_grp'' s) = None" "vs (tagged ''fg_adm'' s) = None" "vs (tagged ''fg_az'' s) = None"
    "vs (tagged ''fg_tok'' s) = None" "vs ''fg_auth'' = None"
  using assms by (simp_all add: fresh_for_def rule_names_def)

lemma tagged_not_flag:
  "tagged ''fg_alg'' s \<noteq> ''fg_auth''" "tagged ''fg_jwt'' s \<noteq> ''fg_auth''" "tagged ''fg_ok'' s \<noteq> ''fg_auth''"
  "tagged ''fg_exp'' s \<noteq> ''fg_auth''" "tagged ''fg_now'' s \<noteq> ''fg_auth''" "tagged ''fg_left'' s \<noteq> ''fg_auth''"
  "tagged ''fg_sub'' s \<noteq> ''fg_auth''" "tagged ''fg_jti'' s \<noteq> ''fg_auth''" "tagged ''fg_rev'' s \<noteq> ''fg_auth''"
  "tagged ''fg_grp'' s \<noteq> ''fg_auth''" "tagged ''fg_adm'' s \<noteq> ''fg_auth''" "tagged ''fg_az'' s \<noteq> ''fg_auth''"
  "tagged ''fg_tok'' s \<noteq> ''fg_auth''"
  by (simp_all add: tagged_def)

lemmas tagged_not_flag_sym = tagged_not_flag [symmetric]

text \<open>What the session rules leave in the variables.\<close>

definition session_vars :: "proxy_run \<Rightarrow> service \<Rightarrow> vars \<Rightarrow> vars" where
  "session_vars c s vs0 =
     (let vs1 = assign vs0 (tagged ''fg_alg'' s) (Some (TextV ALGORITHM));
          vs2 = assign vs1 (tagged ''fg_jwt'' s) (fetch c s vs1 SessionCookie);
          vs3 = assign vs2 (tagged ''fg_ok'' s) (fetch c s vs2 (Verified (tagged ''fg_jwt'' s) (tagged ''fg_alg'' s)));
          vs4 = assign vs3 (tagged ''fg_exp'' s) (fetch c s vs3 (ClaimInt (tagged ''fg_jwt'' s) ''$.exp''));
          vs5 = assign vs4 (tagged ''fg_now'' s) (fetch c s vs4 Date);
          vs6 = assign vs5 (tagged ''fg_left'' s) (fetch c s vs5 (Minus (tagged ''fg_exp'' s) (tagged ''fg_now'' s)));
          vs7 = assign vs6 (tagged ''fg_sub'' s) (fetch c s vs6 (ClaimText (tagged ''fg_jwt'' s) ''$.sub''));
          vs8 = assign vs7 (tagged ''fg_jti'' s) (fetch c s vs7 (ClaimText (tagged ''fg_jwt'' s) ''$.jti''))
      in assign vs8 (tagged ''fg_rev'' s) (fetch c s vs8 (RevokedEntry (tagged ''fg_jti'' s))))"

lemma session_rules_run:
  "run c s (session_rules s a) (vs, hs) = run c s (authz_rules s a) (session_vars c s vs, hs)"
  by (simp add: session_rules_def session_vars_def effect_def Let_def) (simp add: fetch_def)

definition cookie_claim :: "proxy_run \<Rightarrow> (string \<Rightarrow> 'a option) \<Rightarrow> 'a option" where
  "cookie_claim c f = Option.bind (hq_cookie (pr_request c)) f"

lemma session_vars_at:
  assumes "fresh_for s vs"
  shows "session_vars c s vs (tagged ''fg_jwt'' s) = map_option TextV (hq_cookie (pr_request c))"
    and "session_vars c s vs (tagged ''fg_ok'' s) = map_option (\<lambda>t. IntV (jw_verify (pr_tokens c) ALGORITHM (pp_sso_secret (pr_spec c)) t)) (hq_cookie (pr_request c))"
    and "session_vars c s vs (tagged ''fg_left'' s) = map_option (\<lambda>x. IntV (x - hq_now (pr_request c))) (cookie_claim c (\<lambda>t. jw_int (pr_tokens c) t ''$.exp''))"
    and "session_vars c s vs (tagged ''fg_sub'' s) = map_option TextV (cookie_claim c (\<lambda>t. jw_text (pr_tokens c) t ''$.sub''))"
    and "session_vars c s vs (tagged ''fg_rev'' s) = map_option TextV
      (Option.bind (cookie_claim c (\<lambda>t. jw_text (pr_tokens c) t ''$.jti'')) (lookup_in (pr_files c) SSO_REVOKED_FILE))"
    and "session_vars c s vs (tagged ''fg_grp'' s) = None" and "session_vars c s vs (tagged ''fg_adm'' s) = None"
    and "session_vars c s vs (tagged ''fg_az'' s) = None" and "session_vars c s vs (tagged ''fg_tok'' s) = None"
    and "session_vars c s vs ''fg_auth'' = None"
  by (cases "hq_cookie (pr_request c)";
      simp add: session_vars_def Let_def fresh_names [OF assms] assign_same fetch_def tagged_not_flag_sym cookie_claim_def
        option.map_comp comp_def split: option.split)+

definition required :: "proxy_run \<Rightarrow> authenticator \<Rightarrow> bool" where
  "required c a \<longleftrightarrow> (case hq_cookie (pr_request c) of None \<Rightarrow> \<not> needs_more a | Some t \<Rightarrow> meets_requirement (pr_tokens c) a t)"

lemma authz_run:
  assumes "vs (tagged ''fg_jwt'' s) = map_option TextV (hq_cookie (pr_request c))"
    and "vs (tagged ''fg_grp'' s) = None" and "vs (tagged ''fg_adm'' s) = None"
  obtains vs' where "run c s (authz_rules s a) (vs, hs) = Some (vs', hs)"
    and "\<And>n. n \<notin> {tagged ''fg_grp'' s, tagged ''fg_adm'' s, tagged ''fg_az'' s} \<Longrightarrow> vs' n = vs n"
    and "needs_more a \<Longrightarrow> vs' (tagged ''fg_az'' s) = Some (IntV (if required c a then 1 else 0))"
proof (cases "needs_more a")
  case False
  then show ?thesis by (intro that [of vs]) (simp_all add: authz_rules_def)
next
  case True
  let ?v1 = "if xn_groups a \<noteq> [] then assign vs (tagged ''fg_grp'' s) (fetch c s vs (ClaimText (tagged ''fg_jwt'' s) ''$.groups'')) else vs"
  let ?v2 = "if xn_require_admin a then assign ?v1 (tagged ''fg_adm'' s) (fetch c s ?v1 (ClaimInt (tagged ''fg_jwt'' s) ''$.admin'')) else ?v1"
  let ?v3 = "?v2(tagged ''fg_az'' s \<mapsto> IntV 0)"
  let ?ls = "(if xn_groups a \<noteq> [] then [(True, Contains (tagged ''fg_grp'' s) (map (\<lambda>g. '','' @ g @ '','') (xn_groups a)))] else []) @
        (if xn_require_admin a then [(True, IntEq (tagged ''fg_adm'' s) 1)] else [])"
  let ?v4 = "if all_literals c ?v3 ?ls then ?v3(tagged ''fg_az'' s \<mapsto> IntV 1) else ?v3"
  have r: "run c s (authz_rules s a) (vs, hs) = Some (?v4, hs)"
    using True by (simp add: authz_rules_def effect_def)
  have "all_literals c ?v3 ?ls \<longleftrightarrow> required c a"
    using True assms
    by (cases "hq_cookie (pr_request c)")
      (auto simp: holds_def fetch_def assign_same required_def meets_requirement_def needs_more_def
        list_ex_iff split: option.split)
  then have z: "?v4 (tagged ''fg_az'' s) = Some (IntV (if required c a then 1 else 0))" by simp
  have o: "?v4 n = vs n" if "n \<notin> {tagged ''fg_grp'' s, tagged ''fg_adm'' s, tagged ''fg_az'' s}" for n
    using that by simp
  show ?thesis using that [OF r o z] .
qed

section \<open>The flag\<close>

text \<open>What the variables say before the flag is computed.\<close>

definition ready :: "proxy_run \<Rightarrow> service \<Rightarrow> authenticator list \<Rightarrow> vars \<Rightarrow> bool" where
  "ready c s as vs \<longleftrightarrow>
     (\<forall>a\<in>set as. xn_kind a = FOXGUARD_SSO \<longrightarrow>
        (all_literals c vs (session_literals s @ (if needs_more a then [(True, IntEq (tagged ''fg_az'' s) 1)] else [])) \<longleftrightarrow>
         accepts (pr_spec c) (pr_tokens c) (pr_request c) s a)) \<and>
     ((\<exists>a\<in>set as. xn_kind a = BEARER) \<longrightarrow>
        (vs (tagged ''fg_tok'' s) \<noteq> None \<longleftrightarrow> hq_token (pr_request c) \<in> set (pv_token_hashes s)))"

lemma way_holds:
  assumes "served c s" and "pv_kind s = HTTP" and "ready c s as vs" and "a \<in> set as"
  shows "list_ex (all_literals c vs) (auth_literals s a) \<longleftrightarrow> accepts (pr_spec c) (pr_tokens c) (pr_request c) s a"
proof -
  have p: "PEER_SET \<in> set_names (pr_spec c)" using assms(1) by (simp add: served_def)
  show ?thesis
  proof (cases "xn_kind a")
    case PEER_IDENTITY
    then show ?thesis using served_set [OF assms(1) p] by (simp add: auth_literals_def accepts_def)
  next
    case BEARER
    then have "vs (tagged ''fg_tok'' s) \<noteq> None \<longleftrightarrow> hq_token (pr_request c) \<in> set (pv_token_hashes s)"
      using assms(3, 4) unfolding ready_def by blast
    then show ?thesis using BEARER assms(2) by (simp add: auth_literals_def accepts_def holds_def)
  next
    case BASIC
    then show ?thesis using assms(2) served_accounts [OF assms(1)]
      by (simp add: auth_literals_def accepts_def holds_def)
  next
    case FOXGUARD_SSO
    then have "all_literals c vs (session_literals s @ (if needs_more a then [(True, IntEq (tagged ''fg_az'' s) 1)] else [])) \<longleftrightarrow>
         accepts (pr_spec c) (pr_tokens c) (pr_request c) s a"
      using assms(3, 4) unfolding ready_def by blast
    then show ?thesis using FOXGUARD_SSO assms(2) by (simp add: auth_literals_def)
  qed (simp_all add: auth_literals_def accepts_def)
qed

lemma ways_hold:
  assumes "served c s" and "pv_kind s = HTTP" and "ready c s as vs"
  shows "list_ex (all_literals c vs) (concat (map (auth_literals s) as)) \<longleftrightarrow>
    list_ex (accepts (pr_spec c) (pr_tokens c) (pr_request c) s) as"
  using way_holds [OF assms] by (auto simp: list_ex_iff)

lemma way_ignores_flag:
  assumes "w \<in> set (auth_literals s a)"
  shows "all_literals c (vs(''fg_auth'' \<mapsto> x)) w = all_literals c vs w"
  using assms tagged_not_flag
  by (auto simp: auth_literals_def session_literals_def holds_def split: auth_kind.splits if_splits)

lemma flag_run:
  assumes "\<And>w vs x. w \<in> set ws \<Longrightarrow> all_literals c (vs(''fg_auth'' \<mapsto> x)) w = all_literals c vs w"
  shows "run c s (map (Pair (SetInt ''fg_auth'' 1)) ws) (vs, hs) =
    Some (if list_ex (all_literals c vs) ws then vs(''fg_auth'' \<mapsto> IntV 1) else vs, hs)"
  using assms
proof (induction ws arbitrary: vs)
  case (Cons w ws)
  have "list_ex (all_literals c (vs(''fg_auth'' \<mapsto> IntV 1))) ws = list_ex (all_literals c vs) ws"
    by (intro list_ex_cong refl Cons.prems) simp
  moreover have "run c s (map (Pair (SetInt ''fg_auth'' 1)) ws) (u, hs) =
      Some (if list_ex (all_literals c u) ws then u(''fg_auth'' \<mapsto> IntV 1) else u, hs)" for u
    by (intro Cons.IH Cons.prems) simp
  ultimately show ?case by (simp add: effect_def) (simp add: fun_upd_def fun_eq_iff)
qed simp

lemma challenge_run:
  "run c s (challenge_rules s as) (vs, hs) = (if vs ''fg_auth'' = Some (IntV 0) then None else Some (vs, hs))"
  by (simp add: challenge_rules_def nobody_def holds_def split: option.split)

lemma header_run: "\<exists>hs'. run c s (header_rules p s e as) (vs, hs) = Some (vs, hs')"
  by (simp add: header_rules_def effect_def)

definition setup_rules :: "service \<Rightarrow> authenticator list \<Rightarrow> rule list" where
  "setup_rules s as = (case find (\<lambda>a. xn_kind a = FOXGUARD_SSO) as of None \<Rightarrow> [] | Some a \<Rightarrow> session_rules s a) @
     (if list_ex (\<lambda>a. xn_kind a = BEARER) as then [(SetVar (tagged ''fg_tok'' s) TokenEntry, [])] else [])"

lemma session_holds:
  assumes "served c s" and "fresh_for s vs"
    and "\<And>n. n \<notin> {tagged ''fg_grp'' s, tagged ''fg_adm'' s, tagged ''fg_az'' s, tagged ''fg_tok'' s} \<Longrightarrow> vs' n = session_vars c s vs n"
  shows "all_literals c vs' (session_literals s) \<longleftrightarrow>
    (case hq_cookie (pr_request c) of None \<Rightarrow> False | Some t \<Rightarrow> valid_session (pr_spec c) (pr_tokens c) (pr_request c) t)"
proof -
  have e: "vs' (tagged ''fg_ok'' s) = session_vars c s vs (tagged ''fg_ok'' s)"
    "vs' (tagged ''fg_left'' s) = session_vars c s vs (tagged ''fg_left'' s)"
    "vs' (tagged ''fg_rev'' s) = session_vars c s vs (tagged ''fg_rev'' s)"
    by (rule assms(3); simp)+
  have r: "lookup_in (pr_files c) SSO_REVOKED_FILE j = None \<longleftrightarrow> j \<notin> set (pp_sso_revoked (pr_spec c))" for j
    using served_revoked [OF assms(1)] by blast
  show ?thesis
    by (cases "hq_cookie (pr_request c)")
      (auto simp: session_literals_def holds_def e session_vars_at [OF assms(2)] valid_session_def cookie_claim_def r
        split: option.splits)
qed

lemma single_member:
  "length (filter P xs) \<le> 1 \<Longrightarrow> x \<in> set xs \<Longrightarrow> P x \<Longrightarrow> find P xs = Some x"
  by (induction xs) (auto simp: filter_empty_conv)

lemma setup_run:
  assumes "served c s" and "pv_kind s = HTTP" and "fresh_for s vs"
    and one: "length (filter (\<lambda>a. xn_kind a = FOXGUARD_SSO) as) \<le> 1"
    and "set as \<subseteq> set (pv_authenticators s)"
  obtains vs' where "run c s (setup_rules s as) (vs, hs) = Some (vs', hs)" and "ready c s as vs'"
    and "find (\<lambda>a. xn_kind a = FOXGUARD_SSO) as \<noteq> None \<Longrightarrow>
      vs' (tagged ''fg_sub'' s) = map_option TextV (cookie_claim c (\<lambda>t. jw_text (pr_tokens c) t ''$.sub''))"
proof -
  let ?tok = "\<lambda>v. if list_ex (\<lambda>a. xn_kind a = BEARER) as then assign v (tagged ''fg_tok'' s) (fetch c s v TokenEntry) else v"
  have tok: "vs2 (tagged ''fg_tok'' s) \<noteq> None \<longleftrightarrow> hq_token (pr_request c) \<in> set (pv_token_hashes s)"
    if b: "\<exists>a\<in>set as. xn_kind a = BEARER" and "v (tagged ''fg_tok'' s) = None" and "vs2 = ?tok v" for v vs2
  proof -
    obtain a where "a \<in> set (pv_authenticators s)" "xn_kind a = BEARER" using b assms(5) by blast
    then have "pv_token_hashes s \<noteq> []" using served_policy [OF assms(1)]
      by (auto simp: validate_policy_def all_checks_ok validate_authenticator_def)
    moreover have "list_ex (\<lambda>a. xn_kind a = BEARER) as" using b by (simp add: list_ex_iff)
    ultimately show ?thesis using that(2, 3) served_token [OF assms(1), of v] by (simp add: assign_same)
  qed
  show ?thesis
  proof (cases "find (\<lambda>a. xn_kind a = FOXGUARD_SSO) as")
    case None
    have run: "run c s (setup_rules s as) (vs, hs) = Some (?tok vs, hs)"
      by (simp add: setup_rules_def None effect_def)
    have "\<forall>a\<in>set as. xn_kind a \<noteq> FOXGUARD_SSO" using None by (auto simp: find_None_iff)
    then have "ready c s as (?tok vs)"
      unfolding ready_def using tok [of vs "?tok vs", OF _ fresh_names(13) [OF assms(3)]] by blast
    then show ?thesis using that [OF run] None by blast
  next
    case (Some a)
    obtain v where r: "run c s (authz_rules s a) (session_vars c s vs, hs) = Some (v, hs)"
      and o: "\<And>n. n \<notin> {tagged ''fg_grp'' s, tagged ''fg_adm'' s, tagged ''fg_az'' s} \<Longrightarrow> v n = session_vars c s vs n"
      and z: "needs_more a \<Longrightarrow> v (tagged ''fg_az'' s) = Some (IntV (if required c a then 1 else 0))"
      by (rule authz_run [where c = c and s = s and vs = "session_vars c s vs" and a = a and hs = hs,
            OF session_vars_at(1) [OF assms(3)] session_vars_at(6) [OF assms(3)] session_vars_at(7) [OF assms(3)]])
        (rule that)
    define v2 where v2: "v2 = ?tok v"
    have run: "run c s (setup_rules s as) (vs, hs) = Some (v2, hs)"
      by (simp add: setup_rules_def Some run_append session_rules_run r effect_def v2)
    have o': "v2 n = session_vars c s vs n"
      if "n \<notin> {tagged ''fg_grp'' s, tagged ''fg_adm'' s, tagged ''fg_az'' s, tagged ''fg_tok'' s}" for n
      using that o by (simp add: v2)
    have az: "needs_more a \<Longrightarrow> v2 (tagged ''fg_az'' s) = Some (IntV (if required c a then 1 else 0))"
      using z by (simp add: v2)
    have sess: "all_literals c v2 (session_literals s) \<longleftrightarrow> (case hq_cookie (pr_request c) of None \<Rightarrow> False
        | Some t \<Rightarrow> valid_session (pr_spec c) (pr_tokens c) (pr_request c) t)"
      by (rule session_holds [OF assms(1, 3)]) (rule o')
    have "all_literals c v2 (session_literals s @ (if needs_more b then [(True, IntEq (tagged ''fg_az'' s) 1)] else [])) \<longleftrightarrow>
         accepts (pr_spec c) (pr_tokens c) (pr_request c) s b"
      if "b \<in> set as" and k: "xn_kind b = FOXGUARD_SSO" for b
    proof -
      have "a = b" using single_member [OF one that(1)] k Some by simp
      have t: "\<not> needs_more b \<Longrightarrow> meets_requirement w b x" for w x
        by (simp add: needs_more_def meets_requirement_def)
      show ?thesis unfolding all_literals_simps sess
        using az t k assms(2) unfolding \<open>a = b\<close>
        by (cases "hq_cookie (pr_request c)") (auto simp: accepts_def holds_def required_def)
    qed
    moreover have "v (tagged ''fg_tok'' s) = None" using o [of "tagged ''fg_tok'' s"] session_vars_at(9) [OF assms(3)] by simp
    ultimately have "ready c s as v2" unfolding ready_def using tok [of v v2] v2 by blast
    moreover have "v2 (tagged ''fg_sub'' s) = session_vars c s vs (tagged ''fg_sub'' s)" by (rule o') simp
    ultimately show ?thesis using that [OF run] session_vars_at(4) [OF assms(3)] by simp
  qed
qed

section \<open>The door\<close>

lemma door_guarded:
  assumes "served c s" and "needs_hostname s e" and "e \<noteq> BOTH_DOORS"
  shows "auth_for s e \<noteq> []"
proof -
  have "validate_door s e = Inr ()"
    using served_policy [OF assms(1)] assms(3) by (cases e) (auto simp: validate_policy_def all_checks_ok)
  then show ?thesis using assms(2) by (simp add: validate_door_def)
qed

lemma auth_kinds:
  assumes "served c s" and "a \<in> set (pv_authenticators s)"
  shows "xn_kind a \<noteq> MTLS" and "pv_kind s = TCP_PASS \<Longrightarrow> xn_kind a \<in> {PEER_IDENTITY, PUBLIC}"
proof -
  have v: "validate_authenticator (pr_spec c) s a = Inr ()"
    using served_policy [OF assms(1)] assms(2) by (simp add: validate_policy_def all_checks_ok)
  then show m: "xn_kind a \<noteq> MTLS" by (simp add: validate_authenticator_def)
  show "xn_kind a \<in> {PEER_IDENTITY, PUBLIC}" if "pv_kind s = TCP_PASS"
    using v m that by (cases "xn_kind a") (simp_all add: validate_authenticator_def HTTP_ONLY_AUTH_def)
qed

text \<open>The shape of an accepted run on a guarded HTTP door: the variables before the flag, then the headers.\<close>

lemma http_rules:
  assumes "served c s" and "needs_hostname s e" and "e \<noteq> BOTH_DOORS" and "pv_kind s = HTTP"
    and np: "\<not> list_ex (\<lambda>a. xn_kind a = PUBLIC) (auth_for s e)"
  shows "auth_rule_list (pr_spec c) s e = setup_rules s (auth_for s e) @ [(SetInt ''fg_auth'' 0, [])] @
        map (Pair (SetInt ''fg_auth'' 1)) (concat (map (auth_literals s) (auth_for s e))) @
        challenge_rules s (auth_for s e) @ header_rules (pr_spec c) s e (auth_for s e)"
proof -
  have ne: "auth_for s e \<noteq> []" using assms(1-3) by (rule door_guarded)
  have "auth_literals s a \<noteq> []" if "a \<in> set (auth_for s e)" for a
    using that assms(4) np auth_kinds(1) [OF assms(1)]
    by (cases "xn_kind a") (auto simp: auth_literals_def list_ex_iff auth_for_def)
  then have w: "concat (map (auth_literals s) (auth_for s e)) \<noteq> []" using ne by (cases "auth_for s e") auto
  show ?thesis using assms(4) np ne w by (simp add: auth_rule_list_def Let_def setup_rules_def split: option.split)
qed

lemma flag_over_ways:
  "run c s (map (Pair (SetInt ''fg_auth'' 1)) (concat (map (auth_literals s) as))) (vs, hs) =
    Some (if list_ex (all_literals c vs) (concat (map (auth_literals s) as)) then vs(''fg_auth'' \<mapsto> IntV 1) else vs, hs)"
  by (rule flag_run) (auto simp: way_ignores_flag)

lemma auth_run:
  assumes "served c s" and "needs_hostname s e" and "e \<noteq> BOTH_DOORS" and "fresh_for s vs"
    and "length (filter (\<lambda>a. xn_kind a = FOXGUARD_SSO) (auth_for s e)) \<le> 1"
  shows "run c s (auth_rule_list (pr_spec c) s e) (vs, hs) \<noteq> None \<longleftrightarrow>
    authenticated (pr_spec c) (pr_tokens c) (pr_request c) s e"
proof (cases "list_ex (\<lambda>a. xn_kind a = PUBLIC) (auth_for s e)")
  case True
  then show ?thesis by (auto simp: auth_rule_list_def Let_def authenticated_def list_ex_iff)
next
  case False
  let ?as = "auth_for s e"
  let ?ways = "concat (map (auth_literals s) ?as)"
  let ?acc = "accepts (pr_spec c) (pr_tokens c) (pr_request c) s"
  have sub: "set ?as \<subseteq> set (pv_authenticators s)" by (auto simp: auth_for_def)
  have au: "authenticated (pr_spec c) (pr_tokens c) (pr_request c) s e \<longleftrightarrow> list_ex ?acc ?as"
    using False by (auto simp: authenticated_def list_ex_iff)
  have ne: "?as \<noteq> []" using assms(1-3) by (rule door_guarded)
  show ?thesis
  proof (cases "pv_kind s = HTTP")
    case True
    obtain v where v: "run c s (setup_rules s ?as) (vs, hs) = Some (v, hs)" "ready c s ?as v"
      using setup_run [OF assms(1) True assms(4, 5) sub] by blast
    let ?v0 = "v(''fg_auth'' \<mapsto> IntV 0)"
    have same: "all_literals c (u(''fg_auth'' \<mapsto> x)) w = all_literals c u w" if "w \<in> set ?ways" for u x w
      using that way_ignores_flag by auto
    have acc: "list_ex (all_literals c ?v0) ?ways \<longleftrightarrow> list_ex ?acc ?as"
      unfolding ways_hold [OF assms(1) True v(2), symmetric] by (intro list_ex_cong refl same)
    note l = http_rules [OF assms(1-3) True False]
    have h: "run c s (header_rules (pr_spec c) s e ?as) (u, hs) \<noteq> None" for u
      using header_run by (metis option.distinct(1))
    show ?thesis unfolding l au
      using h acc by (simp add: run_append v(1) effect_def flag_over_ways challenge_run del: map_concat)
  next
    case False
    then have tcp: "pv_kind s = TCP_PASS" by (cases "pv_kind s") auto
    have peers: "xn_kind a = PEER_IDENTITY" if "a \<in> set ?as" for a
      using that sub auth_kinds(2) [OF assms(1) _ tcp] \<open>\<not> list_ex _ _\<close> by (fastforce simp: list_ex_iff)
    have p: "PEER_SET \<in> set_names (pr_spec c)" using assms(1) by (simp add: served_def)
    have lit: "concat (map (auth_literals s) as) = map (\<lambda>a. [(True, SrcIn (set_file PEER_SET))]) as"
      if "\<forall>a\<in>set as. xn_kind a = PEER_IDENTITY" for as
      using that by (induction as) (auto simp: auth_literals_def)
    have l: "auth_rule_list (pr_spec c) s e = [(Refuse, map (\<lambda>a. (False, SrcIn (set_file PEER_SET))) ?as)]"
      using tcp \<open>\<not> list_ex _ _\<close> ne peers lit [of ?as]
      by (auto simp: auth_rule_list_def Let_def comp_def find_None_iff map_concat split: option.split dest: find_SomeD)
    have n: "all_literals c vs (map (\<lambda>a. (False, SrcIn (set_file PEER_SET))) as) \<longleftrightarrow>
        (as \<noteq> [] \<longrightarrow> \<not> in_set (pr_spec c) PEER_SET (hq_src (pr_request c)))" for as
      using served_set [OF assms(1) p] by (induction as) auto
    have a: "list_ex ?acc ?as \<longleftrightarrow> in_set (pr_spec c) PEER_SET (hq_src (pr_request c))"
      using peers ne by (auto simp: list_ex_iff accepts_def) (metis list.set_intros(1) neq_Nil_conv)
    show ?thesis unfolding l au a using n [of ?as] ne by simp
  qed
qed

lemma user_header:
  assumes "served c s" and "needs_hostname s e" and "e \<noteq> BOTH_DOORS" and "pv_kind s = HTTP" and "fresh_for s vs"
    and "length (filter (\<lambda>a. xn_kind a = FOXGUARD_SSO) (auth_for s e)) \<le> 1"
    and "a \<in> set (auth_for s e)" and "xn_kind a = FOXGUARD_SSO" and "\<not> list_ex (\<lambda>a. xn_kind a = PUBLIC) (auth_for s e)"
    and "run c s (auth_rule_list (pr_spec c) s e) (vs, []) = Some (vs', hs')"
  shows "map_of hs' ''X-Foxguard-User'' = cookie_claim c (\<lambda>t. jw_text (pr_tokens c) t ''$.sub'')"
proof -
  let ?as = "auth_for s e"
  have fnd: "find (\<lambda>a. xn_kind a = FOXGUARD_SSO) ?as \<noteq> None" using assms(7, 8) by (auto simp: find_None_iff)
  have ex: "list_ex (\<lambda>a. xn_kind a = FOXGUARD_SSO) ?as" using assms(7, 8) by (auto simp: list_ex_iff)
  have sub: "set ?as \<subseteq> set (pv_authenticators s)" by (auto simp: auth_for_def)
  obtain v where v: "run c s (setup_rules s ?as) (vs, []) = Some (v, [])"
      and u: "v (tagged ''fg_sub'' s) = map_option TextV (cookie_claim c (\<lambda>t. jw_text (pr_tokens c) t ''$.sub''))"
    using setup_run [OF assms(1, 4, 5, 6) sub, where hs = "[]"] fnd by metis
  obtain w where w: "run c s (header_rules (pr_spec c) s e ?as) (w, []) = Some (vs', hs')"
      and "w (tagged ''fg_sub'' s) = v (tagged ''fg_sub'' s)"
    using assms(10) unfolding http_rules [OF assms(1-4, 9)]
    by (auto simp: run_append v effect_def flag_over_ways challenge_run tagged_not_flag split: if_splits
        simp del: map_concat)
  then have "w (tagged ''fg_sub'' s) = map_option TextV (cookie_claim c (\<lambda>t. jw_text (pr_tokens c) t ''$.sub''))"
    using u by simp
  with w ex show ?thesis
    by (cases "cookie_claim c (\<lambda>t. jw_text (pr_tokens c) t ''$.sub'')")
      (auto simp: header_rules_def effect_def holds_def header_value_def update_conv' split: if_splits)
qed

lemma start_fresh: "fresh_for s (fst (door_start c e))"
  by (auto simp: fresh_for_def rule_names_def door_start_def tagged_def split: option.split)

lemma door_decides:
  assumes "served c s" and "needs_hostname s e" and "e \<noteq> BOTH_DOORS"
    and "length (filter (\<lambda>a. xn_kind a = FOXGUARD_SSO) (auth_for s e)) \<le> 1"
  shows "forwards c s e \<longleftrightarrow> lets_through (pr_spec c) (pr_tokens c) (pr_request c) s e"
proof -
  obtain vs hs where st: "door_start c e = (vs, hs)" by fastforce
  have f: "run c s (concat (map (filter_rule s) (filter (\<lambda>(i, f). covers (fi_scope f) e) (enumerate 0 (pv_filters s))))) vh =
      (if list_all (filter_passes (pr_request c) s) (filters_for s e) then Some vh else None)" for vh
    using filters_run [OF assms(1), of "filter (\<lambda>(i, f). covers (fi_scope f) e) (enumerate 0 (pv_filters s))" vh]
    by (auto simp: enumerate_filter filters_for_def)
  show ?thesis
    using auth_run [OF assms(1-3) _ assms(4), of vs hs] start_fresh [of s c e]
    by (simp add: forwards_def at_door_def service_rule_list_def run_append f access_run [OF assms(1)] lets_through_def st)
qed

text \<open>What an lets_through request carries: the filters and the access rules set nothing.\<close>

lemma at_door_auth:
  assumes "served c s" and "at_door c s e = Some r"
  shows "run c s (auth_rule_list (pr_spec c) s e) (door_start c e) = Some r"
proof -
  have f: "run c s (concat (map (filter_rule s) (filter (\<lambda>(i, f). covers (fi_scope f) e) (enumerate 0 (pv_filters s))))) vh =
      (if list_all (\<lambda>(i, f). filter_passes (pr_request c) s f) (filter (\<lambda>(i, f). covers (fi_scope f) e) (enumerate 0 (pv_filters s)))
       then Some vh else None)" for vh
    using filters_run [OF assms(1)] by simp
  show ?thesis using assms(2)
    by (auto simp: at_door_def service_rule_list_def run_append f access_run [OF assms(1)] split: if_splits)
qed

end
