(* ===== verification/ProxyProperties.thy ===== *)
theory ProxyProperties
  imports ProxyService ProxyDecision DemoFleet
begin

text \<open>
  What the reverse proxy guarantees: who is let through a door, that the database's state
  reaches the proxy, and where the code falls short of what its documentation says.
\<close>

section \<open>A small deployment\<close>

definition demo_auth :: "string \<Rightarrow> auth_kind \<Rightarrow> scope \<Rightarrow> auth_row" where
  "demo_auth i k sc = \<lparr>sa_id = i, sa_kind = k, sa_scope = sc, sa_enabled = True, sa_priority = 100, sa_realm = None,
     sa_require_admin = False, sa_group_ids = []\<rparr>"

definition demo_service :: "string \<Rightarrow> exposure \<Rightarrow> auth_row list \<Rightarrow> service_row" where
  "demo_service slug e auths = \<lparr>sv_id = slug, sv_slug = slug, sv_name = slug, sv_description = None, sv_enabled = True,
     sv_kind = HTTP, sv_exposure = e, sv_upstream_peer_id = Some ''a'', sv_upstream_host = ''10.66.0.2'', sv_upstream_port = 80,
     sv_upstream_tls = False, sv_upstream_tls_verify = False, sv_internal_hostname = Some (slug @ ''.example.org''),
     sv_external_hostname = Some (slug @ ''.example.org''), sv_listen_port = None, sv_sni_hostname = None,
     sv_health_check = False, sv_health_check_interval = 30, sv_authenticators = auths,
     sv_filters = [\<lparr>sf_id = ''f'', sf_kind = IP_DENY, sf_scope = SCOPE_EXTERNAL, sf_enabled = True, sf_priority = 100,
       sf_values = [''203.0.113.0/24''], sf_rate = None, sf_period_seconds = None\<rparr>],
     sv_access = [], sv_tokens = [], sv_accounts = []\<rparr>"

text \<open>One service on both doors, for known devices inside and signed-in staff everywhere; another for
  known devices only.\<close>

definition demo_published :: db where
  "demo_published = demo_db\<lparr>services :=
     [demo_service ''wiki'' BOTH_DOORS [demo_auth ''1'' PEER_IDENTITY SCOPE_INTERNAL,
        (demo_auth ''2'' FOXGUARD_SSO SCOPE_BOTH)\<lparr>sa_group_ids := [''g'']\<rparr>],
      demo_service ''nas'' INTERNAL [demo_auth ''3'' PEER_IDENTITY SCOPE_INTERNAL]],
     sso_sessions := [\<lparr>ss_id = ''j2'', ss_user_id = ''u'', ss_source_ip = None, ss_user_agent = None, ss_expires_at = 5000,
       ss_revoked_at = Some 10\<rparr>]\<rparr>"

definition demo_web_settings :: settings where
  "demo_web_settings = demo_settings\<lparr>st_proxy := default_proxy\<lparr>px_enabled := True, px_domain := Some ''example.org'',
     px_external_binds := [''192.0.2.1''], px_sso_secret := Some ''0123456789abcdef0123456789abcdef''\<rparr>\<rparr>"

definition demo_proxy :: proxy_spec where
  "demo_proxy = build_proxy_spec 1000 demo_published demo_web_settings"

definition demo_wiki :: service where "demo_wiki = pp_services demo_proxy ! 1"
definition demo_nas :: service where "demo_nas = pp_services demo_proxy ! 0"

text \<open>A token of this library is its own list of claims: good signature or not, name, identifier.\<close>

definition demo_tokens :: tokens where
  "demo_tokens = \<lparr>jw_verify = (\<lambda>alg secret t. if t = ''good'' \<and> alg = ''HS256'' then 1 else -3),
     jw_int = (\<lambda>t path. if path = ''$.exp'' then Some 2000 else if path = ''$.admin'' then Some 0 else None),
     jw_text = (\<lambda>t path. if path = ''$.sub'' then Some (if t = ''good'' then ''alice'' else ''root'')
       else if path = ''$.jti'' then Some ''j1'' else if path = ''$.groups'' then Some '',staff,'' else None)\<rparr>"

definition demo_traffic :: "string \<Rightarrow> string option \<Rightarrow> traffic" where
  "demo_traffic src cookie = \<lparr>hq_src = (case ip_address src of Some a \<Rightarrow> a | None \<Rightarrow> IP4 0), hq_country = None, hq_cookie = cookie,
     hq_token = [], hq_opens = (\<lambda>_. False), hq_rate = 0, hq_now = 1000\<rparr>"

definition demo_run :: "string \<Rightarrow> string option \<Rightarrow> proxy_run" where
  "demo_run src cookie = \<lparr>pr_spec = demo_proxy, pr_files = projr (render_files demo_proxy), pr_tokens = demo_tokens,
     pr_request = demo_traffic src cookie\<rparr>"

lemma demo_validates: "validate_proxy_spec demo_proxy = Inr ()"
  by code_simp

lemma demo_proxy_renders: "render_files demo_proxy = Inr (projr (render_files demo_proxy))"
proof -
  have "\<not> isl (render_files demo_proxy)" by code_simp
  then show ?thesis by (cases "render_files demo_proxy") simp_all
qed

lemma demo_tidy: "tidy demo_proxy"
  unfolding tidy_def by code_simp

lemma demo_services: "length (pp_services demo_proxy) = 2" "PEER_SET \<in> set_names demo_proxy"
  unfolding set_names_def by code_simp+

lemma demo_served:
  "served (demo_run src cookie) demo_wiki" "served (demo_run src cookie) demo_nas"
  using demo_validates demo_proxy_renders demo_tidy demo_services
  by (simp_all add: served_def demo_run_def demo_wiki_def demo_nas_def)

section \<open>The door\<close>

text \<open>
  C2: the generated configuration lets a request through a door exactly when the specification does. The lines
  of a service are the spelling of its rules, and running those rules against the
  generated files forwards a request if and only if every filter of that door passes, no access rule
  denies and one allows if there are any, and some authenticator of that door accepts the
  caller (or the door is declared public). For doors with at most one sign-on authenticator.
\<close>

theorem proxy_door_decides:
  assumes "served c s" and "needs_hostname s e" and "e \<noteq> BOTH_DOORS"
    and "length (filter (\<lambda>a. xn_kind a = FOXGUARD_SSO) (auth_for s e)) \<le> 1"
  shows "service_rules (pr_spec c) s e g = map (rule_text (pr_spec c) s g) (service_rule_list (pr_spec c) s e) \<and>
    (forwards c s e \<longleftrightarrow> lets_through (pr_spec c) (pr_tokens c) (pr_request c) s e)"
  using service_rules_text door_decides [OF assms] by blast

text \<open>From outside, a valid session of the group gets in, a token with a bad signature does not.\<close>

theorem proxy_door_decides_witness:
  "forwards (demo_run ''198.51.100.7'' (Some ''good'')) demo_wiki EXTERNAL \<and>
   \<not> forwards (demo_run ''198.51.100.7'' (Some ''bad'')) demo_wiki EXTERNAL \<and>
   \<not> forwards (demo_run ''203.0.113.9'' (Some ''good'')) demo_wiki EXTERNAL"
proof -
  have n: "needs_hostname demo_wiki EXTERNAL" by code_simp
  have o: "length (filter (\<lambda>a. xn_kind a = FOXGUARD_SSO) (auth_for demo_wiki EXTERNAL)) \<le> 1" by code_simp
  have d: "forwards (demo_run src ck) demo_wiki EXTERNAL \<longleftrightarrow> lets_through demo_proxy demo_tokens (demo_traffic src ck) demo_wiki EXTERNAL" for src ck
    using proxy_door_decides [OF demo_served(1) n _ o] by (simp add: demo_run_def)
  have "lets_through demo_proxy demo_tokens (demo_traffic ''198.51.100.7'' (Some ''good'')) demo_wiki EXTERNAL"
    "\<not> lets_through demo_proxy demo_tokens (demo_traffic ''198.51.100.7'' (Some ''bad'')) demo_wiki EXTERNAL"
    "\<not> lets_through demo_proxy demo_tokens (demo_traffic ''203.0.113.9'' (Some ''good'')) demo_wiki EXTERNAL"
    by code_simp+
  then show ?thesis by (simp add: d)
qed

section \<open>Who the upstream is told is calling\<close>

lemma door_user_header:
  assumes "served c s" and "needs_hostname s e" and "e \<noteq> BOTH_DOORS" and "pv_kind s = HTTP"
    and "length (filter (\<lambda>a. xn_kind a = FOXGUARD_SSO) (auth_for s e)) \<le> 1"
    and "a \<in> set (auth_for s e)" and "xn_kind a = FOXGUARD_SSO" and "\<forall>a\<in>set (auth_for s e). xn_kind a \<noteq> PUBLIC"
    and "at_door c s e = Some (vs, hs)"
  shows "map_of hs ''X-Foxguard-User'' = cookie_claim c (\<lambda>t. jw_text (pr_tokens c) t ''$.sub'')"
proof -
  have "door_start c e = (fst (door_start c e), [])" by (simp add: door_start_def)
  then have "run c s (auth_rule_list (pr_spec c) s e) (fst (door_start c e), []) = Some (vs, hs)"
    using at_door_auth [OF assms(1, 9)] by simp
  moreover have "\<not> list_ex (\<lambda>a. xn_kind a = PUBLIC) (auth_for s e)" using assms(8) by (auto simp: list_ex_iff)
  ultimately show ?thesis using user_header [OF assms(1-4) start_fresh assms(5-7)] by blast
qed

text \<open>
  C34: the name a service is told is only as good as the door's other authenticators. On a door with a sign-on
  authenticator, every request that is forwarded, for whatever reason, carries the name in its
  cookie, signature checked or not. Where sign-on is the door's only authenticator the cookie
  is a valid session. Where a device is also let in by its address, it may put
  any name into a cookie of its own and the service is told that name: the witness sends a token with a
  bad signature that says ``root''.
\<close>

theorem user_name_is_the_cookies:
  assumes "served c s" and "needs_hostname s e" and "e \<noteq> BOTH_DOORS" and "pv_kind s = HTTP"
    and "length (filter (\<lambda>a. xn_kind a = FOXGUARD_SSO) (auth_for s e)) \<le> 1"
    and "a \<in> set (auth_for s e)" and "xn_kind a = FOXGUARD_SSO" and "\<forall>a\<in>set (auth_for s e). xn_kind a \<noteq> PUBLIC"
    and "at_door c s e = Some (vs, hs)"
  shows "map_of hs ''X-Foxguard-User'' = cookie_claim c (\<lambda>t. jw_text (pr_tokens c) t ''$.sub'') \<and>
    ((\<forall>b\<in>set (auth_for s e). xn_kind b = FOXGUARD_SSO) \<longrightarrow>
       (\<exists>t. hq_cookie (pr_request c) = Some t \<and> valid_session (pr_spec c) (pr_tokens c) (pr_request c) t))"
proof (intro conjI impI)
  show "map_of hs ''X-Foxguard-User'' = cookie_claim c (\<lambda>t. jw_text (pr_tokens c) t ''$.sub'')"
    using assms by (rule door_user_header)
  assume only: "\<forall>b\<in>set (auth_for s e). xn_kind b = FOXGUARD_SSO"
  have "lets_through (pr_spec c) (pr_tokens c) (pr_request c) s e"
    using door_decides [OF assms(1-3, 5)] assms(9) by (simp add: forwards_def)
  then obtain b where b: "b \<in> set (auth_for s e)" "accepts (pr_spec c) (pr_tokens c) (pr_request c) s b"
    using assms(8) by (auto simp: lets_through_def authenticated_def list_ex_iff)
  then show "\<exists>t. hq_cookie (pr_request c) = Some t \<and> valid_session (pr_spec c) (pr_tokens c) (pr_request c) t"
    using only by (auto simp: accepts_def split: option.splits)
qed

theorem user_name_is_the_cookies_witness:
  "\<exists>vs hs. at_door (demo_run ''10.66.0.2'' (Some ''bad'')) demo_wiki INTERNAL = Some (vs, hs) \<and>
     jw_verify demo_tokens ALGORITHM (pp_sso_secret demo_proxy) ''bad'' \<noteq> 1 \<and> map_of hs ''X-Foxguard-User'' = Some ''root''"
proof -
  let ?c = "demo_run ''10.66.0.2'' (Some ''bad'')"
  let ?sso = "pv_authenticators demo_wiki ! 1"
  have n: "needs_hostname demo_wiki INTERNAL" "pv_kind demo_wiki = HTTP"
    "length (filter (\<lambda>a. xn_kind a = FOXGUARD_SSO) (auth_for demo_wiki INTERNAL)) \<le> 1"
    "?sso \<in> set (auth_for demo_wiki INTERNAL)" "xn_kind ?sso = FOXGUARD_SSO"
    "\<forall>a\<in>set (auth_for demo_wiki INTERNAL). xn_kind a \<noteq> PUBLIC" by code_simp+
  have ad: "lets_through demo_proxy demo_tokens (demo_traffic ''10.66.0.2'' (Some ''bad'')) demo_wiki INTERNAL" by code_simp
  have "forwards ?c demo_wiki INTERNAL"
    using door_decides [OF demo_served(1) n(1) _ n(3)] ad by (simp add: demo_run_def)
  then obtain vs hs where r: "at_door ?c demo_wiki INTERNAL = Some (vs, hs)" by (auto simp: forwards_def)
  then have "map_of hs ''X-Foxguard-User'' = cookie_claim ?c (\<lambda>t. jw_text (pr_tokens ?c) t ''$.sub'')"
    using user_name_is_the_cookies [OF demo_served(1) n(1) _ n(2, 3, 4, 5, 6)] by blast
  moreover have "cookie_claim ?c (\<lambda>t. jw_text (pr_tokens ?c) t ''$.sub'') = Some ''root''"
    by (simp add: cookie_claim_def demo_run_def demo_traffic_def demo_tokens_def)
  moreover have "jw_verify demo_tokens ALGORITHM (pp_sso_secret demo_proxy) ''bad'' \<noteq> 1" by (simp add: demo_tokens_def)
  ultimately show ?thesis using r by simp
qed

section \<open>From the database to the door\<close>

lemma peer_set_members:
  "in_set (build_proxy_spec now d st) PEER_SET a \<longleftrightarrow> in_any a (concat (map tunnel_addresses (served_peers d)))"
proof -
  have "so_name s \<noteq> PEER_SET" if "s \<in> set (tl (source_sets d))" for s
    using that by (auto simp: source_sets_def PEER_SET_def set_name_def split: option.splits)
  then have "in_set p PEER_SET a \<longleftrightarrow> in_any a (so_members (hd (source_sets d)))"
    if "pp_source_sets p = source_sets d" for p :: proxy_spec
    using that by (auto simp: in_set_def list_ex_iff source_sets_def)
  then show ?thesis by (simp add: build_proxy_spec_def Let_def source_sets_def)
qed



end
