(* ===== verification/ProxyTotality.thy ===== *)
theory ProxyTotality
  imports ProxyProperties
begin

text \<open>
  Rendering the reverse proxy: whatever an administrator has written, the rendering either is
  nothing or a complete artefact, so it never stops the rest of the gateway's state.
\<close>

section \<open>Rendering does not raise\<close>

lemma sorted_by_addr_ok:
  assumes "\<And>x. x \<in> set xs \<Longrightarrow> is_address_or_cidr (f x)"
  shows "\<exists>ys. sorted_by_addr f xs = Inr ys"
proof -
  have "mapR (addr_key \<circ> f) xs = Inr (map (\<lambda>x. net_key (the (ip_network (f x)))) xs)"
  proof (rule mapR_Inr)
    fix x assume "x \<in> set xs"
    then obtain n where "ip_network (f x) = Some n" using assms by (auto simp: is_address_or_cidr_def)
    then show "(addr_key \<circ> f) x = Inr (net_key (the (ip_network (f x))))" by (simp add: addr_key_def)
  qed
  then show ?thesis by (simp add: sorted_by_addr_def del: mapR.simps)
qed

lemma sets_members:
  assumes "foldR validate_source_set seen ss = Inr seen'" and "s \<in> set ss" and "x \<in> set (so_members s)"
  shows "is_address_or_cidr x"
proof -
  obtain u v where "validate_source_set u s = Inr v" using foldR_append_inv [OF assms(1, 2)] by blast
  then obtain y where "all_checks ([require (SET_NAME_RE (so_name s)) (BadSetName (so_name s)),
      require (so_name s \<notin> u) (SetTwice (so_name s))] @
     map (\<lambda>x. require (is_address_or_cidr x) (BadSetMember (so_name s) x)) (so_members s)) = Inr y"
    by (auto simp: validate_source_set_def simp del: all_checks.simps)
  then have "\<forall>q\<in>set (map (\<lambda>x. require (is_address_or_cidr x) (BadSetMember (so_name s) x)) (so_members s)). q = Inr ()"
    by (simp add: all_checks_ok)
  then show ?thesis using assms(3) by simp
qed

lemma validated_members:
  assumes "validate_proxy_spec p = Inr ()" and "s \<in> set (pp_source_sets p)" and "x \<in> set (so_members s)"
  shows "is_address_or_cidr x"
proof -
  have "validate_source_sets p = Inr ()" using assms(1) by (auto simp: validate_proxy_spec_def simp del: foldR.simps)
  then obtain seen where "foldR validate_source_set {} (pp_source_sets p) = Inr seen"
    by (auto simp: validate_source_sets_def simp del: foldR.simps)
  then show ?thesis using sets_members assms(2, 3) by blast
qed

lemma concatR_ok: "(\<And>x. x \<in> set xs \<Longrightarrow> \<exists>ys. f x = Inr ys) \<Longrightarrow> \<exists>ys. concatR f xs = Inr ys"
proof -
  assume a: "\<And>x. x \<in> set xs \<Longrightarrow> \<exists>ys. f x = Inr ys"
  have "f x = Inr (projr (f x))" if "x \<in> set xs" for x
  proof -
    have "\<exists>ys. f x = Inr ys" using a that by blast
    then show ?thesis by auto
  qed
  then have "concatR f xs = Inr (concat (map (\<lambda>x. projr (f x)) xs))" by (rule concatR_Inr)
  then show ?thesis ..
qed

lemma filter_text_ok:
  assumes "validate_filter s f = Inr ()" and "fi_kind f \<in> {IP_ALLOW, IP_DENY}"
  shows "\<exists>t. render_ipfilter_file f = Inr t"
proof -
  have "\<forall>q\<in>set (map (\<lambda>v. require (is_address_or_cidr v) (BadFilterAddress (pv_slug s) v)) (fi_values f)). q = Inr ()"
    using assms by (auto simp: validate_filter_def all_checks_ok)
  then have "\<exists>ys. sorted_by_addr id (fi_values f) = Inr ys" by (intro sorted_by_addr_ok) simp
  then show ?thesis by (auto simp: render_ipfilter_file_def)
qed

lemma service_files_ok:
  assumes "validate_policy p s = Inr ()"
  shows "\<exists>fs. service_files s = Inr fs"
proof -
  have w: "validate_filter s f = Inr ()" if "(i, f) \<in> set (enumerate 0 (pv_filters s))" for i f
    using assms that by (auto simp: validate_policy_def all_checks_ok in_set_enumerate_eq)
  have "\<exists>fs. filter_files s = Inr fs" unfolding filter_files_def
  proof (rule concatR_ok)
    fix it assume it: "it \<in> set (enumerate 0 (pv_filters s))"
    obtain i f where "it = (i, f)" by fastforce
    then show "\<exists>ys. (case it of (i, f) \<Rightarrow> if fi_kind f \<in> {IP_ALLOW, IP_DENY}
        then bindR (render_ipfilter_file f) (\<lambda>t. Inr [(ipfilter_file (pv_slug s) i, t)]) else Inr []) = Inr ys"
      using filter_text_ok [OF w, of i f] it by fastforce
  qed
  then show ?thesis by (auto simp: service_files_def)
qed

lemma render_files_ok:
  assumes v: "validate_proxy_spec p = Inr ()"
    and a: "\<And>i. i \<in> set (pp_peers p) \<Longrightarrow> is_address_or_cidr (pi_address i)"
  shows "\<exists>files. render_files p = Inr files"
proof -
  have "\<exists>t. bindR (render_set_file s) (\<lambda>t. Inr (set_file (so_name s), t)) = Inr t" if "s \<in> set (pp_source_sets p)" for s
  proof -
    have "\<exists>ys. sorted_by_addr id (so_members s) = Inr ys"
      by (rule sorted_by_addr_ok) (use validated_members [OF v that] in simp)
    then show ?thesis by (auto simp: render_set_file_def)
  qed
  then have "mapR (\<lambda>s. bindR (render_set_file s) (\<lambda>t. Inr (set_file (so_name s), t))) (pp_source_sets p) =
      Inr (map (\<lambda>s. projr (bindR (render_set_file s) (\<lambda>t. Inr (set_file (so_name s), t)))) (pp_source_sets p))"
    by (intro mapR_Inr) (metis sum.sel(2))
  moreover obtain served where "concatR service_files (pp_services p) = Inr served"
    using concatR_ok [of "pp_services p" service_files] service_files_ok validated_policy [OF v] by blast
  moreover obtain ps where "sorted_by_addr pi_address (pp_peers p) = Inr ps"
    using sorted_by_addr_ok [of "pp_peers p" pi_address] a by blast
  ultimately show ?thesis
    by (simp add: render_files_def render_peers_map_def render_groups_map_def del: mapR.simps)
qed

lemma built_peers:
  assumes "validate_proxy_spec (build_proxy_spec now d st) = Inr ()" and "i \<in> set (pp_peers (build_proxy_spec now d st))"
  shows "is_address_or_cidr (pi_address i)"
proof -
  have "pi_address i \<in> set (concat (map tunnel_addresses (served_peers d)))"
    using assms(2) by (auto simp: build_proxy_spec_def Let_def peer_identities_def)
  then have "\<exists>s\<in>set (pp_source_sets (build_proxy_spec now d st)). pi_address i \<in> set (so_members s)"
    by (simp add: build_proxy_spec_def Let_def source_sets_def)
  then show ?thesis using validated_members [OF assms(1)] by blast
qed

text \<open>
  C16: a hand-written service can never break the gateway. Whatever the database holds, asking for the proxy's
  configuration for the agent raises nothing: it is absent exactly when the proxy is off or the
  specification is invalid, and otherwise complete.
\<close>

theorem proxy_never_breaks_the_gateway:
  "\<exists>r. proxy_or_none sha now d st = Inr r \<and>
     (r \<noteq> None) = (px_enabled (st_proxy st) \<and> validate_proxy_spec (build_proxy_spec now d st) = Inr ())"
proof (cases "validate_proxy_spec (build_proxy_spec now d st)")
  case (Inl e)
  then show ?thesis by (simp add: proxy_or_none_def render_proxy_def Let_def render_proxy_conf_def)
next
  case (Inr u)
  then have v: "validate_proxy_spec (build_proxy_spec now d st) = Inr ()" by simp
  obtain files where "render_files (build_proxy_spec now d st) = Inr files"
    using render_files_ok [OF v] built_peers [OF v] by blast
  then show ?thesis by (simp add: proxy_or_none_def render_proxy_def Let_def render_proxy_conf_def v)
qed

section \<open>Every file that is named is written\<close>

fun condition_files :: "condition \<Rightarrow> string list" where
  "condition_files (SrcIn f) = [f]"
| "condition_files GroupsKnown = [GROUPS_MAP_FILE]"
| "condition_files _ = []"

fun statement_files :: "service \<Rightarrow> statement \<Rightarrow> string list" where
  "statement_files s (SetVar v (RevokedEntry j)) = [SSO_REVOKED_FILE]"
| "statement_files s (SetVar v TokenEntry) = [token_file (pv_slug s)]"
| "statement_files s (SetHeader h FromGroups) = [GROUPS_MAP_FILE]"
| "statement_files s _ = []"

definition rule_files :: "service \<Rightarrow> rule list \<Rightarrow> string list" where
  "rule_files s rs = concat (map (\<lambda>r. statement_files s (fst r) @ concat (map (condition_files \<circ> snd) (snd r))) rs)"

text \<open>All files the configuration names under the directory of the maps, but the map of countries, which the
  gateway makes itself.\<close>

definition named_files :: "proxy_spec \<Rightarrow> string list" where
  "named_files p = [DEFAULT_ERROR_FILE, PEERS_MAP_FILE] @ concat (map (\<lambda>s. error_file (pv_slug s) #
     rule_files s (service_rule_list p s INTERNAL) @ rule_files s (service_rule_list p s EXTERNAL)) (pp_services p))"

text \<open>Rules that name nothing outside a set.\<close>

definition names_in :: "string set \<Rightarrow> service \<Rightarrow> rule \<Rightarrow> bool" where
  "names_in ok s r \<longleftrightarrow> set (statement_files s (fst r)) \<subseteq> ok \<and> (\<forall>l\<in>set (snd r). set (condition_files (snd l)) \<subseteq> ok)"

lemma names_in_files: "set (rule_files s rs) \<subseteq> ok \<longleftrightarrow> (\<forall>r\<in>set rs. names_in ok s r)"
proof -
  have "set (rule_files s rs) = (\<Union>r\<in>set rs. set (statement_files s (fst r)) \<union> (\<Union>l\<in>set (snd r). set (condition_files (snd l))))"
    by (simp add: rule_files_def)
  then show ?thesis unfolding names_in_def by blast
qed

lemma names_in_parts [simp]:
  "names_in ok s (st, []) \<longleftrightarrow> set (statement_files s st) \<subseteq> ok"
  "names_in ok s (st, l # ls) \<longleftrightarrow> set (condition_files (snd l)) \<subseteq> ok \<and> names_in ok s (st, ls)"
  "names_in ok s (st, ls @ ms) \<longleftrightarrow> names_in ok s (st, ls) \<and> names_in ok s (st, ms)"
  by (auto simp: names_in_def)

lemma names_in_mono: "names_in a s r \<Longrightarrow> a \<subseteq> b \<Longrightarrow> names_in b s r"
  unfolding names_in_def by blast

lemma filter_names_in: "r \<in> set (filter_rule s (i, f)) \<Longrightarrow>
    names_in (if fi_kind f \<in> {IP_ALLOW, IP_DENY} then {ipfilter_file (pv_slug s) i} else {}) s r"
  by (auto simp: filter_rule_def split: filter_kind.splits if_splits)

lemma source_names_in:
  "source_of r = Some q \<Longrightarrow> f \<in> set (condition_files q) \<Longrightarrow> \<exists>x. xr_is_set r \<and> xr_source r = Some x \<and> f = set_file x"
  by (auto simp: source_of_def split: option.splits if_splits)

definition access_files :: "service \<Rightarrow> string set" where
  "access_files s = {set_file x |x. \<exists>r\<in>set (pv_access s). xr_is_set r \<and> xr_source r = Some x}"

lemma source_access:
  assumes "r \<in> set (pv_access s)" and "source_of r = Some q"
  shows "set (condition_files q) \<subseteq> access_files s"
  using source_names_in [OF assms(2)] assms(1) unfolding access_files_def by blast

lemma access_names_in:
  assumes "r \<in> set (access_rule_list s e)"
  shows "names_in (access_files s) s r"
proof -
  have sub: "x \<in> set (pv_access s)" if "x \<in> set (access_for s e)" for x
    using that by (auto simp: access_for_def split: if_splits)
  let ?allows = "filter (\<lambda>r. xr_action r = ALLOW) (access_for s e)"
  consider x where "x \<in> set (access_for s e)" "r = (Refuse, case source_of x of None \<Rightarrow> [] | Some c \<Rightarrow> [(True, c)])"
    | "list_all (\<lambda>r. source_of r \<noteq> None) ?allows" "r = (Refuse, map (\<lambda>r. (False, the (source_of r))) ?allows)"
    using assms unfolding access_rule_list_def Let_def by (auto split: if_splits)
  then show ?thesis
  proof cases
    case 1
    then show ?thesis using source_access [OF sub] by (auto split: option.splits)
  next
    case 2
    have "set (condition_files (the (source_of x))) \<subseteq> access_files s" if "x \<in> set ?allows" for x
    proof -
      obtain q where "source_of x = Some q" using 2(1) \<open>x \<in> set ?allows\<close> by (auto simp: list_all_iff)
      then show ?thesis using source_access [OF sub] that by auto
    qed
    then show ?thesis unfolding 2(2) names_in_def by auto
  qed
qed

definition auth_files :: "service \<Rightarrow> exposure \<Rightarrow> string set" where
  "auth_files s e = {SSO_REVOKED_FILE, GROUPS_MAP_FILE, set_file PEER_SET} \<union>
     (if list_ex (\<lambda>a. xn_kind a = BEARER) (auth_for s e) then {token_file (pv_slug s)} else {})"

lemma way_names_in: "w \<in> set (auth_literals s a) \<Longrightarrow> l \<in> set w \<Longrightarrow> set (condition_files (snd l)) \<subseteq> {set_file PEER_SET}"
  by (auto simp: auth_literals_def session_literals_def split: auth_kind.splits if_splits)

lemma session_names_in: "r \<in> set (session_rules s a) \<Longrightarrow> names_in {SSO_REVOKED_FILE} s r"
  by (auto simp: session_rules_def authz_rules_def split: if_splits)

lemma challenge_names_in: "r \<in> set (challenge_rules s as) \<Longrightarrow> names_in {} s r"
  by (auto simp: challenge_rules_def nobody_def session_literals_def split: option.splits if_splits)

lemma header_names_in: "r \<in> set (header_rules p s e as) \<Longrightarrow> names_in {GROUPS_MAP_FILE} s r"
  by (auto simp: header_rules_def split: if_splits)

lemma auth_names_in:
  assumes "r \<in> set (auth_rule_list p s e)"
  shows "names_in (auth_files s e) s r"
proof -
  let ?as = "auth_for s e"
  let ?ways = "concat (map (auth_literals s) ?as)"
  consider a where "r \<in> set (session_rules s a)"
    | "list_ex (\<lambda>a. xn_kind a = BEARER) ?as" "r = (SetVar (tagged ''fg_tok'' s) TokenEntry, [])"
    | "r = (SetInt ''fg_auth'' 0, [])"
    | w where "w \<in> set ?ways" "r = (SetInt ''fg_auth'' 1, w)"
    | "r \<in> set (challenge_rules s ?as)" | "r \<in> set (header_rules p s e ?as)"
    | "r = (Refuse, map (\<lambda>l. (\<not> fst l, snd l)) (concat ?ways))"
    using assms unfolding auth_rule_list_def Let_def by (auto split: if_splits option.splits)
  then show ?thesis
  proof cases
    case 1
    then show ?thesis by (rule names_in_mono [OF session_names_in]) (simp add: auth_files_def)
  next
    case 2
    then show ?thesis by (simp add: auth_files_def)
  next
    case 3
    then show ?thesis by simp
  next
    case 4
    then obtain a where "w \<in> set (auth_literals s a)" by auto
    from way_names_in [OF this] show ?thesis unfolding 4(2) names_in_def auth_files_def by auto
  next
    case 5
    then show ?thesis by (rule names_in_mono [OF challenge_names_in]) simp
  next
    case 6
    then show ?thesis by (rule names_in_mono [OF header_names_in]) (simp add: auth_files_def)
  next
    case 7
    have "set (condition_files (snd l)) \<subseteq> {set_file PEER_SET}" if l: "l \<in> set (concat ?ways)" for l
    proof -
      obtain a w where "w \<in> set (auth_literals s a)" "l \<in> set w" using l by auto
      then show ?thesis by (rule way_names_in)
    qed
    then show ?thesis unfolding 7 names_in_def auth_files_def by auto
  qed
qed

lemma dict_names: "x \<in> fst ` set (dict_of ws) \<longleftrightarrow> x \<in> fst ` set ws"
  using map_of_eq_None_iff [of "dict_of ws" x] map_of_eq_None_iff [of "rev ws" x] by (simp add: map_of_dict)

lemma written_fixed:
  assumes "render_files p = Inr files"
  shows "DEFAULT_ERROR_FILE \<in> fst ` set files" "PEERS_MAP_FILE \<in> fst ` set files" "GROUPS_MAP_FILE \<in> fst ` set files"
    and "s \<in> set (pp_services p) \<Longrightarrow> error_file (pv_slug s) \<in> fst ` set files"
proof -
  obtain sets entries pm gm where
      en: "concatR service_files (pp_services p) = Inr entries"
    and fi: "files = dict_of (sets @ entries @ [(SSO_REVOKED_FILE, render_revoked p),
         (DEFAULT_ERROR_FILE, render_default_error_page), (PEERS_MAP_FILE, pm), (GROUPS_MAP_FILE, gm)])"
    using assms by (rule written)
  have k: "x \<in> fst ` set files \<longleftrightarrow> x \<in> fst ` set (sets @ entries @ [(SSO_REVOKED_FILE, render_revoked p),
         (DEFAULT_ERROR_FILE, render_default_error_page), (PEERS_MAP_FILE, pm), (GROUPS_MAP_FILE, gm)])" for x
    unfolding fi by (rule dict_names)
  show "DEFAULT_ERROR_FILE \<in> fst ` set files" "PEERS_MAP_FILE \<in> fst ` set files" "GROUPS_MAP_FILE \<in> fst ` set files"
    by (auto simp: k)
  show "error_file (pv_slug s) \<in> fst ` set files" if s: "s \<in> set (pp_services p)"
  proof -
    obtain zs where "service_files s = Inr zs" using concatR_each [OF en \<open>s \<in> set (pp_services p)\<close>] by auto
    then have "(error_file (pv_slug s), render_error_page s) \<in> set entries"
      unfolding concatR_set [OF en]
      using s by (intro bexI [of _ s] exI [of _ zs]) (auto simp: service_files_def)
    then show ?thesis unfolding k by force
  qed
qed

lemma named_files_written:
  assumes v: "validate_proxy_spec p = Inr ()" and r: "render_files p = Inr files" and peer: "PEER_SET \<in> set_names p"
  shows "set (named_files p) \<subseteq> fst ` set files"
proof -
  have w: "k \<in> fst ` set files" if "map_of files k = Some t" for k t
    using map_of_SomeD [OF that] by force
  note fixed = written_fixed [OF r] w [OF lookup_revoked [OF r]]
  have sets: "set_file x \<in> fst ` set files" if x: "x \<in> set_names p" for x
  proof -
    obtain s where "s \<in> set (pp_source_sets p)" "so_name s = x" using x by (auto simp: set_names_def)
    then show ?thesis using lookup_set [OF r _ validated_sets [OF v]] w by metis
  qed
  have rules: "set (rule_files s (service_rule_list p s e)) \<subseteq> fst ` set files" if s: "s \<in> set (pp_services p)" for s e
  proof -
    note pol = validated_policy [OF v s, unfolded validate_policy_def all_checks_ok]
    have "names_in (fst ` set files) s r" if "r \<in> set (filter_rule s (i, f))" "(i, f) \<in> set (enumerate 0 (pv_filters s))" for r i f
    proof (rule names_in_mono [OF filter_names_in [OF that(1)]])
      show "(if fi_kind f \<in> {IP_ALLOW, IP_DENY} then {ipfilter_file (pv_slug s) i} else {}) \<subseteq> fst ` set files"
        using lookup_filter [OF r s validated_distinct [OF v] that(2)] w by auto
    qed
    moreover have "names_in (fst ` set files) s r" if "r \<in> set (access_rule_list s e)" for r
    proof (rule names_in_mono [OF access_names_in [OF that]])
      show "access_files s \<subseteq> fst ` set files"
      proof
        fix k assume "k \<in> access_files s"
        then obtain x a where "k = set_file x" "a \<in> set (pv_access s)" "xr_is_set a" "xr_source a = Some x"
          by (auto simp: access_files_def)
        moreover have "validate_access p s a = Inr ()" using pol \<open>a \<in> set (pv_access s)\<close> by auto
        ultimately show "k \<in> fst ` set files" using sets peer by (auto simp: validate_access_def)
      qed
    qed
    moreover have "names_in (fst ` set files) s r" if "r \<in> set (auth_rule_list p s e)" for r
    proof (rule names_in_mono [OF auth_names_in [OF that]])
      have "token_file (pv_slug s) \<in> fst ` set files" if b: "list_ex (\<lambda>a. xn_kind a = BEARER) (auth_for s e)"
      proof -
        obtain a where "a \<in> set (pv_authenticators s)" "xn_kind a = BEARER"
          using b by (auto simp: list_ex_iff auth_for_def)
        moreover have "validate_authenticator p s a = Inr ()" using pol calculation(1) by auto
        ultimately have "pv_token_hashes s \<noteq> []" by (auto simp: validate_authenticator_def all_checks_ok)
        then show ?thesis using lookup_tokens [OF r s validated_distinct [OF v]] w by blast
      qed
      then show "auth_files s e \<subseteq> fst ` set files" using fixed sets [OF peer] by (auto simp: auth_files_def)
    qed
    ultimately show ?thesis unfolding names_in_files service_rule_list_def by auto
  qed
  show ?thesis unfolding named_files_def using fixed rules [THEN subsetD] by auto
qed



end
