(* ===== verification/ServicesProperties.thy ===== *)
theory ServicesProperties
  imports ServicesApi ProxyProperties ProxyTotality MachineProperties
begin

text \<open>
  Publishing through the API: what a request that succeeds leaves behind.
\<close>

section \<open>The requests\<close>

datatype service_request =
    Publish service_create
  | Change string service_update
  | Unpublish string
  | AddAuth string auth_create
  | DropAuth string string
  | AddFilter string filter_create
  | DropFilter string string
  | AddAccess string access_create
  | DropAccess string string
  | AddToken string token_create
  | DropToken string string
  | AddAccount string string
  | DropAccount string string
  | EndSession string

text \<open>The database a request leaves, whatever it answers.\<close>

fun serve_request ::
  "request \<Rightarrow> (nat \<Rightarrow> string) \<Rightarrow> (string \<Rightarrow> string) \<Rightarrow> settings \<Rightarrow> service_request \<Rightarrow> db \<Rightarrow> (http_exn, db) result" where
  "serve_request rq fresh crypt st (Publish p) d = bindR (create_service rq fresh st p d) (\<lambda>x. Inr (snd x))"
| "serve_request rq fresh crypt st (Change i p) d = bindR (update_service rq st i p d) (\<lambda>x. Inr (snd x))"
| "serve_request rq fresh crypt st (Unpublish i) d = delete_service rq st i d"
| "serve_request rq fresh crypt st (AddAuth i p) d = bindR (add_authenticator rq st i p d) (\<lambda>x. Inr (snd x))"
| "serve_request rq fresh crypt st (DropAuth i k) d = bindR (remove_authenticator rq st i k d) (\<lambda>x. Inr (snd x))"
| "serve_request rq fresh crypt st (AddFilter i p) d = bindR (add_filter rq st i p d) (\<lambda>x. Inr (snd x))"
| "serve_request rq fresh crypt st (DropFilter i k) d = bindR (remove_filter rq st i k d) (\<lambda>x. Inr (snd x))"
| "serve_request rq fresh crypt st (AddAccess i p) d = bindR (add_access_rule rq st i p d) (\<lambda>x. Inr (snd x))"
| "serve_request rq fresh crypt st (DropAccess i k) d = bindR (remove_access_rule rq st i k d) (\<lambda>x. Inr (snd x))"
| "serve_request rq fresh crypt st (AddToken i p) d = bindR (create_token rq st i p d) (\<lambda>x. Inr (snd x))"
| "serve_request rq fresh crypt st (DropToken i k) d = revoke_token rq st i k d"
| "serve_request rq fresh crypt st (AddAccount i n) d = bindR (create_account rq crypt st i n d) (\<lambda>x. Inr (snd x))"
| "serve_request rq fresh crypt st (DropAccount i k) d = delete_account rq st i k d"
| "serve_request rq fresh crypt st (EndSession i) d = revoke_sso_session rq st i d"

text \<open>A request that leaves each service behind the peer it had.\<close>

fun keeps_peer :: "db \<Rightarrow> service_request \<Rightarrow> bool" where
  "keeps_peer d (Change i p) = (case service_or_404 d i of Inl e \<Rightarrow> True
     | Inr v \<Rightarrow> set_opt (vu_upstream_peer_id p) (sv_upstream_peer_id v) = sv_upstream_peer_id v)"
| "keeps_peer d r = True"

section \<open>What the specification depends on\<close>

definition same_published :: "db \<Rightarrow> db \<Rightarrow> bool" where
  "same_published d d' \<longleftrightarrow> peers d' = peers d \<and> groups d' = groups d \<and> services d' = services d \<and>
     sso_sessions d' = sso_sessions d"

lemma same_published_spec:
  assumes "same_published d d'"
  shows "build_proxy_spec now d' st = build_proxy_spec now d st"
proof -
  have e: "peers d' = peers d" "groups d' = groups d" "services d' = services d" "sso_sessions d' = sso_sessions d"
    using assms by (simp_all add: same_published_def)
  have u: "upstream_peer d' = upstream_peer d" by (intro ext) (simp add: upstream_peer_def e split: option.split)
  have g: "group_by_id d' = group_by_id d" by (intro ext) (unfold group_by_id_def e, rule refl)
  have dr: "doors_for d' st = doors_for d st" by (intro ext) (simp add: doors_for_def u)
  have sv: "served_peers d' = served_peers d" by (simp add: served_peers_def e)
  have pg: "peer_groups d' = peer_groups d" by (intro ext) (simp add: peer_groups_def e)
  have a: "project_auth d' = project_auth d" by (intro ext) (simp add: project_auth_def e)
  have x: "project_access d' = project_access d" by (intro ext) (simp add: project_access_def g cong: endpoint_kind.case_cong)
  have ps: "project_service d' = project_service d" by (intro ext) (simp add: project_service_def u a x)
  have gm: "inside_group d' = inside_group d" by (intro ext) (simp add: inside_group_def e)
  have w: "wanted_slugs d' = wanted_slugs d" by (unfold wanted_slugs_def e g, rule refl)
  have ss: "source_sets d' = source_sets d" by (unfold source_sets_def e sv gm w, rule refl)
  have pi: "peer_identities d' = peer_identities d" by (unfold peer_identities_def sv pg, rule refl)
  have rj: "revoked_jtis now d' = revoked_jtis now d" by (simp add: revoked_jtis_def e)
  show ?thesis by (unfold build_proxy_spec_def Let_def dr ps ss by_slug_def e pi rj, rule refl)
qed

lemma same_published_audit [simp]:
  "same_published d (audit_as rq act ty i detail d') \<longleftrightarrow> same_published d d'"
  "same_published d (service_entry rq act k d') \<longleftrightarrow> same_published d d'"
  by (simp_all add: same_published_def audit_as_def service_entry_def audit_record_def split: option.split)

lemma regenerate_published:
  assumes "regenerate_or_422 rq st g d = Inr d'"
  shows "same_published d d'"
proof -
  have "sso_sessions d' = sso_sessions d"
    using assms unfolding regenerate_or_422_def regenerate_def
    by (auto simp: store_version_def Let_def split: sum.splits prod.splits render_error.splits gen_exn.splits if_splits option.splits)
  then show ?thesis using regenerate_or_422_rest [OF assms] by (simp add: same_published_def)
qed

section \<open>The check\<close>

lemma check_valid: "proxy_check say st now d = None \<longleftrightarrow> validate_proxy_spec (build_proxy_spec now d st) = Inr ()"
proof (cases "validate_proxy_spec (build_proxy_spec now d st)")
  case (Inl e)
  then show ?thesis by (simp add: proxy_check_def render_proxy_def Let_def render_proxy_conf_def)
next
  case (Inr u)
  then have v: "validate_proxy_spec (build_proxy_spec now d st) = Inr ()" by simp
  obtain files where "render_files (build_proxy_spec now d st) = Inr files"
    using render_files_ok [OF v] built_peers [OF v] by blast
  then show ?thesis by (simp add: proxy_check_def render_proxy_def Let_def render_proxy_conf_def v)
qed

lemma regenerate_checks:
  assumes "regenerate_or_422 rq st g d = Inr d'" and "px_enabled (st_proxy st)"
    and "rq_proxy_check rq = proxy_check say st (rq_now rq)"
  shows "validate_proxy_spec (build_proxy_spec (rq_now rq) d st) = Inr ()"
proof -
  have "rq_proxy_check rq d' = None"
    using assms(1, 2) unfolding regenerate_or_422_def
    by (auto split: sum.splits prod.splits render_error.splits gen_exn.splits if_splits option.splits)
  then show ?thesis using same_published_spec [OF regenerate_published [OF assms(1)]] by (simp add: assms(3) check_valid)
qed

section \<open>The database's spelling of an address\<close>

definition plain_address :: "string \<Rightarrow> bool" where
  "plain_address h \<longleftrightarrow> is_address_or_cidr h \<and> CHR ''/'' \<notin> set h"

definition rehosted :: "(service \<Rightarrow> string) \<Rightarrow> service \<Rightarrow> service" where
  "rehosted h s = s\<lparr>pv_backend := (pv_backend s)\<lparr>bk_address := h s\<rparr>\<rparr>"

lemma rehosted_simps [simp]:
  "pv_slug (rehosted h s) = pv_slug s" "pv_kind (rehosted h s) = pv_kind s" "pv_exposure (rehosted h s) = pv_exposure s"
  "pv_authenticators (rehosted h s) = pv_authenticators s" "pv_filters (rehosted h s) = pv_filters s"
  "pv_access (rehosted h s) = pv_access s" "pv_token_hashes (rehosted h s) = pv_token_hashes s"
  "pv_accounts (rehosted h s) = pv_accounts s" "pv_listen_port (rehosted h s) = pv_listen_port s"
  "pv_sni_hostname (rehosted h s) = pv_sni_hostname s" "pv_internal_hostname (rehosted h s) = pv_internal_hostname s"
  "pv_external_hostname (rehosted h s) = pv_external_hostname s"
  "bk_address (pv_backend (rehosted h s)) = h s" "bk_port (pv_backend (rehosted h s)) = bk_port (pv_backend s)"
  by (simp_all add: rehosted_def)

lemma rehosted_door [simp]:
  "needs_hostname (rehosted h s) = needs_hostname s" "hostname_at (rehosted h s) = hostname_at s"
  "auth_for (rehosted h s) = auth_for s"
  by (intro ext; simp add: needs_hostname_def hostname_at_def auth_for_def)+

lemma rehosted_policy: "validate_policy p (rehosted h s) = validate_policy p s"
proof -
  have "validate_authenticator p (rehosted h s) = validate_authenticator p s"
    "validate_filter (rehosted h s) = validate_filter s" "validate_access p (rehosted h s) = validate_access p s"
    "validate_account (rehosted h s) = validate_account s" "validate_door (rehosted h s) = validate_door s"
    by (intro ext; unfold validate_authenticator_def validate_filter_def validate_access_def validate_account_def
        validate_door_def rehosted_simps rehosted_door; rule refl)+
  then show ?thesis by (simp add: validate_policy_def del: all_checks.simps)
qed

lemma rehosted_claims: "claim_hostname (rehosted h s) = claim_hostname s" "claim_port (rehosted h s) = claim_port s"
  by (intro ext; unfold claim_hostname_def claim_port_def rehosted_simps rehosted_door; rule refl)+

lemma rehosted_kinds:
  "validate_http_service (rehosted h s) = validate_http_service s"
  "validate_tcp_service (rehosted h s) = validate_tcp_service s"
  by (intro ext; unfold validate_http_service_def validate_tcp_service_def check_hostname_def rehosted_claims
      rehosted_simps rehosted_door; rule refl)+

lemma rehosted_service:
  assumes "validate_service p sn s = Inr sn'" and "plain_address (bk_address (pv_backend s)) \<Longrightarrow> plain_address (h s)"
  shows "validate_service p sn (rehosted h s) = Inr sn'"
proof -
  have "plain_address (bk_address (pv_backend s))"
    using assms(1) by (auto simp: validate_service_def plain_address_def simp del: foldR.simps)
  then have "plain_address (h s)" by (rule assms(2))
  then show ?thesis using assms(1)
    by (auto simp: validate_service_def plain_address_def rehosted_kinds rehosted_policy simp del: foldR.simps)
qed

lemma rehosted_services:
  assumes "foldR (validate_service p) sn ss = Inr sn'"
    and "\<And>s. s \<in> set ss \<Longrightarrow> plain_address (bk_address (pv_backend s)) \<Longrightarrow> plain_address (h s)"
  shows "foldR (validate_service p) sn (map (rehosted h) ss) = Inr sn'"
  using assms
proof (induction ss arbitrary: sn)
  case (Cons s ss)
  obtain s1 where s1: "validate_service p sn s = Inr s1" "foldR (validate_service p) s1 ss = Inr sn'"
    using Cons.prems(1) by auto
  have "validate_service p sn (rehosted h s) = Inr s1"
    by (rule rehosted_service [OF s1(1)]) (use Cons.prems(2) in simp)
  then show ?case using Cons.IH [OF s1(2)] Cons.prems(2) by simp
qed simp

text \<open>The specification with other addresses for some services.\<close>

lemma rehosted_spec:
  assumes "validate_proxy_spec p = Inr ()"
    and "\<And>s. s \<in> set (pp_services p) \<Longrightarrow> plain_address (bk_address (pv_backend s)) \<Longrightarrow> plain_address (h s)"
  shows "validate_proxy_spec (p\<lparr>pp_services := map (rehosted h) (pp_services p)\<rparr>) = Inr ()" (is "validate_proxy_spec ?q = _")
proof -
  have q: "pp_runtime_socket ?q = pp_runtime_socket p" "pp_certs_dir ?q = pp_certs_dir p" "pp_maps_dir ?q = pp_maps_dir p"
    "pp_internal_binds ?q = pp_internal_binds p" "pp_external_binds ?q = pp_external_binds p" "pp_domain ?q = pp_domain p"
    "validate_source_sets ?q = validate_source_sets p" "publishes_dashboard ?q = publishes_dashboard p"
    "validate_dashboard ?q = validate_dashboard p" "first_claims ?q = first_claims p"
    "spec_has_internal ?q = spec_has_internal p" "spec_has_external ?q = spec_has_external p"
    "pp_extra_options ?q = pp_extra_options p"
    by (simp_all add: validate_source_sets_def publishes_dashboard_def validate_dashboard_def first_claims_def
        spec_has_internal_def spec_has_external_def list_ex_iff)
  have s: "validate_service ?q = validate_service p"
  proof -
    have "validate_policy ?q = validate_policy p"
    proof -
      have "validate_authenticator ?q = validate_authenticator p" by (intro ext) (simp add: validate_authenticator_def)
      moreover have "validate_access ?q = validate_access p" by (intro ext) (simp add: validate_access_def set_names_def)
      ultimately show ?thesis by (intro ext) (simp add: validate_policy_def)
    qed
    then show ?thesis by (intro ext) (simp add: validate_service_def)
  qed
  obtain sn where "foldR (validate_service p) (first_claims p) (pp_services p) = Inr sn"
    using assms(1) by (auto simp: validate_proxy_spec_def simp del: foldR.simps)
  from rehosted_services [OF this assms(2)]
  have f: "foldR (validate_service ?q) (first_claims p) (map (rehosted h) (pp_services p)) = Inr sn" unfolding s .
  show ?thesis
    using assms(1) f unfolding validate_proxy_spec_def q
    by (auto simp del: foldR.simps all_checks.simps simp: bindR_Inr_iff)
qed

definition respelt :: "string \<Rightarrow> string \<Rightarrow> service_row \<Rightarrow> service_row" where
  "respelt slug t v = v\<lparr>sv_upstream_host := (if sv_slug v = slug then t else sv_upstream_host v)\<rparr>"

lemma respelt_simps [simp]:
  "sv_slug (respelt slug t v) = sv_slug v" "sv_access (respelt slug t v) = sv_access v"
  "sv_id (respelt slug t v) = sv_id v" "upstream_peer d (respelt slug t v) = upstream_peer d v"
  "sv_exposure (respelt slug t v) = sv_exposure v" "sv_enabled (respelt slug t v) = sv_enabled v"
  by (simp_all add: respelt_def upstream_peer_def)

lemma sort_key_through_map:
  assumes "\<And>x. f (g x) = f x"
  shows "sort_key f (map g xs) = map g (sort_key f xs)"
proof -
  have "insort_key f (g x) (map g ys) = map g (insort_key f x ys)" for x ys
    by (induction ys) (simp_all add: assms)
  then show ?thesis by (induction xs) (simp_all add: sort_key_def)
qed

lemma services_only [simp]:
  "upstream_peer (d\<lparr>services := vs\<rparr>) = upstream_peer d" "doors_for (d\<lparr>services := vs\<rparr>) = doors_for d"
  "served_peers (d\<lparr>services := vs\<rparr>) = served_peers d" "group_by_id (d\<lparr>services := vs\<rparr>) = group_by_id d"
  "peer_identities (d\<lparr>services := vs\<rparr>) = peer_identities d" "inside_group (d\<lparr>services := vs\<rparr>) = inside_group d"
  "project_auth (d\<lparr>services := vs\<rparr>) = project_auth d" "revoked_jtis now (d\<lparr>services := vs\<rparr>) = revoked_jtis now d"
  "project_access (d\<lparr>services := vs\<rparr>) = project_access d" "project_service (d\<lparr>services := vs\<rparr>) = project_service d"
proof -
  let ?e = "d\<lparr>services := vs\<rparr>"
  show u: "upstream_peer ?e = upstream_peer d" by (intro ext) (simp add: upstream_peer_def split: option.split)
  show "doors_for ?e = doors_for d" by (intro ext) (simp add: doors_for_def u)
  show p: "served_peers ?e = served_peers d" by (simp add: served_peers_def)
  show g: "group_by_id ?e = group_by_id d" by (intro ext) (simp add: group_by_id_def split: option.split)
  show "peer_identities ?e = peer_identities d" by (simp add: peer_identities_def p peer_groups_def)
  show "inside_group ?e = inside_group d" by (intro ext) (simp add: inside_group_def)
  show a: "project_auth ?e = project_auth d" by (intro ext) (simp add: project_auth_def)
  show "revoked_jtis now ?e = revoked_jtis now d" by (simp add: revoked_jtis_def)
  show x: "project_access ?e = project_access d" by (intro ext) (unfold project_access_def g, rule refl)
  show "project_service ?e = project_service d" by (intro ext) (unfold project_service_def u a x, rule refl)
qed

lemma stored_spec:
  assumes "validate_proxy_spec (build_proxy_spec now d st) = Inr ()"
    and "\<And>v. v \<in> set (services d) \<Longrightarrow> sv_slug v = slug \<Longrightarrow> plain_address (sv_upstream_host v) \<Longrightarrow> plain_address t"
  shows "validate_proxy_spec (build_proxy_spec now (d\<lparr>services := map (respelt slug t) (services d)\<rparr>) st) = Inr ()"
proof -
  define h :: "service \<Rightarrow> string" where "h s = (if pv_slug s = slug then t else bk_address (pv_backend s))" for s
  let ?e = "d\<lparr>services := map (respelt slug t) (services d)\<rparr>"
  have pr: "project_service d (respelt slug t v) e = rehosted h (project_service d v e)" for v e
    by (simp add: project_service_def enabled_auths_def enabled_filters_def rehosted_def h_def respelt_def upstream_peer_def)
  have dr: "doors_for d st (respelt slug t v) = doors_for d st v" for v
    by (unfold doors_for_def respelt_simps, rule refl)
  have sl: "by_slug ?e = map (respelt slug t) (by_slug d)" by (simp add: by_slug_def sort_key_through_map)
  have "wanted_slugs ?e = wanted_slugs d" unfolding wanted_slugs_def services_only by (simp add: o_def)
  then have ss: "source_sets ?e = source_sets d" by (unfold source_sets_def services_only) simp
  have ps: "concat (map (\<lambda>v. case doors_for d st v of None \<Rightarrow> [] | Some e \<Rightarrow> [project_service d v e]) (by_slug ?e)) =
      map (rehosted h) (concat (map (\<lambda>v. case doors_for d st v of None \<Rightarrow> [] | Some e \<Rightarrow> [project_service d v e]) (by_slug d)))"
    unfolding sl map_concat map_map by (intro arg_cong [where f = concat] map_cong) (auto simp: dr pr split: option.split)
  have "build_proxy_spec now ?e st = (build_proxy_spec now d st)\<lparr>pp_services := map (rehosted h) (pp_services (build_proxy_spec now d st))\<rparr>"
    unfolding build_proxy_spec_def Let_def services_only ps ss by simp
  moreover have "plain_address (h s)" if s: "s \<in> set (pp_services (build_proxy_spec now d st))" "plain_address (bk_address (pv_backend s))" for s
  proof -
    obtain v e where v: "v \<in> set (services d)" "s = project_service d v e"
      using s(1) by (auto simp: build_proxy_spec_def Let_def by_slug_def split: option.splits)
    then show ?thesis using s(2) assms(2) [OF v(1)] by (auto simp: h_def project_service_def)
  qed
  ultimately show ?thesis using rehosted_spec [OF assms(1)] by simp
qed

section \<open>What a successful request leaves\<close>

lemma commit_valid:
  assumes "commit_service rq st act i d = Inr d'" and "px_enabled (st_proxy st)"
    and "rq_proxy_check rq = proxy_check say st (rq_now rq)"
  shows "validate_proxy_spec (build_proxy_spec (rq_now rq) d' st) = Inr ()"
proof -
  obtain d1 where r: "regenerate_or_422 rq st ''admin-api'' d = Inr d1" and d': "d' = service_entry rq act i d1"
    using assms(1) by (auto simp: commit_service_def)
  have "same_published d d'" using regenerate_published [OF r] by (simp add: d')
  then show ?thesis using regenerate_checks [OF r assms(2, 3)] same_published_spec by metis
qed

lemma stored_after:
  assumes r: "regenerate_or_422 rq st g d = Inr d1" and "px_enabled (st_proxy st)"
    and "rq_proxy_check rq = proxy_check say st (rq_now rq)"
    and "\<And>v. v \<in> set (services d) \<Longrightarrow> sv_slug v = slug \<Longrightarrow> plain_address (sv_upstream_host v) \<Longrightarrow> plain_address t"
  shows "validate_proxy_spec (build_proxy_spec (rq_now rq)
    (service_entry rq act i (d1\<lparr>services := map (respelt slug t) (services d)\<rparr>)) st) = Inr ()"
proof -
  have s: "same_published d d1" by (rule regenerate_published [OF r])
  have "validate_proxy_spec (build_proxy_spec (rq_now rq) (d\<lparr>services := map (respelt slug t) (services d)\<rparr>) st) = Inr ()"
    by (rule stored_spec [OF regenerate_checks [OF assms(1-3)] assms(4)])
  moreover have "same_published (d\<lparr>services := map (respelt slug t) (services d)\<rparr>)
      (service_entry rq act i (d1\<lparr>services := map (respelt slug t) (services d)\<rparr>))"
    using s unfolding same_published_audit by (simp add: same_published_def)
  ultimately show ?thesis using same_published_spec by metis
qed

definition keeps_addresses :: "(string \<Rightarrow> string option) \<Rightarrow> bool" where
  "keeps_addresses inet \<longleftrightarrow> (\<forall>h t. inet h = Some t \<longrightarrow> plain_address h \<longrightarrow> plain_address t)"

lemma create_valid:
  assumes "create_service rq fresh st p d = Inr (x, d')" and "rq_proxy_check rq = proxy_check say st (rq_now rq)"
    and "keeps_addresses (rq_inet rq)"
  shows "validate_proxy_spec (build_proxy_spec (rq_now rq) d' st) = Inr ()"
proof -
  obtain port auths where en: "px_enabled (st_proxy st)" and slug: "slug_conflict d (vb_slug p) None = None"
    and step: "store_new_service rq st (new_service rq fresh st p port auths) d = Inr (x, d')"
    using assms(1) unfolding create_service_def by (auto split: if_splits option.splits simp del: mapR.simps)
  define v where "v = new_service rq fresh st p port auths"
  obtain t d1 where t: "rq_inet rq (sv_upstream_host v) = Some t"
    and r: "regenerate_or_422 rq st ''admin-api'' (d\<lparr>services := services d @ [v]\<rparr>) = Inr d1"
    and d': "d' = service_entry rq ''service.create'' (sv_slug v) (d1\<lparr>services := services d @ [as_stored rq v]\<rparr>)"
    using step unfolding v_def [symmetric] store_new_service_def Let_def by (auto split: if_splits)
  have other: "sv_slug u \<noteq> sv_slug v" if "u \<in> set (services d)" for u
  proof -
    have "find (\<lambda>w. sv_slug w = vb_slug p) (services d) = None"
      using slug by (auto simp: slug_conflict_def split: option.splits if_splits)
    then show ?thesis using that by (auto simp: find_None_iff v_def new_service_def)
  qed
  have all: "map (respelt (sv_slug v) t) (services d @ [v]) = services d @ [as_stored rq v]"
    using other by (auto simp: respelt_def as_stored_def t intro!: map_idI)
  have plain: "plain_address t" if "u \<in> set (services d @ [v])" "sv_slug u = sv_slug v" "plain_address (sv_upstream_host u)" for u
    using that other assms(3) t by (auto simp: keeps_addresses_def)
  have "validate_proxy_spec (build_proxy_spec (rq_now rq) (service_entry rq ''service.create'' (sv_slug v)
      (d1\<lparr>services := map (respelt (sv_slug v) t) (services (d\<lparr>services := services d @ [v]\<rparr>))\<rparr>)) st) = Inr ()"
    by (rule stored_after [OF r en assms(2)]) (use plain in simp)
  then show ?thesis by (simp add: d' all del: map_append)
qed

lemma update_valid:
  assumes "update_service rq st i p d = Inr (x, d')" and "px_enabled (st_proxy st)"
    and "rq_proxy_check rq = proxy_check say st (rq_now rq)"
    and "keeps_addresses (rq_inet rq)" and "keeps_peer d (Change i p)"
  shows "validate_proxy_spec (build_proxy_spec (rq_now rq) d' st) = Inr ()"
proof -
  obtain v where v: "service_or_404 d i = Inr v" using assms(1) by (auto simp: update_service_def)
  define w where "w = changed_service p v"
  have id: "sv_id w = i"
    using v by (auto simp: w_def changed_service_def service_or_404_def find_Some_iff split: option.splits)
  have "sv_upstream_peer_id w = sv_upstream_peer_id v" using assms(5) v by (simp add: w_def changed_service_def)
  then have seen: "w\<lparr>sv_upstream_peer_id := sv_upstream_peer_id v\<rparr> = w" by simp
  define stored where "stored = (if sv_upstream_host w \<noteq> sv_upstream_host v then as_stored rq w else w)"
  obtain d1 where ok: "\<not> refused_service d w" "sv_upstream_host w \<noteq> sv_upstream_host v \<longrightarrow> rq_inet rq (sv_upstream_host w) \<noteq> None"
    and r: "regenerate_or_422 rq st ''admin-api'' (put_service w d) = Inr d1"
    and d': "d' = service_entry rq ''service.update'' (sv_slug w) (put_service stored d1)"
    using assms(1) unfolding update_service_def v bindR.simps store_changed_service_def Let_def w_def [symmetric] seen
      stored_def [symmetric] by (auto simp del: not_None_eq split: if_splits)
  define t where "t = sv_upstream_host stored"
  have st: "stored = respelt (sv_slug w) t w" "sv_id stored = sv_id w" by (simp_all add: stored_def t_def respelt_def as_stored_def)
  have other: "sv_slug u \<noteq> sv_slug w" if "u \<in> set (services d)" "sv_id u \<noteq> i" for u
    using ok(1) that id unfolding refused_service_def by (auto simp: list_ex_iff)
  have "services d1 = services (put_service w d)" using regenerate_published [OF r] by (simp add: same_published_def)
  then have all: "put_service stored d1 = d1\<lparr>services := map (respelt (sv_slug w) t) (services (put_service w d))\<rparr>"
    using other by (auto simp: put_service_def st id respelt_def)
  have plain: "plain_address t" if u: "u \<in> set (services (put_service w d))" "sv_slug u = sv_slug w" "plain_address (sv_upstream_host u)" for u
  proof -
    have "u = w" using u(1, 2) other id by (auto simp: put_service_def split: if_splits)
    then show ?thesis using u(3) assms(4) ok(2) by (auto simp: t_def stored_def as_stored_def keeps_addresses_def)
  qed
  have "validate_proxy_spec (build_proxy_spec (rq_now rq) (service_entry rq ''service.update'' (sv_slug w)
      (d1\<lparr>services := map (respelt (sv_slug w) t) (services (put_service w d))\<rparr>)) st) = Inr ()"
    by (rule stored_after [OF r assms(2, 3)]) (use plain in blast)
  then show ?thesis by (simp only: d' all)
qed

text \<open>All requests but these two end with \<open>commit_service\<close>, or regenerate themselves.\<close>

lemma request_valid:
  assumes "serve_request rq fresh crypt st r d = Inr d'" and "px_enabled (st_proxy st)"
    and "rq_proxy_check rq = proxy_check say st (rq_now rq)"
    and "keeps_addresses (rq_inet rq)" and "keeps_peer d r"
  shows "validate_proxy_spec (build_proxy_spec (rq_now rq) d' st) = Inr ()"
proof -
  note cv = commit_valid [OF _ assms(2, 3)]
  show ?thesis
  proof (cases r)
    case (Publish p)
    then show ?thesis using assms(1) create_valid [OF _ assms(3, 4)] by auto
  next
    case (Change i p)
    then show ?thesis using assms(1, 5) update_valid [OF _ assms(2-4)] by auto
  next
    case (EndSession i)
    obtain found d1 where e: "sso_revoke i (rq_now rq) d = (found, d1)" by fastforce
    obtain d2 where g: "regenerate_or_422 rq st ''admin-api'' d1 = Inr d2"
        and d': "d' = audit_as rq ''sso.revoke'' ''sso_session'' (Some i) (JObj []) d2"
      using assms(1) unfolding EndSession by (auto simp: revoke_sso_session_def e split: if_splits)
    have "same_published d1 d'" using regenerate_published [OF g] by (simp add: d')
    then show ?thesis using regenerate_checks [OF g assms(2, 3)] same_published_spec by metis
  qed (use assms(1) in \<open>auto simp: delete_service_def add_authenticator_def add_filter_def add_access_rule_def add_child_def
      remove_authenticator_def remove_filter_def remove_access_rule_def remove_child_def create_token_def revoke_token_def
      create_account_def delete_account_def Let_def split: option.splits if_splits intro: cv\<close>)
qed

section \<open>The working proxy\<close>

text \<open>
  C5: no request about a published service breaks the proxy. When such a request succeeds the database it
  leaves renders a complete configuration in which every open door has a guard: publishing, changing and removing
  a service, adding and removing authenticators, filters, access rules, tokens and accounts, ending a session. The
  exception is an update that moves a service behind another peer.
\<close>

theorem service_changes_leave_a_working_proxy:
  assumes "serve_request rq fresh crypt st r d = Inr d'" and "px_enabled (st_proxy st)"
    and "rq_proxy_check rq = proxy_check say st (rq_now rq)"
    and "keeps_addresses (rq_inet rq)" and "keeps_peer d r"
  shows "(\<exists>conf files. render_proxy (rq_now rq) d' st = Inr (conf, files)) \<and>
    (\<forall>s\<in>set (pp_services (build_proxy_spec (rq_now rq) d' st)). \<forall>e\<in>{INTERNAL, EXTERNAL}.
       needs_hostname s e \<longrightarrow> auth_for s e \<noteq> [])"
proof -
  have v: "validate_proxy_spec (build_proxy_spec (rq_now rq) d' st) = Inr ()" by (rule request_valid [OF assms])
  obtain files where "render_files (build_proxy_spec (rq_now rq) d' st) = Inr files"
    using render_files_ok [OF v] built_peers [OF v] by blast
  then have "\<exists>conf files. render_proxy (rq_now rq) d' st = Inr (conf, files)"
    by (simp add: render_proxy_def Let_def render_proxy_conf_def v)
  moreover have "auth_for s e \<noteq> []" if s: "s \<in> set (pp_services (build_proxy_spec (rq_now rq) d' st))"
      and e: "e \<in> {INTERNAL, EXTERNAL}" "needs_hostname s e" for s e
  proof -
    have "validate_door s e = Inr ()" using validated_policy [OF v s] e(1) by (auto simp: validate_policy_def all_checks_ok)
    then show ?thesis using e(2) by (simp add: validate_door_def)
  qed
  ultimately show ?thesis by blast
qed

lemma regenerate_proxied:
  assumes "case build_spec d st of Inl e \<Rightarrow> False | Inr s \<Rightarrow> validate_spec s = []"
    and "rq_proxy_check rq = proxy_check say st (rq_now rq)"
    and "validate_proxy_spec (build_proxy_spec (rq_now rq) d st) = Inr ()"
  shows "\<exists>vs. regenerate_or_422 rq st g d = Inr (d\<lparr>versions := vs\<rparr>)"
proof -
  obtain c where c: "render d st = Inr c"
    using assms(1) by (auto simp: render_def validate_spec_iff generate_ok split: sum.splits)
  have "\<exists>vs. snd (store_version sha i now g' c d) = d\<lparr>versions := vs\<rparr>" for sha i now g'
    by (cases "find (\<lambda>v. ve_digest v = sha c) (versions d)") (auto simp: store_version_def Let_def intro: exI [of _ "versions d"])
  then obtain v vs where "regenerate (cr_sha256 (rq_crypto rq)) (rq_version_id rq) (rq_now rq) st g d = Inr (v, d\<lparr>versions := vs\<rparr>)"
    using c by (simp add: regenerate_def) (metis prod.collapse)
  moreover have "rq_proxy_check rq (d\<lparr>versions := vs\<rparr>) = None"
    using same_published_spec [of d "d\<lparr>versions := vs\<rparr>"] assms(3) by (simp add: assms(2) check_valid same_published_def)
  ultimately show ?thesis by (auto simp: regenerate_or_422_def)
qed

definition web_request :: request where
  "web_request = demo_request\<lparr>rq_now := 1000, rq_id := ''f2'', rq_inet := Some,
     rq_proxy_check := proxy_check (\<lambda>e. ''invalid'') demo_web_settings 1000\<rparr>"

lemma web_request_simps [simp]:
  "rq_now web_request = 1000" "rq_proxy_check web_request = proxy_check (\<lambda>e. ''invalid'') demo_web_settings (rq_now web_request)"
  "rq_id web_request = ''f2''" "rq_inet web_request = Some"
  by (simp_all add: web_request_def)

definition office_only :: filter_create where
  "office_only = \<lparr>fb_kind = IP_ALLOW, fb_scope = SCOPE_BOTH, fb_enabled = True, fb_priority = 10,
     fb_values = [''10.66.0.0/24''], fb_rate = None, fb_period_seconds = None\<rparr>"

definition filtered_nas :: service_row where
  "filtered_nas = (services demo_published ! 1)\<lparr>sv_filters := sv_filters (services demo_published ! 1) @ [filter_of ''f2'' office_only]\<rparr>"

theorem service_changes_leave_a_working_proxy_witness:
  "\<exists>d'. serve_request web_request (\<lambda>n. []) id demo_web_settings (AddFilter ''nas'' office_only) demo_published = Inr d' \<and>
     (\<exists>conf files. render_proxy 1000 d' demo_web_settings = Inr (conf, files))"
proof -
  let ?d = "put_service filtered_nas demo_published"
  have v: "validate_proxy_spec (build_proxy_spec 1000 ?d demo_web_settings) = Inr ()" by code_simp
  have n: "case build_spec ?d demo_web_settings of Inl e \<Rightarrow> False | Inr s \<Rightarrow> validate_spec s = []"
    by code_simp
  have "validate_proxy_spec (build_proxy_spec (rq_now web_request) ?d demo_web_settings) = Inr ()" using v by simp
  then obtain vs where "regenerate_or_422 web_request demo_web_settings ''admin-api'' ?d = Inr (?d\<lparr>versions := vs\<rparr>)"
    using regenerate_proxied [OF n web_request_simps(2)] by blast
  moreover have "service_or_404 demo_published ''nas'' = Inr (services demo_published ! 1)"
    by (simp add: service_or_404_def demo_published_def demo_service_def)
  moreover have "\<not> incomplete_rate (filter_of ''f2'' office_only)" by code_simp
  ultimately have "\<exists>d'. serve_request web_request (\<lambda>n. []) id demo_web_settings (AddFilter ''nas'' office_only) demo_published = Inr d'"
    unfolding serve_request.simps add_filter_def add_child_def commit_service_def web_request_simps Let_def filtered_nas_def
    by (simp del: One_nat_def)
  then obtain d' where s: "serve_request web_request (\<lambda>n. []) id demo_web_settings (AddFilter ''nas'' office_only) demo_published = Inr d'" ..
  have "px_enabled (st_proxy demo_web_settings)" by code_simp
  moreover have "keeps_addresses (rq_inet web_request)" by (simp add: keeps_addresses_def)
  ultimately have "\<exists>conf files. render_proxy (rq_now web_request) d' demo_web_settings = Inr (conf, files)"
    using service_changes_leave_a_working_proxy [OF s _ web_request_simps(2)] by simp
  then have "\<exists>conf files. render_proxy 1000 d' demo_web_settings = Inr (conf, files)" by simp
  with s show ?thesis by blast
qed

section \<open>Moving a service\<close>


definition demo_lab :: service_row where
  "demo_lab = (demo_service ''lab'' INTERNAL [])\<lparr>sv_upstream_peer_id := Some ''b'', sv_upstream_host := ''10.66.0.3'',
     sv_external_hostname := None\<rparr>"

definition demo_before_move :: db where "demo_before_move = demo_db\<lparr>services := [demo_lab]\<rparr>"

definition move_to_a :: service_update where
  "move_to_a = \<lparr>vu_name = None, vu_description = None, vu_enabled = None, vu_exposure = None,
     vu_upstream_peer_id = Some (Some ''a''), vu_upstream_host = None, vu_upstream_port = None, vu_upstream_tls = None,
     vu_upstream_tls_verify = None, vu_internal_hostname = None, vu_external_hostname = None, vu_listen_port = None,
     vu_sni_hostname = None, vu_health_check = None, vu_health_check_interval = None\<rparr>"


section \<open>Signing someone out\<close>


text \<open>Staff only, from outside; the session is the one the demonstration's tokens name.\<close>

definition demo_signed_in :: db where
  "demo_signed_in = demo_db\<lparr>services := [(demo_service ''wiki'' EXTERNAL [demo_auth ''2'' FOXGUARD_SSO SCOPE_BOTH])\<lparr>
       sv_internal_hostname := None\<rparr>],
     sso_sessions := [\<lparr>ss_id = ''j1'', ss_user_id = ''u'', ss_source_ip = None, ss_user_agent = None, ss_expires_at = 5000,
       ss_revoked_at = None\<rparr>]\<rparr>"

definition demo_signed_out :: db where "demo_signed_out = snd (sso_revoke ''j1'' 1000 demo_signed_in)"

definition signed_run :: "db \<Rightarrow> proxy_run" where
  "signed_run d = \<lparr>pr_spec = build_proxy_spec 1000 d demo_web_settings,
     pr_files = projr (render_files (build_proxy_spec 1000 d demo_web_settings)), pr_tokens = demo_tokens,
     pr_request = demo_traffic ''198.51.100.7'' (Some ''good'')\<rparr>"

definition signed_wiki :: service where
  "signed_wiki = pp_services (build_proxy_spec 1000 demo_signed_in demo_web_settings) ! 0"

lemma signed_served:
  assumes "d = demo_signed_in \<or> d = demo_signed_out"
  shows "served (signed_run d) signed_wiki"
proof -
  let ?p = "build_proxy_spec 1000 d demo_web_settings"
  have v: "validate_proxy_spec ?p = Inr ()" using assms by (elim disjE; hypsubst; code_simp)
  obtain files where "render_files ?p = Inr files" using render_files_ok [OF v] built_peers [OF v] by blast
  moreover have "tidy ?p" unfolding tidy_def using assms by (elim disjE; hypsubst; code_simp)
  moreover have "PEER_SET \<in> set_names ?p" by (simp add: build_proxy_spec_def Let_def source_sets_def set_names_def)
  moreover have "signed_wiki \<in> set (pp_services ?p)"
  proof -
    have "pp_services ?p = pp_services (build_proxy_spec 1000 demo_signed_in demo_web_settings)"
      using assms by (elim disjE; hypsubst; code_simp)
    moreover have "length (pp_services (build_proxy_spec 1000 demo_signed_in demo_web_settings)) = 1" by code_simp
    ultimately show ?thesis by (simp add: signed_wiki_def)
  qed
  ultimately show ?thesis using v by (simp add: served_def signed_run_def)
qed


end
