(* ===== verification/ProxyEdges.thy ===== *)
theory ProxyEdges
  imports ProxyTotality
begin

text \<open>
  Where the reverse proxy does less than its documentation says, and the bounds of what it allots.
\<close>

section \<open>Tokens\<close>

text \<open>What a token's row says of its expiry, changed at will.\<close>

definition reexpired :: "(token_row \<Rightarrow> int option) \<Rightarrow> db \<Rightarrow> db" where
  "reexpired f d = d\<lparr>services := map (\<lambda>v. v\<lparr>sv_tokens := map (\<lambda>t. t\<lparr>tk_expires_at := f t\<rparr>) (sv_tokens v)\<rparr>) (services d)\<rparr>"

lemma reexpired_hashes:
  "map tk_token_hash (filter (\<lambda>t. tk_revoked_at t = None) (map (\<lambda>t. t\<lparr>tk_expires_at := f t\<rparr>) ts)) =
   map tk_token_hash (filter (\<lambda>t. tk_revoked_at t = None) ts)"
  by (induction ts) simp_all

text \<open>
  The expiry of a bearer token is recorded and never enforced: the configuration is the same whatever the
  expiries are, so a token past its own opens the service as before.
\<close>

theorem token_expiry_is_not_enforced:
  "map (\<lambda>v. project_service (reexpired f d) v e) (services (reexpired f d)) = map (\<lambda>v. project_service d v e) (services d)"
proof -
  let ?g = "\<lambda>v. v\<lparr>sv_tokens := map (\<lambda>t. t\<lparr>tk_expires_at := f t\<rparr>) (sv_tokens v)\<rparr>"
  have g: "group_by_id (reexpired f d) = group_by_id d"
    by (intro ext) (simp add: group_by_id_def reexpired_def split: option.split)
  have a: "project_auth (reexpired f d) = project_auth d" by (intro ext) (simp add: project_auth_def reexpired_def)
  have x: "project_access (reexpired f d) = project_access d" by (intro ext) (unfold project_access_def g, rule refl)
  have u: "upstream_peer (reexpired f d) (?g v) = upstream_peer d v" for v
    by (simp add: upstream_peer_def reexpired_def split: option.split)
  have "project_service (reexpired f d) (?g v) e = project_service d v e" for v
    unfolding project_service_def u a x by (simp add: reexpired_hashes enabled_auths_def enabled_filters_def)
  then show ?thesis by (simp add: reexpired_def)
qed

section \<open>The dashboard\<close>

text \<open>
  The dashboard is never published: whatever the settings say, the specification that is rendered names no host for
  it, although the base specification it is copied from does.
\<close>

theorem dashboard_is_never_published:
  "\<not> publishes_dashboard (build_proxy_spec now d st) \<and>
   (publishes_dashboard (proxy_base_spec st) \<longleftrightarrow> truthy (proxy_dashboard_host st))"
  by (simp add: publishes_dashboard_def build_proxy_spec_def Let_def empty_spec_def proxy_base_spec_def)

section \<open>Passthrough services\<close>

text \<open>
  A passthrough service on both doors has one frontend with the rules of the outer door. An authenticator that
  guards the inner door alone leaves no trace in it.
\<close>

theorem inner_guard_of_passthrough_is_dropped:
  assumes "pv_exposure s = BOTH_DOORS" and "pv_kind s = TCP_PASS"
    and "s' = s\<lparr>pv_authenticators := filter (\<lambda>a. xn_scope a \<noteq> SCOPE_INTERNAL) (pv_authenticators s)\<rparr>"
  shows "tcp_frontend p s' = tcp_frontend p s"
proof -
  have a: "auth_for s' EXTERNAL = auth_for s EXTERNAL"
    unfolding assms(3) auth_for_def by (simp, intro filter_cong refl) (metis covers.simps exposure.distinct(1) scope.exhaust)
  have k: "pv_kind s' = pv_kind s" "pv_slug s' = pv_slug s" "pv_filters s' = pv_filters s" "pv_access s' = pv_access s"
    by (simp_all add: assms(3))
  have d: "deny_text s' = deny_text s" by (unfold deny_text_def k, rule refl)
  have c: "sso_condition s' = sso_condition s" by (unfold sso_condition_def k, rule refl)
  have z: "sso_authorized s' = sso_authorized s" by (intro ext) (unfold sso_authorized_def k, rule refl)
  have y: "sso_authz s' = sso_authz s" by (intro ext) (unfold sso_authz_def k, rule refl)
  have x: "access_for s' = access_for s" by (intro ext) (unfold access_for_def k, rule refl)
  have u1: "filter_rules p s' = filter_rules p s" by (intro ext) (unfold filter_rules_def d k, rule refl)
  have u2: "access_rules p s' = access_rules p s" by (intro ext) (unfold access_rules_def d x k, rule refl)
  have u3: "auth_condition p s' = auth_condition p s" by (intro ext) (unfold auth_condition_def c z k, rule refl)
  have u4: "sso_setup p s' = sso_setup p s" by (intro ext) (unfold sso_setup_def y k, rule refl)
  have u5: "challenge p s' = challenge p s" by (intro ext) (unfold challenge_def c z k, rule refl)
  have u6: "identity_headers p s' = identity_headers p s" by (intro ext) (unfold identity_headers_def k, rule refl)
  have "service_rules p s' EXTERNAL None = service_rules p s EXTERNAL None"
    unfolding service_rules_def auth_rules_def a u1 u2 u3 u4 u5 u6 d k ..
  then show ?thesis by (simp add: tcp_frontend_def tcp_exposure_def assms)
qed

section \<open>Ports\<close>

lemma first_port_free:
  "first_port taken lo hi = Some p \<Longrightarrow> lo \<le> p \<and> p \<le> hi \<and> p \<notin> set taken \<and> (\<forall>q. lo \<le> q \<and> q < p \<longrightarrow> q \<in> set taken)"
proof (induction taken lo hi rule: first_port.induct)
  case (1 taken lo hi)
  show ?case
  proof (cases "hi < lo \<or> lo \<notin> set taken")
    case True
    then show ?thesis using 1(2) by (auto simp: first_port.simps [of taken lo hi] split: if_splits)
  next
    case False
    then have "first_port taken (lo + 1) hi = Some p" using 1(2) by (simp add: first_port.simps [of taken lo hi])
    then have "lo + 1 \<le> p \<and> p \<le> hi \<and> p \<notin> set taken \<and> (\<forall>q. lo + 1 \<le> q \<and> q < p \<longrightarrow> q \<in> set taken)"
      using 1(1) False by simp
    then have "lo \<le> p" "p \<le> hi" "p \<notin> set taken" "\<forall>q. lo + 1 \<le> q \<and> q < p \<longrightarrow> q \<in> set taken" by simp_all
    moreover have "q \<in> set taken" if "lo \<le> q" "q < p" for q
      using calculation(4) that False by (cases "q = lo") auto
    ultimately show ?thesis by blast
  qed
qed

lemma first_port_none: "first_port taken lo hi = None \<Longrightarrow> lo \<le> q \<Longrightarrow> q \<le> hi \<Longrightarrow> q \<in> set taken"
proof (induction taken lo hi rule: first_port.induct)
  case (1 taken lo hi)
  then have "lo \<in> set taken" "first_port taken (lo + 1) hi = None"
    by (auto simp: first_port.simps [of taken lo hi] split: if_splits)
  then show ?case using 1 by (cases "q = lo") auto
qed

text \<open>
  The port a passthrough service is given is the lowest of the configured range that no service holds, and
  there is none only when every port of the range is held.
\<close>

theorem allocated_port_is_free:
  "case allocate_listen_port d st of
     Inr p \<Rightarrow> px_tcp_port_start (st_proxy st) \<le> p \<and> p \<le> px_tcp_port_end (st_proxy st) \<and>
       Some p \<notin> sv_listen_port ` set (services d) \<and>
       (\<forall>q. px_tcp_port_start (st_proxy st) \<le> q \<and> q < p \<longrightarrow> Some q \<in> sv_listen_port ` set (services d))
   | Inl e \<Rightarrow> \<forall>q. px_tcp_port_start (st_proxy st) \<le> q \<and> q \<le> px_tcp_port_end (st_proxy st) \<longrightarrow>
       Some q \<in> sv_listen_port ` set (services d)"
proof -
  define taken where "taken = concat (map (\<lambda>v. case sv_listen_port v of None \<Rightarrow> [] | Some p \<Rightarrow> [p]) (services d))"
  have t: "q \<in> set taken \<longleftrightarrow> Some q \<in> sv_listen_port ` set (services d)" for q
    unfolding taken_def by (force split: option.splits)
  show ?thesis
  proof (cases "first_port taken (px_tcp_port_start (st_proxy st)) (px_tcp_port_end (st_proxy st))")
    case None
    then show ?thesis using first_port_none [OF None] t by (simp add: allocate_listen_port_def Let_def taken_def [symmetric])
  next
    case (Some p)
    then show ?thesis using first_port_free [OF Some] t by (simp add: allocate_listen_port_def Let_def taken_def [symmetric])
  qed
qed

end
