(* ===== verification/DnsGenerator.thy ===== *)
theory DnsGenerator
  imports ProxyValidate DnsNaming
begin

text \<open>
  \<open>backend/foxguard/dns/model.py\<close> and \<open>dnsmasq.py\<close>: what the resolver on the gateway serves, the
  validation of it, and its two files, the hosts file and the configuration, character by
  character. Validation reports every problem, in the order of the source; a \<open>dns_error\<close> keeps
  what a message names and drops its wording.
\<close>

section \<open>Data\<close>

text \<open>The first name of an entry is the one reverse lookups answer with.\<close>

record host_entry =
  he_address :: string
  he_names :: "string list"
  he_comment :: "string option"

record cname_entry =
  ce_alias :: string
  ce_target :: string
  ce_comment :: "string option"

record dns_spec =
  dz_zone :: string
  dz_listen_addresses :: "string list"
  dz_port :: int
  dz_hosts_path :: string
  dz_hosts :: "host_entry list"
  dz_cnames :: "cname_entry list"
  dz_external_names :: "string set"
  dz_mode :: resolver_mode
  dz_upstreams :: "string list"
  dz_cache_size :: int
  dz_reverse_pools :: "string list"
  dz_stop_dns_rebind :: bool
  dz_log_queries :: bool
  dz_extra_options :: "string list"

definition entry_version :: "host_entry \<Rightarrow> nat option" where
  "entry_version h = map_option ip_version (ip_address (he_address h))"

definition spec_names :: "dns_spec \<Rightarrow> string set" where
  "spec_names s = set (concat (map he_names (dz_hosts s)) @ map ce_alias (dz_cnames s))"

section \<open>Reverse zones\<close>

text \<open>
  \<open>address.exploded\<close> reads the printed address again, which fails for one with a scope id: the
  \<open>ValueError\<close> is an \<open>Inl\<close>, as is that of a text that is no network.
\<close>

definition exploded_digits :: "int \<Rightarrow> string" where
  "exploded_digits n = map (\<lambda>i. digit_char (nat (n div 16 ^ (31 - i) mod 16))) [0..<32]"

definition reverse_zone :: "string \<Rightarrow> (string, string option) result" where
  "reverse_zone cidr = (case ip_network cidr of None \<Rightarrow> Inl cidr
     | Some n \<Rightarrow>
         if prefixlen n = 0 then Inr None
         else (case net_addr n of
             IP4 a \<Rightarrow> (let octets = prefixlen n div 8 in
               if octets = 0 then Inr None
               else Inr (Some (join ''.'' (rev (take octets (split_on (CHR ''.'') (show_v4 a)))) @ ''.in-addr.arpa'')))
           | IP6 a scope_id \<Rightarrow> (let nibbles = prefixlen n div 4 in
               if nibbles = 0 then Inr None
               else if scope_id \<noteq> None then Inl cidr
               else Inr (Some (join ''.'' (map (\<lambda>c. [c]) (rev (take nibbles (exploded_digits a)))) @ ''.ip6.arpa'')))))"

section \<open>Validation\<close>

datatype name_site = AtZone | AtHost string | AtAlias string | AtTarget string

datatype dns_error =
    EmptyName name_site
  | NameTooLong name_site string
  | BadName name_site string
  | OutsideZone name_site string string
  | DnsPortRange int
  | NegativeCache int
  | RelativeHostsPath string
  | HostsPathBreak
  | BadListenAddress string
  | BadReversePool string
  | NotAnUpstream string
  | UpstreamAddress string
  | UpstreamPort string
  | BadOption string
  | HostNotAddress string
  | AddressTwice string
  | HostWithoutNames string
  | NameTaken string string string
  | ShadowsHost string
  | AliasTwice string
  | AliasOfItself string
  | UnknownTarget string string

definition MAX_NAME :: nat where "MAX_NAME = 253"

definition upstream_body :: "string \<Rightarrow> (string \<times> string option) option" where
  "upstream_body s =
     (let p = (\<lambda>c. is_digit c \<or> (CHR ''a'' \<le> c \<and> c \<le> CHR ''f'') \<or> (CHR ''A'' \<le> c \<and> c \<le> CHR ''F'') \<or> c = CHR '':'' \<or> c = CHR ''.'');
          a = takeWhile p s; r = dropWhile p s in
      if a = [] then None
      else (case r of [] \<Rightarrow> Some (a, None)
        | c # ds \<Rightarrow> if c = CHR ''#'' \<and> re_class is_digit 1 5 ds then Some (a, Some ds) else None))"

text \<open>\<open>_UPSTREAM_RE.match\<close>, with its two groups; the end may be before a final newline.\<close>

definition UPSTREAM_RE :: "string \<Rightarrow> (string \<times> string option) option" where
  "UPSTREAM_RE s = (case upstream_body s of Some g \<Rightarrow> Some g
     | None \<Rightarrow> if s \<noteq> [] \<and> last s = nl then upstream_body (butlast s) else None)"

definition dns_option_text :: "string \<Rightarrow> bool" where
  "dns_option_text s =
     (let p = (\<lambda>c. is_lower c \<or> is_digit c \<or> c = CHR ''-''); r = dropWhile p s in
      takeWhile p s \<noteq> [] \<and>
      (case r of [] \<Rightarrow> True | c # v \<Rightarrow> c = CHR ''='' \<and> list_all (\<lambda>x. x \<noteq> nl \<and> x \<noteq> CHR 0x0D) v))"

definition DNS_OPTION_RE :: "string \<Rightarrow> bool" where "DNS_OPTION_RE = re_dollar dns_option_text"

definition check_name :: "name_site \<Rightarrow> string \<Rightarrow> dns_error list" where
  "check_name w value =
     (if value = [] then [EmptyName w]
      else if MAX_NAME < length value then [NameTooLong w value]
      else if \<not> NAME_RE value then [BadName w value] else [])"

definition within_zone :: "string \<Rightarrow> string \<Rightarrow> bool" where
  "within_zone value zone \<longleftrightarrow> value = zone \<or> ends_with (CHR ''.'' # zone) value"

definition check_in_zone :: "name_site \<Rightarrow> string \<Rightarrow> string \<Rightarrow> dns_error list" where
  "check_in_zone w value zone = (if within_zone value zone then [] else [OutsideZone w value zone])"

definition check_upstream_resolver :: "string \<Rightarrow> dns_error list" where
  "check_upstream_resolver u = (case UPSTREAM_RE u of None \<Rightarrow> [NotAnUpstream u]
     | Some (addr, port) \<Rightarrow> (if ip_address addr = None then [UpstreamAddress u] else []) @
         (case port of None \<Rightarrow> []
          | Some p \<Rightarrow> if 1 \<le> nat_of_digits p \<and> nat_of_digits p \<le> 65535 then [] else [UpstreamPort u]))"

definition check_settings :: "dns_spec \<Rightarrow> dns_error list" where
  "check_settings s =
     check_name AtZone (dz_zone s) @
     (if 1 \<le> dz_port s \<and> dz_port s \<le> 65535 then [] else [DnsPortRange (dz_port s)]) @
     (if dz_cache_size s < 0 then [NegativeCache (dz_cache_size s)] else []) @
     (if starts_with ''/'' (dz_hosts_path s) then [] else [RelativeHostsPath (dz_hosts_path s)]) @
     (if nl \<in> set (dz_hosts_path s) \<or> CHR 0x0D \<in> set (dz_hosts_path s) then [HostsPathBreak] else []) @
     concat (map (\<lambda>a. if ip_address a = None then [BadListenAddress a] else []) (dz_listen_addresses s)) @
     concat (map (\<lambda>p. if ip_network p = None then [BadReversePool p] else []) (dz_reverse_pools s)) @
     concat (map check_upstream_resolver (dz_upstreams s)) @
     concat (map (\<lambda>q. if DNS_OPTION_RE q then [] else [BadOption q]) (dz_extra_options s))"

text \<open>What the loops have seen so far, and a loop that collects what its steps report.\<close>

record host_scan =
  hs_names :: "string \<times> nat \<Rightarrow> string option"
  hs_known :: "string set"
  hs_addresses :: "string set"

fun scan :: "('s \<Rightarrow> 'a \<Rightarrow> 'e list \<times> 's) \<Rightarrow> 's \<Rightarrow> 'a list \<Rightarrow> 'e list \<times> 's" where
  "scan f s [] = ([], s)"
| "scan f s (x # xs) = (case f s x of (e, t) \<Rightarrow> (case scan f t xs of (es, u) \<Rightarrow> (e @ es, u)))"

definition check_host_name ::
  "dns_spec \<Rightarrow> string \<Rightarrow> nat \<Rightarrow> host_scan \<Rightarrow> string \<Rightarrow> dns_error list \<times> host_scan" where
  "check_host_name spec address v s name =
     (let bad = check_name (AtHost address) name in
      if bad \<noteq> [] then (bad, s)
      else ((if name \<in> dz_external_names spec then [] else check_in_zone (AtHost address) name (dz_zone spec)) @
          (case hs_names s (name, v) of None \<Rightarrow> []
           | Some owner \<Rightarrow> if owner \<noteq> address then [NameTaken address name owner] else []),
        s\<lparr>hs_names := (hs_names s)((name, v) \<mapsto> address), hs_known := insert name (hs_known s)\<rparr>))"

definition check_host :: "dns_spec \<Rightarrow> host_scan \<Rightarrow> host_entry \<Rightarrow> dns_error list \<times> host_scan" where
  "check_host spec s h =
     (case ip_address (he_address h) of None \<Rightarrow> ([HostNotAddress (he_address h)], s)
      | Some a \<Rightarrow>
          (case scan (check_host_name spec (he_address h) (ip_version a))
              (s\<lparr>hs_addresses := insert (show_ip a) (hs_addresses s)\<rparr>) (he_names h) of
             (es, t) \<Rightarrow>
               ((if show_ip a \<in> hs_addresses s then [AddressTwice (he_address h)] else []) @
                (if he_names h = [] then [HostWithoutNames (he_address h)] else []) @ es, t)))"

definition check_cname ::
  "dns_spec \<Rightarrow> string set \<Rightarrow> string set \<Rightarrow> cname_entry \<Rightarrow> dns_error list \<times> string set" where
  "check_cname spec known seen c =
     (let bad = check_name (AtAlias (ce_alias c)) (ce_alias c);
          head = (if bad \<noteq> [] then bad
            else check_in_zone (AtAlias (ce_alias c)) (ce_alias c) (dz_zone spec) @
              (if ce_alias c \<in> known then [ShadowsHost (ce_alias c)] else []) @
              (if ce_alias c \<in> seen then [AliasTwice (ce_alias c)] else []));
          bad_target = check_name (AtTarget (ce_alias c)) (ce_target c)
      in (head @ (if bad_target \<noteq> [] then bad_target
            else if ce_target c = ce_alias c then [AliasOfItself (ce_alias c)]
            else if ce_target c \<notin> known then [UnknownTarget (ce_alias c) (ce_target c)] else []),
          if bad \<noteq> [] then seen else insert (ce_alias c) seen))"

definition no_hosts_seen :: host_scan where
  "no_hosts_seen = \<lparr>hs_names = (\<lambda>_. None), hs_known = {}, hs_addresses = {}\<rparr>"

definition dns_errors :: "dns_spec \<Rightarrow> dns_error list" where
  "dns_errors spec =
     (case scan (check_host spec) no_hosts_seen (dz_hosts spec) of (hosts, s) \<Rightarrow>
        check_settings spec @ hosts @ fst (scan (check_cname spec (hs_known s)) {} (dz_cnames spec)))"

datatype dns_exn = ZoneInvalid "dns_error list" | NotANetwork string

definition validate_dns_spec :: "dns_spec \<Rightarrow> (dns_exn, unit) result" where
  "validate_dns_spec spec = (if dns_errors spec = [] then Inr () else Inl (ZoneInvalid (dns_errors spec)))"

section \<open>The hosts file\<close>

definition HOSTS_BANNER :: string where
  "HOSTS_BANNER = (''# Foxguard generated hosts file -- DO NOT EDIT BY HAND.'' @ [nl] @ ''#'' @ [nl]) @
     (''# Written by foxguard-agent on every reconciliation; the source of truth is'' @ [nl]) @
     (''# the control plane'' @ [CHR 0x27] @ ''s database, so an edit here survives until the next poll.'' @ [nl]) @
     (''# The first name on a line is canonical: it is what reverse lookups return.'' @ [nl] @ ''#'' @ [nl])"

definition DNS_CONF_BANNER :: string where
  "DNS_CONF_BANNER = (''# Foxguard generated dnsmasq configuration -- DO NOT EDIT BY HAND.'' @ [nl] @ ''#'' @ [nl]) @
     (''# Written by foxguard-agent on every reconciliation; an edit here survives'' @ [nl]) @
     (''# until the next poll.'' @ [nl] @ ''#'' @ [nl]) @
     (''# This file configures Foxguard'' @ [CHR 0x27] @ ''s *own* dnsmasq instance, started by'' @ [nl]) @
     (''# foxguard-dns.service. It deliberately does not read /etc/dnsmasq.d, so the'' @ [nl]) @
     (''# host'' @ [CHR 0x27] @ ''s resolver and this one cannot interfere with each other.'' @ [nl] @ ''#'' @ [nl])"

text \<open>The address orders a host; on a valid specification it parses.\<close>

definition host_key :: "host_entry \<Rightarrow> nat \<times> int" where
  "host_key h = (case ip_address (he_address h) of None \<Rightarrow> (0, 0) | Some a \<Rightarrow> (ip_version a, ip_int a))"

definition sorted_hosts :: "host_entry list \<Rightarrow> host_entry list" where
  "sorted_hosts hs = sort_key host_key hs"

definition sorted_cnames :: "cname_entry list \<Rightarrow> cname_entry list" where
  "sorted_cnames cs = sort_key ce_alias cs"

text \<open>\<open>str.split()\<close> without an argument: the runs of characters that are not white space.\<close>

definition py_words :: "string \<Rightarrow> string list" where
  "py_words s = filter (\<lambda>w. w \<noteq> []) (split_on (CHR '' '') (map (\<lambda>c. if is_space c then CHR '' '' else c) s))"

definition comment_suffix :: "string option \<Rightarrow> string" where
  "comment_suffix value =
     (if \<not> truthy value then []
      else (let cleaned = join '' '' (py_words (the value)) in
        if cleaned = [] then [] else [CHR 0x09] @ ''# '' @ take 80 cleaned))"

definition host_line :: "host_entry \<Rightarrow> string" where
  "host_line h = he_address h @ [CHR 0x09] @ join '' '' (he_names h) @ comment_suffix (he_comment h)"

definition strip_nl :: "string \<Rightarrow> string" where "strip_nl s = rstrip_by (\<lambda>c. c = nl) s"

definition render_hosts :: "dns_spec \<Rightarrow> (dns_exn, string) result" where
  "render_hosts spec = bindR (validate_dns_spec spec) (\<lambda>_.
     Inr (strip_nl (join [nl] (strip_nl HOSTS_BANNER # map host_line (sorted_hosts (dz_hosts spec)))) @ [nl]))"

section \<open>The configuration\<close>

definition reverse_lines :: "string list \<Rightarrow> (dns_exn, string list) result" where
  "reverse_lines pools = concatR (\<lambda>p. case reverse_zone p of Inl e \<Rightarrow> Inl (NotANetwork e)
     | Inr z \<Rightarrow> Inr (if truthy z then [(''local=/'' @ (the z) @ ''/'')] else [])) pools"

definition listen_lines :: "dns_spec \<Rightarrow> string list" where
  "listen_lines s = [(''port='' @ (show_int (dz_port s))), [],
     ''# Answer only where Foxguard is reachable. Binding every interface'',
     ''# would publish an open resolver on the WAN.''] @
     map (\<lambda>a. (''listen-address='' @ a)) (dz_listen_addresses s) @
     (if dz_listen_addresses s \<noteq> [] then [''bind-interfaces''] else [])"

definition zone_lines :: "dns_spec \<Rightarrow> string list" where
  "zone_lines s = [[], (''# Foxguard'' @ [CHR 0x27] @ ''s records only: never /etc/hosts, never /etc/dnsmasq.d.''), ''no-hosts'',
     (''addn-hosts='' @ (dz_hosts_path s)), ''no-poll'', [], (''domain='' @ (dz_zone s)),
     ''# Authoritative for the zone: these names are never asked upstream.'', (''local=/'' @ (dz_zone s) @ ''/'')]"

definition upstream_lines :: "dns_spec \<Rightarrow> string list" where
  "upstream_lines s = [] #
     (if dz_mode s = SPLIT
      then [''# Split DNS: no upstream at all. Anything outside the zone is answered'',
        ''# REFUSED, which a client with a second resolver falls through on.'', ''no-resolv'']
      else [(''# Forwarding resolver: the fleet'' @ [CHR 0x27] @ ''s queries leave through these.'')] @
        (if dz_upstreams s \<noteq> [] then ''no-resolv'' # map (\<lambda>u. (''server='' @ u)) (dz_upstreams s)
         else [''# (no upstream configured: /etc/resolv.conf on the gateway is used)'']) @
        [''domain-needed'', ''bogus-priv''] @
        (if dz_stop_dns_rebind s then [''stop-dns-rebind'', (''rebind-domain-ok=/'' @ (dz_zone s) @ ''/'')] else []))"

definition alias_lines :: "dns_spec \<Rightarrow> string list" where
  "alias_lines s = (if dz_cnames s = [] then []
     else [[], ''# Aliases. dnsmasq resolves these against its own records.''] @
       map (\<lambda>c. (''cname='' @ (ce_alias c) @ '','' @ (ce_target c))) (sorted_cnames (dz_cnames s)))"

definition cache_lines :: "dns_spec \<Rightarrow> string list" where
  "cache_lines s = [[], (''cache-size='' @ (show_int (dz_cache_size s)))] @
     (if dz_log_queries s then [''log-queries''] else []) @
     (if dz_extra_options s \<noteq> []
      then [[], ''# FOXGUARD_DNS_EXTRA_OPTIONS, verbatim.''] @ dz_extra_options s else [])"

definition render_conf_body :: "dns_spec \<Rightarrow> (dns_exn, string list) result" where
  "render_conf_body s = bindR (reverse_lines (dz_reverse_pools s)) (\<lambda>rs.
     Inr (listen_lines s @ zone_lines s @ rs @ upstream_lines s @ alias_lines s @ cache_lines s))"

definition render_dns_conf :: "dns_spec \<Rightarrow> (dns_exn, string) result" where
  "render_dns_conf spec = bindR (validate_dns_spec spec) (\<lambda>_. bindR (render_conf_body spec) (\<lambda>ls.
     Inr (DNS_CONF_BANNER @ strip_by (\<lambda>c. c = nl) (join [nl] ls) @ [nl])))"

text \<open>SHA-256 of both files together.\<close>

definition dns_digest :: "(string \<Rightarrow> string) \<Rightarrow> string \<Rightarrow> string \<Rightarrow> string" where
  "dns_digest sha hosts conf = sha (''hosts'' @ [CHR 0x00] @ hosts @ [CHR 0x00] @ ''conf'' @ [CHR 0x00] @ conf)"

end
