(* ===== verification/DnsService.thy ===== *)
theory DnsService
  imports DnsGenerator ProxyService
begin

text \<open>
  \<open>backend/foxguard/services/dns.py\<close>: the zone as a function of the tables and the settings. The
  ordered dict of addresses with their names, and the dict of comments, are one list of host
  entries in the order of insertion.
\<close>

definition dns_base_spec :: "settings \<Rightarrow> dns_spec" where
  "dns_base_spec st = \<lparr>dz_zone = ds_zone (st_dns st), dz_listen_addresses = dns_listen st,
     dz_port = ds_port (st_dns st), dz_hosts_path = ds_hosts_path (st_dns st), dz_hosts = [], dz_cnames = [],
     dz_external_names = {}, dz_mode = ds_mode (st_dns st), dz_upstreams = ds_upstreams (st_dns st),
     dz_cache_size = ds_cache_size (st_dns st), dz_reverse_pools = tunnel_pools st,
     dz_stop_dns_rebind = ds_stop_dns_rebind (st_dns st), dz_log_queries = ds_log_queries (st_dns st),
     dz_extra_options = ds_extra_options (st_dns st)\<rparr>"

definition NAMED_STATES :: "peer_state set" where "NAMED_STATES = {STAGING, QUARANTINED, ACTIVE}"

definition qualify :: "string \<Rightarrow> string \<Rightarrow> string" where
  "qualify name zone =
     (let trimmed = py_lower (rstrip_by (\<lambda>c. c = CHR ''.'') (py_strip name)) in
      if within_zone trimmed zone then trimmed else (trimmed @ ''.'' @ zone))"

text \<open>One call of the closure \<open>add\<close>: an address, a name, a comment.\<close>

type_synonym name_entry = "string \<times> string \<times> string option"

definition first_comment :: "string option \<Rightarrow> string option \<Rightarrow> string option" where
  "first_comment old new = (if old \<noteq> None then old else if truthy new then new else None)"

fun add_name :: "name_entry \<Rightarrow> host_entry list \<Rightarrow> host_entry list" where
  "add_name (address, name, remark) [] =
     [\<lparr>he_address = address, he_names = [name], he_comment = first_comment None remark\<rparr>]"
| "add_name (address, name, remark) (h # hs) =
     (if he_address h = address
      then h\<lparr>he_names := (if name \<in> set (he_names h) then he_names h else he_names h @ [name]),
          he_comment := first_comment (he_comment h) remark\<rparr> # hs
      else h # add_name (address, name, remark) hs)"

definition hosts_of :: "name_entry list \<Rightarrow> host_entry list" where
  "hosts_of es = fold add_name es []"

definition named_peers :: "db \<Rightarrow> peer_row list" where
  "named_peers d = sort_key (\<lambda>p. (pe_created_at p, pe_id p))
     (filter (\<lambda>p. pe_state p \<in> NAMED_STATES \<and> pe_dns_label p \<noteq> None) (peers d))"

definition peer_entries :: "string \<Rightarrow> peer_row \<Rightarrow> name_entry list" where
  "peer_entries zone p =
     (let name = qualify (or_else (pe_dns_label p) []) zone in
      concat (map (\<lambda>a. if truthy a then [(the a, name, Some (peer_type_value (pe_peer_type p)))] else [])
        [pe_tunnel_ip p, pe_tunnel_ip6 p]))"

definition service_names :: "db \<Rightarrow> settings \<Rightarrow> string list" where
  "service_names d st = concat (map (\<lambda>v. case doors_for d st v of None \<Rightarrow> []
     | Some e \<Rightarrow> if has_internal e \<and> truthy (sv_internal_hostname v)
         then [py_lower (the (sv_internal_hostname v))] else []) (by_slug d))"

definition portal_names :: "settings \<Rightarrow> string list" where
  "portal_names st = (let name = py_lower (or_else (portal_host st) []) in
     if name \<noteq> [] \<and> portal_addresses st \<noteq> [] then [name] else [])"

definition published_names :: "db \<Rightarrow> settings \<Rightarrow> string list" where
  "published_names d st = (if \<not> px_enabled (st_proxy st) then []
     else service_names d st @
       (if truthy (proxy_dashboard_host st) then [py_lower (the (proxy_dashboard_host st))] else []))"

definition enabled_records :: "db \<Rightarrow> dns_row list" where
  "enabled_records d = sort_key dn_name (filter dn_enabled (dns_records d))"

definition record_entries :: "string \<Rightarrow> dns_row list \<Rightarrow> name_entry list" where
  "record_entries zone rs = map (\<lambda>r. (dn_value r, qualify (dn_name r) zone, dn_description r))
     (filter (\<lambda>r. dn_kind r \<noteq> REC_CNAME) rs)"

definition record_aliases :: "string \<Rightarrow> dns_row list \<Rightarrow> cname_entry list" where
  "record_aliases zone rs = map (\<lambda>r. \<lparr>ce_alias = qualify (dn_name r) zone,
     ce_target = qualify (dn_value r) zone, ce_comment = dn_description r\<rparr>)
     (filter (\<lambda>r. dn_kind r = REC_CNAME) rs)"

text \<open>Every call of \<open>add\<close>, in order.\<close>

definition name_entries :: "db \<Rightarrow> settings \<Rightarrow> name_entry list" where
  "name_entries d st = (let zone = ds_zone (st_dns st) in
     [(gateway_ip st, qualify (ds_gateway_label (st_dns st)) zone, Some ''gateway'')] @
     concat (map (peer_entries zone) (named_peers d)) @
     concat (map (\<lambda>name. map (\<lambda>a. (a, name, Some ''captive portal'')) (portal_addresses st)) (portal_names st)) @
     map (\<lambda>name. (gateway_ip st, name, Some ''published service'')) (published_names d st) @
     record_entries zone (enabled_records d))"

definition external_names :: "db \<Rightarrow> settings \<Rightarrow> string set" where
  "external_names d st = {name \<in> set (portal_names st @ published_names d st).
     \<not> ends_with (CHR ''.'' # ds_zone (st_dns st)) name}"

definition build_dns_spec :: "db \<Rightarrow> settings \<Rightarrow> dns_spec" where
  "build_dns_spec d st =
     (let zone = ds_zone (st_dns st); hosts = hosts_of (name_entries d st);
          known = set (concat (map he_names hosts))
      in (dns_base_spec st)\<lparr>dz_hosts := hosts,
          dz_cnames := filter (\<lambda>a. ce_target a \<in> known) (record_aliases zone (enabled_records d)),
          dz_external_names := external_names d st\<rparr>)"

definition dangling_aliases :: "db \<Rightarrow> settings \<Rightarrow> string list" where
  "dangling_aliases d st =
     (let zone = ds_zone (st_dns st); served = set (map ce_alias (dz_cnames (build_dns_spec d st)))
      in map (\<lambda>a. ((ce_alias a) @ '' is not served: its target '' @ (ce_target a) @ '' no longer exists''))
        (filter (\<lambda>a. ce_alias a \<notin> served) (record_aliases zone (enabled_records d))))"

definition target_exists :: "db \<Rightarrow> settings \<Rightarrow> string \<Rightarrow> bool" where
  "target_exists d st target =
     (let wanted = qualify target (ds_zone (st_dns st)) in
      list_ex (\<lambda>h. wanted \<in> set (he_names h)) (dz_hosts (build_dns_spec d st)))"

definition render_dns :: "db \<Rightarrow> settings \<Rightarrow> (dns_exn, string \<times> string) result" where
  "render_dns d st = (let s = build_dns_spec d st in
     bindR (render_hosts s) (\<lambda>hosts. bindR (render_dns_conf s) (\<lambda>conf. Inr (hosts, conf))))"

text \<open>A zone that is not valid is nothing to serve; any other failure is raised.\<close>

definition dns_or_none ::
  "(string \<Rightarrow> string) \<Rightarrow> db \<Rightarrow> settings \<Rightarrow> (dns_exn, (string \<times> string \<times> string) option) result" where
  "dns_or_none sha d st =
     (if \<not> ds_enabled (st_dns st) then Inr None
      else (case render_dns d st of
          Inl (ZoneInvalid es) \<Rightarrow> Inr None
        | Inl e \<Rightarrow> Inl e
        | Inr (hosts, conf) \<Rightarrow> Inr (Some (hosts, conf, dns_digest sha hosts conf))))"

end
