(* ===== verification/DnsApi.thy ===== *)
theory DnsApi
  imports DnsService Schemas
begin

text \<open>
  \<open>api/routes/dns.py\<close> and the bodies it reads: the zone as it stands, and the records an
  administrator writes by hand. Every change renders the zone in its transaction and is rolled
  back when the zone is refused. The two answers with a structured detail are constructors of
  their own.
\<close>

datatype dns_refusal = DnsHttp http_exn | ZoneRefused "dns_error list" | TargetUnknown string

section \<open>Bodies\<close>

fun record_kind_value :: "record_kind \<Rightarrow> string" where
  "record_kind_value REC_A = ''A''"
| "record_kind_value REC_AAAA = ''AAAA''"
| "record_kind_value REC_CNAME = ''CNAME''"

definition expected_version :: "record_kind \<Rightarrow> nat" where
  "expected_version k = (if k = REC_A then 4 else 6)"

record record_create =
  rb_name :: string
  rb_kind :: record_kind
  rb_value :: string
  rb_description :: "string option"
  rb_enabled :: bool

definition value_fits :: "record_kind \<Rightarrow> string \<Rightarrow> (string, unit) result" where
  "value_fits k v =
     (if k = REC_CNAME then (if NAME_RE v then Inr () else Inl ''a CNAME value must be a DNS name'')
      else (case ip_address v of None \<Rightarrow> Inl ((quoted v) @ '' does not appear to be an IPv4 or IPv6 address'')
        | Some a \<Rightarrow> if ip_version a = expected_version k then Inr ()
            else Inl (''an '' @ (record_kind_value k) @ '' record needs an IPv'' @ (show_nat (expected_version k)) @ '' address'')))"

definition validate_record_create :: "record_create \<Rightarrow> (string, record_create) result" where
  "validate_record_create p = bindR (all_hold
     [(DNS_NAME_PATTERN (rb_name p) \<and> max_length 253 (rb_name p), ''name''), (max_length 253 (rb_value p), ''value'')])
     (\<lambda>_. bindR (value_fits (rb_kind p) (rb_value p)) (\<lambda>_. Inr p))"

record record_update =
  ru_name :: "string sent"
  ru_kind :: "record_kind sent"
  ru_value :: "string sent"
  ru_description :: "string sent"
  ru_enabled :: "bool sent"

definition validate_record_update :: "record_update \<Rightarrow> (string, record_update) result" where
  "validate_record_update p = bindR (all_hold
     [(sent_ok (\<lambda>s. DNS_NAME_PATTERN s \<and> max_length 253 s) (ru_name p), ''name''),
      (sent_ok (max_length 253) (ru_value p), ''value'')]) (\<lambda>_. Inr p)"

section \<open>The zone\<close>

record zone_status =
  zr_enabled :: bool
  zr_zone :: string
  zr_mode :: resolver_mode
  zr_listen_addresses :: "string list"
  zr_upstreams :: "string list"
  zr_digest :: "string option"
  zr_hosts :: "string option"
  zr_conf :: "string option"
  zr_errors :: "dns_error list"
  zr_warnings :: "string list"

definition read_zone :: "(string \<Rightarrow> string) \<Rightarrow> settings \<Rightarrow> db \<Rightarrow> (dns_refusal, zone_status) result" where
  "read_zone sha st d =
     (let base = \<lparr>zr_enabled = ds_enabled (st_dns st), zr_zone = ds_zone (st_dns st), zr_mode = ds_mode (st_dns st),
          zr_listen_addresses = dns_listen st, zr_upstreams = ds_upstreams (st_dns st),
          zr_digest = None, zr_hosts = None, zr_conf = None, zr_errors = [], zr_warnings = []\<rparr>
      in case render_dns d st of
           Inl (ZoneInvalid es) \<Rightarrow> Inr (base\<lparr>zr_errors := es\<rparr>)
         | Inl (NotANetwork p) \<Rightarrow> Inl (DnsHttp Unhandled)
         | Inr (hosts, conf) \<Rightarrow> Inr (base\<lparr>zr_hosts := Some hosts, zr_conf := Some conf,
             zr_digest := Some (dns_digest sha hosts conf), zr_warnings := dangling_aliases d st\<rparr>))"

section \<open>Records\<close>

definition record_or_404 :: "db \<Rightarrow> string \<Rightarrow> (dns_refusal, dns_row) result" where
  "record_or_404 d i = (case find (\<lambda>r. dn_id r = i) (dns_records d) of
     None \<Rightarrow> Inl (DnsHttp (HTTPException 404 ''DNS record not found'')) | Some r \<Rightarrow> Inr r)"

definition assert_target_exists :: "db \<Rightarrow> settings \<Rightarrow> dns_row \<Rightarrow> (dns_refusal, unit) result" where
  "assert_target_exists d st r =
     (if dn_kind r = REC_CNAME \<and> \<not> target_exists d st (dn_value r) then Inl (TargetUnknown (dn_value r)) else Inr ())"

definition assert_renders :: "db \<Rightarrow> settings \<Rightarrow> (dns_refusal, unit) result" where
  "assert_renders d st = (case render_dns d st of
     Inl (ZoneInvalid es) \<Rightarrow> Inl (ZoneRefused es)
   | Inl (NotANetwork p) \<Rightarrow> Inl (DnsHttp Unhandled)
   | Inr _ \<Rightarrow> Inr ())"

text \<open>
  On the merged row a kind or a value may be null: no pattern matches a null value, and a null
  kind asks for IPv6 and has no name to put in the message.
\<close>

definition validate_kind_and_value :: "record_kind option \<Rightarrow> string option \<Rightarrow> (dns_refusal, unit) result" where
  "validate_kind_and_value k v =
     (case v of
        None \<Rightarrow> Inl (DnsHttp (if k = Some REC_CNAME then Unhandled
          else HTTPException 422 ''None does not appear to be an IPv4 or IPv6 address''))
      | Some s \<Rightarrow> (case k of
          Some kind \<Rightarrow> (case value_fits kind s of Inl msg \<Rightarrow> Inl (DnsHttp (HTTPException 422 msg)) | Inr _ \<Rightarrow> Inr ())
        | None \<Rightarrow> (case value_fits REC_AAAA s of
              Inl msg \<Rightarrow> Inl (DnsHttp (if ip_address s = None then HTTPException 422 msg else Unhandled))
            | Inr _ \<Rightarrow> Inr ())))"

definition name_in_use :: "db \<Rightarrow> dns_row \<Rightarrow> bool" where
  "name_in_use d r \<longleftrightarrow> list_ex (\<lambda>q. dn_id q \<noteq> dn_id r \<and> py_lower (dn_name q) = py_lower (dn_name r)) (dns_records d)"

definition list_records :: "db \<Rightarrow> dns_row list" where
  "list_records d = sort_key dn_name (dns_records d)"

definition commit_record ::
  "request \<Rightarrow> settings \<Rightarrow> string \<Rightarrow> string \<Rightarrow> json \<Rightarrow> db \<Rightarrow> (dns_refusal, db) result" where
  "commit_record rq st act i detail d = bindR (assert_renders d st) (\<lambda>_.
     Inr (audit_as rq act ''dns_record'' (Some i) detail d))"

definition create_record :: "request \<Rightarrow> settings \<Rightarrow> record_create \<Rightarrow> db \<Rightarrow> (dns_refusal, dns_row \<times> db) result" where
  "create_record rq st p d =
     (let r = \<lparr>dn_id = rq_id rq, dn_name = rb_name p, dn_kind = rb_kind p, dn_value = rb_value p,
          dn_description = rb_description p, dn_enabled = rb_enabled p\<rparr>;
          d1 = d\<lparr>dns_records := dns_records d @ [r]\<rparr>
      in if name_in_use d r
         then Inl (DnsHttp (HTTPException 409 (''a DNS record named '' @ (quoted (rb_name p)) @ '' already exists'')))
         else bindR (assert_target_exists d1 st r) (\<lambda>_.
           bindR (commit_record rq st ''dns.record.create'' (dn_id r)
             (JObj [(''name'', JStr (dn_name r)), (''kind'', JStr (record_kind_value (dn_kind r))),
               (''value'', JStr (dn_value r))]) d1) (\<lambda>d2. Inr (r, d2))))"

definition record_changes :: "record_update \<Rightarrow> string list" where
  "record_changes p = sent_keys [(ru_name p \<noteq> None, ''name''), (ru_kind p \<noteq> None, ''kind''),
     (ru_value p \<noteq> None, ''value''), (ru_description p \<noteq> None, ''description''), (ru_enabled p \<noteq> None, ''enabled'')]"

definition changed_record :: "record_update \<Rightarrow> dns_row \<Rightarrow> dns_row" where
  "changed_record p r = r\<lparr>dn_name := set_req (ru_name p) (dn_name r), dn_kind := set_req (ru_kind p) (dn_kind r),
     dn_value := set_req (ru_value p) (dn_value r), dn_description := set_opt (ru_description p) (dn_description r),
     dn_enabled := set_req (ru_enabled p) (dn_enabled r)\<rparr>"

text \<open>A null in a column that takes none is an integrity error too, answered like a name in use.\<close>

definition update_record ::
  "request \<Rightarrow> settings \<Rightarrow> string \<Rightarrow> record_update \<Rightarrow> db \<Rightarrow> (dns_refusal, dns_row \<times> db) result" where
  "update_record rq st i p d =
     bindR (record_or_404 d i) (\<lambda>old.
     bindR (validate_kind_and_value (set_opt (ru_kind p) (Some (dn_kind old))) (set_opt (ru_value p) (Some (dn_value old)))) (\<lambda>_.
      (let r = changed_record p old;
           d1 = d\<lparr>dns_records := map (\<lambda>q. if dn_id q = i then r else q) (dns_records d)\<rparr>
       in if is_null (ru_name p) \<or> is_null (ru_kind p) \<or> is_null (ru_enabled p) \<or> name_in_use d r
          then Inl (DnsHttp (HTTPException 409 ''another DNS record already has that name''))
          else bindR (assert_target_exists d1 st r) (\<lambda>_.
            bindR (commit_record rq st ''dns.record.update'' i
              (JObj [(''name'', JStr (dn_name r)), (''changes'', JList (map JStr (record_changes p)))]) d1)
              (\<lambda>d2. Inr (r, d2))))))"

definition delete_record :: "request \<Rightarrow> settings \<Rightarrow> string \<Rightarrow> db \<Rightarrow> (dns_refusal, db) result" where
  "delete_record rq st i d =
     bindR (record_or_404 d i) (\<lambda>r. commit_record rq st ''dns.record.delete'' i (JObj [(''name'', JStr (dn_name r))])
       (d\<lparr>dns_records := filter (\<lambda>q. dn_id q \<noteq> i) (dns_records d)\<rparr>))"

end
