(* ===== verification/DnsValid.thy ===== *)
theory DnsValid
  imports DnsApi
begin

text \<open>
  What the validation of a zone amounts to, without its loops: \<open>dns_spec_ok\<close> is a condition on
  the set of addresses and names. On a zone built from name entries it is a condition on the set
  of entries, which is inherited by every subset.
\<close>

section \<open>The condition\<close>

definition host_ip :: "host_entry \<Rightarrow> string option" where
  "host_ip h = map_option show_ip (ip_address (he_address h))"

definition name_ok :: "dns_spec \<Rightarrow> string \<Rightarrow> bool" where
  "name_ok spec n \<longleftrightarrow> n \<noteq> [] \<and> length n \<le> MAX_NAME \<and> NAME_RE n \<and>
     (n \<in> dz_external_names spec \<or> within_zone n (dz_zone spec))"

definition hosts_ok :: "dns_spec \<Rightarrow> host_entry list \<Rightarrow> bool" where
  "hosts_ok spec hs \<longleftrightarrow>
     (\<forall>h\<in>set hs. ip_address (he_address h) \<noteq> None \<and> he_names h \<noteq> [] \<and> (\<forall>n\<in>set (he_names h). name_ok spec n)) \<and>
     distinct (map host_ip hs) \<and>
     (\<forall>h\<in>set hs. \<forall>h'\<in>set hs. \<forall>n\<in>set (he_names h) \<inter> set (he_names h').
        entry_version h = entry_version h' \<longrightarrow> he_address h = he_address h')"

definition known_names :: "host_entry list \<Rightarrow> string set" where
  "known_names hs = (\<Union>h\<in>set hs. set (he_names h))"

definition plain_name :: "string \<Rightarrow> bool" where
  "plain_name n \<longleftrightarrow> n \<noteq> [] \<and> length n \<le> MAX_NAME \<and> NAME_RE n"

definition aliases_ok :: "dns_spec \<Rightarrow> string set \<Rightarrow> cname_entry list \<Rightarrow> bool" where
  "aliases_ok spec known cs \<longleftrightarrow> distinct (map ce_alias cs) \<and>
     (\<forall>c\<in>set cs. plain_name (ce_alias c) \<and> within_zone (ce_alias c) (dz_zone spec) \<and> ce_alias c \<notin> known \<and>
        plain_name (ce_target c) \<and> ce_target c \<noteq> ce_alias c \<and> ce_target c \<in> known)"

definition dns_spec_ok :: "dns_spec \<Rightarrow> bool" where
  "dns_spec_ok spec \<longleftrightarrow> check_settings spec = [] \<and> hosts_ok spec (dz_hosts spec) \<and>
     aliases_ok spec (known_names (dz_hosts spec)) (dz_cnames spec)"

section \<open>Loops\<close>

lemma scan_Cons_nil: "fst (scan f s (x # xs)) = [] \<longleftrightarrow> fst (f s x) = [] \<and> fst (scan f (snd (f s x)) xs) = []"
  by (auto split: prod.splits)

lemma scan_Cons_snd: "snd (scan f s (x # xs)) = snd (scan f (snd (f s x)) xs)"
  by (auto split: prod.splits)

lemma check_name_nil: "check_name w n = [] \<longleftrightarrow> plain_name n"
  by (auto simp: check_name_def plain_name_def)

lemma check_in_zone_nil: "check_in_zone w n z = [] \<longleftrightarrow> within_zone n z"
  by (simp add: check_in_zone_def)

lemma name_ok_plain: "name_ok spec n \<longleftrightarrow> plain_name n \<and> (n \<in> dz_external_names spec \<or> within_zone n (dz_zone spec))"
  by (auto simp: name_ok_def plain_name_def)

definition free_for :: "host_scan \<Rightarrow> string \<Rightarrow> nat \<Rightarrow> string \<Rightarrow> bool" where
  "free_for s address v n \<longleftrightarrow> hs_names s (n, v) = None \<or> hs_names s (n, v) = Some address"

lemma check_host_name_nil:
  "fst (check_host_name spec a v s n) = [] \<longleftrightarrow> name_ok spec n \<and> free_for s a v n"
  by (auto simp: check_host_name_def Let_def name_ok_plain check_in_zone_nil check_name_nil free_for_def
      split: option.splits if_splits)

lemma check_host_name_snd:
  "fst (check_host_name spec a v s n) = [] \<Longrightarrow> snd (check_host_name spec a v s n) =
     s\<lparr>hs_names := (hs_names s)((n, v) \<mapsto> a), hs_known := insert n (hs_known s)\<rparr>"
  by (auto simp: check_host_name_def Let_def split: if_splits)

lemma host_names_nil:
  "fst (scan (check_host_name spec a v) s ns) = [] \<longleftrightarrow> (\<forall>n\<in>set ns. name_ok spec n \<and> free_for s a v n)"
proof (induction ns arbitrary: s)
  case (Cons n ns)
  show ?case
  proof (cases "name_ok spec n \<and> free_for s a v n")
    case True
    then have n: "fst (check_host_name spec a v s n) = []" by (simp add: check_host_name_nil)
    have "free_for (snd (check_host_name spec a v s n)) a v m \<longleftrightarrow> free_for s a v m" for m
      using True by (auto simp: check_host_name_snd [OF n] free_for_def)
    then show ?thesis using True n Cons by (simp add: scan_Cons_nil del: scan.simps)
  next
    case False
    then show ?thesis by (auto simp: scan_Cons_nil check_host_name_nil simp del: scan.simps)
  qed
qed simp

lemma host_names_snd:
  "fst (scan (check_host_name spec a v) s ns) = [] \<Longrightarrow> snd (scan (check_host_name spec a v) s ns) =
     s\<lparr>hs_names := (\<lambda>(n, w). if w = v \<and> n \<in> set ns then Some a else hs_names s (n, w)),
       hs_known := hs_known s \<union> set ns\<rparr>"
proof (induction ns arbitrary: s)
  case (Cons n ns)
  then have n: "fst (check_host_name spec a v s n) = []"
    and r: "fst (scan (check_host_name spec a v) (snd (check_host_name spec a v s n)) ns) = []"
    unfolding scan_Cons_nil by blast+
  show ?case unfolding scan_Cons_snd Cons.IH [OF r] unfolding check_host_name_snd [OF n]
    by (rule host_scan.equality) (auto intro!: ext)
qed auto

definition fits :: "host_scan \<Rightarrow> host_entry \<Rightarrow> bool" where
  "fits s h \<longleftrightarrow> (\<forall>n\<in>set (he_names h). \<forall>v. entry_version h = Some v \<longrightarrow> free_for s (he_address h) v n) \<and>
     the (host_ip h) \<notin> hs_addresses s"

definition after_host :: "host_scan \<Rightarrow> host_entry \<Rightarrow> host_scan" where
  "after_host s h = \<lparr>hs_names = (\<lambda>(n, w). if Some w = entry_version h \<and> n \<in> set (he_names h)
       then Some (he_address h) else hs_names s (n, w)),
     hs_known = hs_known s \<union> set (he_names h), hs_addresses = insert (the (host_ip h)) (hs_addresses s)\<rparr>"

lemma check_host_nil:
  "fst (check_host spec s h) = [] \<longleftrightarrow> ip_address (he_address h) \<noteq> None \<and> he_names h \<noteq> [] \<and>
     (\<forall>n\<in>set (he_names h). name_ok spec n) \<and> fits s h"
proof (cases "ip_address (he_address h)")
  case (Some a)
  let ?s = "s\<lparr>hs_addresses := insert (show_ip a) (hs_addresses s)\<rparr>"
  let ?r = "scan (check_host_name spec (he_address h) (ip_version a)) ?s (he_names h)"
  have "fst (check_host spec s h) = [] \<longleftrightarrow> show_ip a \<notin> hs_addresses s \<and> he_names h \<noteq> [] \<and> fst ?r = []"
    by (auto simp: check_host_def Some split: prod.splits)
  moreover have "free_for ?s x v n \<longleftrightarrow> free_for s x v n" for x v n by (simp add: free_for_def)
  ultimately show ?thesis unfolding host_names_nil by (auto simp: Some fits_def host_ip_def entry_version_def)
qed (simp add: check_host_def)

lemma check_host_snd:
  assumes "fst (check_host spec s h) = []"
  shows "snd (check_host spec s h) = after_host s h"
proof -
  obtain a where a: "ip_address (he_address h) = Some a" using assms by (auto simp: check_host_nil)
  let ?s = "s\<lparr>hs_addresses := insert (show_ip a) (hs_addresses s)\<rparr>"
  let ?r = "scan (check_host_name spec (he_address h) (ip_version a)) ?s (he_names h)"
  have r: "fst ?r = []" using assms by (auto simp: check_host_def a split: prod.splits)
  have "snd (check_host spec s h) = snd ?r" by (auto simp: check_host_def a split: prod.splits)
  then show ?thesis unfolding host_names_snd [OF r]
    by (intro host_scan.equality) (auto simp: after_host_def host_ip_def entry_version_def a intro!: ext)
qed

definition pairwise_ok :: "host_entry \<Rightarrow> host_entry \<Rightarrow> bool" where
  "pairwise_ok h h' \<longleftrightarrow> the (host_ip h) \<noteq> the (host_ip h') \<and>
     (\<forall>n\<in>set (he_names h) \<inter> set (he_names h'). entry_version h = entry_version h' \<longrightarrow> he_address h = he_address h')"

lemma fits_after:
  assumes "fits s h" and "entry_version h' \<noteq> None"
  shows "fits (after_host s h) h' \<longleftrightarrow> fits s h' \<and> pairwise_ok h h'"
proof -
  obtain v where v: "entry_version h' = Some v" using assms(2) by blast
  have "free_for (after_host s h) (he_address h') v n \<longleftrightarrow>
      free_for s (he_address h') v n \<and> (n \<in> set (he_names h) \<longrightarrow> entry_version h = entry_version h' \<longrightarrow> he_address h = he_address h')"
    if "n \<in> set (he_names h')" for n
  proof -
    have "entry_version h = Some v \<Longrightarrow> n \<in> set (he_names h) \<Longrightarrow> free_for s (he_address h) v n"
      using assms(1) by (simp add: fits_def)
    then show ?thesis using v by (auto simp: free_for_def after_host_def)
  qed
  then show ?thesis using v by (auto simp: fits_def pairwise_ok_def after_host_def)
qed

lemma hosts_nil:
  "fst (scan (check_host spec) s hs) = [] \<longleftrightarrow>
     (\<forall>h\<in>set hs. ip_address (he_address h) \<noteq> None \<and> he_names h \<noteq> [] \<and> (\<forall>n\<in>set (he_names h). name_ok spec n) \<and> fits s h) \<and>
     sorted_wrt pairwise_ok hs"
proof (induction hs arbitrary: s)
  case (Cons h hs)
  show ?case
  proof (cases "fst (check_host spec s h) = []")
    case True
    note c = True [unfolded check_host_nil]
    have f: "fits (after_host s h) h' \<longleftrightarrow> fits s h' \<and> pairwise_ok h h'" if "ip_address (he_address h') \<noteq> None" for h'
      using fits_after c that by (auto simp: entry_version_def)
    show ?thesis using c f by (auto simp: scan_Cons_nil True check_host_snd [OF True] Cons simp del: scan.simps)
  next
    case False
    then show ?thesis using False unfolding check_host_nil by (auto simp: scan_Cons_nil check_host_nil simp del: scan.simps)
  qed
qed simp

lemma hosts_known:
  "fst (scan (check_host spec) s hs) = [] \<Longrightarrow> hs_known (snd (scan (check_host spec) s hs)) = hs_known s \<union> known_names hs"
proof (induction hs arbitrary: s)
  case (Cons h hs)
  then have h: "fst (check_host spec s h) = []" and r: "fst (scan (check_host spec) (after_host s h) hs) = []"
    unfolding scan_Cons_nil using check_host_snd by fastforce+
  show ?case unfolding scan_Cons_snd check_host_snd [OF h] Cons.IH [OF r] by (auto simp: after_host_def known_names_def)
qed (simp add: known_names_def)

section \<open>Validation is the condition\<close>

lemma pairs_of_list:
  assumes "\<And>x y. q x y \<Longrightarrow> q y x" and "\<And>x. q x x"
  shows "sorted_wrt (\<lambda>x y. f x \<noteq> f y \<and> q x y) xs \<longleftrightarrow> distinct (map f xs) \<and> (\<forall>x\<in>set xs. \<forall>y\<in>set xs. q x y)"
  using assms by (induction xs) auto

lemma pairwise_hosts:
  "sorted_wrt pairwise_ok hs \<longleftrightarrow> distinct (map (the \<circ> host_ip) hs) \<and>
     (\<forall>h\<in>set hs. \<forall>h'\<in>set hs. \<forall>n\<in>set (he_names h) \<inter> set (he_names h').
        entry_version h = entry_version h' \<longrightarrow> he_address h = he_address h')"
proof -
  let ?q = "\<lambda>h h'. \<forall>n\<in>set (he_names h) \<inter> set (he_names h'). entry_version h = entry_version h' \<longrightarrow> he_address h = he_address h'"
  have "pairwise_ok = (\<lambda>h h'. (the \<circ> host_ip) h \<noteq> (the \<circ> host_ip) h' \<and> ?q h h')"
    by (intro ext) (simp add: pairwise_ok_def)
  then have "sorted_wrt pairwise_ok hs = sorted_wrt (\<lambda>h h'. (the \<circ> host_ip) h \<noteq> (the \<circ> host_ip) h' \<and> ?q h h') hs"
    by (rule arg_cong)
  also have "\<dots> \<longleftrightarrow> distinct (map (the \<circ> host_ip) hs) \<and> (\<forall>h\<in>set hs. \<forall>h'\<in>set hs. ?q h h')"
    by (rule pairs_of_list) auto
  finally show ?thesis .
qed

lemma hosts_checked: "fst (scan (check_host spec) no_hosts_seen hs) = [] \<longleftrightarrow> hosts_ok spec hs"
proof -
  have e: "fits no_hosts_seen h" for h by (simp add: fits_def no_hosts_seen_def free_for_def)
  have d: "distinct (map (the \<circ> host_ip) hs) \<longleftrightarrow> distinct (map host_ip hs)"
    if "\<forall>h\<in>set hs. ip_address (he_address h) \<noteq> None"
  proof -
    have "map host_ip hs = map Some (map (the \<circ> host_ip) hs)" using that by (auto simp: host_ip_def)
    then show ?thesis by (metis distinct_map inj_Some inj_on_subset subset_UNIV)
  qed
  show ?thesis unfolding hosts_nil pairwise_hosts hosts_ok_def using d e by blast
qed

lemma check_cname_nil:
  "fst (check_cname spec known seen c) = [] \<longleftrightarrow>
     plain_name (ce_alias c) \<and> within_zone (ce_alias c) (dz_zone spec) \<and> ce_alias c \<notin> known \<and>
     plain_name (ce_target c) \<and> ce_target c \<noteq> ce_alias c \<and> ce_target c \<in> known \<and> ce_alias c \<notin> seen"
  by (auto simp: check_cname_def Let_def check_in_zone_nil check_name_nil split: if_splits)

lemma check_cname_snd:
  "fst (check_cname spec known seen c) = [] \<Longrightarrow> snd (check_cname spec known seen c) = insert (ce_alias c) seen"
  by (auto simp: check_cname_nil check_cname_def check_name_nil)

lemma aliases_nil:
  "fst (scan (check_cname spec known) seen cs) = [] \<longleftrightarrow> aliases_ok spec known cs \<and> ce_alias ` set cs \<inter> seen = {}"
proof (induction cs arbitrary: seen)
  case (Cons c cs)
  show ?case
  proof (cases "fst (check_cname spec known seen c) = []")
    case True
    then show ?thesis unfolding scan_Cons_nil check_cname_snd [OF True] Cons
      by (auto simp: check_cname_nil aliases_ok_def)
  next
    case False
    then show ?thesis unfolding scan_Cons_nil by (auto simp: check_cname_nil aliases_ok_def)
  qed
qed (simp add: aliases_ok_def)

lemma validate_dns_spec_iff: "validate_dns_spec spec = Inr () \<longleftrightarrow> dns_spec_ok spec"
proof -
  have "dns_errors spec = [] \<longleftrightarrow> dns_spec_ok spec"
  proof (cases "fst (scan (check_host spec) no_hosts_seen (dz_hosts spec)) = []")
    case True
    have k: "hs_known (snd (scan (check_host spec) no_hosts_seen (dz_hosts spec))) = known_names (dz_hosts spec)"
      using hosts_known [OF True] by (simp add: no_hosts_seen_def)
    then show ?thesis using k hosts_checked [of spec "dz_hosts spec"]
      by (simp add: dns_errors_def dns_spec_ok_def aliases_nil case_prod_unfold)
  next
    case False
    then show ?thesis using hosts_checked [of spec "dz_hosts spec"]
      by (simp add: dns_errors_def dns_spec_ok_def case_prod_unfold)
  qed
  then show ?thesis by (auto simp: validate_dns_spec_def)
qed

section \<open>Entries of a table\<close>

lemma add_name_addresses:
  "set (map he_address (add_name e hs)) = insert (fst e) (set (map he_address hs))"
  by (induction e hs rule: add_name.induct) auto

lemma add_name_distinct: "distinct (map he_address hs) \<Longrightarrow> distinct (map he_address (add_name e hs))"
proof (induction e hs rule: add_name.induct)
  case (2 a n c h hs)
  then show ?case using add_name_addresses [of "(a, n, c)" hs] by auto
qed simp

lemma add_name_names:
  assumes "distinct (map he_address hs)"
  shows "(\<exists>h\<in>set (add_name (a, n, c) hs). he_address h = x \<and> y \<in> set (he_names h)) \<longleftrightarrow>
     (x = a \<and> y = n) \<or> (\<exists>h\<in>set hs. he_address h = x \<and> y \<in> set (he_names h))"
  using assms
proof (induction hs)
  case (Cons h hs)
  then show ?case by (cases "he_address h = a") auto
qed auto

lemma add_name_nonempty: "\<forall>h\<in>set hs. he_names h \<noteq> [] \<Longrightarrow> h \<in> set (add_name e hs) \<Longrightarrow> he_names h \<noteq> []"
  by (induction e hs rule: add_name.induct) (auto split: if_splits)

definition pairs_of :: "name_entry list \<Rightarrow> (string \<times> string) set" where
  "pairs_of es = (\<lambda>(a, n, c). (a, n)) ` set es"

lemma pairs_of_snoc: "pairs_of (es @ [(a, n, c)]) = insert (a, n) (pairs_of es)"
  by (simp add: pairs_of_def)

lemma hosts_of_snoc: "hosts_of (es @ [e]) = add_name e (hosts_of es)"
  by (simp add: hosts_of_def)

lemma hosts_of_distinct: "distinct (map he_address (hosts_of es))"
  by (induction es rule: rev_induct) (simp_all add: hosts_of_snoc add_name_distinct, simp add: hosts_of_def)

lemma hosts_of_nonempty: "h \<in> set (hosts_of es) \<Longrightarrow> he_names h \<noteq> []"
proof (induction es arbitrary: h rule: rev_induct)
  case (snoc e es)
  then show ?case using add_name_nonempty unfolding hosts_of_snoc by blast
qed (simp add: hosts_of_def)

lemma hosts_of_pairs:
  "(\<exists>h\<in>set (hosts_of es). he_address h = x \<and> y \<in> set (he_names h)) \<longleftrightarrow> (x, y) \<in> pairs_of es"
proof (induction es rule: rev_induct)
  case (snoc e es)
  obtain a n c where e: "e = (a, n, c)" by (cases e) auto
  show ?case unfolding hosts_of_snoc e add_name_names [OF hosts_of_distinct] snoc pairs_of_snoc by auto
qed (simp add: hosts_of_def pairs_of_def)

lemma hosts_of_names:
  assumes "h \<in> set (hosts_of es)"
  shows "n \<in> set (he_names h) \<longleftrightarrow> (he_address h, n) \<in> pairs_of es"
proof -
  have "h' = h" if "h' \<in> set (hosts_of es)" and "he_address h' = he_address h" for h'
    using that assms hosts_of_distinct [of es] by (metis distinct_map inj_on_eq_iff)
  then show ?thesis using assms hosts_of_pairs [of es "he_address h" n] by blast
qed

lemma hosts_of_address: "(a, n) \<in> pairs_of es \<Longrightarrow> \<exists>h\<in>set (hosts_of es). he_address h = a \<and> n \<in> set (he_names h)"
  using hosts_of_pairs by blast

end
