(* ===== verification/DnsZone.thy ===== *)
theory DnsZone
  imports DnsValid FleetProperties
begin

text \<open>
  The zone that is built from the tables: when it is valid, in terms of the pairs of an address
  and a name it holds, and what keeps it valid.
\<close>

section \<open>Valid entries\<close>

definition addr_id :: "string \<Rightarrow> string option" where
  "addr_id a = map_option show_ip (ip_address a)"

definition addr_version :: "string \<Rightarrow> nat option" where
  "addr_version a = map_option ip_version (ip_address a)"

definition entries_ok :: "(string \<times> string) set \<Rightarrow> bool" where
  "entries_ok ps \<longleftrightarrow> (\<forall>(a, n)\<in>ps. ip_address a \<noteq> None \<and> plain_name n) \<and>
     inj_on addr_id (fst ` ps) \<and>
     (\<forall>(a, n)\<in>ps. \<forall>(b, m)\<in>ps. n = m \<longrightarrow> addr_version a = addr_version b \<longrightarrow> a = b)"

lemma entries_ok_subset: "entries_ok qs \<Longrightarrow> ps \<subseteq> qs \<Longrightarrow> entries_ok ps"
  unfolding entries_ok_def by (auto intro: inj_on_subset [of _ "fst ` qs"] | blast)+

lemma hosts_of_covers: "h \<in> set (hosts_of es) \<Longrightarrow> \<exists>n. (he_address h, n) \<in> pairs_of es"
  using hosts_of_nonempty hosts_of_names by (metis last_in_set)

lemma hosts_addresses: "he_address ` set (hosts_of es) = fst ` pairs_of es"
  using hosts_of_covers hosts_of_address by force

lemma known_names_of: "known_names (hosts_of es) = snd ` pairs_of es"
  unfolding known_names_def using hosts_of_names hosts_of_address by force

lemma hosts_ok_iff:
  assumes z: "\<And>a n. (a, n) \<in> pairs_of es \<Longrightarrow> n \<in> dz_external_names spec \<or> within_zone n (dz_zone spec)"
  shows "hosts_ok spec (hosts_of es) \<longleftrightarrow> entries_ok (pairs_of es)"
proof -
  let ?hs = "set (hosts_of es)" and ?ps = "pairs_of es"
  have i: "host_ip = (\<lambda>h. addr_id (he_address h))" and v: "entry_version = (\<lambda>h. addr_version (he_address h))"
    by (auto simp: host_ip_def addr_id_def entry_version_def addr_version_def)
  have 1: "(\<forall>h\<in>?hs. ip_address (he_address h) \<noteq> None \<and> he_names h \<noteq> [] \<and> (\<forall>n\<in>set (he_names h). name_ok spec n)) \<longleftrightarrow>
      (\<forall>(a, n)\<in>?ps. ip_address a \<noteq> None \<and> plain_name n)" (is "?l \<longleftrightarrow> ?r")
  proof
    assume l: ?l
    have "ip_address a \<noteq> None \<and> plain_name n" if p: "(a, n) \<in> ?ps" for a n
    proof -
      obtain h where "h \<in> ?hs" "he_address h = a" "n \<in> set (he_names h)" using hosts_of_address p by blast
      then show ?thesis using l by (auto simp: name_ok_plain)
    qed
    then show ?r by blast
  next
    assume r: ?r
    have "ip_address (he_address h) \<noteq> None \<and> (\<forall>n\<in>set (he_names h). name_ok spec n)" if h: "h \<in> ?hs" for h
    proof -
      have "(he_address h, n) \<in> ?ps" if "n \<in> set (he_names h)" for n using hosts_of_names h that by blast
      then have "\<forall>n\<in>set (he_names h). name_ok spec n" using r z unfolding name_ok_plain by blast
      moreover obtain n where "(he_address h, n) \<in> ?ps" using hosts_of_covers h by blast
      ultimately show ?thesis using r by blast
    qed
    then show ?l using hosts_of_nonempty by blast
  qed
  have "map host_ip (hosts_of es) = map addr_id (map he_address (hosts_of es))" by (simp add: i)
  then have 2: "distinct (map host_ip (hosts_of es)) \<longleftrightarrow> inj_on addr_id (fst ` ?ps)"
    using hosts_of_distinct [of es] hosts_addresses [of es] by (metis distinct_map list.set_map)
  have 3: "(\<forall>h\<in>?hs. \<forall>h'\<in>?hs. \<forall>n\<in>set (he_names h) \<inter> set (he_names h'). entry_version h = entry_version h' \<longrightarrow> he_address h = he_address h') \<longleftrightarrow>
      (\<forall>(a, n)\<in>?ps. \<forall>(b, m)\<in>?ps. n = m \<longrightarrow> addr_version a = addr_version b \<longrightarrow> a = b)" (is "?l \<longleftrightarrow> ?r")
  proof
    assume ?r
    have "he_address h = he_address h'" if h: "h \<in> ?hs" "h' \<in> ?hs" and n: "n \<in> set (he_names h) \<inter> set (he_names h')"
      and e: "entry_version h = entry_version h'" for h h' n
    proof -
      have "(he_address h, n) \<in> ?ps" and "(he_address h', n) \<in> ?ps" using hosts_of_names h n by blast+
      moreover have "addr_version (he_address h) = addr_version (he_address h')" using e by (simp add: v)
      ultimately show ?thesis using \<open>?r\<close> by blast
    qed
    then show ?l by blast
  next
    assume l: ?l
    have "a = b" if p: "(a, n) \<in> ?ps" "(b, n) \<in> ?ps" and e: "addr_version a = addr_version b" for a b n
    proof -
      obtain h where h: "h \<in> ?hs" "he_address h = a" "n \<in> set (he_names h)" using hosts_of_address p(1) by blast
      obtain h' where h': "h' \<in> ?hs" "he_address h' = b" "n \<in> set (he_names h')" using hosts_of_address p(2) by blast
      have "entry_version h = entry_version h'" using e by (simp add: v h h')
      then have "he_address h = he_address h'" using l h h' by blast
      then show ?thesis by (simp add: h h')
    qed
    then show ?r by blast
  qed
  show ?thesis by (simp only: hosts_ok_def entries_ok_def 1 2 3)
qed

section \<open>The zone of a database\<close>

lemma ends_with_append: "ends_with p (s @ p)"
  by (simp add: ends_with_def starts_with_def)

lemma qualify_within: "within_zone (qualify n z) z"
  using ends_with_append by (auto simp: qualify_def within_zone_def Let_def)

lemma names_are_declared:
  "(a, n) \<in> pairs_of (name_entries d st) \<Longrightarrow> n \<in> external_names d st \<or> within_zone n (ds_zone (st_dns st))"
proof -
  assume "(a, n) \<in> pairs_of (name_entries d st)"
  then have "(\<exists>m. n = qualify m (ds_zone (st_dns st))) \<or> n \<in> set (portal_names st @ published_names d st)"
    unfolding pairs_of_def name_entries_def
    by (auto simp: Let_def peer_entries_def record_entries_def split: if_splits)
  then show ?thesis
  proof
    assume "n \<in> set (portal_names st @ published_names d st)"
    then show ?thesis by (auto simp: external_names_def within_zone_def)
  qed (auto simp: qualify_within)
qed

definition served_aliases :: "db \<Rightarrow> settings \<Rightarrow> cname_entry list" where
  "served_aliases d st = filter (\<lambda>a. ce_target a \<in> snd ` pairs_of (name_entries d st))
     (record_aliases (ds_zone (st_dns st)) (enabled_records d))"

lemma build_dns_spec_fields:
  "dz_hosts (build_dns_spec d st) = hosts_of (name_entries d st)"
  "dz_cnames (build_dns_spec d st) = served_aliases d st"
  "dz_zone (build_dns_spec d st) = ds_zone (st_dns st)"
  "dz_external_names (build_dns_spec d st) = external_names d st"
  "check_settings (build_dns_spec d st) = check_settings (dns_base_spec st)"
  by (simp_all add: build_dns_spec_def Let_def served_aliases_def dns_base_spec_def check_settings_def
      known_names_of [symmetric] known_names_def)

lemma zone_valid_iff:
  "validate_dns_spec (build_dns_spec d st) = Inr () \<longleftrightarrow>
     check_settings (dns_base_spec st) = [] \<and> entries_ok (pairs_of (name_entries d st)) \<and>
     aliases_ok (build_dns_spec d st) (snd ` pairs_of (name_entries d st)) (served_aliases d st)"
  unfolding validate_dns_spec_iff dns_spec_ok_def build_dns_spec_fields known_names_of
  using hosts_ok_iff [of "name_entries d st" "build_dns_spec d st"] names_are_declared
  by (simp add: build_dns_spec_fields)

lemma aliases_ok_subset:
  assumes "aliases_ok s known (filter (\<lambda>a. ce_target a \<in> known) xs)" and "known' \<subseteq> known" and "dz_zone s' = dz_zone s"
  shows "aliases_ok s' known' (filter (\<lambda>a. ce_target a \<in> known') xs)"
proof -
  have "filter (\<lambda>a. ce_target a \<in> known') xs = filter (\<lambda>a. ce_target a \<in> known') (filter (\<lambda>a. ce_target a \<in> known) xs)"
    using assms(2) by (induction xs) auto
  moreover have "distinct (map ce_alias (filter P (filter (\<lambda>a. ce_target a \<in> known) xs)))" for P
    using assms(1) by (simp add: aliases_ok_def distinct_map_filter del: filter_filter)
  ultimately have "distinct (map ce_alias (filter (\<lambda>a. ce_target a \<in> known') xs))" by simp
  then show ?thesis using assms unfolding aliases_ok_def by auto
qed

lemma zone_survives:
  assumes "validate_dns_spec (build_dns_spec d st) = Inr ()"
    and "pairs_of (name_entries d' st) \<subseteq> pairs_of (name_entries d st)"
    and "enabled_records d' = enabled_records d"
  shows "validate_dns_spec (build_dns_spec d' st) = Inr ()"
proof -
  note v = assms(1) [unfolded zone_valid_iff]
  have k: "snd ` pairs_of (name_entries d' st) \<subseteq> snd ` pairs_of (name_entries d st)" using assms(2) by blast
  have "aliases_ok (build_dns_spec d' st) (snd ` pairs_of (name_entries d' st)) (served_aliases d' st)"
    unfolding served_aliases_def assms(3)
    by (rule aliases_ok_subset [OF _ k, of "build_dns_spec d st"]) (use v in \<open>simp_all add: served_aliases_def build_dns_spec_fields\<close>)
  moreover have "entries_ok (pairs_of (name_entries d' st))" using entries_ok_subset [OF _ assms(2)] v by simp
  ultimately show ?thesis unfolding zone_valid_iff using v by simp
qed
section \<open>Moves that only narrow\<close>

text \<open>A change of states that names no peer that was unnamed and serves none that was not.\<close>

definition narrows :: "(peer_row \<Rightarrow> peer_row) \<Rightarrow> bool" where
  "narrows f \<longleftrightarrow> (\<forall>p. \<exists>s. f p = p\<lparr>pe_state := s\<rparr> \<and> (s \<in> NAMED_STATES \<longrightarrow> pe_state p \<in> NAMED_STATES) \<and>
     (s \<in> SERVED_STATES \<longrightarrow> pe_state p \<in> SERVED_STATES))"

lemma narrows_fields:
  assumes "narrows f"
  shows "pe_id (f p) = pe_id p" and "pe_dns_label (f p) = pe_dns_label p" and "peer_entries z (f p) = peer_entries z p"
    and "pe_state (f p) \<in> NAMED_STATES \<Longrightarrow> pe_state p \<in> NAMED_STATES"
    and "pe_state (f p) \<in> SERVED_STATES \<Longrightarrow> pe_state p \<in> SERVED_STATES"
proof -
  obtain s where "f p = p\<lparr>pe_state := s\<rparr>" "s \<in> NAMED_STATES \<longrightarrow> pe_state p \<in> NAMED_STATES"
    "s \<in> SERVED_STATES \<longrightarrow> pe_state p \<in> SERVED_STATES" using assms unfolding narrows_def by blast
  then show "pe_id (f p) = pe_id p" and "pe_dns_label (f p) = pe_dns_label p" and "peer_entries z (f p) = peer_entries z p"
    and "pe_state (f p) \<in> NAMED_STATES \<Longrightarrow> pe_state p \<in> NAMED_STATES"
    and "pe_state (f p) \<in> SERVED_STATES \<Longrightarrow> pe_state p \<in> SERVED_STATES"
    by (simp_all add: peer_entries_def Let_def)
qed

lemma narrowed_find:
  assumes "narrows f"
  shows "find (\<lambda>p. pe_id p = i) (map f ps) = map_option f (find (\<lambda>p. pe_id p = i) ps)"
  by (induction ps) (auto simp: narrows_fields(1) [OF assms])

lemma doors_narrow:
  assumes "narrows f" and "peers d' = map f (peers d)" and "doors_for d' st v = Some e" and "has_internal e"
  shows "\<exists>e'. doors_for d st v = Some e' \<and> has_internal e'"
proof -
  have u: "upstream_peer d' v = map_option f (upstream_peer d v)"
    by (simp add: upstream_peer_def assms(2) narrowed_find [OF assms(1)] split: option.splits)
  show ?thesis
  proof (cases "upstream_peer d v")
    case (Some p)
    then show ?thesis using assms(3,4) u narrows_fields(5) [OF assms(1), of p]
      by (cases "sv_exposure v") (simp_all add: doors_for_def Let_def split: if_splits)
  qed (use assms(3,4) u in \<open>auto simp: doors_for_def split: if_splits\<close>)
qed

lemma service_names_iff:
  "n \<in> set (service_names d st) \<longleftrightarrow> (\<exists>v\<in>set (services d). \<exists>e. doors_for d st v = Some e \<and> has_internal e \<and>
     truthy (sv_internal_hostname v) \<and> n = py_lower (the (sv_internal_hostname v)))"
proof -
  have "n \<in> set (case doors_for d st v of None \<Rightarrow> [] | Some e \<Rightarrow> if has_internal e \<and> truthy (sv_internal_hostname v)
         then [py_lower (the (sv_internal_hostname v))] else []) \<longleftrightarrow>
     (\<exists>e. doors_for d st v = Some e \<and> has_internal e \<and>
       truthy (sv_internal_hostname v) \<and> n = py_lower (the (sv_internal_hostname v)))" for v
    by (cases "doors_for d st v") auto
  then show ?thesis by (simp add: service_names_def by_slug_def)
qed

lemma published_narrow:
  assumes "narrows f" and "peers d' = map f (peers d)" and "services d' = services d"
  shows "set (published_names d' st) \<subseteq> set (published_names d st)"
proof -
  have "n \<in> set (service_names d st)" if "n \<in> set (service_names d' st)" for n
    using that doors_narrow [OF assms(1,2)] unfolding service_names_iff assms(3) by blast
  then show ?thesis by (auto simp: published_names_def)
qed

lemma entries_narrow:
  assumes "narrows f" and "peers d' = map f (peers d)" and "services d' = services d" and "dns_records d' = dns_records d"
  shows "pairs_of (name_entries d' st) \<subseteq> pairs_of (name_entries d st)"
proof -
  have "set (named_peers d') \<subseteq> f ` set (named_peers d)"
    using narrows_fields [OF assms(1)] by (auto simp: named_peers_def assms(2))
  then have p: "set (concat (map (peer_entries z) (named_peers d'))) \<subseteq> set (concat (map (peer_entries z) (named_peers d)))" for z
    using narrows_fields(3) [OF assms(1)] by fastforce
  have r: "enabled_records d' = enabled_records d" by (simp add: enabled_records_def assms(4))
  show ?thesis unfolding pairs_of_def name_entries_def Let_def set_append set_map r
    by (intro image_mono Un_mono order_refl p published_narrow [OF assms(1-3)])
qed

lemma render_dns_valid:
  "render_dns d st = Inr x \<Longrightarrow> validate_dns_spec (build_dns_spec d st) = Inr ()"
  by (auto simp: render_dns_def Let_def render_hosts_def)

lemma render_dns_ok:
  "(\<exists>x. render_dns d st = Inr x) \<longleftrightarrow>
     validate_dns_spec (build_dns_spec d st) = Inr () \<and> (\<exists>rs. reverse_lines (tunnel_pools st) = Inr rs)"
proof -
  have "dz_reverse_pools (build_dns_spec d st) = tunnel_pools st"
    by (simp add: build_dns_spec_def Let_def dns_base_spec_def)
  then show ?thesis by (auto simp: render_dns_def Let_def render_hosts_def render_dns_conf_def render_conf_body_def)
qed

lemma zone_narrows:
  assumes "narrows f" and "peers d' = map f (peers d)" and "services d' = services d" and "dns_records d' = dns_records d"
    and "render_dns d st = Inr x"
  shows "\<exists>y. render_dns d' st = Inr y"
proof -
  have r: "enabled_records d' = enabled_records d" by (simp add: enabled_records_def assms(4))
  have v: "validate_dns_spec (build_dns_spec d st) = Inr () \<and> (\<exists>rs. reverse_lines (tunnel_pools st) = Inr rs)"
    using assms(5) render_dns_ok [of d st] by blast
  have "validate_dns_spec (build_dns_spec d' st) = Inr ()"
    by (rule zone_survives [OF _ entries_narrow [OF assms(1-4)] r]) (use v in blast)
  then show ?thesis using v render_dns_ok [of d' st] by blast
qed

end
