(* ===== verification/DnsProperties.thy ===== *)
theory DnsProperties
  imports DnsZone
begin

text \<open>
  What the zone guarantees: who is named, that an access-control action cannot take it down,
  that a change that would is refused, and that the control plane never fails because of it.
\<close>

section \<open>Names\<close>

definition serves :: "db \<Rightarrow> settings \<Rightarrow> string \<Rightarrow> string \<Rightarrow> bool" where
  "serves d st a n \<longleftrightarrow> list_ex (\<lambda>h. he_address h = a \<and> n \<in> set (he_names h)) (dz_hosts (build_dns_spec d st))"

lemma serves_iff: "serves d st a n \<longleftrightarrow> (a, n) \<in> pairs_of (name_entries d st)"
  unfolding serves_def build_dns_spec_fields using hosts_of_pairs by (auto simp: list_ex_iff)

definition device_name :: "settings \<Rightarrow> db \<Rightarrow> string \<Rightarrow> string \<Rightarrow> bool" where
  "device_name st d a n \<longleftrightarrow> list_ex (\<lambda>p. pe_state p \<in> NAMED_STATES \<and> (pe_tunnel_ip p = Some a \<or> pe_tunnel_ip6 p = Some a) \<and>
     (case pe_dns_label p of None \<Rightarrow> False | Some l \<Rightarrow> n = qualify l (ds_zone (st_dns st)))) (peers d)"

definition record_name :: "settings \<Rightarrow> db \<Rightarrow> string \<Rightarrow> string \<Rightarrow> bool" where
  "record_name st d a n \<longleftrightarrow> list_ex (\<lambda>r. dn_enabled r \<and> dn_kind r \<noteq> REC_CNAME \<and> dn_value r = a \<and>
     n = qualify (dn_name r) (ds_zone (st_dns st))) (dns_records d)"

definition settings_name :: "settings \<Rightarrow> string \<Rightarrow> string \<Rightarrow> bool" where
  "settings_name st a n \<longleftrightarrow> (a = gateway_ip st \<and> n = qualify (ds_gateway_label (st_dns st)) (ds_zone (st_dns st))) \<or>
     (a \<in> set (portal_addresses st) \<and> n \<in> set (portal_names st))"

lemma peer_entries_iff:
  "(a, n, c) \<in> set (peer_entries z p) \<Longrightarrow>
     (pe_tunnel_ip p = Some a \<or> pe_tunnel_ip6 p = Some a) \<and> n = qualify (or_else (pe_dns_label p) []) z"
  by (auto simp: peer_entries_def Let_def truthy_iff split: if_splits)

lemma or_else_empty: "or_else (Some l) [] = l"
  by (simp add: or_else_def)

lemma served_by:
  assumes "(a, n) \<in> pairs_of (name_entries d st)"
  shows "settings_name st a n \<or> device_name st d a n \<or> (a = gateway_ip st \<and> n \<in> set (published_names d st)) \<or>
     record_name st d a n"
proof -
  let ?z = "ds_zone (st_dns st)"
  obtain c where c: "(a, n, c) \<in> set (name_entries d st)" using assms by (auto simp: pairs_of_def)
  then consider "(a, n, c) = (gateway_ip st, qualify (ds_gateway_label (st_dns st)) ?z, Some ''gateway'')"
    | p where "p \<in> set (named_peers d)" "(a, n, c) \<in> set (peer_entries ?z p)"
    | "n \<in> set (portal_names st)" "a \<in> set (portal_addresses st)"
    | "n \<in> set (published_names d st)" "a = gateway_ip st"
    | "(a, n, c) \<in> set (record_entries ?z (enabled_records d))"
    unfolding name_entries_def Let_def by auto
  then show ?thesis
  proof cases
    case (2 p)
    then show ?thesis using peer_entries_iff [OF 2(2)]
      by (auto simp: device_name_def list_ex_iff named_peers_def or_else_empty intro!: bexI [of _ p])
  next
    case 5
    then show ?thesis by (auto simp: record_entries_def enabled_records_def record_name_def list_ex_iff)
  qed (auto simp: settings_name_def)
qed

text \<open>
  C26: a zone that is served names only what is there. Each name of it is the gateway's, the portal's,
  that of a service with an internal door (at the gateway's address), of an enabled record, or of
  a device in a state that may be on the tunnel, at one of that device's addresses; and no name
  has two addresses of one family.
\<close>

theorem zone_names_what_is_there:
  assumes "dns_or_none sha d st = Inr (Some r)" and "serves d st a n"
  shows "(settings_name st a n \<or> device_name st d a n \<or> record_name st d a n \<or>
      (a = gateway_ip st \<and> n \<in> set (published_names d st))) \<and>
    (\<forall>b. serves d st b n \<and> addr_version b = addr_version a \<longrightarrow> b = a)"
proof -
  have "\<exists>x. render_dns d st = Inr x"
    using assms(1) by (auto simp: dns_or_none_def split: if_splits sum.splits dns_exn.splits)
  then have "entries_ok (pairs_of (name_entries d st))" unfolding render_dns_ok zone_valid_iff by blast
  then have "\<forall>b. serves d st b n \<and> addr_version b = addr_version a \<longrightarrow> b = a"
    using assms(2) unfolding serves_iff entries_ok_def by blast
  then show ?thesis using served_by assms(2) unfolding serves_iff by blast
qed

text \<open>
  The small deployment with names: each device is called by its key, \<open>nas\<close> is a record and
  \<open>laptop\<close> an alias of the first device.
\<close>

definition dns_settings_on :: settings where
  "dns_settings_on = demo_settings\<lparr>st_dev_mode := True, st_dns := default_dns\<lparr>ds_enabled := True\<rparr>\<rparr>"

definition named_db :: db where
  "named_db = demo_db\<lparr>peers := map (\<lambda>p. p\<lparr>pe_dns_label := Some (pe_id p)\<rparr>) (peers demo_db),
     dns_records := [\<lparr>dn_id = ''1'', dn_name = ''nas'', dn_kind = REC_A, dn_value = ''10.0.0.9'', dn_description = None, dn_enabled = True\<rparr>,
       \<lparr>dn_id = ''2'', dn_name = ''laptop'', dn_kind = REC_CNAME, dn_value = ''a'', dn_description = Some ''mine'', dn_enabled = True\<rparr>]\<rparr>"

lemma named_renders: "\<exists>x. render_dns named_db dns_settings_on = Inr x"
proof -
  have "case render_dns named_db dns_settings_on of Inl e \<Rightarrow> False | Inr x \<Rightarrow> True" by code_simp
  then show ?thesis by (auto split: sum.splits)
qed

lemma named_served: "\<exists>r. dns_or_none sha named_db dns_settings_on = Inr (Some r)"
proof -
  obtain h c where "render_dns named_db dns_settings_on = Inr (h, c)" using named_renders by auto
  then show ?thesis by (simp add: dns_or_none_def dns_settings_on_def)
qed

theorem zone_names_what_is_there_witness:
  "serves named_db dns_settings_on ''10.66.0.2'' ''a.fox.internal'' \<and>
   device_name dns_settings_on named_db ''10.66.0.2'' ''a.fox.internal'' \<and>
   \<not> serves named_db dns_settings_on ''10.66.0.3'' ''a.fox.internal''"
proof -
  have s: "serves named_db dns_settings_on ''10.66.0.2'' ''a.fox.internal''" by code_simp
  have n: "\<not> settings_name dns_settings_on ''10.66.0.2'' ''a.fox.internal''"
    "\<not> record_name dns_settings_on named_db ''10.66.0.2'' ''a.fox.internal''"
    "''10.66.0.2'' \<noteq> gateway_ip dns_settings_on" by code_simp+
  have v: "addr_version ''10.66.0.3'' = addr_version ''10.66.0.2''" by code_simp
  obtain r where "dns_or_none (\<lambda>x. x) named_db dns_settings_on = Inr (Some r)" using named_served by blast
  note t = zone_names_what_is_there [OF this s]
  have "device_name dns_settings_on named_db ''10.66.0.2'' ''a.fox.internal''" using t n by blast
  moreover have "''10.66.0.3'' \<noteq> ''10.66.0.2''" by simp
  then have "\<not> serves named_db dns_settings_on ''10.66.0.3'' ''a.fox.internal''" using t v by blast
  ultimately show ?thesis using s by blast
qed

section \<open>Access control cannot take the zone down\<close>

lemma killed_narrows: "narrows (killed mode)"
  unfolding narrows_def killed_def NAMED_STATES_def SERVED_STATES_def
proof
  fix p :: peer_row
  show "\<exists>s. (if pe_state p \<in> kill_sources mode then p\<lparr>pe_state := kill_target mode\<rparr> else p) = p\<lparr>pe_state := s\<rparr> \<and>
      (s \<in> {STAGING, QUARANTINED, ACTIVE} \<longrightarrow> pe_state p \<in> {STAGING, QUARANTINED, ACTIVE}) \<and>
      (s \<in> {ACTIVE} \<longrightarrow> pe_state p \<in> {ACTIVE})"
    by (cases "pe_state p \<in> kill_sources mode"; cases mode) (auto intro: exI [of _ "pe_state p"])
qed

lemma kill_peers_rest:
  "kill_peers target ps d = Inr (as, d') \<Longrightarrow> services d' = services d \<and> dns_records d' = dns_records d"
  by (induction ps arbitrary: d as) (auto simp: Let_def update_peer_def split: sum.splits)

lemma regenerate_zone:
  "regenerate sha fresh now st g d = Inr (v, d') \<Longrightarrow> services d' = services d \<and> dns_records d' = dns_records d"
  by (auto simp: regenerate_def store_version_def Let_def split: option.splits)

lemma trigger_rest:
  assumes "trigger sha fresh st mode kind aid al ip now d = Inr (r, d')"
  shows "services d' = services d \<and> dns_records d' = dns_records d"
proof -
  obtain as d1 where k: "kill_peers (kill_target mode)
      (sort_key (\<lambda>p. (pe_name p, pe_id p)) (filter (\<lambda>p. pe_state p \<in> kill_sources mode) (peers d))) d = Inr (as, d1)"
    using assms by (auto simp: trigger_def Let_def)
  have "services d' = services d1 \<and> dns_records d' = dns_records d1"
    using assms unfolding trigger_def Let_def k
    by (auto simp: revoke_all_sessions_def audit_record_def dest!: regenerate_zone split: if_splits sum.splits)
  then show ?thesis using kill_peers_rest [OF k] by simp
qed

text \<open>
  C7: an access-control action cannot take name resolution down. If the zone rendered before the
  kill switch was pressed, in either mode, it renders afterwards, aliases whose target has gone
  included, and nothing resolves that did not resolve to the same address before.
\<close>

theorem kill_switch_keeps_the_zone:
  assumes "keyed d" and "trigger sha fresh st mode kind aid al ip now d = Inr (r, d')" and "render_dns d st = Inr x"
  shows "(\<exists>y. render_dns d' st = Inr y) \<and> (\<forall>a n. serves d' st a n \<longrightarrow> serves d st a n)"
proof -
  have p: "peers d' = map (killed mode) (peers d)" using trigger_cases [OF assms(1,2)] by blast
  have s: "services d' = services d" and q: "dns_records d' = dns_records d" using trigger_rest [OF assms(2)] by blast+
  show ?thesis
    using zone_narrows [OF killed_narrows p s q assms(3)] entries_narrow [OF killed_narrows p s q, of st]
    unfolding serves_iff by blast
qed

lemma named_keyed: "keyed named_db"
  by code_simp

lemma named_ruleset: "\<exists>txt. render named_db dns_settings_on = Inr txt"
proof -
  have "case build_spec named_db dns_settings_on of Inl e \<Rightarrow> False | Inr s \<Rightarrow> validate_spec s = []"
    by code_simp
  then show ?thesis
    by (auto simp: render_def validate_spec_iff generate_ok split: sum.splits)
qed

theorem kill_switch_keeps_the_zone_witness:
  "\<exists>r d' y. trigger (\<lambda>s. s) ''v'' dns_settings_on LOCKDOWN None None None None demo_now named_db = Inr (r, d') \<and>
     render_dns d' dns_settings_on = Inr y"
proof -
  obtain x where x: "render named_db dns_settings_on = Inr x" using named_ruleset by blast
  have "\<exists>r d'. trigger (\<lambda>s. s) ''v'' dns_settings_on LOCKDOWN None None None None demo_now named_db = Inr (r, d')"
    by (rule kill_outcome [OF named_keyed x]) (intro exI)
  then obtain r d' where t: "trigger (\<lambda>s. s) ''v'' dns_settings_on LOCKDOWN None None None None demo_now named_db = Inr (r, d')"
    by blast
  obtain z where z: "render_dns named_db dns_settings_on = Inr z" using named_renders by blast
  show ?thesis using t kill_switch_keeps_the_zone [OF named_keyed t z] by blast
qed

section \<open>A change that would is refused\<close>

lemma zone_cong:
  assumes "peers d' = peers d" and "services d' = services d" and "dns_records d' = dns_records d"
  shows "build_dns_spec d' st = build_dns_spec d st"
proof -
  have "upstream_peer d' = upstream_peer d" by (intro ext) (unfold upstream_peer_def assms(1), rule refl)
  then have "doors_for d' st = doors_for d st" by (intro ext) (unfold doors_for_def, simp only:)
  then have p: "published_names d' st = published_names d st"
    by (simp only: published_names_def service_names_def by_slug_def assms(2))
  have r: "enabled_records d' = enabled_records d" by (simp only: enabled_records_def assms(3))
  have "name_entries d' st = name_entries d st" by (simp only: name_entries_def named_peers_def assms(1) p r)
  then show ?thesis by (simp only: build_dns_spec_def external_names_def p r)
qed

lemma audit_as_zone: "render_dns (audit_as rq act t i detail d) st = render_dns d st"
proof -
  have "build_dns_spec (audit_as rq act t i detail d) st = build_dns_spec d st"
    by (rule zone_cong) (simp_all add: audit_as_def audit_record_def)
  then show ?thesis by (simp only: render_dns_def)
qed

lemma commit_record_renders:
  "commit_record rq st act i detail d = Inr d' \<Longrightarrow> \<exists>x. render_dns d' st = Inr x"
  by (auto simp: commit_record_def assert_renders_def audit_as_zone split: sum.splits dns_exn.splits)

text \<open>
  C30: every change of the records that is accepted leaves a zone that renders; any other is answered
  with an error and changes nothing.
\<close>

theorem record_changes_keep_the_zone:
  "(\<forall>x d1. create_record rq st p d = Inr (x, d1) \<longrightarrow> (\<exists>z. render_dns d1 st = Inr z)) \<and>
   (\<forall>y d2. update_record rq st i u d = Inr (y, d2) \<longrightarrow> (\<exists>z. render_dns d2 st = Inr z)) \<and>
   (\<forall>d3. delete_record rq st i d = Inr d3 \<longrightarrow> (\<exists>z. render_dns d3 st = Inr z))"
proof (intro conjI allI impI)
  fix x d1 assume "create_record rq st p d = Inr (x, d1)"
  then show "\<exists>z. render_dns d1 st = Inr z"
    unfolding create_record_def Let_def by (auto dest: commit_record_renders split: if_splits)
next
  fix y d2 assume "update_record rq st i u d = Inr (y, d2)"
  then show "\<exists>z. render_dns d2 st = Inr z"
    unfolding update_record_def Let_def by (auto dest: commit_record_renders split: if_splits)
next
  fix d3 assume "delete_record rq st i d = Inr d3"
  then show "\<exists>z. render_dns d3 st = Inr z"
    unfolding delete_record_def by (auto dest: commit_record_renders)
qed

theorem record_changes_keep_the_zone_witness:
  "\<exists>x d1 z. create_record demo_request dns_settings_on
     \<lparr>rb_name = ''files'', rb_kind = REC_CNAME, rb_value = ''nas'', rb_description = None, rb_enabled = True\<rparr> named_db = Inr (x, d1) \<and>
     render_dns d1 dns_settings_on = Inr z"
proof -
  let ?p = "\<lparr>rb_name = ''files'', rb_kind = REC_CNAME, rb_value = ''nas'', rb_description = None, rb_enabled = True\<rparr>"
  have "case create_record demo_request dns_settings_on ?p named_db of Inl e \<Rightarrow> False | Inr x \<Rightarrow> True" by code_simp
  then obtain x d1 where c: "create_record demo_request dns_settings_on ?p named_db = Inr (x, d1)"
    by (auto split: sum.splits)
  then show ?thesis using record_changes_keep_the_zone [of demo_request dns_settings_on ?p named_db] by blast
qed

end
