(* ===== verification/DnsFiles.thy ===== *)
theory DnsFiles
  imports DnsProperties
begin

text \<open>
  The two files as text. A reader of the hosts format gets back exactly the entries of the
  specification; the configuration holds, of what an administrator or a device wrote, one
  alias line per alias and nothing else; and rendering fails in no other way than by refusing.
\<close>

section \<open>Reading a hosts file\<close>

text \<open>
  The grammar of the format: a line up to its \<open>#\<close>, an address and its names, separated by white
  space.
\<close>

definition read_host_line :: "string \<Rightarrow> (string \<times> string list) list" where
  "read_host_line l = (case py_words (takeWhile (\<lambda>c. c \<noteq> CHR ''#'') l) of [] \<Rightarrow> [] | a # ns \<Rightarrow> [(a, ns)])"

definition read_hosts :: "string \<Rightarrow> (string \<times> string list) list" where
  "read_hosts text = concat (map read_host_line (split_on nl text))"

definition solid :: "string \<Rightarrow> bool" where
  "solid w \<longleftrightarrow> w \<noteq> [] \<and> list_all (\<lambda>c. \<not> is_space c \<and> c \<noteq> CHR ''#'') w"

definition plain_host :: "host_entry \<Rightarrow> bool" where
  "plain_host h \<longleftrightarrow> list_all (\<lambda>c. \<not> is_space c \<and> c \<noteq> CHR ''#'') (he_address h) \<and> list_all (\<lambda>n. nl \<notin> set n) (he_names h)"

lemma space_facts: "is_space (CHR '' '')" "is_space nl" "is_space (CHR 0x09)" "\<not> is_space (CHR ''#'')"
  by (simp_all add: is_space_def)

lemma blank_map_solid: "solid w \<Longrightarrow> map (\<lambda>c. if is_space c then CHR '' '' else c) w = w"
  by (induction w) (auto simp: solid_def list_all_iff intro: map_idI)

lemma solid_no_blank: "solid w \<Longrightarrow> CHR '' '' \<notin> set w"
  using space_facts(1) by (auto simp: solid_def list_all_iff)

lemma blank_map_join: "list_all solid ws \<Longrightarrow> map (\<lambda>c. if is_space c then CHR '' '' else c) (join '' '' ws) = join '' '' ws"
  by (induction "'' ''" ws rule: join.induct) (simp_all add: blank_map_solid space_facts)

lemma split_join_trailing:
  assumes "xs \<noteq> []" and "\<And>x. x \<in> set xs \<Longrightarrow> c \<notin> set x"
  shows "split_on c (join [c] xs @ [c]) = xs @ [[]]"
  using assms
proof (induction "[c]" xs rule: join.induct)
  case (2 x)
  then show ?case using split_on_append [of c x "[]"] by simp
next
  case (3 x y xs)
  then have "c \<notin> set x" by simp
  then show ?case using 3 split_on_append [of c x "join [c] (y # xs) @ [c]"] by simp
qed simp

lemma py_words_solid:
  assumes "solid a" and "list_all solid ws" and "ws \<noteq> []"
  shows "py_words (a @ [CHR 0x09] @ join '' '' ws) = a # ws"
    and "py_words (a @ [CHR 0x09] @ join '' '' ws @ [CHR 0x09]) = a # ws"
proof -
  let ?f = "\<lambda>c. if is_space c then CHR '' '' else c"
  have f: "filter (\<lambda>w. w \<noteq> []) (a # ws) = a # ws" using assms(1,2) by (auto simp: solid_def list_all_iff intro: filter_True)
  have g: "filter (\<lambda>w. w \<noteq> []) ((a # ws) @ [[]]) = a # ws" unfolding filter_append f by simp
  have m: "map ?f (a @ [CHR 0x09] @ join '' '' ws) = a @ CHR '' '' # join '' '' ws"
    using assms by (simp add: blank_map_solid blank_map_join space_facts)
  have b: "CHR '' '' \<notin> set x" if "x \<in> set ws" for x
    using assms(2) that solid_no_blank by (simp add: list_all_iff)
  have s: "split_on (CHR '' '') (join '' '' ws) = ws" by (rule split_on_join [OF assms(3)]) (rule b)
  have t: "split_on (CHR '' '') (join '' '' ws @ '' '') = ws @ [[]]" by (rule split_join_trailing [OF assms(3)]) (rule b)
  show "py_words (a @ [CHR 0x09] @ join '' '' ws) = a # ws"
    unfolding py_words_def m split_on_append [OF solid_no_blank [OF assms(1)]] s by (rule f)
  have n: "map ?f (a @ [CHR 0x09] @ join '' '' ws @ [CHR 0x09]) = a @ CHR '' '' # (join '' '' ws @ '' '')"
    using assms by (simp add: blank_map_solid blank_map_join space_facts)
  show "py_words (a @ [CHR 0x09] @ join '' '' ws @ [CHR 0x09]) = a # ws"
    unfolding py_words_def n split_on_append [OF solid_no_blank [OF assms(1)]] t using g by (simp only: append_Cons)
qed

lemma label_char_solid:
  assumes "label_char c \<or> c = CHR ''-'' \<or> c = CHR ''.''"
  shows "\<not> is_space c \<and> c \<noteq> CHR ''#''"
proof -
  have "45 \<le> (of_char c :: nat) \<and> (of_char c :: nat) \<le> 122"
    using assms by (auto simp: label_char_def is_lower_def is_digit_def of_char_le_iff)
  then have n: "45 \<le> n \<and> n \<le> 122" if "n = (of_char c :: nat)" for n using that by simp
  have "\<not> ((9 \<le> n \<and> n \<le> 13) \<or> (28 \<le> n \<and> n \<le> 32) \<or> n = 133 \<or> n = 160) \<and> n \<noteq> 35" if "45 \<le> n \<and> n \<le> 122" for n :: nat
    using that by presburger
  then have f: "\<not> is_space c \<and> (of_char c :: nat) \<noteq> 35" using n [OF refl] unfolding is_space_def Let_def by blast
  have "(of_char (CHR ''#'') :: nat) = 35" by simp
  then show ?thesis using f by metis
qed

lemma plain_name_solid:
  assumes "plain_name n" and "nl \<notin> set n"
  shows "solid n"
proof -
  have d: "list_all dns_label (split_on (CHR ''.'') n)"
    using assms re_dollar_exact unfolding plain_name_def NAME_RE_def by blast
  have "\<not> is_space c \<and> c \<noteq> CHR ''#''" if c: "c \<in> set n" for c
  proof (cases "c = CHR ''.''")
    case False
    then obtain p where "p \<in> set (split_on (CHR ''.'') n)" "c \<in> set p" using in_split_on c by blast
    then have "label_char c \<or> c = CHR ''-''" using d unfolding dns_label_def list_all_iff by blast
    then show ?thesis using label_char_solid by blast
  qed (rule label_char_solid, simp)
  then show ?thesis using assms(1) by (auto simp: solid_def list_all_iff plain_name_def)
qed

lemma takeWhile_hash: "CHR ''#'' \<notin> set a \<Longrightarrow> takeWhile (\<lambda>c. c \<noteq> CHR ''#'') (a @ CHR ''#'' # r) = a"
  by (induction a) auto

lemma comment_suffix_cases:
  "comment_suffix v = [] \<or> (\<exists>r. comment_suffix v = [CHR 0x09] @ CHR ''#'' # r)"
  by (auto simp: comment_suffix_def Let_def)

lemma set_join_solid: "list_all solid ws \<Longrightarrow> CHR ''#'' \<notin> set (join '' '' ws)"
  using set_join [of "'' ''" ws] by (fastforce simp: solid_def list_all_iff)

lemma read_rendered_line:
  assumes "solid (he_address h)" and "list_all solid (he_names h)" and "he_names h \<noteq> []"
  shows "read_host_line (host_line h) = [(he_address h, he_names h)]"
proof -
  let ?t = "he_address h @ [CHR 0x09] @ join '' '' (he_names h)"
  have n: "CHR ''#'' \<notin> set ?t" using assms set_join_solid by (auto simp: solid_def list_all_iff)
  consider "comment_suffix (he_comment h) = []" | r where "comment_suffix (he_comment h) = [CHR 0x09] @ CHR ''#'' # r"
    using comment_suffix_cases by blast
  then show ?thesis
  proof cases
    case 1
    have t: "takeWhile (\<lambda>c. c \<noteq> CHR ''#'') ?t = ?t" using n unfolding takeWhile_eq_all_conv by blast
    have e: "host_line h = ?t" by (simp add: host_line_def 1)
    show ?thesis unfolding read_host_line_def e t py_words_solid(1) [OF assms] by simp
  next
    case (2 r)
    have e: "host_line h = (?t @ [CHR 0x09]) @ CHR ''#'' # r" by (simp add: host_line_def 2)
    have "takeWhile (\<lambda>c. c \<noteq> CHR ''#'') (host_line h) = ?t @ [CHR 0x09]"
      unfolding e by (rule takeWhile_hash) (use n in auto)
    then show ?thesis using py_words_solid(2) [OF assms] by (simp add: read_host_line_def)
  qed
qed

lemma read_rendered_lines:
  "(\<And>h. h \<in> set hs \<Longrightarrow> solid (he_address h) \<and> list_all solid (he_names h) \<and> he_names h \<noteq> []) \<Longrightarrow>
     concat (map read_host_line (map host_line hs)) = map (\<lambda>h. (he_address h, he_names h)) hs"
  by (induction hs) (simp_all add: read_rendered_line)

section \<open>The hosts file reads back\<close>

lemma split_on_lines: "ls \<noteq> [] \<Longrightarrow> split_on c (join [c] ls) = concat (map (split_on c) ls)"
proof (induction "[c]" ls rule: join.induct)
  case (3 x y xs)
  have "split_on c (x @ c # t) = split_on c x @ split_on c t" for t
  proof (induction x)
    case (Cons z zs)
    then show ?case by (cases "split_on c zs") (auto split: list.splits)
  qed simp
  then show ?case using 3 by simp
qed simp_all

lemma split_whole: "(\<And>l. l \<in> set ls \<Longrightarrow> c \<notin> set l) \<Longrightarrow> concat (map (split_on c) ls) = ls"
  by (induction ls) (simp_all add: split_on_no_sep)

lemma strip_nl_end: "s \<noteq> [] \<Longrightarrow> last s \<noteq> nl \<Longrightarrow> strip_nl (t @ s) = t @ s"
  by (cases s rule: rev_cases) (simp_all add: strip_nl_def rstrip_by_def)

lemma last_join:
  assumes "ls \<noteq> []"
  shows "\<exists>t. join sep ls = t @ last ls"
proof (cases ls rule: rev_cases)
  case (snoc ys y)
  show ?thesis
  proof (cases "ys = []")
    case False
    then show ?thesis using snoc by (auto simp: join_append_single)
  qed (simp add: snoc)
qed (use assms in simp)

lemma py_words_no_blank: "w \<in> set (py_words s) \<Longrightarrow> nl \<notin> set w"
proof -
  assume w: "w \<in> set (py_words s)"
  then have "set w \<subseteq> set (map (\<lambda>c. if is_space c then CHR '' '' else c) s)"
    unfolding py_words_def using split_on_subset by (metis (no_types, lifting) filter_is_subset subsetD)
  then show ?thesis using space_facts by auto
qed

lemma comment_no_break: "nl \<notin> set (comment_suffix v)"
proof -
  have "nl \<notin> set (join '' '' (py_words s))" for s
    using set_join [of "'' ''" "py_words s"] py_words_no_blank by fastforce
  then show ?thesis by (auto simp: comment_suffix_def Let_def dest: in_set_takeD)
qed

lemma host_line_break:
  assumes "solid (he_address h)" and "list_all solid (he_names h)"
  shows "nl \<notin> set (host_line h) \<and> host_line h \<noteq> []"
proof -
  have "nl \<notin> set w" if "solid w" for w using that space_facts(2) by (auto simp: solid_def list_all_iff)
  then have "nl \<notin> set (join '' '' (he_names h))" "nl \<notin> set (he_address h)"
    using set_join [of "'' ''" "he_names h"] assms by (fastforce simp: list_all_iff)+
  then show ?thesis using comment_no_break assms(1) by (auto simp: host_line_def)
qed

lemma banner_reads: "read_hosts (strip_nl HOSTS_BANNER) = []"
  by code_simp

lemma banner_end: "last (strip_nl HOSTS_BANNER) \<noteq> nl \<and> strip_nl HOSTS_BANNER \<noteq> []"
  by code_simp

lemma render_hosts_text:
  assumes "\<And>l. l \<in> set ls \<Longrightarrow> nl \<notin> set l \<and> l \<noteq> []"
  shows "strip_nl (join [nl] (strip_nl HOSTS_BANNER # ls)) = join [nl] (strip_nl HOSTS_BANNER # ls)"
proof -
  let ?xs = "strip_nl HOSTS_BANNER # ls"
  have e: "last ?xs \<noteq> [] \<and> last (last ?xs) \<noteq> nl"
  proof (cases ls rule: rev_cases)
    case (snoc ys y)
    then show ?thesis using assms [of y] by (auto dest: last_in_set)
  qed (use banner_end in simp)
  then obtain t where "join [nl] ?xs = t @ last ?xs" using last_join by blast
  then show ?thesis using strip_nl_end [of "last ?xs" t] e by simp
qed

text \<open>
  C21: the hosts file says what the specification says. When a valid zone is rendered, whoever reads
  the file by the grammar of the format gets each address with its names, in order, sorted by
  address, and nothing more: a comment, whatever is in it, stays one. Addresses must hold no
  blank and no \<open>#\<close>, which a scope id could, and names no newline at their end.
\<close>

theorem hosts_file_reads_back:
  assumes "render_hosts spec = Inr text" and "list_all plain_host (dz_hosts spec)"
  shows "read_hosts text = map (\<lambda>h. (he_address h, he_names h)) (sorted_hosts (dz_hosts spec))"
proof -
  let ?hs = "sorted_hosts (dz_hosts spec)"
  have "dns_spec_ok spec" using assms(1) validate_dns_spec_iff by (auto simp: render_hosts_def)
  then have h: "ip_address (he_address h) \<noteq> None \<and> he_names h \<noteq> [] \<and> (\<forall>n\<in>set (he_names h). plain_name n)"
    if "h \<in> set (dz_hosts spec)" for h using that by (auto simp: dns_spec_ok_def hosts_ok_def name_ok_plain)
  have e: "ip_address [] = None" by code_simp
  have s: "solid (he_address h) \<and> list_all solid (he_names h) \<and> he_names h \<noteq> []" if i: "h \<in> set ?hs" for h
  proof -
    have i': "h \<in> set (dz_hosts spec)" using i by (simp add: sorted_hosts_def)
    then have p: "plain_host h" using assms(2) by (simp add: list_all_iff)
    have "he_address h \<noteq> []" using h [OF i'] e by metis
    then show ?thesis using h [OF i'] p plain_name_solid by (auto simp: plain_host_def solid_def list_all_iff)
  qed
  have b: "nl \<notin> set l \<and> l \<noteq> []" if "l \<in> set (map host_line ?hs)" for l
    using that s host_line_break by auto
  have "strip_nl (join [nl] (strip_nl HOSTS_BANNER # map host_line ?hs)) = join [nl] (strip_nl HOSTS_BANNER # map host_line ?hs)"
    by (rule render_hosts_text) (rule b)
  then have "text = join [nl] (strip_nl HOSTS_BANNER # map host_line ?hs) @ [nl]"
    using assms(1) by (auto simp: render_hosts_def)
  then have "text = join [nl] ((strip_nl HOSTS_BANNER # map host_line ?hs) @ [[]])"
    using join_append_single [of "strip_nl HOSTS_BANNER # map host_line ?hs" "[nl]" "[]"] by simp
  then have "split_on nl text = split_on nl (join [nl] ((strip_nl HOSTS_BANNER # map host_line ?hs) @ [[]]))" by simp
  also have "\<dots> = concat (map (split_on nl) ((strip_nl HOSTS_BANNER # map host_line ?hs) @ [[]]))"
    by (rule split_on_lines) simp
  also have "\<dots> = split_on nl (strip_nl HOSTS_BANNER) @ concat (map (split_on nl) (map host_line ?hs)) @ [[]]"
    by (simp only: map_append list.map concat_append concat.simps split_on.simps append_Nil2 append.assoc append_Nil append_Cons)
  also have "concat (map (split_on nl) (map host_line ?hs)) = map host_line ?hs"
    by (rule split_whole) (use b in blast)
  finally have t: "split_on nl text = split_on nl (strip_nl HOSTS_BANNER) @ map host_line ?hs @ [[]]" .
  have "read_hosts text = concat (map read_host_line (map host_line ?hs)) @ read_host_line []"
    unfolding read_hosts_def t using banner_reads by (simp add: read_hosts_def)
  also have "read_host_line [] = []" by code_simp
  also have "concat (map read_host_line (map host_line ?hs)) = map (\<lambda>h. (he_address h, he_names h)) ?hs"
    by (rule read_rendered_lines) (rule s)
  finally show ?thesis by simp
qed

theorem hosts_file_reads_back_witness:
  "\<exists>text. render_hosts (build_dns_spec named_db dns_settings_on) = Inr text \<and>
     read_hosts text = [(''10.0.0.9'', [''nas.fox.internal'']), (''10.66.0.1'', [''gw.fox.internal'']),
       (''10.66.0.2'', [''a.fox.internal'']), (''10.66.0.3'', [''b.fox.internal''])]"
proof -
  let ?s = "build_dns_spec named_db dns_settings_on"
  obtain tx where t: "render_hosts ?s = Inr tx"
    using named_renders by (auto simp: render_dns_def Let_def)
  have p: "list_all plain_host (dz_hosts ?s)" by code_simp
  have "map (\<lambda>h. (he_address h, he_names h)) (sorted_hosts (dz_hosts ?s)) = [(''10.0.0.9'', [''nas.fox.internal'']),
     (''10.66.0.1'', [''gw.fox.internal'']), (''10.66.0.2'', [''a.fox.internal'']), (''10.66.0.3'', [''b.fox.internal''])]"
    by code_simp
  then show ?thesis using t hosts_file_reads_back [OF t p] by simp
qed

section \<open>Rendering never fails in another way\<close>

lemma parse_v6_scope: "parse_v6 s = Some (IP6 n (Some sc)) \<Longrightarrow> CHR ''%'' \<in> set s"
proof (rule ccontr)
  assume p: "parse_v6 s = Some (IP6 n (Some sc))" and "CHR ''%'' \<notin> set s"
  then have "split_on (CHR ''%'') s = [s]" by (simp add: split_on_no_sep)
  then show False using p by (auto simp: parse_v6_def split: if_splits)
qed

lemma scoped_network:
  assumes "ip_network p = Some n" and "net_addr n = IP6 a (Some sc)"
  shows "CHR ''%'' \<in> set p"
proof -
  have "parse_network6 p = Some n" using assms by (auto simp: ip_network_def parse_network4_def split: option.splits list.splits)
  then obtain q x where q: "q \<in> set (split_on (CHR ''/'') p)" "parse_v6 q = Some x" and x: "\<exists>w. n = mk_network x w"
    by (auto simp: parse_network6_def split: option.splits list.splits)
  obtain m where "x = IP6 m (Some sc)" using x assms(2) by (cases x) (auto split: if_splits)
  then show ?thesis using parse_v6_scope q split_on_subset by blast
qed

lemma reverse_zone_ok:
  assumes "ip_network p \<noteq> None" and "CHR ''%'' \<notin> set p"
  shows "\<exists>z. reverse_zone p = Inr z"
proof -
  obtain n where n: "ip_network p = Some n" using assms(1) by blast
  show ?thesis using scoped_network [OF n] assms(2)
    by (cases "net_addr n") (auto simp: reverse_zone_def n Let_def)
qed

lemma reverse_lines_ok:
  assumes "\<And>p. p \<in> set ps \<Longrightarrow> ip_network p \<noteq> None \<and> CHR ''%'' \<notin> set p"
  shows "\<exists>rs. reverse_lines ps = Inr rs"
  using assms
proof (induction ps)
  case (Cons p ps)
  obtain z where z: "reverse_zone p = Inr z" using reverse_zone_ok [of p] Cons.prems by auto
  have "\<exists>rs. reverse_lines ps = Inr rs" by (rule Cons.IH) (use Cons.prems in simp)
  then show ?case using z by (auto simp: reverse_lines_def concatR_def)
qed (simp add: reverse_lines_def concatR_def)

text \<open>
  C19: a broken zone never breaks the dataplane. Whatever records, devices and services the
  tables hold, asking for the resolver's files for the agent raises nothing: they are absent
  exactly when the resolver is off or the zone is invalid. The pools of the settings are
  validated and have no scope id, with which the reverse zone would raise.
\<close>

theorem zone_never_breaks_the_gateway:
  assumes "validated st" and "list_all (\<lambda>p. CHR ''%'' \<notin> set p) (tunnel_pools st)"
  shows "\<exists>r. dns_or_none sha d st = Inr r \<and>
     (r \<noteq> None) = (ds_enabled (st_dns st) \<and> validate_dns_spec (build_dns_spec d st) = Inr ())"
proof -
  have "\<exists>rs. reverse_lines (tunnel_pools st) = Inr rs"
    by (rule reverse_lines_ok) (use assms(2) tunnel_pools_parse [OF assms(1)] in \<open>auto simp: list_all_iff\<close>)
  then have ok: "(\<exists>x. render_dns d st = Inr x) \<longleftrightarrow> validate_dns_spec (build_dns_spec d st) = Inr ()"
    using render_dns_ok by blast
  show ?thesis
  proof (cases "validate_dns_spec (build_dns_spec d st)")
    case (Inl e)
    then obtain es where "validate_dns_spec (build_dns_spec d st) = Inl (ZoneInvalid es)"
      by (auto simp: validate_dns_spec_def split: if_splits)
    then show ?thesis by (simp add: dns_or_none_def render_dns_def render_hosts_def)
  next
    case (Inr u)
    then have v: "validate_dns_spec (build_dns_spec d st) = Inr ()" by simp
    then obtain h c where "render_dns d st = Inr (h, c)" using ok by auto
    then show ?thesis by (simp add: dns_or_none_def v)
  qed
qed

theorem zone_never_breaks_the_gateway_witness:
  "\<exists>r. dns_or_none (\<lambda>s. s) named_db dns_settings_on = Inr (Some r)"
proof -
  have v: "validated dns_settings_on" by code_simp
  have p: "list_all (\<lambda>p. CHR ''%'' \<notin> set p) (tunnel_pools dns_settings_on)" by code_simp
  have "validate_dns_spec (build_dns_spec named_db dns_settings_on) = Inr ()"
    using named_renders render_dns_ok by blast
  moreover have "ds_enabled (st_dns dns_settings_on)" by (simp add: dns_settings_on_def)
  ultimately show ?thesis using zone_never_breaks_the_gateway [OF v p, of "\<lambda>s. s" named_db] by auto
qed

end
