(* ===== verification/DnsEdges.thy ===== *)
theory DnsEdges
  imports DnsFiles
begin

text \<open>
  What the text of a record or a device can do to the resolver's files, and what it cannot: the
  configuration is out of reach but for alias lines; the hosts file is not, by a scope id; and a
  device can stop the zone by its name alone.
\<close>

section \<open>The configuration\<close>

lemma split_on_break: "split_on c (x @ c # t) = split_on c x @ split_on c t"
proof (induction x)
  case (Cons z zs)
  then show ?case by (cases "split_on c zs") (auto split: list.splits)
qed simp

lemma join_append: "xs \<noteq> [] \<Longrightarrow> ys \<noteq> [] \<Longrightarrow> join sep (xs @ ys) = join sep xs @ sep @ join sep ys"
proof (induction sep xs rule: join.induct)
  case (2 sep x)
  then show ?case by (cases ys) simp_all
qed simp_all

lemma rstrip_append: "\<exists>c\<in>set y. \<not> p c \<Longrightarrow> rstrip_by p (x @ y) = x @ rstrip_by p y"
  by (auto simp: rstrip_by_def dropWhile_append)

lemma strip_shorter:
  assumes "z \<noteq> []" and "is_space (last z)"
  shows "length (py_strip z) < length z"
proof -
  obtain xs x where z: "z = xs @ [x]" "is_space x" using assms by (cases z rule: rev_cases) auto
  show ?thesis
  proof (cases "\<exists>c\<in>set xs. \<not> is_space c")
    case True
    then have "lstrip_by is_space z = dropWhile is_space xs @ [x]" by (auto simp: lstrip_by_def z)
    then have "py_strip z = rstrip_by is_space (dropWhile is_space xs)" by (simp add: py_strip_def strip_by_def rstrip_by_def z)
    moreover have "length (rstrip_by is_space (dropWhile is_space xs)) \<le> length xs"
      unfolding rstrip_by_def by (metis length_dropWhile_le length_rev order_trans)
    ultimately show ?thesis by (simp add: z)
  next
    case False
    then have "lstrip_by is_space z = []" using z by (simp add: lstrip_by_def)
    then show ?thesis using assms(1) by (simp add: py_strip_def strip_by_def rstrip_by_def)
  qed
qed

lemma validated_zone:
  assumes "validate_dns_zone z = Inr z"
  shows "z \<noteq> [] \<and> last z \<noteq> nl"
proof -
  have z: "z = py_lower (rstrip_by (\<lambda>c. c = CHR ''.'') (py_strip z))" "z \<noteq> []"
    using assms by (auto simp: validate_dns_zone_def Let_def split: if_splits)
  have "length z \<le> length (py_strip z)"
    by (subst z(1)) (simp add: py_lower_def rstrip_by_def, metis length_dropWhile_le length_rev)
  then have "\<not> is_space (last z)" using strip_shorter z(2) by fastforce
  then show ?thesis using z(2) space_facts(2) by auto
qed

lemma within_last:
  assumes "within_zone x z" and "z \<noteq> []"
  shows "x \<noteq> [] \<and> last x = last z"
proof -
  have "x = z \<or> (\<exists>t. x = t @ CHR ''.'' # z)"
  proof (cases "x = z")
    case False
    then have "take (Suc (length z)) (rev x) = rev z @ ''.''" using assms(1) by (simp add: within_zone_def ends_with_def starts_with_def)
    then have "rev x = (rev z @ ''.'') @ drop (Suc (length z)) (rev x)" by (metis append_take_drop_id)
    then have "x = rev (drop (Suc (length z)) (rev x)) @ CHR ''.'' # z"
      by (metis append.assoc append_Cons append_Nil rev_append rev_rev_ident rev_singleton_conv)
    then show ?thesis by blast
  qed simp
  then show ?thesis using assms(2) by auto
qed

lemma qualified_no_break:
  assumes "validated st" and "plain_name (qualify m (ds_zone (st_dns st)))"
  shows "nl \<notin> set (qualify m (ds_zone (st_dns st)))"
proof -
  let ?x = "qualify m (ds_zone (st_dns st))"
  have "validate_dns_zone (ds_zone (st_dns st)) = Inr (ds_zone (st_dns st))" using assms(1) by (simp add: validated_def)
  note z = validated_zone [OF this]
  then have "?x \<noteq> [] \<and> last ?x \<noteq> nl" using within_last [OF qualify_within] z by metis
  then have d: "list_all dns_label (split_on (CHR ''.'') ?x)"
    using assms(2) by (auto simp: plain_name_def NAME_RE_def re_dollar_def)
  have no: "nl \<notin> set p" if "p \<in> set (split_on (CHR ''.'') ?x)" for p
  proof
    assume "nl \<in> set p"
    then have "label_char nl \<or> nl = CHR ''-''" using d that unfolding dns_label_def list_all_iff by blast
    then show False using label_char_solid [of nl] space_facts(2) by blast
  qed
  show ?thesis
  proof
    assume "nl \<in> set ?x"
    moreover have "nl \<noteq> CHR ''.''" by simp
    ultimately obtain p where "p \<in> set (split_on (CHR ''.'') ?x)" "nl \<in> set p" using in_split_on [of nl ?x "CHR ''.''"] by blast
    then show False using no by blast
  qed
qed

lemma alias_lines_no_break:
  assumes "validated st" and "validate_dns_spec (build_dns_spec d st) = Inr ()" and "l \<in> set (alias_lines (build_dns_spec d st))"
  shows "nl \<notin> set l"
proof -
  have a: "nl \<notin> set (ce_alias c) \<and> nl \<notin> set (ce_target c)" if "c \<in> set (served_aliases d st)" for c
  proof -
    have "plain_name (ce_alias c)" and "plain_name (ce_target c)"
      using assms(2) that unfolding zone_valid_iff aliases_ok_def by blast+
    moreover have e: "\<exists>m k. ce_alias c = qualify m (ds_zone (st_dns st)) \<and> ce_target c = qualify k (ds_zone (st_dns st))"
      using that unfolding served_aliases_def record_aliases_def by auto
    ultimately show ?thesis using e qualified_no_break [OF assms(1)] by metis
  qed
  then show ?thesis using assms(3)
    by (auto simp: alias_lines_def build_dns_spec_fields sorted_cnames_def split: if_splits)
qed

text \<open>
  C23: nothing an administrator or a device writes reaches the configuration of the resolver but as
  an alias. Whatever the tables hold, when the zone renders the lines of the configuration are
  those the settings fix, and between them one line for each alias that is served, in the
  order of their names; no name breaks a line.
\<close>

theorem tables_reach_the_conf_as_aliases:
  assumes "validated st"
  shows "\<exists>before after. \<forall>d hosts conf. render_dns d st = Inr (hosts, conf) \<longrightarrow>
     split_on nl conf = before @ alias_lines (build_dns_spec d st) @ after"
proof (cases "reverse_lines (tunnel_pools st)")
  case (Inl e)
  then have "render_dns d st \<noteq> Inr x" for d x using render_dns_ok [of d st] by (metis Inl_Inr_False)
  then show ?thesis by simp
next
  case (Inr rs)
  let ?b = "dns_base_spec st" and ?strip = "strip_by (\<lambda>c. c = nl)"
  let ?X = "listen_lines ?b @ zone_lines ?b @ rs @ upstream_lines ?b" and ?Y = "cache_lines ?b"
  obtain B where B: "DNS_CONF_BANNER = B @ [nl]"
  proof -
    have "DNS_CONF_BANNER = butlast DNS_CONF_BANNER @ [nl]" by code_simp
    then show ?thesis by (rule that)
  qed
  obtain x xs where X: "?X = x # xs" "\<exists>c cs. x = c # cs \<and> c \<noteq> nl" by (simp add: listen_lines_def)
  have Y: "\<exists>c\<in>set (join [nl] ?Y). c \<noteq> nl"
    by (simp add: cache_lines_def)
  show ?thesis
  proof (intro exI allI impI)
    fix d hosts conf assume r: "render_dns d st = Inr (hosts, conf)"
    let ?s = "build_dns_spec d st" and ?A = "alias_lines (build_dns_spec d st)"
    have v: "validate_dns_spec ?s = Inr ()" using render_dns_valid [OF r] .
    have "listen_lines ?s = listen_lines ?b" "zone_lines ?s = zone_lines ?b" "upstream_lines ?s = upstream_lines ?b"
      "cache_lines ?s = ?Y" "dz_reverse_pools ?s = tunnel_pools st"
      by (simp_all add: build_dns_spec_def Let_def dns_base_spec_def listen_lines_def zone_lines_def upstream_lines_def cache_lines_def)
    then have "render_conf_body ?s = Inr (?X @ ?A @ ?Y)" using Inr by (simp add: render_conf_body_def)
    then have c: "conf = DNS_CONF_BANNER @ ?strip (join [nl] (?X @ ?A @ ?Y)) @ [nl]"
      using r by (auto simp: render_dns_def Let_def render_dns_conf_def)
    have "join [nl] (?X @ ?A @ ?Y) = join [nl] (?X @ ?A) @ nl # join [nl] ?Y"
      using join_append [of "?X @ ?A" ?Y "[nl]"] X by (simp add: cache_lines_def)
    moreover have "lstrip_by (\<lambda>c. c = nl) (join [nl] (?X @ ?A) @ t) = join [nl] (?X @ ?A) @ t" for t
      using X by (cases "xs @ ?A") (auto simp: lstrip_by_def)
    ultimately have "?strip (join [nl] (?X @ ?A @ ?Y)) = join [nl] (?X @ ?A) @ nl # strip_nl (join [nl] ?Y)"
      using rstrip_append [of "join [nl] ?Y" "\<lambda>c. c = nl" "join [nl] (?X @ ?A) @ [nl]"] Y
      by (simp add: strip_by_def strip_nl_def)
    then have "conf = B @ nl # join [nl] (?X @ ?A) @ nl # strip_nl (join [nl] ?Y) @ nl # []" by (simp add: c B)
    then have "split_on nl conf = split_on nl B @ split_on nl (join [nl] (?X @ ?A)) @ split_on nl (strip_nl (join [nl] ?Y)) @ [[]]"
      by (simp only: split_on_break split_on.simps append_assoc)
    moreover have "split_on nl (join [nl] (?X @ ?A)) = concat (map (split_on nl) ?X) @ ?A"
      using split_on_lines [of "?X @ ?A" nl] X split_whole [of ?A nl] alias_lines_no_break [OF assms v] by simp
    ultimately show "split_on nl conf = (split_on nl B @ concat (map (split_on nl) ?X)) @ ?A @
        (split_on nl (strip_nl (join [nl] ?Y)) @ [[]])" by simp
  qed
qed

theorem tables_reach_the_conf_as_aliases_witness:
  "\<exists>hosts conf before after. render_dns named_db dns_settings_on = Inr (hosts, conf) \<and>
     split_on nl conf = before @ [[], ''# Aliases. dnsmasq resolves these against its own records.'',
       ''cname=laptop.fox.internal,a.fox.internal''] @ after"
proof -
  have v: "validated dns_settings_on" by code_simp
  have a: "alias_lines (build_dns_spec named_db dns_settings_on) =
      [[], ''# Aliases. dnsmasq resolves these against its own records.'', ''cname=laptop.fox.internal,a.fox.internal'']"
    by code_simp
  obtain h c where r: "render_dns named_db dns_settings_on = Inr (h, c)" using named_renders by auto
  then show ?thesis using tables_reach_the_conf_as_aliases [OF v] a by metis
qed

section \<open>What can stop or bend the zone\<close>

lemma pairs_ofI: "(a, n, c) \<in> set es \<Longrightarrow> (a, n) \<in> pairs_of es"
  by (force simp: pairs_of_def)

text \<open>
  A name with two addresses of one family stops the whole zone. Nothing that registers a device
  looks at the names the zone already has, so a device called like the gateway does.
\<close>

lemma shared_name_stops_the_zone:
  assumes "serves d st a n" and "serves d st b n" and "a \<noteq> b" and "addr_version a = addr_version b"
  shows "render_dns d st \<noteq> Inr x"
proof
  assume "render_dns d st = Inr x"
  then have "entries_ok (pairs_of (name_entries d st))" using render_dns_valid zone_valid_iff by blast
  then show False using assms unfolding serves_iff entries_ok_def by blast
qed

theorem a_device_called_like_the_gateway_stops_the_zone:
  assumes "p \<in> set (peers d)" and "pe_state p \<in> NAMED_STATES" and "pe_dns_label p = Some (ds_gateway_label (st_dns st))"
    and "pe_tunnel_ip p = Some a" and "a \<noteq> []" and "a \<noteq> gateway_ip st" and "addr_version a = addr_version (gateway_ip st)"
  shows "render_dns d st \<noteq> Inr x"
proof -
  let ?n = "qualify (ds_gateway_label (st_dns st)) (ds_zone (st_dns st))"
  have "p \<in> set (named_peers d)" using assms by (simp add: named_peers_def)
  moreover have "(a, ?n, Some (peer_type_value (pe_peer_type p))) \<in> set (peer_entries (ds_zone (st_dns st)) p)"
    using assms(3-5) by (simp add: peer_entries_def Let_def or_else_empty)
  ultimately have "(a, ?n, Some (peer_type_value (pe_peer_type p))) \<in> set (name_entries d st)"
    unfolding name_entries_def Let_def by auto
  then have "serves d st a ?n" unfolding serves_iff by (rule pairs_ofI)
  moreover have "(gateway_ip st, ?n, Some ''gateway'') \<in> set (name_entries d st)" by (simp add: name_entries_def Let_def)
  then have "serves d st (gateway_ip st) ?n" unfolding serves_iff by (rule pairs_ofI)
  ultimately show ?thesis using shared_name_stops_the_zone assms(6,7) by blast
qed

text \<open>
  The scope id of an IPv6 address is any text without a slash: a record may hold a line break in
  it and so a line of its own, with a name outside the zone.
\<close>

definition bent_record :: record_create where
  "bent_record = \<lparr>rb_name = ''x'', rb_kind = REC_AAAA, rb_value = ''::1%e'' @ [nl] @ ''10.9.9.9 www.example.com'',
     rb_description = None, rb_enabled = True\<rparr>"

theorem a_scope_id_names_the_outside:
  "\<exists>x d' hosts conf. validate_record_create bent_record = Inr bent_record \<and>
     create_record demo_request dns_settings_on bent_record named_db = Inr (x, d') \<and>
     render_dns d' dns_settings_on = Inr (hosts, conf) \<and>
     (''10.9.9.9'', [''www.example.com'', ''x.fox.internal'']) \<in> set (read_hosts hosts)"
proof -
  let ?r = "\<lparr>dn_id = rq_id demo_request, dn_name = rb_name bent_record, dn_kind = rb_kind bent_record,
      dn_value = rb_value bent_record, dn_description = rb_description bent_record, dn_enabled = rb_enabled bent_record\<rparr>"
  let ?d = "named_db\<lparr>dns_records := dns_records named_db @ [?r]\<rparr>"
  have b: "validate_record_create bent_record = Inr bent_record" by code_simp
  have u: "\<not> name_in_use named_db ?r" by code_simp
  have k: "dn_kind ?r \<noteq> REC_CNAME" by (simp add: bent_record_def)
  have "case render_dns ?d dns_settings_on of Inl e \<Rightarrow> False | Inr z \<Rightarrow> True" by code_simp
  then obtain hosts conf where z: "render_dns ?d dns_settings_on = Inr (hosts, conf)" by (auto split: sum.splits)
  have "case render_hosts (build_dns_spec ?d dns_settings_on) of Inl e \<Rightarrow> False
     | Inr h \<Rightarrow> list_ex (\<lambda>e. e = (''10.9.9.9'', [''www.example.com'', ''x.fox.internal''])) (read_hosts h)" by code_simp
  moreover have "render_hosts (build_dns_spec ?d dns_settings_on) = Inr hosts"
    using z by (auto simp: render_dns_def Let_def)
  ultimately have h: "(''10.9.9.9'', [''www.example.com'', ''x.fox.internal'']) \<in> set (read_hosts hosts)"
    by (auto simp: list_ex_iff)
  have "\<exists>d'. commit_record demo_request dns_settings_on ''dns.record.create'' i detail ?d = Inr d' \<and>
      render_dns d' dns_settings_on = Inr (hosts, conf)" for i detail
    using z by (simp add: commit_record_def assert_renders_def audit_as_zone)
  then have "\<exists>x d'. create_record demo_request dns_settings_on bent_record named_db = Inr (x, d') \<and>
      render_dns d' dns_settings_on = Inr (hosts, conf)"
    using u k by (fastforce simp: create_record_def Let_def assert_target_exists_def)
  then show ?thesis using b h by blast
qed

end
