(* ===== verification/Spec2Isabelle.thy ===== *)
theory Spec2Isabelle
  imports NftProperties FleetProperties ClientConfig Config Ipam PortalProperties DnsNaming AclApi AdminApi MachineProperties ProfileApi ServicesProperties ProxyEdges DnsEdges
begin

text \<open>
  FoxGuard is a WireGuard gateway whose firewall is generated from a database. An API process
  (FastAPI over PostgreSQL, under \<open>backend/foxguard\<close>) holds the peers, the accounts, the groups
  and zones, the access rules; every change renders the whole nftables ruleset again
  and keeps it as a version; an agent on the gateway polls the desired state and applies it.
  People activate their own device on a captive portal, servers present an enrollment key, and a
  timer, an administrator or a kill switch takes access away.

  The theories follow the parts of the program. Every one opens with what it models.

  \<^bold>\<open>Foundations.\<close> \<open>FoxPrelude\<close> has Python's exceptions as the sum type \<open>result\<close> with
  \<open>bindR\<close>, and the string functions the source uses. \<open>PyIpaddress\<close> writes out the part of the
  standard module \<open>ipaddress\<close> the program relies on; \<open>PyIpFacts\<close> and \<open>PyIpRoundTrip\<close> prove its
  bounds and that what is printed parses back.

  \<^bold>\<open>The ruleset.\<close> \<open>PeerStateMachine\<close> is \<open>services/peer_state.py\<close>; \<open>NftModel\<close>,
  \<open>NftValidate\<close>, \<open>NftGenerator\<close> and \<open>NftChains\<close> are \<open>nftables/model.py\<close> and
  \<open>nftables/generator.py\<close>, down to the characters of the script. \<open>NftSemantics\<close> says what the
  rules mean for a packet, \<open>NftRefine\<close> that the generator prints exactly those rules,
  \<open>NftValid\<close>, \<open>NftSets\<close>, \<open>NftDecide\<close> and \<open>NftPacket\<close> what validation guarantees, what the sets
  hold and what the chains decide, \<open>NftProperties\<close> the resulting guarantees.

  \<^bold>\<open>Tables, settings and services.\<close> \<open>Records\<close> are the tables of \<open>models.py\<close> as records
  (a \<open>db\<close> is the list of rows of each table, in the order of insertion) and the settings of
  \<open>config.py\<close>; \<open>Config\<close> is how the settings are checked and derived. A service is a function
  from a database to a database: \<open>RulesetService\<close>, \<open>RateLimiter\<close>, \<open>Sessions\<close> (sessions, expiry,
  kill switch, audit), \<open>Ipam\<close>, \<open>ClientConfig\<close>, \<open>Credentials\<close> (enrollment keys, one-time codes,
  passwords, administrators' sessions), \<open>SsoService\<close>, \<open>DnsNaming\<close>. \<open>SessionProperties\<close>,
  \<open>FleetProperties\<close> and \<open>CredentialProperties\<close> hold what they guarantee; \<open>DemoFleet\<close> is the
  small deployment the guarantees are applied on.

  \<^bold>\<open>The API.\<close> \<open>ApiDeps\<close> is \<open>api/deps.py\<close>: a handler reads a \<open>request\<close> and ends in an
  \<open>http_exn\<close> or an answer, with the database that was committed. \<open>Schemas\<close> validates the bodies;
  \<open>PortalApi\<close>, \<open>PeersApi\<close>, \<open>UsersApi\<close>, \<open>GroupsApi\<close> (groups and zones), \<open>AclApi\<close>, \<open>AdminApi\<close> and
  \<open>FleetApi\<close> (kill switch, sweep, ruleset, audit, agent) are the routes of the same names;
  \<open>ProfileApi\<close> is \<open>services/clientconfig.py\<close> and the route that serves a device its profile.

  \<^bold>\<open>The reverse proxy.\<close> \<open>ProxySpec\<close> and \<open>ProxyValidate\<close> are \<open>proxy/model.py\<close> and the
  \<open>_validate\<close> of \<open>proxy/haproxy.py\<close>; \<open>ProxyFiles\<close> and \<open>ProxyConf\<close> render the configuration and
  the files beside it, line by line. \<open>ProxyRules\<close> names the ACLs and rules of the generated front
  end as data and proves the text is their printing; \<open>ProxySemantics\<close> gives those rules their
  meaning for a request, \<open>ProxyLookup\<close> and \<open>ProxyDecision\<close> what the maps and the rules answer.
  \<open>ProxyService\<close> is \<open>services/proxy.py\<close>, which builds the specification from the tables;
  \<open>ServiceSchemas\<close> and \<open>ServicesApi\<close> are \<open>api/routes/services.py\<close> and \<open>api/routes/proxy.py\<close>.
  \<open>ProxyProperties\<close> and \<open>ProxyEdges\<close> say who is let through a published service and who is not,
  \<open>ProxyTotality\<close> and \<open>ServicesProperties\<close> that no stored row and no request leaves a proxy that
  does not render.

  \<^bold>\<open>The resolver.\<close> \<open>DnsGenerator\<close> is \<open>dns/model.py\<close> and \<open>dns/dnsmasq.py\<close>, \<open>DnsService\<close>
  \<open>services/dns.py\<close>, \<open>DnsApi\<close> the routes of the records. \<open>DnsValid\<close> and \<open>DnsZone\<close> reduce the
  validation of a zone to a condition on the pairs of an address and a name it holds, which
  every narrowing keeps; \<open>DnsProperties\<close>, \<open>DnsFiles\<close> and \<open>DnsEdges\<close> say what is named, what
  the files hold and what can stop the zone.

  \<^bold>\<open>The machine.\<close> \<open>FleetMachine\<close> makes one step relation of the handlers that concern devices,
  accounts, groups, zones and access, and finds the invariant of every run by induction, through
  the locales \<open>machine\<close> and \<open>stable_fact\<close>. \<open>FleetCalm\<close> proves of each of them but three that it is
  calm: it registers nobody, activates no user device, revives no revoked one and opens no
  session. A request about services, their sign-on or DNS records is no step of the machine:
  those write their own tables. \<open>MachineProperties\<close> draws the consequences.

  \<^bold>\<open>What is a parameter.\<close> SHA-256, argon2, HOTP and the signature of the sign-on cookie
  (\<open>crypto\<close>); the clock, fresh identifiers and random text (\<open>request\<close>); the text PostgreSQL keeps
  for an address (\<open>rq_inet\<close>); whether the reverse proxy renders (\<open>rq_proxy_check\<close>, which \<open>proxy_check\<close> of \<open>ServicesApi\<close>
  instantiates), and what the resolver and the proxy render to in the answer of \<open>get_state\<close>; the
  wording of a validation message where it only reaches the reader (\<open>say\<close>); HAProxy's token
  functions, \<open>jw_verify\<close> and the readers of a claim.

  \<^bold>\<open>What is taken for granted.\<close> A request is one transaction: on an exception the database is
  the last one committed, while the limiters keep what was done to them. After a flush the
  objects of the ORM agree with the tables. Times are whole microseconds; a time inside an audit
  detail is a number where the program prints ISO text. Sorting by text is by character
  code. Requests do not interleave inside a transaction, except where a property says so.

  \<^bold>\<open>Bounds.\<close> No definition needs fuel: each loop of the source runs over a list or towards a
  bound and is structural recursion, or \<open>function\<close> with its measure.

  \<^bold>\<open>Not modelled.\<close> FastAPI wiring, the engine and the lock of \<open>db.py\<close>, the subprocess calls of the applier and
  the agent, the exchange with an identity provider, Alembic and the front end, which are
  wiring, I/O or another language; the decisions of the agent, the policy documents and the
  summaries of the dashboard are left to be modelled.
\<close>

end
